(* ===== verification/Prelude.thy ===== *)
theory Prelude
  imports Main "HOL-Library.Word" "HOL-Library.AList"
begin

text \<open>
  Shared vocabulary of the development: the type of outcomes of a Go call (a value, an error
  value or a panic), sequencing of such calls, the two loop shapes the code uses (a loop that
  builds a list and returns at the first error, a loop that threads a state), the iteration over
  a Go map in an unspecified order, and the generic lemmas the components rely on.  The
  collection \<open>outcome_simps\<close> holds the characterisations of a successful call; the collection
  \<open>go_defs\<close> holds the definitions of the small Go library operations.
\<close>

named_theorems outcome_simps \<open>characterisations of successful calls\<close>
named_theorems go_defs \<open>definitions of Go library operations\<close>

type_synonym byte = "8 word"
type_synonym bytes = "8 word list"
type_synonym int64 = "64 word"

section \<open>Outcomes of Go calls\<close>

text \<open>
  A Go function with results \<open>(T, error)\<close> returns a value or a non-nil error; a call may also
  panic.  An error is a value the caller may inspect and ignore; a panic is not, unless the
  caller defers a \<open>recover\<close>.
\<close>

datatype ('e, 'a) outcome = Ok 'a | Err 'e | Panic

fun obind :: "('e, 'a) outcome \<Rightarrow> ('a \<Rightarrow> ('e, 'b) outcome) \<Rightarrow> ('e, 'b) outcome" where
  "obind (Ok x) f = f x"
| "obind (Err e) f = Err e"
| "obind Panic f = Panic"

text \<open>\<open>if err != nil { return ..., wrap(err) }\<close>\<close>

fun wrap_err :: "('e \<Rightarrow> 'f) \<Rightarrow> ('e, 'a) outcome \<Rightarrow> ('f, 'a) outcome" where
  "wrap_err w (Ok x) = Ok x"
| "wrap_err w (Err e) = Err (w e)"
| "wrap_err w Panic = Panic"

text \<open>\<open>if bad { return err }\<close>\<close>

definition ensure :: "bool \<Rightarrow> 'e \<Rightarrow> ('e, unit) outcome" where
  "ensure ok e = (if ok then Ok () else Err e)"

fun is_Ok :: "('e, 'a) outcome \<Rightarrow> bool" where
  "is_Ok (Ok x) = True"
| "is_Ok (Err e) = False"
| "is_Ok Panic = False"

lemma obind_Ok_iff [simp, outcome_simps]:
  "obind r f = Ok y \<longleftrightarrow> (\<exists>x. r = Ok x \<and> f x = Ok y)"
  by (cases r) auto

lemma wrap_err_Ok_iff [simp, outcome_simps]: "wrap_err w r = Ok y \<longleftrightarrow> r = Ok y"
  by (cases r) auto

lemma wrap_err_Panic_iff [simp]: "wrap_err w r = Panic \<longleftrightarrow> r = Panic"
  by (cases r) auto

lemma obind_Panic_iff: "obind r f = Panic \<longleftrightarrow> r = Panic \<or> (\<exists>x. r = Ok x \<and> f x = Panic)"
  by (cases r) auto

lemma ensure_Ok_iff [simp, outcome_simps]: "ensure b e = Ok u \<longleftrightarrow> b"
  by (simp add: ensure_def)

lemma ensure_True [simp]: "ensure True e = Ok ()"
  by (simp add: ensure_def)

lemma ensure_False [simp]: "ensure False e = Err e"
  by (simp add: ensure_def)

lemma is_Ok_iff: "is_Ok r \<longleftrightarrow> (\<exists>x. r = Ok x)"
  by (cases r) auto

lemma obind_assoc: "obind (obind r f) g = obind r (\<lambda>x. obind (f x) g)"
  by (cases r) auto

lemma obind_cong [fundef_cong]:
  "r = r' \<Longrightarrow> (\<And>x. r' = Ok x \<Longrightarrow> f x = g x) \<Longrightarrow> obind r f = obind r' g"
  by (cases r') auto

section \<open>Loops that return at the first error\<close>

text \<open>\<open>for i, x := range xs { y, err := f(x); if err != nil { return err }; out[i] = y }\<close>\<close>

fun mapM :: "('a \<Rightarrow> ('e, 'b) outcome) \<Rightarrow> 'a list \<Rightarrow> ('e, 'b list) outcome" where
  "mapM f [] = Ok []"
| "mapM f (x # xs) = obind (f x) (\<lambda>y. obind (mapM f xs) (\<lambda>ys. Ok (y # ys)))"

text \<open>The same loop with the index of the element in scope.\<close>

fun mapM_from :: "nat \<Rightarrow> (nat \<Rightarrow> 'a \<Rightarrow> ('e, 'b) outcome) \<Rightarrow> 'a list \<Rightarrow> ('e, 'b list) outcome" where
  "mapM_from i f [] = Ok []"
| "mapM_from i f (x # xs) =
     obind (f i x) (\<lambda>y. obind (mapM_from (Suc i) f xs) (\<lambda>ys. Ok (y # ys)))"

text \<open>\<open>for _, x := range xs { if err := step(s, x); err != nil { return err } }\<close>\<close>

fun foldM :: "('s \<Rightarrow> 'a \<Rightarrow> ('e, 's) outcome) \<Rightarrow> 's \<Rightarrow> 'a list \<Rightarrow> ('e, 's) outcome" where
  "foldM f s [] = Ok s"
| "foldM f s (x # xs) = obind (f s x) (\<lambda>s'. foldM f s' xs)"

lemma mapM_Ok_iff [outcome_simps]:
  "mapM f xs = Ok ys \<longleftrightarrow> list_all2 (\<lambda>x y. f x = Ok y) xs ys"
proof (induction xs arbitrary: ys)
  case Nil
  then show ?case by auto
next
  case (Cons x xs)
  then show ?case by (cases ys) auto
qed

lemma mapM_from_Ok_iff [outcome_simps]:
  "(\<And>i x y. f i x = Ok y \<longleftrightarrow> g x = Ok y) \<Longrightarrow>
     mapM_from i f xs = Ok ys \<longleftrightarrow> list_all2 (\<lambda>x y. g x = Ok y) xs ys"
proof (induction xs arbitrary: i ys)
  case Nil
  then show ?case by auto
next
  case (Cons x xs)
  then show ?case by (cases ys) auto
qed

lemma mapM_length: "mapM f xs = Ok ys \<Longrightarrow> length ys = length xs"
  by (simp add: mapM_Ok_iff list_all2_lengthD)

lemma mapM_nth: "mapM f xs = Ok ys \<Longrightarrow> i < length xs \<Longrightarrow> f (xs ! i) = Ok (ys ! i)"
  by (auto simp: mapM_Ok_iff dest: list_all2_nthD)

lemma mapM_all_Ok: "(\<And>x. x \<in> set xs \<Longrightarrow> f x = Ok (g x)) \<Longrightarrow> mapM f xs = Ok (map g xs)"
  by (induction xs) auto

lemma mapM_cong [fundef_cong]:
  "xs = ys \<Longrightarrow> (\<And>x. x \<in> set ys \<Longrightarrow> f x = g x) \<Longrightarrow> mapM f xs = mapM g ys"
  by (induction xs arbitrary: ys) auto

lemma foldM_append: "foldM f s (xs @ ys) = obind (foldM f s xs) (\<lambda>s'. foldM f s' ys)"
  by (induction xs arbitrary: s) (auto simp: obind_assoc)

lemma foldM_invariant:
  assumes "foldM f s xs = Ok t" and "P s"
    and "\<And>u x v. x \<in> set xs \<Longrightarrow> P u \<Longrightarrow> f u x = Ok v \<Longrightarrow> P v"
  shows "P t"
  using assms
proof (induction xs arbitrary: s)
  case Nil
  then show ?case by simp
next
  case (Cons x xs)
  then obtain s' where "f s x = Ok s'" and "foldM f s' xs = Ok t" by auto
  with Cons show ?case by (metis list.set_intros)
qed

section \<open>Codecs\<close>

text \<open>The interface of an encoder and the decoder that reads its output back, for the values
  the encoder is meant for.\<close>

locale codec =
  fixes enc :: "'a \<Rightarrow> 'b"
    and dec :: "'b \<Rightarrow> ('e, 'a) outcome"
    and valid :: "'a \<Rightarrow> bool"
  assumes dec_enc: "valid x \<Longrightarrow> dec (enc x) = Ok x"
begin

lemma enc_inject: "valid x \<Longrightarrow> valid y \<Longrightarrow> enc x = enc y \<longleftrightarrow> x = y"
  using dec_enc by (metis outcome.inject(1))

lemma mapM_dec_enc: "\<forall>x \<in> set xs. valid x \<Longrightarrow> mapM dec (map enc xs) = Ok xs"
  by (induction xs) (simp_all add: dec_enc)

end

section \<open>Go maps\<close>

text \<open>
  A Go map is a HOL map.  A \<open>range\<close> over it visits the keys in an order the language leaves
  open: an operation that ranges takes that order as an argument, and its theorems hold for
  every order that enumerates the domain.  Reading a missing key yields the zero value of the
  element type, which the class \<open>default\<close> supplies.
\<close>

definition enumerates :: "'k list \<Rightarrow> ('k \<rightharpoonup> 'v) \<Rightarrow> bool" where
  "enumerates ks m \<longleftrightarrow> distinct ks \<and> set ks = dom m"

definition range_map :: "'k list \<Rightarrow> ('k \<rightharpoonup> 'v) \<Rightarrow> ('k \<times> 'v) list" where
  "range_map ks m = List.map_filter (\<lambda>k. map_option (Pair k) (m k)) ks"

definition map_get :: "('k \<rightharpoonup> 'v::default) \<Rightarrow> 'k \<Rightarrow> 'v" where
  "map_get m k = (case m k of Some v \<Rightarrow> v | None \<Rightarrow> default)"

instantiation int :: default
begin

definition default_int :: int where
  "default_int = 0"

instance ..

end

lemma range_map_Nil [simp]: "range_map [] m = []"
  by (simp add: range_map_def)

lemma range_map_Cons [simp]:
  "range_map (k # ks) m = (case m k of Some v \<Rightarrow> (k, v) # range_map ks m | None \<Rightarrow> range_map ks m)"
  by (simp add: range_map_def split: option.splits)

lemma set_range_map: "set (range_map ks m) = {(k, v). k \<in> set ks \<and> m k = Some v}"
  by (induction ks) (auto split: option.splits)

lemma enumerates_range: "enumerates ks m \<Longrightarrow> set (range_map ks m) = {(k, v). m k = Some v}"
  by (auto simp: set_range_map enumerates_def)

lemma distinct_range_map: "distinct ks \<Longrightarrow> distinct (map fst (range_map ks m))"
  by (induction ks) (auto simp: set_range_map split: option.splits)

lemma length_range_map:
  assumes "enumerates ks m"
  shows "length (range_map ks m) = card (dom m)"
proof -
  have d: "distinct ks" and s: "set ks = dom m"
    using assms by (auto simp: enumerates_def)
  have "set ks \<subseteq> dom m \<Longrightarrow> length (range_map ks m) = length ks" for ks
    by (induction ks) (auto split: option.splits)
  then show ?thesis
    using d s distinct_card by fastforce
qed

section \<open>Lists\<close>

lemma list_all2_Ex: "(\<forall>x \<in> set xs. \<exists>y. P x y) \<longleftrightarrow> (\<exists>ys. list_all2 P xs ys)"
proof (induction xs)
  case Nil
  then show ?case by simp
next
  case (Cons x xs)
  then show ?case by (auto simp: list_all2_Cons1)
qed

lemma take_drop_split: "length xs = n \<Longrightarrow> take n (xs @ ys) = xs \<and> drop n (xs @ ys) = ys"
  by simp

end
