(* ===== verification/Errors.thy ===== *)
theory Errors
  imports Prelude
begin

text \<open>
  Error values: the sentinels of \<^verbatim>\<open>internal/auth/errors.go\<close>, \<^verbatim>\<open>internal/auth/ca/ca_base.go\<close>
  and \<^verbatim>\<open>internal/transport/errors.go\<close>, the Go error constructors the code uses
  (\<open>errors.New\<close>, \<open>fmt.Errorf\<close> with and without \<^verbatim>\<open>%w\<close>, \<open>AuthError\<close>), the walk of
  \<open>errors.Is\<close> along the wrapping chain and the text an error prints.  A format string and its
  arguments are kept apart until the text is asked for.
\<close>

section \<open>Sentinels\<close>

datatype sentinel =
    ErrNoCerts | ErrUnknownIssuer | ErrCertExpired | ErrCertNotYetValid | ErrMismatchedNodeID
  | ErrInvalidDelegationSig | ErrTLSBindingMismatch | ErrInvalidBindingField
  | ErrBundleHashMismatch | ErrDelegationExpired | ErrDelegationTooLong | ErrNoValidCerts
  | ErrSignatureCountMismatch | ErrBundleTooLarge | ErrNilDelegationProof | ErrNilCertEntry
  | ErrCARevoked | ErrNodeRevoked | ErrCAAlreadyExists | ErrCANotFound | ErrInvalidAnchorSig
  | ErrAnchorAdminNotFound | ErrAnchorAdminRevoked | ErrStatefulCert | ErrUnsupportedCertVersion
  | ErrRevocationStoreFull
  | ErrInvalidCASignature
  | ErrNoBootstrapAddresses | ErrBootstrapFailed | ErrNodeIdentityRequired
  | ErrTransportNotInitialized | ErrBootstrapDialAuthFailed | ErrBootstrapVerifyFailed
  | ErrBootstrapRegisterFailed
  | io_EOF | io_ErrUnexpectedEOF | context_Canceled

fun sentinel_text :: "sentinel \<Rightarrow> string" where
  "sentinel_text ErrNoCerts = ''no certificates presented''"
| "sentinel_text ErrUnknownIssuer = ''no certificate has a known issuer''"
| "sentinel_text ErrCertExpired = ''certificate expired''"
| "sentinel_text ErrCertNotYetValid = ''certificate not yet valid''"
| "sentinel_text ErrMismatchedNodeID = ''certificates bind to different node IDs''"
| "sentinel_text ErrInvalidDelegationSig = ''invalid delegation proof signature''"
| "sentinel_text ErrTLSBindingMismatch = ''TLS binding mismatch in delegation proof''"
| "sentinel_text ErrInvalidBindingField = ''invalid delegation binding field''"
| "sentinel_text ErrBundleHashMismatch = ''node cert bundle hash mismatch''"
| "sentinel_text ErrDelegationExpired = ''delegation proof expired or not yet valid''"
| "sentinel_text ErrDelegationTooLong = ''delegation proof TTL exceeds maximum''"
| "sentinel_text ErrNoValidCerts = ''no valid certificates after filtering''"
| "sentinel_text ErrSignatureCountMismatch = ''certificate/signature count mismatch''"
| "sentinel_text ErrBundleTooLarge = ''peer cert bundle exceeds maximum size''"
| "sentinel_text ErrNilDelegationProof = ''delegation proof is nil''"
| "sentinel_text ErrNilCertEntry = ''nil entry in peer cert bundle''"
| "sentinel_text ErrCARevoked = ''CA has been revoked''"
| "sentinel_text ErrNodeRevoked = ''node has been revoked''"
| "sentinel_text ErrCAAlreadyExists = ''CA already exists in trust store''"
| "sentinel_text ErrCANotFound = ''CA not found in trust store''"
| "sentinel_text ErrInvalidAnchorSig = ''invalid anchor signature on user CA''"
| "sentinel_text ErrAnchorAdminNotFound = ''anchor admin CA not found''"
| "sentinel_text ErrAnchorAdminRevoked = ''anchor admin CA has been revoked''"
| "sentinel_text ErrStatefulCert = ''stateful certificate detected''"
| "sentinel_text ErrUnsupportedCertVersion = ''unsupported certificate version''"
| "sentinel_text ErrRevocationStoreFull = ''revocation store capacity exceeded''"
| "sentinel_text ErrInvalidCASignature = ''invalid CA signature on certificate''"
| "sentinel_text ErrNoBootstrapAddresses = ''no bootstrap addresses configured''"
| "sentinel_text ErrBootstrapFailed = ''bootstrap failed after maximum retries''"
| "sentinel_text ErrNodeIdentityRequired = ''node identity certificate required''"
| "sentinel_text ErrTransportNotInitialized = ''transport not initialized''"
| "sentinel_text ErrBootstrapDialAuthFailed = ''bootstrap dial auth handshake failed''"
| "sentinel_text ErrBootstrapVerifyFailed = ''bootstrap peer verification failed''"
| "sentinel_text ErrBootstrapRegisterFailed = ''bootstrap peer registration failed''"
| "sentinel_text io_EOF = ''EOF''"
| "sentinel_text io_ErrUnexpectedEOF = ''unexpected EOF''"
| "sentinel_text context_Canceled = ''context canceled''"

section \<open>Error values\<close>

text \<open>
  \<open>New\<close> is \<open>errors.New\<close>; \<open>Errorf\<close> is \<open>fmt.Errorf\<close> with its format and arguments (every
  error argument of the code stands under a \<^verbatim>\<open>%w\<close> verb and is therefore wrapped);
  \<open>AuthError\<close> is the struct of the same name, \<open>None\<close> its nil context map.
\<close>

datatype goerror =
    Sent sentinel
  | New string
  | Errorf string "goarg list"
  | AuthError goerror string "(string \<times> goarg) list option"
  and goarg = AStr string | AInt int | AErr goerror

type_synonym 'a result = "(goerror, 'a) outcome"

text \<open>Decimal printing of an integer, the \<^verbatim>\<open>%d\<close> verb.\<close>

fun dec_digits :: "nat \<Rightarrow> string" where
  "dec_digits n = (if n < 10 then [char_of (48 + n)]
                   else dec_digits (n div 10) @ [char_of (48 + n mod 10)])"

declare dec_digits.simps [simp del]

definition itoa :: "int \<Rightarrow> string" where
  "itoa i = (if i < 0 then CHR ''-'' # dec_digits (nat (- i)) else dec_digits (nat i))"

text \<open>
  \<open>fmt.Sprintf\<close> for the verbs the code uses; \<^verbatim>\<open>%q\<close> is rendered for text without characters
  that need an escape beyond the quote and the backslash.
\<close>

definition quoted :: "string \<Rightarrow> string" where
  "quoted s = ''\"'' @ concat (map (\<lambda>c. if c = CHR 0x22 \<or> c = CHR 0x5C then [CHR 0x5C, c] else [c]) s)
              @ ''\"''"

fun sprintf :: "string \<Rightarrow> string list \<Rightarrow> string" where
  "sprintf [] as = []"
| "sprintf (c # fs) as =
     (if c = CHR ''%''
      then (case fs of
              [] \<Rightarrow> [c]
            | v # fs' \<Rightarrow> (case as of
                  [] \<Rightarrow> c # v # sprintf fs' as
                | a # as' \<Rightarrow> (if v = CHR ''q'' then quoted a else a) @ sprintf fs' as'))
      else c # sprintf fs as)"

fun error_text :: "goerror \<Rightarrow> string" and arg_text :: "goarg \<Rightarrow> string" where
  "error_text (Sent s) = sentinel_text s"
| "error_text (New m) = m"
| "error_text (Errorf f as) = sprintf f (map arg_text as)"
| "error_text (AuthError e d c) = (if d = [] then error_text e else error_text e @ '': '' @ d)"
| "arg_text (AStr s) = s"
| "arg_text (AInt i) = itoa i"
| "arg_text (AErr e) = error_text e"

fun error_Is :: "goerror \<Rightarrow> sentinel \<Rightarrow> bool" and arg_Is :: "goarg \<Rightarrow> sentinel \<Rightarrow> bool" where
  "error_Is (Sent s) t \<longleftrightarrow> s = t"
| "error_Is (New m) t \<longleftrightarrow> False"
| "error_Is (Errorf f as) t \<longleftrightarrow> (\<exists>a \<in> set as. arg_Is a t)"
| "error_Is (AuthError e d c) t \<longleftrightarrow> error_Is e t"
| "arg_Is (AStr s) t \<longleftrightarrow> False"
| "arg_Is (AInt i) t \<longleftrightarrow> False"
| "arg_Is (AErr e) t \<longleftrightarrow> error_Is e t"

section \<open>authErr\<close>

text \<open>The loop of \<open>authErr\<close> over its key-value arguments: pairs whose key is no string are
  skipped, a repeated key keeps the last value, a trailing key without value is dropped.\<close>

fun authErr_context :: "(string \<times> goarg) list \<Rightarrow> goarg list \<Rightarrow> (string \<times> goarg) list" where
  "authErr_context ctx (k # v # kvs) =
     authErr_context (case k of AStr s \<Rightarrow> AList.update s v ctx | _ \<Rightarrow> ctx) kvs"
| "authErr_context ctx kvs = ctx"

definition authErr :: "goerror \<Rightarrow> string \<Rightarrow> goarg list \<Rightarrow> goerror" where
  "authErr s detail kvs =
     AuthError s detail (if length kvs > 1 then Some (authErr_context [] kvs) else None)"

lemma error_Is_authErr [simp]: "error_Is (authErr e d kvs) t \<longleftrightarrow> error_Is e t"
  by (simp add: authErr_def)

lemma error_text_authErr:
  "error_text (authErr e d kvs) = (if d = [] then error_text e else error_text e @ '': '' @ d)"
  by (simp add: authErr_def)

lemma authErr_neq_Sent [simp]: "authErr e d kvs \<noteq> Sent s"
  by (simp add: authErr_def)

text \<open>The wrapping idiom \<open>fmt.Errorf("...: %w", err)\<close>.\<close>

abbreviation errorw :: "string \<Rightarrow> goerror \<Rightarrow> goerror" where
  "errorw f e \<equiv> Errorf f [AErr e]"

end
