(* ===== verification/Sha256.thy ===== *)
theory Sha256
  imports Prelude
begin

unbundle bit_operations_syntax

text \<open>
  \<open>crypto/sha256\<close> of the Go standard library (FIPS 180-4), which the code uses for CA hashes,
  the cert-bundle hash and the TLS bindings: padding, message schedule, compression and the
  digest of 32 bytes, on 32-bit words.  \<open>Sum256\<close> is total and its digest always has 32 bytes;
  no property of the development assumes that it is collision free.
\<close>

definition sha256_K :: "32 word list" where
  "sha256_K =
     [1116352408, 1899447441, 3049323471, 3921009573, 961987163, 1508970993,
      2453635748, 2870763221, 3624381080, 310598401, 607225278, 1426881987,
      1925078388, 2162078206, 2614888103, 3248222580, 3835390401, 4022224774,
      264347078, 604807628, 770255983, 1249150122, 1555081692, 1996064986,
      2554220882, 2821834349, 2952996808, 3210313671, 3336571891, 3584528711,
      113926993, 338241895, 666307205, 773529912, 1294757372, 1396182291,
      1695183700, 1986661051, 2177026350, 2456956037, 2730485921, 2820302411,
      3259730800, 3345764771, 3516065817, 3600352804, 4094571909, 275423344,
      430227734, 506948616, 659060556, 883997877, 958139571, 1322822218,
      1537002063, 1747873779, 1955562222, 2024104815, 2227730452, 2361852424,
      2428436474, 2756734187, 3204031479, 3329325298]"

definition sha256_H0 :: "32 word list" where
  "sha256_H0 =
     [1779033703, 3144134277, 1013904242, 2773480762, 1359893119, 2600822924,
      528734635, 1541459225]"

section \<open>Big-endian words\<close>

definition be32_put :: "32 word \<Rightarrow> bytes" where
  "be32_put w = [ucast (drop_bit 24 w), ucast (drop_bit 16 w), ucast (drop_bit 8 w), ucast w]"

fun be32_get :: "bytes \<Rightarrow> 32 word" where
  "be32_get [a, b, c, d] =
     push_bit 24 (ucast a) OR push_bit 16 (ucast b) OR push_bit 8 (ucast c) OR ucast d"
| "be32_get bs = 0"

lemma length_be32_put [simp]: "length (be32_put w) = 4"
  by (simp add: be32_put_def)

lemma be32_get_put [simp]: "be32_get (be32_put w) = w"
  unfolding be32_put_def be32_get.simps
proof (rule bit_word_eqI)
  fix n assume "n < LENGTH(32)"
  then consider "n < 8" | "8 \<le> n" "n < 16" | "16 \<le> n" "n < 24" | "24 \<le> n" "n < 32"
    by (force simp: not_less)
  then show "bit (push_bit 24 (ucast (ucast (drop_bit 24 w) :: byte)) OR
       push_bit 16 (ucast (ucast (drop_bit 16 w) :: byte)) OR
       push_bit 8 (ucast (ucast (drop_bit 8 w) :: byte)) OR ucast (ucast w :: byte) :: 32 word) n
     = bit w n"
    by cases (auto simp: bit_or_iff bit_push_bit_iff bit_ucast_iff bit_drop_bit_eq)
qed

section \<open>Padding and the message schedule\<close>

definition be64 :: "64 word \<Rightarrow> bytes" where
  "be64 n = map (\<lambda>k. ucast (drop_bit k n)) [56, 48, 40, 32, 24, 16, 8, 0]"

definition sha256_pad :: "bytes \<Rightarrow> bytes" where
  "sha256_pad m =
     m @ [0x80] @ replicate ((119 - length m mod 64) mod 64) 0 @ be64 (of_nat (8 * length m))"

fun words32 :: "bytes \<Rightarrow> 32 word list" where
  "words32 (a # b # c # d # bs) = be32_get [a, b, c, d] # words32 bs"
| "words32 bs = []"

text \<open>The schedule is built with the newest word first.\<close>

definition sched_step :: "32 word list \<Rightarrow> 32 word list" where
  "sched_step ws =
     (let w2 = ws ! 1; w15 = ws ! 14;
          s0 = word_rotr 7 w15 XOR word_rotr 18 w15 XOR drop_bit 3 w15;
          s1 = word_rotr 17 w2 XOR word_rotr 19 w2 XOR drop_bit 10 w2
      in (ws ! 15 + s0 + ws ! 6 + s1) # ws)"

definition schedule :: "32 word list \<Rightarrow> 32 word list" where
  "schedule block = rev ((sched_step ^^ 48) (rev block))"

section \<open>Compression\<close>

fun sha256_round :: "32 word \<times> 32 word \<Rightarrow> 32 word list \<Rightarrow> 32 word list" where
  "sha256_round (k, w) [a, b, c, d, e, f, g, h] =
     (let s1 = word_rotr 6 e XOR word_rotr 11 e XOR word_rotr 25 e;
          ch = (e AND f) XOR (NOT e AND g);
          t1 = h + s1 + ch + k + w;
          s0 = word_rotr 2 a XOR word_rotr 13 a XOR word_rotr 22 a;
          maj = (a AND b) XOR (a AND c) XOR (b AND c)
      in [t1 + s0 + maj, a, b, c, d + t1, e, f, g])"
| "sha256_round kw st = st"

definition sha256_block :: "32 word list \<Rightarrow> 32 word list \<Rightarrow> 32 word list" where
  "sha256_block block st =
     map2 (+) st (fold sha256_round (zip sha256_K (schedule block)) st)"

fun sha256_blocks :: "nat \<Rightarrow> 32 word list \<Rightarrow> 32 word list \<Rightarrow> 32 word list" where
  "sha256_blocks 0 ws st = st"
| "sha256_blocks (Suc n) ws st = sha256_blocks n (drop 16 ws) (sha256_block (take 16 ws) st)"

definition Sum256 :: "bytes \<Rightarrow> bytes" where
  "Sum256 m =
     (let p = sha256_pad m
      in concat (map be32_put (sha256_blocks (length p div 64) (words32 p) sha256_H0)))"

section \<open>The digest has 32 bytes\<close>

lemma length_sha256_round [simp]: "length (sha256_round kw st) = length st"
  by (cases "(kw, st)" rule: sha256_round.cases) (auto simp: Let_def)

lemma length_fold_round [simp]: "length (fold sha256_round kws st) = length st"
  by (induction kws arbitrary: st) auto

lemma length_sha256_blocks [simp]: "length (sha256_blocks n ws st) = length st"
  by (induction n arbitrary: ws st) (auto simp: sha256_block_def)

lemma length_Sum256 [simp]: "length (Sum256 m) = 32"
proof -
  have "length (concat (map be32_put ws)) = 4 * length ws" for ws
    by (induction ws) auto
  then show ?thesis
    by (simp add: Sum256_def Let_def sha256_H0_def)
qed

lemma Sum256_neq_Nil [simp]: "Sum256 m \<noteq> []"
  using length_Sum256 [of m] by force

end
