(* ===== verification/GoLib.thy ===== *)
theory GoLib
  imports Errors Sha256 "HOL-Library.List_Lexorder" "HOL-Library.Multiset"
begin

text \<open>
  The parts of the Go standard library the code computes with: string-to-byte conversion,
  \<open>encoding/hex\<close>, \<open>bytes.Compare\<close> and the sort built on it, \<open>crypto/subtle\<close>'s
  constant-time comparison, \<open>time.Time\<close> and \<open>time.Duration\<close>, and the reading of a stream by
  \<open>io.ReadFull\<close> and \<open>io.ReadAll\<close> over an \<open>io.LimitReader\<close>.  A nil and an empty slice are
  the same list.
\<close>

section \<open>Strings and bytes\<close>

definition to_bytes :: "string \<Rightarrow> bytes" where
  "to_bytes s = map (of_nat \<circ> of_char) s"

lemma inj_of_char_word: "inj (of_nat \<circ> of_char :: char \<Rightarrow> byte)"
proof (rule injI)
  fix c d :: char
  assume "(of_nat \<circ> of_char) c = ((of_nat \<circ> of_char) d :: byte)"
  then have "unat (of_nat (of_char c) :: byte) = unat (of_nat (of_char d) :: byte)"
    by simp
  then have "(of_char c :: nat) mod 256 = of_char d mod 256"
    by (simp add: unat_of_nat)
  then show "c = d"
    by (simp add: of_char_mod_256)
qed

lemma to_bytes_inject [simp]: "to_bytes s = to_bytes t \<longleftrightarrow> s = t"
  unfolding to_bytes_def using inj_map_eq_map [OF inj_of_char_word] .

lemma length_to_bytes [simp]: "length (to_bytes s) = length s"
  by (simp add: to_bytes_def)

lemma to_bytes_Nil [simp]: "to_bytes [] = []"
  by (simp add: to_bytes_def)

text \<open>\<open>hex.EncodeToString\<close>\<close>

definition hex_digit :: "byte \<Rightarrow> char" where
  "hex_digit d = (''0123456789abcdef'' ! unat d)"

definition hex_byte :: "byte \<Rightarrow> string" where
  "hex_byte b = [hex_digit (drop_bit 4 b), hex_digit (take_bit 4 b)]"

definition EncodeToString :: "bytes \<Rightarrow> string" where
  "EncodeToString bs = concat (map hex_byte bs)"

lemma length_EncodeToString [simp]: "length (EncodeToString bs) = 2 * length bs"
  by (induction bs) (auto simp: EncodeToString_def hex_byte_def)

lemma hex_digit_inject:
  assumes "unat a < 16" and "unat b < 16" and "hex_digit a = hex_digit b"
  shows "a = b"
proof -
  have "distinct ''0123456789abcdef''" and "length ''0123456789abcdef'' = 16" by simp_all
  with assms have "unat a = unat b"
    unfolding hex_digit_def by (simp only: nth_eq_iff_index_eq)
  then show ?thesis by (simp add: word_unat_eq_iff)
qed

lemma hex_byte_inject: "hex_byte a = hex_byte b \<Longrightarrow> a = b"
proof -
  assume h: "hex_byte a = hex_byte b"
  have hi: "unat (drop_bit 4 x) < 16" for x :: byte
    using unsigned_less [of x, where ?'a = nat] by (simp add: unat_drop_bit_eq) (simp add: drop_bit_eq_div)
  have lo: "unat (take_bit 4 x) < 16" for x :: byte
    by (simp add: unsigned_take_bit_eq) (simp add: take_bit_eq_mod)
  from h have "hex_digit (drop_bit 4 a) = hex_digit (drop_bit 4 b)"
    and "hex_digit (take_bit 4 a) = hex_digit (take_bit 4 b)"
    by (simp_all add: hex_byte_def)
  then have "drop_bit 4 a = drop_bit 4 b" and "take_bit 4 a = take_bit 4 b"
    using hex_digit_inject hi lo by metis+
  then show "a = b"
    by (metis bits_ident)
qed

lemma EncodeToString_Nil [simp]: "EncodeToString [] = []"
  by (simp add: EncodeToString_def)

lemma EncodeToString_inject [simp]: "EncodeToString xs = EncodeToString ys \<longleftrightarrow> xs = ys"
proof
  show "EncodeToString xs = EncodeToString ys \<Longrightarrow> xs = ys"
  proof (induction xs arbitrary: ys)
    case Nil
    then show ?case
      by (cases ys) (auto simp: EncodeToString_def hex_byte_def)
  next
    case (Cons x xs)
    then obtain y ys' where ys: "ys = y # ys'"
      by (cases ys) (auto simp: EncodeToString_def hex_byte_def)
    have "hex_byte x = hex_byte y" and "EncodeToString xs = EncodeToString ys'"
      using Cons.prems by (auto simp: ys EncodeToString_def hex_byte_def)
    with Cons.IH ys show ?case by (auto dest: hex_byte_inject)
  qed
qed simp

text \<open>\<open>secureEqual\<close> ends in \<open>subtle.ConstantTimeCompare\<close>: 1 for equal slices of equal length,
  computed as the accumulated OR of the bytewise XOR.\<close>

unbundle bit_operations_syntax

definition ConstantTimeCompare :: "bytes \<Rightarrow> bytes \<Rightarrow> int" where
  "ConstantTimeCompare xs ys =
     (if length xs \<noteq> length ys then 0
      else if fold (\<lambda>(x, y) v. v OR (x XOR y)) (zip xs ys) (0 :: byte) = 0 then 1 else 0)"

lemma fold_or_xor_zero:
  "length xs = length ys \<Longrightarrow>
   fold (\<lambda>(x, y) v. v OR (x XOR y)) (zip xs ys) (a :: byte) = 0 \<longleftrightarrow> a = 0 \<and> xs = ys"
proof (induction xs ys arbitrary: a rule: list_induct2)
  case Nil
  then show ?case by simp
next
  case (Cons x xs y ys)
  have "a OR (x XOR y) = 0 \<longleftrightarrow> a = 0 \<and> x = y"
    by (metis or_eq_0_iff xor_self_eq xor.left_neutral xor.assoc)
  with Cons show ?case by auto
qed

lemma ConstantTimeCompare_1 [simp]: "ConstantTimeCompare xs ys = 1 \<longleftrightarrow> xs = ys"
  by (auto simp: ConstantTimeCompare_def fold_or_xor_zero)

section \<open>Byte order and sorting\<close>

text \<open>\<open>bytes.Compare\<close> is the lexicographic comparison of unsigned bytes.\<close>

fun Compare :: "bytes \<Rightarrow> bytes \<Rightarrow> int" where
  "Compare [] [] = 0"
| "Compare [] (y # ys) = -1"
| "Compare (x # xs) [] = 1"
| "Compare (x # xs) (y # ys) = (if x < y then -1 else if y < x then 1 else Compare xs ys)"

lemma Compare_less_iff: "Compare xs ys < 0 \<longleftrightarrow> xs < ys"
  by (induction xs ys rule: Compare.induct) auto

text \<open>
  \<open>sort.Slice\<close> with that comparison returns a sorted permutation.  Slices that compare equal
  are equal, so there is exactly one, which insertion sort computes.
\<close>

definition sort_Slice :: "bytes list \<Rightarrow> bytes list" where
  "sort_Slice es = sort es"

lemma sort_Slice_unique:
  "mset es' = mset es \<Longrightarrow> sorted_wrt (\<lambda>x y. \<not> Compare y x < 0) es' \<Longrightarrow> es' = sort_Slice es"
proof -
  assume m: "mset es' = mset es" and s: "sorted_wrt (\<lambda>x y. \<not> Compare y x < 0) es'"
  from s have "sorted es'"
    by (simp add: Compare_less_iff not_less)
  with m have "sort es = es'"
    by (rule properties_for_sort)
  then show ?thesis by (simp add: sort_Slice_def)
qed

lemma sort_Slice_mset [simp]: "mset (sort_Slice es) = mset es"
  by (simp add: sort_Slice_def)

lemma sort_Slice_cong_mset: "mset es = mset es' \<Longrightarrow> sort_Slice es = sort_Slice es'"
  unfolding sort_Slice_def by (metis mset_sort properties_for_sort sorted_sort)

section \<open>Time\<close>

text \<open>
  \<open>time.Time\<close> counts nanoseconds since Go's zero time; \<open>Sub\<close> saturates at the bounds of a
  64-bit \<open>Duration\<close>.
\<close>

type_synonym gotime = int
type_synonym duration = int

definition time_IsZero :: "gotime \<Rightarrow> bool" where
  "time_IsZero t \<longleftrightarrow> t = 0"

definition time_Add :: "gotime \<Rightarrow> duration \<Rightarrow> gotime" where
  "time_Add t d = t + d"

definition time_After :: "gotime \<Rightarrow> gotime \<Rightarrow> bool" where
  "time_After t u \<longleftrightarrow> t > u"

definition time_Before :: "gotime \<Rightarrow> gotime \<Rightarrow> bool" where
  "time_Before t u \<longleftrightarrow> t < u"

definition time_Sub :: "gotime \<Rightarrow> gotime \<Rightarrow> duration" where
  "time_Sub t u = max (- (2 ^ 63)) (min (2 ^ 63 - 1) (t - u))"

definition time_Second :: duration where
  "time_Second = 1000000000"

definition time_Hour :: duration where
  "time_Hour = 3600 * time_Second"

text \<open>Seconds since 1970, which lies 62135596800 seconds after the zero time.\<close>

definition time_Unix :: "gotime \<Rightarrow> int64" where
  "time_Unix t = word_of_int (t div time_Second - 62135596800)"

lemmas [go_defs] = time_IsZero_def time_Add_def time_After_def time_Before_def time_Sub_def
  time_Second_def time_Hour_def

section \<open>Integers\<close>

text \<open>The 64-bit \<open>int\<close>: the value an unbounded result wraps to.\<close>

definition int_wrap :: "int \<Rightarrow> int" where
  "int_wrap i = signed_take_bit 63 i"

lemma int_wrap_id: "- (2 ^ 63) \<le> i \<Longrightarrow> i < 2 ^ 63 \<Longrightarrow> int_wrap i = i"
  by (simp add: int_wrap_def signed_take_bit_int_eq_self)

text \<open>The rounds of \<open>for attempt := range n + 1\<close>.\<close>

definition range_upto :: "int \<Rightarrow> nat list" where
  "range_upto n = [0..<nat (int_wrap (n + 1))]"

lemma range_upto_eq: "0 \<le> n \<Longrightarrow> n < 2 ^ 63 - 1 \<Longrightarrow> range_upto n = [0..<Suc (nat n)]"
  by (simp add: range_upto_def int_wrap_id nat_add_distrib)

section \<open>Streams\<close>

text \<open>
  What a reader can still take from a stream: the bytes the peer sent, then the error every
  further read returns (\<open>io.EOF\<close> after a clean close).
\<close>

record instream =
  avail :: bytes
  fin :: goerror

definition io_ReadFull :: "nat \<Rightarrow> instream \<Rightarrow> (bytes \<times> instream) result" where
  "io_ReadFull n s =
     (if n \<le> length (avail s) then Ok (take n (avail s), s\<lparr>avail := drop n (avail s)\<rparr>)
      else if avail s = [] then Err (fin s)
      else if fin s = Sent io_EOF then Err (Sent io_ErrUnexpectedEOF) else Err (fin s))"

definition io_ReadAll_Limit :: "nat \<Rightarrow> instream \<Rightarrow> bytes result" where
  "io_ReadAll_Limit n s =
     (if n \<le> length (avail s) then Ok (take n (avail s))
      else if fin s = Sent io_EOF then Ok (avail s) else Err (fin s))"

lemma io_ReadFull_prefix [simp]:
  "length xs = n \<Longrightarrow> io_ReadFull n \<lparr>avail = xs @ ys, fin = e\<rparr> = Ok (xs, \<lparr>avail = ys, fin = e\<rparr>)"
  by (simp add: io_ReadFull_def)

lemma io_ReadFull_Ok_iff [outcome_simps]:
  "io_ReadFull n s = Ok (bs, s') \<longleftrightarrow>
     length bs = n \<and> avail s = bs @ avail s' \<and> s' = s\<lparr>avail := avail s'\<rparr>"
  unfolding io_ReadFull_def
  by (cases s, cases s') (auto simp: append_eq_conv_conj)

lemma io_ReadAll_Limit_bound: "io_ReadAll_Limit n s = Ok bs \<Longrightarrow> length bs \<le> n"
  by (auto simp: io_ReadAll_Limit_def split: if_splits)

text \<open>
  A sequence of \<open>Write\<close> calls on a stream: each call fails with the error the transport gives
  it, or its bytes are sent.
\<close>

fun write_all :: "(nat \<Rightarrow> goerror option) \<Rightarrow> nat \<Rightarrow> (string \<times> bytes) list \<Rightarrow> bytes result" where
  "write_all w k [] = Ok []"
| "write_all w k ((ctx, b) # bs) =
     (case w k of
        Some e \<Rightarrow> Err (errorw ctx e)
      | None \<Rightarrow> obind (write_all w (Suc k) bs) (\<lambda>r. Ok (b @ r)))"

lemma write_all_Ok: "write_all w k bs = Ok r \<Longrightarrow> r = concat (map snd bs)"
  by (induction w k bs arbitrary: r rule: write_all.induct) (auto split: option.splits)

section \<open>Calls with a state\<close>

text \<open>\<open>x, err := r; if err != nil { ... }\<close> in an operation on the state \<open>s\<close>: a panic ends it.\<close>

fun on_result ::
  "'a result \<Rightarrow> 's \<Rightarrow> (goerror \<Rightarrow> 'b result \<times> 's) \<Rightarrow> ('a \<Rightarrow> 'b result \<times> 's) \<Rightarrow> 'b result \<times> 's" where
  "on_result (Ok x) s h k = k x"
| "on_result (Err e) s h k = h e"
| "on_result Panic s h k = (Panic, s)"

lemma on_result_snd:
  "snd (on_result r s h k) = (case r of Ok x \<Rightarrow> snd (k x) | Err e \<Rightarrow> snd (h e) | Panic \<Rightarrow> s)"
  by (cases r) auto

lemma on_result_cases:
  assumes "on_result r s h k = (out, s')"
  obtains (ok) x where "r = Ok x" and "k x = (out, s')"
    | (err) e where "r = Err e" and "h e = (out, s')"
    | (panic) "r = Panic" and "out = Panic" and "s' = s"
  using assms by (cases r) auto

end
