(* ===== verification/External.thy ===== *)
theory External
  imports GoLib
begin

text \<open>
  The interfaces to code outside the repository.  \<open>ouroboros-crypt\<close> (ML-DSA/ML-KEM keys and
  node IDs) and \<open>google.golang.org/protobuf\<close> are parameters of the model: a record of
  functions that every definition calling them takes as an argument.  The protobuf message
  types themselves are generated into the repository and are the records below.  The named
  predicates at the end state the documented behaviour some theorems rely on.
\<close>

section \<open>Protobuf messages\<close>

record CanonicalCert =
  cc_CertVersion :: "32 word"
  cc_NodePubKey :: bytes
  cc_IssuerCaHash :: string
  cc_ValidFrom :: int64
  cc_ValidUntil :: int64
  cc_Serial :: bytes
  cc_CertNonce :: bytes

record CanonicalDelegation =
  cd_TlsCertPubKeyHash :: bytes
  cd_TlsExporterBinding :: bytes
  cd_TlsTranscriptHash :: bytes
  cd_X509Fingerprint :: bytes
  cd_NodeCertBundleHash :: bytes
  cd_NotBefore :: int64
  cd_NotAfter :: int64

record CanonicalDelegationNoExporter =
  ne_TlsCertPubKeyHash :: bytes
  ne_TlsTranscriptHash :: bytes
  ne_X509Fingerprint :: bytes
  ne_NodeCertBundleHash :: bytes
  ne_NotBefore :: int64
  ne_NotAfter :: int64

record WireNodeCert =
  wc_CertVersion :: "32 word"
  wc_NodePubKey :: bytes
  wc_IssuerCaHash :: string
  wc_ValidFrom :: int64
  wc_ValidUntil :: int64
  wc_Serial :: bytes
  wc_CertNonce :: bytes

record WireDelegationProof =
  wd_TlsCertPubKeyHash :: bytes
  wd_TlsExporterBinding :: bytes
  wd_TlsTranscriptHash :: bytes
  wd_X509Fingerprint :: bytes
  wd_NodeCertBundleHash :: bytes
  wd_NotBefore :: int64
  wd_NotAfter :: int64

record WireEmbeddedCA =
  we_Type :: string
  we_PubKem :: bytes
  we_PubSign :: bytes
  we_AnchorSig :: bytes
  we_AnchorAdmin :: string

record WireAuthMessage =
  wa_Certs :: "WireNodeCert list"
  wa_CaSignatures :: "bytes list"
  wa_Authorities :: "WireEmbeddedCA list"
  wa_Delegation :: "WireDelegationProof option"
  wa_DelegationSig :: bytes

record HeartbeatNodeEntry =
  hn_NodeId :: bytes
  hn_Addresses :: "string list"
  hn_Role :: "32 word"

record HeartbeatPayload =
  hp_SentAtUnix :: int64
  hp_SenderRole :: "32 word"
  hp_KnownNodes :: "HeartbeatNodeEntry list"
  hp_Stats :: "string \<rightharpoonup> 64 word"
  hp_StorageFreeBytes :: "64 word"
  hp_CustomFields :: "string \<rightharpoonup> bytes"

record MessageReply =
  mr_Success :: bool
  mr_Payload :: bytes
  mr_Error :: string

record UserMessage =
  um_From :: string
  um_Text :: string

record CAKeyFilePB =
  ck_Type :: string
  ck_KeyJson :: bytes
  ck_AnchorSig :: bytes
  ck_AnchorAdmin :: string
  ck_AnchorAdminPubKem :: bytes
  ck_AnchorAdminPubSign :: bytes

record EmbeddedCAFilePB =
  ef_Type :: string
  ef_PubKem :: bytes
  ef_PubSign :: bytes
  ef_AnchorSig :: bytes
  ef_AnchorAdmin :: string

record NodeCertFilePB =
  nf_Type :: string
  nf_KeyJson :: bytes
  nf_CaPubKem :: bytes
  nf_CaPubSign :: bytes
  nf_CaSignature :: bytes
  nf_Authorities :: "EmbeddedCAFilePB list"
  nf_IssuerCaHash :: string
  nf_ValidFrom :: int64
  nf_ValidUntil :: int64
  nf_Serial :: bytes
  nf_CertNonce :: bytes

datatype proto_message =
    PCanonicalCert CanonicalCert
  | PCanonicalCertBundle "bytes list"
  | PCanonicalDelegation CanonicalDelegation
  | PCanonicalDelegationNoExporter CanonicalDelegationNoExporter
  | PWireAuthMessage WireAuthMessage
  | PHeartbeatPayload HeartbeatPayload
  | PMessageReply MessageReply
  | PUserMessage UserMessage
  | PUserMessageResponse bool
  | PResponseEmptyPayload
  | PCAKeyFile CAKeyFilePB
  | PNodeCertFile NodeCertFilePB

datatype proto_kind =
    KCanonicalCert | KCanonicalCertBundle | KCanonicalDelegation | KCanonicalDelegationNoExporter
  | KWireAuthMessage | KHeartbeatPayload | KMessageReply | KUserMessage | KUserMessageResponse
  | KResponseEmptyPayload | KCAKeyFile | KNodeCertFile

fun proto_kind_of :: "proto_message \<Rightarrow> proto_kind" where
  "proto_kind_of (PCanonicalCert _) = KCanonicalCert"
| "proto_kind_of (PCanonicalCertBundle _) = KCanonicalCertBundle"
| "proto_kind_of (PCanonicalDelegation _) = KCanonicalDelegation"
| "proto_kind_of (PCanonicalDelegationNoExporter _) = KCanonicalDelegationNoExporter"
| "proto_kind_of (PWireAuthMessage _) = KWireAuthMessage"
| "proto_kind_of (PHeartbeatPayload _) = KHeartbeatPayload"
| "proto_kind_of (PMessageReply _) = KMessageReply"
| "proto_kind_of (PUserMessage _) = KUserMessage"
| "proto_kind_of (PUserMessageResponse _) = KUserMessageResponse"
| "proto_kind_of PResponseEmptyPayload = KResponseEmptyPayload"
| "proto_kind_of (PCAKeyFile _) = KCAKeyFile"
| "proto_kind_of (PNodeCertFile _) = KNodeCertFile"

section \<open>The libraries as parameters\<close>

text \<open>
  \<open>proto.Marshal\<close>, \<open>MarshalOptions{Deterministic: true}.Marshal\<close> and \<open>proto.Unmarshal\<close> into
  a message of a given type.
\<close>

record protolib =
  pl_Marshal :: "proto_message \<Rightarrow> bytes result"
  pl_MarshalDet :: "proto_message \<Rightarrow> bytes result"
  pl_Unmarshal :: "proto_kind \<Rightarrow> bytes \<Rightarrow> proto_message result"

text \<open>
  \<open>keys.PublicKey\<close> is the type \<open>'pk\<close>, \<open>keys.AsyncCrypt\<close> the type \<open>'sk\<close>; a node ID is a
  fixed-size byte array whose size the library sets.
\<close>

type_synonym nodeid = bytes

record ('pk, 'sk) keyslib =
  kl_NodeID :: "'pk \<Rightarrow> nodeid result"
  kl_MarshalBinaryKEM :: "'pk \<Rightarrow> bytes result"
  kl_MarshalBinarySign :: "'pk \<Rightarrow> bytes result"
  kl_Verify :: "'pk \<Rightarrow> bytes \<Rightarrow> bytes \<Rightarrow> bool"
  kl_NewPublicKeyFromBinary :: "bytes \<Rightarrow> bytes \<Rightarrow> 'pk result"
  kl_GetPublicKey :: "'sk \<Rightarrow> 'pk"
  kl_Sign :: "'sk \<Rightarrow> bytes \<Rightarrow> bytes result"
  kl_NodeIDSize :: nat
  kl_NodeID_IsZero :: "nodeid \<Rightarrow> bool"
  kl_NodeID_String :: "nodeid \<Rightarrow> string"

definition zeroNodeID :: "('pk, 'sk) keyslib \<Rightarrow> nodeid" where
  "zeroNodeID K = replicate (kl_NodeIDSize K) 0"

section \<open>Documented behaviour of the libraries\<close>

text \<open>Decoding returns the message that was encoded.\<close>

definition proto_decodes :: "protolib \<Rightarrow> bool" where
  "proto_decodes P \<longleftrightarrow>
     (\<forall>m b. pl_Marshal P m = Ok b \<longrightarrow> pl_Unmarshal P (proto_kind_of m) b = Ok m)"

definition proto_decodes_det :: "protolib \<Rightarrow> bool" where
  "proto_decodes_det P \<longleftrightarrow>
     (\<forall>m b. pl_MarshalDet P m = Ok b \<longrightarrow> pl_Unmarshal P (proto_kind_of m) b = Ok m)"

text \<open>A signature made with a private key verifies under its public key.\<close>

definition sign_verifies :: "('pk, 'sk) keyslib \<Rightarrow> bool" where
  "sign_verifies K \<longleftrightarrow>
     (\<forall>sk m sig. kl_Sign K sk m = Ok sig \<longrightarrow> kl_Verify K (kl_GetPublicKey K sk) m sig)"

text \<open>Parsing the two halves of a marshalled public key returns that key.\<close>

definition pubkey_parses :: "('pk, 'sk) keyslib \<Rightarrow> bool" where
  "pubkey_parses K \<longleftrightarrow>
     (\<forall>pk kem sign. kl_MarshalBinaryKEM K pk = Ok kem \<longrightarrow> kl_MarshalBinarySign K pk = Ok sign
        \<longrightarrow> kl_NewPublicKeyFromBinary K kem sign = Ok pk)"

lemma proto_decodes_det_inject:
  assumes "proto_decodes_det P" and "pl_MarshalDet P m = Ok b" and "pl_MarshalDet P m' = Ok b"
    and "proto_kind_of m = proto_kind_of m'"
  shows "m = m'"
  using assms unfolding proto_decodes_det_def by (metis outcome.inject(1))

end
