(* ===== verification/Canonical.thy ===== *)
theory Canonical
  imports External
begin

text \<open>
  \<^verbatim>\<open>internal/auth/canonical/canonical.go\<close>: the byte strings that signatures and hashes are
  computed over.  A node certificate and a delegation proof are given here by their field
  values (the state of \<open>NodeCertImpl\<close>, \<open>certSnapshot\<close>, \<open>DelegationProofImpl\<close> and
  \<open>delegationSnapshot\<close>, whose getters return copies of them); the reading of an arbitrary
  implementation of the interfaces is in the theory Snapshots.  Shown here: the domain
  separation is injective, so signatures of different protocol contexts never mix; the
  bundle encoding depends on the certificates only as a multiset and determines it.
\<close>

section \<open>Certificates and proofs\<close>

record 'pk nodecert =
  certVersion :: "16 word"
  nodePubKey :: 'pk
  issuerCAHash :: string
  validFrom :: int64
  validUntil :: int64
  serial :: bytes
  certNonce :: bytes
  nodeID :: nodeid

record delegation_proof =
  tlsCertPubKeyHash :: bytes
  tlsExporterBinding :: bytes
  tlsTranscriptHash :: bytes
  x509Fingerprint :: bytes
  nodeCertBundleHash :: bytes
  notBefore :: int64
  notAfter :: int64

section \<open>Canonical encodings\<close>

definition marshalPubKeyBytes :: "('pk, 'sk) keyslib \<Rightarrow> 'pk \<Rightarrow> bytes result" where
  "marshalPubKeyBytes K pub =
     obind (kl_MarshalBinaryKEM K pub) (\<lambda>kem.
     obind (kl_MarshalBinarySign K pub) (\<lambda>sign.
     Ok (kem @ sign)))"

definition canonical_cert :: "'pk nodecert \<Rightarrow> bytes \<Rightarrow> CanonicalCert" where
  "canonical_cert cert pub =
     \<lparr>cc_CertVersion = ucast (certVersion cert), cc_NodePubKey = pub,
      cc_IssuerCaHash = issuerCAHash cert, cc_ValidFrom = validFrom cert,
      cc_ValidUntil = validUntil cert, cc_Serial = serial cert, cc_CertNonce = certNonce cert\<rparr>"

definition CanonicalNodeCert ::
  "('pk, 'sk) keyslib \<Rightarrow> protolib \<Rightarrow> 'pk nodecert \<Rightarrow> bytes result" where
  "CanonicalNodeCert K P cert =
     obind (marshalPubKeyBytes K (nodePubKey cert)) (\<lambda>pub.
     pl_MarshalDet P (PCanonicalCert (canonical_cert cert pub)))"

definition CanonicalNodeCertBundle ::
  "('pk, 'sk) keyslib \<Rightarrow> protolib \<Rightarrow> 'pk nodecert list \<Rightarrow> bytes result" where
  "CanonicalNodeCertBundle K P certs =
     obind (mapM (CanonicalNodeCert K P) certs) (\<lambda>entries.
     pl_MarshalDet P (PCanonicalCertBundle (sort_Slice entries)))"

definition CanonicalDelegationProof :: "protolib \<Rightarrow> delegation_proof \<Rightarrow> bytes result" where
  "CanonicalDelegationProof P proof =
     pl_MarshalDet P (PCanonicalDelegation
       \<lparr>cd_TlsCertPubKeyHash = tlsCertPubKeyHash proof,
        cd_TlsExporterBinding = tlsExporterBinding proof,
        cd_TlsTranscriptHash = tlsTranscriptHash proof,
        cd_X509Fingerprint = x509Fingerprint proof,
        cd_NodeCertBundleHash = nodeCertBundleHash proof,
        cd_NotBefore = notBefore proof, cd_NotAfter = notAfter proof\<rparr>)"

definition CanonicalDelegationProofForExporter ::
  "protolib \<Rightarrow> delegation_proof \<Rightarrow> bytes result" where
  "CanonicalDelegationProofForExporter P proof =
     pl_MarshalDet P (PCanonicalDelegationNoExporter
       \<lparr>ne_TlsCertPubKeyHash = tlsCertPubKeyHash proof,
        ne_TlsTranscriptHash = tlsTranscriptHash proof,
        ne_X509Fingerprint = x509Fingerprint proof,
        ne_NodeCertBundleHash = nodeCertBundleHash proof,
        ne_NotBefore = notBefore proof, ne_NotAfter = notAfter proof\<rparr>)"

definition DomainSeparate :: "string \<Rightarrow> bytes \<Rightarrow> bytes" where
  "DomainSeparate ctx data =
     (let prefix = to_bytes ctx; l = length prefix in
      [of_nat (drop_bit 24 l), of_nat (drop_bit 16 l), of_nat (drop_bit 8 l), of_nat l]
      @ prefix @ data)"

section \<open>Domain separation\<close>

lemma length_prefix_be32:
  "[of_nat (drop_bit 24 l), of_nat (drop_bit 16 l), of_nat (drop_bit 8 l), of_nat l] =
   be32_put (of_nat l)"
proof -
  have "of_nat (drop_bit k l) = (ucast (drop_bit k (of_nat l :: 32 word)) :: byte)"
    if "k \<le> 24" for k
    using that
    by (intro bit_word_eqI)
       (auto simp: bit_ucast_iff bit_drop_bit_eq bit_of_nat_iff)
  from this [of 24] this [of 16] this [of 8] this [of 0] show ?thesis
    by (simp add: be32_put_def)
qed

lemma DomainSeparate_be32:
  "DomainSeparate ctx data = be32_put (of_nat (length ctx)) @ to_bytes ctx @ data"
  by (simp add: DomainSeparate_def Let_def length_prefix_be32 flip: append_assoc)

lemma DomainSeparate_eq_iff:
  assumes "length c < 2 ^ 32" and "length c' < 2 ^ 32"
  shows "DomainSeparate c d = DomainSeparate c' d' \<longleftrightarrow> c = c' \<and> d = d'"
proof
  assume "DomainSeparate c d = DomainSeparate c' d'"
  then have p: "be32_put (of_nat (length c)) = be32_put (of_nat (length c'))"
    and r: "to_bytes c @ d = to_bytes c' @ d'"
    by (simp_all add: DomainSeparate_be32)
  from p have "(of_nat (length c) :: 32 word) = of_nat (length c')"
    by (metis be32_get_put)
  then have "length c = length c'"
    using assms by (simp add: word_of_nat_eq_iff take_bit_nat_eq_self)
  with r show "c = c' \<and> d = d'" by simp
qed simp

section \<open>The bundle encoding\<close>

lemma mapM_mset:
  assumes "mset xs = mset ys" and "mapM f xs = Ok us"
  shows "\<exists>vs. mapM f ys = Ok vs \<and> mset vs = mset us"
proof -
  have "\<forall>x \<in> set xs. \<exists>y. f x = Ok y"
    using assms(2) by (auto simp: mapM_Ok_iff list_all2_conv_all_nth in_set_conv_nth)
  then obtain g where g: "\<And>x. x \<in> set xs \<Longrightarrow> f x = Ok (g x)" by metis
  moreover have "set xs = set ys" using assms(1) by (rule mset_eq_setD)
  ultimately have "mapM f xs = Ok (map g xs)" and "mapM f ys = Ok (map g ys)"
    by (auto intro!: mapM_all_Ok)
  then show ?thesis using assms by (auto simp: mset_map)
qed

lemma CanonicalNodeCertBundle_mset:
  assumes "mset certs = mset certs'" and "CanonicalNodeCertBundle K P certs = Ok b"
  shows "CanonicalNodeCertBundle K P certs' = Ok b"
proof -
  obtain es where es: "mapM (CanonicalNodeCert K P) certs = Ok es"
    and b: "pl_MarshalDet P (PCanonicalCertBundle (sort_Slice es)) = Ok b"
    using assms(2) by (auto simp: CanonicalNodeCertBundle_def)
  from mapM_mset [OF assms(1) es]
  obtain es' where "mapM (CanonicalNodeCert K P) certs' = Ok es'" and "mset es' = mset es"
    by blast
  with b show ?thesis
    using sort_Slice_cong_mset [of es' es] by (simp add: CanonicalNodeCertBundle_def)
qed

lemma CanonicalNodeCertBundle_inject:
  assumes "proto_decodes_det P"
    and "CanonicalNodeCertBundle K P certs = Ok b" and "CanonicalNodeCertBundle K P certs' = Ok b"
  shows "\<exists>es es'. mapM (CanonicalNodeCert K P) certs = Ok es \<and>
           mapM (CanonicalNodeCert K P) certs' = Ok es' \<and> mset es = mset es'"
proof -
  obtain es es' where e: "mapM (CanonicalNodeCert K P) certs = Ok es"
      "pl_MarshalDet P (PCanonicalCertBundle (sort_Slice es)) = Ok b"
    and e': "mapM (CanonicalNodeCert K P) certs' = Ok es'"
      "pl_MarshalDet P (PCanonicalCertBundle (sort_Slice es')) = Ok b"
    using assms(2,3) by (auto simp: CanonicalNodeCertBundle_def)
  have "PCanonicalCertBundle (sort_Slice es) = PCanonicalCertBundle (sort_Slice es')"
    by (rule proto_decodes_det_inject [OF assms(1) e(2) e'(2)]) simp
  then have "mset es = mset es'" by (metis proto_message.inject(2) sort_Slice_mset)
  with e e' show ?thesis by blast
qed

end
