(* ===== verification/CA.thy ===== *)
theory CA
  imports Canonical
begin

text \<open>
  \<^verbatim>\<open>internal/auth/ca\<close>: certificate authorities.  \<open>caBase\<close> is the embedded struct, \<open>AdminCAImpl\<close>
  adds nothing to it and \<open>UserCAImpl\<close> extends it with the anchor.  Shown here: a CA is named by
  the hex SHA-256 of its signing key, the verifier re-encodes a certificate to exactly the bytes
  \<open>CanonicalNodeCert\<close> gives the signer, and what a successful \<open>VerifyNodeCert\<close> means.
\<close>

section \<open>State\<close>

record 'pk caBase =
  ca_pubKey :: 'pk
  ca_pubKeyBytes :: bytes
  ca_hash :: string

type_synonym 'pk AdminCAImpl = "'pk caBase"

record 'pk UserCAImpl = "'pk caBase" +
  anchorSig :: bytes
  anchorAdminHash :: string

definition KEMPublicKeySize :: nat where
  "KEMPublicKeySize = 1568"

definition CTXNodeAdmissionV1 :: string where
  "CTXNodeAdmissionV1 = ''OUROBOROS_NODE_ADMISSION_V1''"

definition CTXUserCAAnchorV1 :: string where
  "CTXUserCAAnchorV1 = ''OUROBOROS_USER_CA_ANCHOR_V1''"

section \<open>Construction\<close>

definition splitAndParsePubKey :: "('pk, 'sk) keyslib \<Rightarrow> bytes \<Rightarrow> 'pk result" where
  "splitAndParsePubKey K pubKeyBytes =
     (if length pubKeyBytes \<le> KEMPublicKeySize
      then Err (Errorf ''public key too short: %d bytes'' [AInt (int (length pubKeyBytes))])
      else kl_NewPublicKeyFromBinary K (take KEMPublicKeySize pubKeyBytes)
             (drop KEMPublicKeySize pubKeyBytes))"

definition caHash :: "('pk, 'sk) keyslib \<Rightarrow> 'pk \<Rightarrow> string result" where
  "caHash K pub =
     obind (kl_MarshalBinarySign K pub) (\<lambda>signBytes. Ok (EncodeToString (Sum256 signBytes)))"

definition newCABase :: "('pk, 'sk) keyslib \<Rightarrow> bytes \<Rightarrow> 'pk caBase result" where
  "newCABase K pubKeyBytes =
     obind (splitAndParsePubKey K pubKeyBytes) (\<lambda>pub.
     obind (caHash K pub) (\<lambda>h.
     obind (marshalPubKeyBytes K pub) (\<lambda>cached.
     Ok \<lparr>ca_pubKey = pub, ca_pubKeyBytes = cached, ca_hash = h\<rparr>)))"

definition NewAdminCA :: "('pk, 'sk) keyslib \<Rightarrow> bytes \<Rightarrow> 'pk AdminCAImpl result" where
  "NewAdminCA K pubKeyBytes = newCABase K pubKeyBytes"

definition NewUserCA ::
  "('pk, 'sk) keyslib \<Rightarrow> bytes \<Rightarrow> bytes \<Rightarrow> string \<Rightarrow> 'pk UserCAImpl result" where
  "NewUserCA K pubKeyBytes sig admin =
     obind (newCABase K pubKeyBytes) (\<lambda>base.
     Ok (caBase.extend base (UserCAImpl.fields sig admin)))"

section \<open>Verification\<close>

definition ca_Verify :: "('pk, 'sk) keyslib \<Rightarrow> ('pk, 'z) caBase_scheme \<Rightarrow> bytes \<Rightarrow> bytes \<Rightarrow> bool" where
  "ca_Verify K b msg sig = kl_Verify K (ca_pubKey b) msg sig"

definition VerifyNodeCert ::
  "('pk, 'sk) keyslib \<Rightarrow> protolib \<Rightarrow> ('pk, 'z) caBase_scheme \<Rightarrow> 'pk nodecert \<Rightarrow> bytes
     \<Rightarrow> nodeid result" where
  "VerifyNodeCert K P b cert caSignature =
     obind (wrap_err (errorw ''pubkey marshal failed: %w'')
              (marshalPubKeyBytes K (nodePubKey cert))) (\<lambda>nodePubKeyBytes.
     obind (wrap_err (errorw ''canonical encoding failed: %w'')
              (pl_MarshalDet P (PCanonicalCert
                 \<lparr>cc_CertVersion = ucast (certVersion cert), cc_NodePubKey = nodePubKeyBytes,
                  cc_IssuerCaHash = issuerCAHash cert, cc_ValidFrom = validFrom cert,
                  cc_ValidUntil = validUntil cert, cc_Serial = serial cert,
                  cc_CertNonce = certNonce cert\<rparr>))) (\<lambda>canonicalData.
     obind (ensure (kl_Verify K (ca_pubKey b) (DomainSeparate CTXNodeAdmissionV1 canonicalData)
                      caSignature) (Sent ErrInvalidCASignature)) (\<lambda>_.
     wrap_err (errorw ''node ID derivation failed: %w'') (kl_NodeID K (nodePubKey cert)))))"

section \<open>What construction and verification give\<close>

lemma newCABase_Ok:
  assumes "newCABase K bs = Ok b"
  obtains kem sign where "kl_MarshalBinaryKEM K (ca_pubKey b) = Ok kem"
    and "kl_MarshalBinarySign K (ca_pubKey b) = Ok sign"
    and "ca_pubKeyBytes b = kem @ sign" and "ca_hash b = EncodeToString (Sum256 sign)"
  using assms
  by (auto simp: newCABase_def caHash_def marshalPubKeyBytes_def)

lemma newCABase_hash:
  "newCABase K bs = Ok b \<Longrightarrow> caHash K (ca_pubKey b) = Ok (ca_hash b)"
  by (auto simp: newCABase_def)

lemma newCABase_pubKeyBytes:
  "newCABase K bs = Ok b \<Longrightarrow> marshalPubKeyBytes K (ca_pubKey b) = Ok (ca_pubKeyBytes b)"
  by (auto simp: newCABase_def)

lemma NewUserCA_Ok:
  "NewUserCA K bs sig admin = Ok u \<longleftrightarrow>
     (\<exists>b. newCABase K bs = Ok b \<and> u = caBase.extend b (UserCAImpl.fields sig admin))"
  by (auto simp: NewUserCA_def)

lemma UserCA_extend_simps [simp]:
  "ca_hash (caBase.extend b (UserCAImpl.fields sig admin)) = ca_hash b"
  "ca_pubKey (caBase.extend b (UserCAImpl.fields sig admin)) = ca_pubKey b"
  "ca_pubKeyBytes (caBase.extend b (UserCAImpl.fields sig admin)) = ca_pubKeyBytes b"
  "anchorSig (caBase.extend b (UserCAImpl.fields sig admin)) = sig"
  "anchorAdminHash (caBase.extend b (UserCAImpl.fields sig admin)) = admin"
  by (simp_all add: caBase.extend_def UserCAImpl.fields_def)

text \<open>A marshalled key of the expected KEM size is parsed back to the same key.\<close>

lemma splitAndParsePubKey_marshal:
  assumes "pubkey_parses K" and "kl_MarshalBinaryKEM K pk = Ok kem"
    and "kl_MarshalBinarySign K pk = Ok sign" and "length kem = KEMPublicKeySize" and "sign \<noteq> []"
  shows "splitAndParsePubKey K (kem @ sign) = Ok pk"
  using assms by (simp add: splitAndParsePubKey_def pubkey_parses_def)

lemma VerifyNodeCert_canonical:
  "VerifyNodeCert K P b cert sig =
     (case marshalPubKeyBytes K (nodePubKey cert) of
        Panic \<Rightarrow> Panic
      | Err e \<Rightarrow> Err (errorw ''pubkey marshal failed: %w'' e)
      | Ok _ \<Rightarrow>
         (case CanonicalNodeCert K P cert of
            Panic \<Rightarrow> Panic
          | Err e \<Rightarrow> Err (errorw ''canonical encoding failed: %w'' e)
          | Ok enc \<Rightarrow>
             if ca_Verify K b (DomainSeparate CTXNodeAdmissionV1 enc) sig
             then wrap_err (errorw ''node ID derivation failed: %w'') (kl_NodeID K (nodePubKey cert))
             else Err (Sent ErrInvalidCASignature)))"
  unfolding VerifyNodeCert_def CanonicalNodeCert_def canonical_cert_def ca_Verify_def
  by (simp split: outcome.splits)

lemma VerifyNodeCert_Ok_iff [outcome_simps]:
  "VerifyNodeCert K P b cert sig = Ok nid \<longleftrightarrow>
     (\<exists>enc. CanonicalNodeCert K P cert = Ok enc \<and>
        ca_Verify K b (DomainSeparate CTXNodeAdmissionV1 enc) sig \<and>
        kl_NodeID K (nodePubKey cert) = Ok nid)"
  unfolding VerifyNodeCert_def CanonicalNodeCert_def canonical_cert_def ca_Verify_def by auto

end
