(* ===== verification/Delegation.thy ===== *)
theory Delegation
  imports CA
begin

text \<open>
  \<^verbatim>\<open>internal/auth/delegation\<close> and \<^verbatim>\<open>internal/auth/cert\<close>: node certificates, the ephemeral
  session identity, the node identity that bundles them, and the prover's side of the
  handshake, \<open>SignDelegation\<close>.  The clock, the random source, the X.509 encoder and the
  TLS exporter of the connection are inputs.
\<close>

section \<open>Constants\<close>

definition CTXNodeDelegationV1 :: string where
  "CTXNodeDelegationV1 = ''OUROBOROS_NODE_DELEGATION_V1''"

definition ExporterLabel :: string where
  "ExporterLabel = ''EXPORTER_OUROBOROS_NODE_DELEGATION_V1''"

definition TranscriptBindingLabel :: string where
  "TranscriptBindingLabel = ''EXPORTER_OUROBOROS_TRANSCRIPT_BINDING_V1''"

definition MaxDelegationTTL :: int64 where
  "MaxDelegationTTL = 300"

definition TLSExporterBindingSize :: nat where
  "TLSExporterBindingSize = 32"

definition TLSTranscriptHashSize :: nat where
  "TLSTranscriptHashSize = 32"

definition DefaultCertVersion :: "16 word" where
  "DefaultCertVersion = 1"

lemmas [go_defs] = MaxDelegationTTL_def TLSExporterBindingSize_def TLSTranscriptHashSize_def
  DefaultCertVersion_def

section \<open>Node certificates\<close>

definition NewNodeCert ::
  "('pk, 'sk) keyslib \<Rightarrow> 'pk \<Rightarrow> string \<Rightarrow> int64 \<Rightarrow> int64 \<Rightarrow> bytes \<Rightarrow> bytes \<Rightarrow> 'pk nodecert result" where
  "NewNodeCert K pubKey issuer from until ser nonce =
     obind (kl_NodeID K pubKey) (\<lambda>nid.
     Ok \<lparr>certVersion = DefaultCertVersion, nodePubKey = pubKey, issuerCAHash = issuer,
         validFrom = from, validUntil = until, serial = ser, certNonce = nonce, nodeID = nid\<rparr>)"

record EmbeddedCA =
  ea_Type :: string
  ea_PubKEM :: bytes
  ea_PubSign :: bytes
  ea_AnchorSig :: bytes
  ea_AnchorAdmin :: string

section \<open>Session identities\<close>

record x509_template =
  xt_SerialNumber :: int
  xt_CommonName :: string
  xt_NotBefore :: gotime
  xt_NotAfter :: gotime
  xt_KeyUsageDigitalSignature :: bool
  xt_BasicConstraintsValid :: bool

record x509_parsed =
  xp_RawSubjectPublicKeyInfo :: bytes
  xp_Raw :: bytes

record TLSCertificate =
  tc_Certificate :: "bytes list"
  tc_PrivateKey :: bytes
  tc_Leaf :: x509_parsed

text \<open>The environment of one \<open>NewSessionIdentity\<close> call: what the random source, the encoder and
  the decoder of \<open>crypto/x509\<close> return.\<close>

record x509_env =
  xe_GenerateKey :: "(bytes \<times> bytes) result"
  xe_RandInt :: "int \<Rightarrow> int result"
  xe_CreateCertificate :: "x509_template \<Rightarrow> x509_template \<Rightarrow> bytes \<Rightarrow> bytes \<Rightarrow> bytes result"
  xe_ParseCertificate :: "bytes \<Rightarrow> x509_parsed result"

record SessionIdentity =
  si_TLSCertificate :: TLSCertificate
  si_X509DER :: bytes
  si_CertPubKeyHash :: bytes
  si_X509Fingerprint :: bytes

definition NewSessionIdentity :: "x509_env \<Rightarrow> gotime \<Rightarrow> duration \<Rightarrow> SessionIdentity result" where
  "NewSessionIdentity E now ttl =
     obind (xe_GenerateKey E) (\<lambda>(pub, priv).
     obind (xe_RandInt E (2 ^ 128)) (\<lambda>ser.
     let tmpl = \<lparr>xt_SerialNumber = ser, xt_CommonName = ''ouroboros-session'',
                 xt_NotBefore = time_Add now (- 30 * time_Second),
                 xt_NotAfter = time_Add now ttl,
                 xt_KeyUsageDigitalSignature = True, xt_BasicConstraintsValid = True\<rparr> in
     obind (xe_CreateCertificate E tmpl tmpl pub priv) (\<lambda>derBytes.
     obind (xe_ParseCertificate E derBytes) (\<lambda>parsed.
     Ok \<lparr>si_TLSCertificate = \<lparr>tc_Certificate = [derBytes], tc_PrivateKey = priv, tc_Leaf = parsed\<rparr>,
         si_X509DER = derBytes,
         si_CertPubKeyHash = Sum256 (xp_RawSubjectPublicKeyInfo parsed),
         si_X509Fingerprint = Sum256 derBytes\<rparr>))))"

section \<open>Node identities\<close>

record ('pk, 'sk) NodeIdentity =
  ni_key :: 'sk
  ni_session :: SessionIdentity
  ni_certs :: "'pk nodecert list"
  ni_caSigs :: "bytes list"
  ni_authorities :: "EmbeddedCA list"
  ni_nodeID :: nodeid

definition NewNodeIdentity ::
  "x509_env \<Rightarrow> gotime \<Rightarrow> 'sk \<Rightarrow> 'pk nodecert list \<Rightarrow> bytes list \<Rightarrow> EmbeddedCA list
     \<Rightarrow> ('pk, 'sk) NodeIdentity result" where
  "NewNodeIdentity E now key certs caSigs authorities =
     obind (ensure (certs \<noteq> []) (New ''at least one NodeCert is required'')) (\<lambda>_.
     obind (ensure (length caSigs = length certs)
              (Errorf ''cert/sig count mismatch: %d vs %d''
                 [AInt (int (length certs)), AInt (int (length caSigs))])) (\<lambda>_.
     obind (wrap_err (errorw ''create session identity: %w'')
              (NewSessionIdentity E now (sint MaxDelegationTTL * time_Second))) (\<lambda>session.
     Ok \<lparr>ni_key = key, ni_session = session, ni_certs = certs, ni_caSigs = caSigs,
         ni_authorities = authorities, ni_nodeID = nodeID (hd certs)\<rparr>)))"

definition RotateSession ::
  "x509_env \<Rightarrow> gotime \<Rightarrow> ('pk, 'sk) NodeIdentity \<Rightarrow> ('pk, 'sk) NodeIdentity result" where
  "RotateSession E now ni =
     obind (NewSessionIdentity E now (sint MaxDelegationTTL * time_Second)) (\<lambda>s.
     Ok (ni\<lparr>ni_session := s\<rparr>))"

datatype CurveID = X25519MLKEM768 | OtherCurve int
datatype ClientAuthType = NoClientCert | RequireAnyClientCert
datatype TLSVersion = VersionTLS12 | VersionTLS13

record tls_config =
  tls_Certificates :: "TLSCertificate list"
  tls_ClientAuth :: ClientAuthType
  tls_CurvePreferences :: "CurveID list"
  tls_InsecureSkipVerify :: bool
  tls_NextProtos :: "string list"
  tls_MinVersion :: TLSVersion

definition TLSClientConfig :: "('pk, 'sk) NodeIdentity \<Rightarrow> tls_config" where
  "TLSClientConfig ni =
     \<lparr>tls_Certificates = [si_TLSCertificate (ni_session ni)], tls_ClientAuth = NoClientCert,
      tls_CurvePreferences = [X25519MLKEM768], tls_InsecureSkipVerify = True,
      tls_NextProtos = [''ouroboros-v1''], tls_MinVersion = VersionTLS13\<rparr>"

definition TLSServerConfig :: "('pk, 'sk) NodeIdentity \<Rightarrow> tls_config" where
  "TLSServerConfig ni =
     \<lparr>tls_Certificates = [si_TLSCertificate (ni_session ni)],
      tls_ClientAuth = RequireAnyClientCert,
      tls_CurvePreferences = [X25519MLKEM768], tls_InsecureSkipVerify = False,
      tls_NextProtos = [''ouroboros-v1''], tls_MinVersion = VersionTLS13\<rparr>"

section \<open>Signing a delegation\<close>

type_synonym ExporterFunc = "string \<Rightarrow> bytes \<Rightarrow> nat \<Rightarrow> bytes result"

definition NewDelegationProof ::
  "bytes \<Rightarrow> bytes \<Rightarrow> bytes \<Rightarrow> bytes \<Rightarrow> bytes \<Rightarrow> int64 \<Rightarrow> int64 \<Rightarrow> delegation_proof" where
  "NewDelegationProof pubHash exporter transcript fingerprint bundle nb na =
     \<lparr>tlsCertPubKeyHash = pubHash, tlsExporterBinding = exporter,
      tlsTranscriptHash = transcript, x509Fingerprint = fingerprint,
      nodeCertBundleHash = bundle, notBefore = nb, notAfter = na\<rparr>"

definition SignDelegation ::
  "('pk, 'sk) keyslib \<Rightarrow> protolib \<Rightarrow> 'sk \<Rightarrow> 'pk nodecert list \<Rightarrow> SessionIdentity \<Rightarrow> ExporterFunc
     \<Rightarrow> int64 \<Rightarrow> (delegation_proof \<times> bytes) result" where
  "SignDelegation K P nodeKey certs session exporterFn now =
     obind (wrap_err (errorw ''canonical bundle: %w'')
              (CanonicalNodeCertBundle K P certs)) (\<lambda>bundleBytes.
     let bundleHash = Sum256 bundleBytes in
     obind (wrap_err (errorw ''transcript binding: %w'')
              (exporterFn TranscriptBindingLabel [] TLSTranscriptHashSize)) (\<lambda>transcriptHash.
     let proofNoExp = NewDelegationProof (si_CertPubKeyHash session) [] transcriptHash
           (si_X509Fingerprint session) bundleHash now (now + MaxDelegationTTL) in
     obind (wrap_err (errorw ''exporter context: %w'')
              (CanonicalDelegationProofForExporter P proofNoExp)) (\<lambda>expCtx.
     obind (wrap_err (errorw ''export keying material: %w'')
              (exporterFn ExporterLabel expCtx TLSExporterBindingSize)) (\<lambda>exporter.
     let proof = NewDelegationProof (si_CertPubKeyHash session) exporter transcriptHash
           (si_X509Fingerprint session) bundleHash now (now + MaxDelegationTTL) in
     obind (wrap_err (errorw ''canonical proof: %w'')
              (CanonicalDelegationProof P proof)) (\<lambda>canon.
     obind (wrap_err (errorw ''sign delegation: %w'')
              (kl_Sign K nodeKey (DomainSeparate CTXNodeDelegationV1 canon))) (\<lambda>sig.
     Ok (proof, sig)))))))"

section \<open>What construction gives\<close>

lemma NewNodeCert_Ok_iff [outcome_simps]:
  "NewNodeCert K pk iss f u ser n = Ok c \<longleftrightarrow>
     kl_NodeID K pk = Ok (nodeID c) \<and>
     c = \<lparr>certVersion = DefaultCertVersion, nodePubKey = pk, issuerCAHash = iss, validFrom = f,
          validUntil = u, serial = ser, certNonce = n, nodeID = nodeID c\<rparr>"
  by (cases c) (auto simp: NewNodeCert_def)

lemma NewSessionIdentity_hashes:
  assumes "NewSessionIdentity E now ttl = Ok s"
  shows "length (si_CertPubKeyHash s) = 32" "length (si_X509Fingerprint s) = 32"
    "si_X509Fingerprint s = Sum256 (si_X509DER s)"
  using assms by (auto simp: NewSessionIdentity_def Let_def split: prod.splits)

text \<open>The fields of a signed proof; the exporter context of the final proof is the one the
  exporter value was derived from, since it leaves the exporter field out.\<close>

lemma SignDelegation_Ok:
  assumes "SignDelegation K P nk certs session ekm now = Ok (proof, sig)"
  obtains enc expCtx canon where
    "CanonicalNodeCertBundle K P certs = Ok enc"
    and "nodeCertBundleHash proof = Sum256 enc"
    and "tlsCertPubKeyHash proof = si_CertPubKeyHash session"
    and "x509Fingerprint proof = si_X509Fingerprint session"
    and "ekm TranscriptBindingLabel [] TLSTranscriptHashSize = Ok (tlsTranscriptHash proof)"
    and "CanonicalDelegationProofForExporter P proof = Ok expCtx"
    and "ekm ExporterLabel expCtx TLSExporterBindingSize = Ok (tlsExporterBinding proof)"
    and "notBefore proof = now"
    and "notAfter proof = now + MaxDelegationTTL"
    and "CanonicalDelegationProof P proof = Ok canon"
    and "kl_Sign K nk (DomainSeparate CTXNodeDelegationV1 canon) = Ok sig"
  using assms
  by (auto simp: SignDelegation_def Let_def NewDelegationProof_def
        CanonicalDelegationProofForExporter_def)

end
