(* ===== verification/Snapshots.thy ===== *)
theory Snapshots
  imports Delegation
begin

text \<open>
  \<^verbatim>\<open>internal/auth/snapshot.go\<close>: freezing the peer-supplied certificates and the delegation
  proof.  The interfaces \<open>NodeCertLike\<close> and \<open>DelegationProofLike\<close> may be implemented by an
  object that answers differently on every call: such an object is the function that gives, for
  the number of calls made so far, the field values the next call reads.  A frozen object is a
  constant function.  Shown here: however the object behaves, the frozen node ID is the one
  derived from the frozen public key; the version, in contrast, is read a second time after it
  was checked.
\<close>

section \<open>Interface values\<close>

type_synonym 'pk NodeCertLike = "nat \<Rightarrow> 'pk nodecert"
type_synonym DelegationProofLike = "nat \<Rightarrow> delegation_proof"

definition frozen :: "'a \<Rightarrow> nat \<Rightarrow> 'a" where
  "frozen x = (\<lambda>_. x)"

section \<open>Snapshots\<close>

definition safeNodeID :: "('pk, 'sk) keyslib \<Rightarrow> 'pk \<Rightarrow> nodeid result" where
  "safeNodeID K pub =
     (case kl_NodeID K pub of
        Panic \<Rightarrow> Err (New ''invalid public key: nil dereference'')
      | r \<Rightarrow> r)"

definition snapshotCert ::
  "('pk, 'sk) keyslib \<Rightarrow> 'pk NodeCertLike \<Rightarrow> 'pk nodecert result" where
  "snapshotCert K c =
     (let ver = certVersion (c 0) in
      if ver \<noteq> DefaultCertVersion
      then Err (authErr (Sent ErrUnsupportedCertVersion) ''unknown cert version''
                  [AStr ''version'', AInt (uint ver)])
      else
      let pub = nodePubKey (c 1) in
      obind (wrap_err (errorw ''node ID derivation: %w'') (safeNodeID K pub)) (\<lambda>derivedNID.
      let reportedNID = nodeID (c 2) in
      if derivedNID \<noteq> reportedNID then Err (Sent ErrStatefulCert)
      else Ok \<lparr>certVersion = certVersion (c 3), nodePubKey = pub,
               issuerCAHash = issuerCAHash (c 4), validFrom = validFrom (c 5),
               validUntil = validUntil (c 6), serial = serial (c 7), certNonce = certNonce (c 8),
               nodeID = derivedNID\<rparr>))"

fun snapshotCerts_from ::
  "('pk, 'sk) keyslib \<Rightarrow> nat \<Rightarrow> 'pk NodeCertLike option list \<Rightarrow> 'pk nodecert list result" where
  "snapshotCerts_from K i [] = Ok []"
| "snapshotCerts_from K i (None # cs) =
     Err (authErr (Sent ErrNilCertEntry) ''nil entry in peer cert bundle''
            [AStr ''certIndex'', AInt (int i)])"
| "snapshotCerts_from K i (Some c # cs) =
     obind (wrap_err (\<lambda>e. authErr e ''snapshot failed'' [AStr ''certIndex'', AInt (int i)])
              (snapshotCert K c)) (\<lambda>snap.
     obind (snapshotCerts_from K (Suc i) cs) (\<lambda>snaps. Ok (snap # snaps)))"

definition snapshotCerts ::
  "('pk, 'sk) keyslib \<Rightarrow> 'pk NodeCertLike option list \<Rightarrow> 'pk nodecert list result" where
  "snapshotCerts K certs = snapshotCerts_from K 0 certs"

definition snapshotDelegation :: "DelegationProofLike \<Rightarrow> delegation_proof" where
  "snapshotDelegation p =
     \<lparr>tlsCertPubKeyHash = tlsCertPubKeyHash (p 0), tlsExporterBinding = tlsExporterBinding (p 1),
      tlsTranscriptHash = tlsTranscriptHash (p 2), x509Fingerprint = x509Fingerprint (p 3),
      nodeCertBundleHash = nodeCertBundleHash (p 4), notBefore = notBefore (p 5),
      notAfter = notAfter (p 6)\<rparr>"

section \<open>What a snapshot guarantees\<close>

lemma safeNodeID_Ok_iff [simp]: "safeNodeID K pub = Ok nid \<longleftrightarrow> kl_NodeID K pub = Ok nid"
  by (auto simp: safeNodeID_def split: outcome.splits)

lemma safeNodeID_not_Panic [simp]: "safeNodeID K pub \<noteq> Panic"
  by (simp add: safeNodeID_def split: outcome.splits)

lemma snapshotCert_NodeID:
  "snapshotCert K c = Ok s \<Longrightarrow> kl_NodeID K (nodePubKey s) = Ok (nodeID s)"
  by (auto simp: snapshotCert_def Let_def split: if_splits)

lemma snapshotCert_not_Panic [simp]: "snapshotCert K c \<noteq> Panic"
  by (auto simp: snapshotCert_def Let_def obind_Panic_iff split: if_splits)

lemma snapshotCerts_from_not_Panic [simp]: "snapshotCerts_from K i cs \<noteq> Panic"
  by (induction K i cs rule: snapshotCerts_from.induct) (auto simp: obind_Panic_iff)

lemma snapshotCert_frozen:
  "snapshotCert K (frozen c) = Ok s \<longleftrightarrow>
     s = c \<and> certVersion c = DefaultCertVersion \<and> kl_NodeID K (nodePubKey c) = Ok (nodeID c)"
  by (auto simp: snapshotCert_def frozen_def Let_def split: if_splits)

lemma snapshotCerts_from_Ok_iff:
  "snapshotCerts_from K i cs = Ok ss \<longleftrightarrow>
     list_all2 (\<lambda>c s. \<exists>c'. c = Some c' \<and> snapshotCert K c' = Ok s) cs ss"
proof (induction cs arbitrary: i ss)
  case Nil
  then show ?case by auto
next
  case (Cons c cs)
  then show ?case by (cases c; cases ss) auto
qed

lemma snapshotCerts_Ok_iff [outcome_simps]:
  "snapshotCerts K cs = Ok ss \<longleftrightarrow>
     list_all2 (\<lambda>c s. \<exists>c'. c = Some c' \<and> snapshotCert K c' = Ok s) cs ss"
  by (simp add: snapshotCerts_def snapshotCerts_from_Ok_iff)

lemma snapshotCerts_frozen:
  "snapshotCerts K (map (Some \<circ> frozen) cs) = Ok ss \<longleftrightarrow>
     ss = cs \<and> (\<forall>c \<in> set cs. certVersion c = DefaultCertVersion \<and>
                    kl_NodeID K (nodePubKey c) = Ok (nodeID c))"
  unfolding snapshotCerts_Ok_iff list_all2_map1
  by (induction cs arbitrary: ss) (auto simp: snapshotCert_frozen list_all2_Cons1)

lemma snapshotCerts_NodeID:
  "snapshotCerts K cs = Ok ss \<Longrightarrow> s \<in> set ss \<Longrightarrow> kl_NodeID K (nodePubKey s) = Ok (nodeID s)"
  by (auto simp: snapshotCerts_Ok_iff list_all2_conv_all_nth in_set_conv_nth
           dest!: snapshotCert_NodeID)

lemma snapshotDelegation_frozen [simp]: "snapshotDelegation (frozen p) = p"
  by (simp add: snapshotDelegation_def frozen_def)

end
