(* ===== verification/TrustStore.thy ===== *)
theory TrustStore
  imports Delegation
begin

text \<open>
  \<^verbatim>\<open>internal/auth/carrier_auth.go\<close> and \<^verbatim>\<open>internal/auth/types.go\<close>: the trust store of a
  verifier, its revocation lists and the operations on them.  Every operation runs under the
  store's lock and is one atomic step; an operation that fails leaves the store as it was.
  The interface the rest of the program relies on is the locale \<open>revocation_log\<close> (what is
  revoked stays revoked) and its extension \<open>revocable_store\<close> (what is revoked is never
  trusted again), interpreted for the three revocation lists.
\<close>

section \<open>Types\<close>

text \<open>\<open>TrustScope\<close> is an integer type whose zero value is \<open>ScopeAdmin\<close>.\<close>

type_synonym TrustScope = int

definition ScopeAdmin :: TrustScope where
  "ScopeAdmin = 0"

definition ScopeUser :: TrustScope where
  "ScopeUser = 1"

definition TrustScope_String :: "TrustScope \<Rightarrow> string" where
  "TrustScope_String s =
     (if s = ScopeAdmin then ''admin'' else if s = ScopeUser then ''user'' else ''unknown'')"

lemma Scope_distinct [simp]: "ScopeAdmin \<noteq> ScopeUser" "ScopeUser \<noteq> ScopeAdmin"
  by (simp_all add: ScopeAdmin_def ScopeUser_def)

datatype RevocationType = RevocationAdmin | RevocationUser | RevocationNode

record RevocationEvent =
  re_Type :: RevocationType
  re_CAHash :: string
  re_NodeID :: nodeid

definition MaxRevocationEntries :: nat where
  "MaxRevocationEntries = 100000"

text \<open>The hook is an opaque callback; \<open>'h\<close> is the type of callbacks, and an operation returns
  the calls it makes.\<close>

record ('pk, 'h) carrierAuth =
  adminCAs :: "string \<rightharpoonup> 'pk AdminCAImpl"
  userCAs :: "string \<rightharpoonup> 'pk UserCAImpl"
  revokedAdminCAs :: "string set"
  revokedUserCAs :: "string set"
  revokedNodes :: "nodeid set"
  onRevoke :: "'h option"

definition NewCarrierAuth :: "('pk, 'h) carrierAuth" where
  "NewCarrierAuth =
     \<lparr>adminCAs = Map.empty, userCAs = Map.empty, revokedAdminCAs = {}, revokedUserCAs = {},
      revokedNodes = {}, onRevoke = None\<rparr>"

section \<open>Operations\<close>

definition SetRevocationHook :: "'h option \<Rightarrow> ('pk, 'h) carrierAuth \<Rightarrow> ('pk, 'h) carrierAuth" where
  "SetRevocationHook hook ca = ca\<lparr>onRevoke := hook\<rparr>"

definition AddAdminPubKey ::
  "('pk, 'sk) keyslib \<Rightarrow> bytes \<Rightarrow> ('pk, 'h) carrierAuth \<Rightarrow> ('pk, 'h) carrierAuth result" where
  "AddAdminPubKey K pubKey ca =
     obind (NewAdminCA K pubKey) (\<lambda>admin.
     let h = ca_hash admin in
     if h \<in> dom (adminCAs ca) then Err (Sent ErrCAAlreadyExists)
     else if h \<in> revokedAdminCAs ca then Err (Sent ErrCARevoked)
     else Ok (ca\<lparr>adminCAs := (adminCAs ca)(h \<mapsto> admin)\<rparr>))"

definition verifyAnchor ::
  "('pk, 'sk) keyslib \<Rightarrow> ('pk, 'h) carrierAuth \<Rightarrow> 'pk UserCAImpl \<Rightarrow> string \<Rightarrow> unit result" where
  "verifyAnchor K ca user admHash =
     (case adminCAs ca admHash of
        None \<Rightarrow> Err (Sent ErrAnchorAdminNotFound)
      | Some admin \<Rightarrow>
          if admHash \<in> revokedAdminCAs ca then Err (Sent ErrAnchorAdminRevoked)
          else ensure (ca_Verify K admin (DomainSeparate CTXUserCAAnchorV1 (ca_pubKeyBytes user))
                         (anchorSig user)) (Sent ErrInvalidAnchorSig))"

definition AddUserPubKey ::
  "('pk, 'sk) keyslib \<Rightarrow> bytes \<Rightarrow> bytes \<Rightarrow> string \<Rightarrow> ('pk, 'h) carrierAuth
     \<Rightarrow> ('pk, 'h) carrierAuth result" where
  "AddUserPubKey K pubKey sig admHash ca =
     obind (NewUserCA K pubKey sig admHash) (\<lambda>user.
     let h = ca_hash user in
     if h \<in> dom (userCAs ca) then Err (Sent ErrCAAlreadyExists)
     else if h \<in> revokedUserCAs ca then Err (Sent ErrCARevoked)
     else obind (verifyAnchor K ca user admHash) (\<lambda>_.
          Ok (ca\<lparr>userCAs := (userCAs ca)(h \<mapsto> user)\<rparr>)))"

definition RemoveAdminPubKey ::
  "string \<Rightarrow> ('pk, 'h) carrierAuth \<Rightarrow> ('pk, 'h) carrierAuth result" where
  "RemoveAdminPubKey pubKeyHash ca =
     (if pubKeyHash \<notin> dom (adminCAs ca) then Err (Sent ErrCANotFound)
      else let ca' = ca\<lparr>adminCAs := (adminCAs ca)(pubKeyHash := None)\<rparr> in
           Ok (if card (revokedAdminCAs ca') < MaxRevocationEntries
               then ca'\<lparr>revokedAdminCAs := insert pubKeyHash (revokedAdminCAs ca')\<rparr> else ca'))"

definition RemoveUserPubKey ::
  "string \<Rightarrow> ('pk, 'h) carrierAuth \<Rightarrow> ('pk, 'h) carrierAuth result" where
  "RemoveUserPubKey pubKeyHash ca =
     (if pubKeyHash \<notin> dom (userCAs ca) then Err (Sent ErrCANotFound)
      else let ca' = ca\<lparr>userCAs := (userCAs ca)(pubKeyHash := None)\<rparr> in
           Ok (if card (revokedUserCAs ca') < MaxRevocationEntries
               then ca'\<lparr>revokedUserCAs := insert pubKeyHash (revokedUserCAs ca')\<rparr> else ca'))"

definition hook_calls ::
  "('pk, 'h) carrierAuth \<Rightarrow> RevocationEvent \<Rightarrow> ('h \<times> RevocationEvent) list" where
  "hook_calls ca ev = (case onRevoke ca of None \<Rightarrow> [] | Some hook \<Rightarrow> [(hook, ev)])"

definition RevokeUserCA ::
  "('pk, 'sk) keyslib \<Rightarrow> string \<Rightarrow> ('pk, 'h) carrierAuth
     \<Rightarrow> (('pk, 'h) carrierAuth \<times> ('h \<times> RevocationEvent) list) result" where
  "RevokeUserCA K userCAHash ca =
     (if card (revokedUserCAs ca) \<ge> MaxRevocationEntries then Err (Sent ErrRevocationStoreFull)
      else Ok (ca\<lparr>revokedUserCAs := insert userCAHash (revokedUserCAs ca),
                  userCAs := (userCAs ca)(userCAHash := None)\<rparr>,
               hook_calls ca \<lparr>re_Type = RevocationUser, re_CAHash = userCAHash, re_NodeID = zeroNodeID K\<rparr>))"

definition RevokeAdminCA ::
  "('pk, 'sk) keyslib \<Rightarrow> string \<Rightarrow> ('pk, 'h) carrierAuth
     \<Rightarrow> (('pk, 'h) carrierAuth \<times> ('h \<times> RevocationEvent) list) result" where
  "RevokeAdminCA K adminCAHash ca =
     (if card (revokedAdminCAs ca) \<ge> MaxRevocationEntries then Err (Sent ErrRevocationStoreFull)
      else Ok (ca\<lparr>revokedAdminCAs := insert adminCAHash (revokedAdminCAs ca),
                  adminCAs := (adminCAs ca)(adminCAHash := None)\<rparr>,
               hook_calls ca \<lparr>re_Type = RevocationAdmin, re_CAHash = adminCAHash, re_NodeID = zeroNodeID K\<rparr>))"

definition RevokeNode ::
  "nodeid \<Rightarrow> ('pk, 'h) carrierAuth
     \<Rightarrow> (('pk, 'h) carrierAuth \<times> ('h \<times> RevocationEvent) list) result" where
  "RevokeNode nid ca =
     (if card (revokedNodes ca) \<ge> MaxRevocationEntries then Err (Sent ErrRevocationStoreFull)
      else Ok (ca\<lparr>revokedNodes := insert nid (revokedNodes ca)\<rparr>,
               hook_calls ca \<lparr>re_Type = RevocationNode, re_CAHash = [], re_NodeID = nid\<rparr>))"

section \<open>Sequences of operations\<close>

datatype 'h store_op =
    OpSetRevocationHook "'h option"
  | OpAddAdminPubKey bytes
  | OpAddUserPubKey bytes bytes string
  | OpRemoveAdminPubKey string
  | OpRemoveUserPubKey string
  | OpRevokeUserCA string
  | OpRevokeAdminCA string
  | OpRevokeNode nodeid

fun op_result ::
  "('pk, 'sk) keyslib \<Rightarrow> 'h store_op \<Rightarrow> ('pk, 'h) carrierAuth \<Rightarrow> ('pk, 'h) carrierAuth result" where
  "op_result K (OpSetRevocationHook hook) ca = Ok (SetRevocationHook hook ca)"
| "op_result K (OpAddAdminPubKey k) ca = AddAdminPubKey K k ca"
| "op_result K (OpAddUserPubKey k s h) ca = AddUserPubKey K k s h ca"
| "op_result K (OpRemoveAdminPubKey h) ca = RemoveAdminPubKey h ca"
| "op_result K (OpRemoveUserPubKey h) ca = RemoveUserPubKey h ca"
| "op_result K (OpRevokeUserCA h) ca = obind (RevokeUserCA K h ca) (\<lambda>(ca', calls). Ok ca')"
| "op_result K (OpRevokeAdminCA h) ca = obind (RevokeAdminCA K h ca) (\<lambda>(ca', calls). Ok ca')"
| "op_result K (OpRevokeNode n) ca = obind (RevokeNode n ca) (\<lambda>(ca', calls). Ok ca')"

text \<open>A failed (or panicking) operation has not changed the store.\<close>

definition exec_op ::
  "('pk, 'sk) keyslib \<Rightarrow> 'h store_op \<Rightarrow> ('pk, 'h) carrierAuth \<Rightarrow> ('pk, 'h) carrierAuth" where
  "exec_op K op ca = (case op_result K op ca of Ok ca' \<Rightarrow> ca' | Err e \<Rightarrow> ca | Panic \<Rightarrow> ca)"

lemmas store_op_defs = AddAdminPubKey_def AddUserPubKey_def RemoveAdminPubKey_def
  RemoveUserPubKey_def RevokeUserCA_def RevokeAdminCA_def RevokeNode_def SetRevocationHook_def

section \<open>The invariant of the store\<close>

definition ca_wf :: "('pk, 'sk) keyslib \<Rightarrow> string \<Rightarrow> ('pk, 'z) caBase_scheme \<Rightarrow> bool" where
  "ca_wf K h b \<longleftrightarrow> ca_hash b = h \<and> caHash K (ca_pubKey b) = Ok h \<and>
     marshalPubKeyBytes K (ca_pubKey b) = Ok (ca_pubKeyBytes b)"

text \<open>Some CA with the name of the anchor has signed the user CA's public key.\<close>

definition anchored :: "('pk, 'sk) keyslib \<Rightarrow> 'pk UserCAImpl \<Rightarrow> bool" where
  "anchored K u \<longleftrightarrow>
     (\<exists>a :: 'pk AdminCAImpl. ca_wf K (anchorAdminHash u) a \<and>
        ca_Verify K a (DomainSeparate CTXUserCAAnchorV1 (ca_pubKeyBytes u)) (anchorSig u))"

definition list_ok :: "'k set \<Rightarrow> bool" where
  "list_ok r \<longleftrightarrow> finite r \<and> card r \<le> MaxRevocationEntries"

definition store_inv :: "('pk, 'sk) keyslib \<Rightarrow> ('pk, 'h) carrierAuth \<Rightarrow> bool" where
  "store_inv K ca \<longleftrightarrow>
     (\<forall>h a. adminCAs ca h = Some a \<longrightarrow> ca_wf K h a) \<and>
     (\<forall>h u. userCAs ca h = Some u \<longrightarrow> ca_wf K h u \<and> anchored K u) \<and>
     (\<forall>h \<in> revokedAdminCAs ca. adminCAs ca h = None) \<and>
     (\<forall>h \<in> revokedUserCAs ca. userCAs ca h = None) \<and>
     list_ok (revokedAdminCAs ca) \<and> list_ok (revokedUserCAs ca) \<and> list_ok (revokedNodes ca)"

lemma list_ok_empty: "list_ok {}"
  by (simp add: list_ok_def)

lemma list_ok_insert: "list_ok r \<Longrightarrow> card r < MaxRevocationEntries \<Longrightarrow> list_ok (insert x r)"
  by (simp add: list_ok_def card_insert_if)

lemma newCABase_wf: "newCABase K bs = Ok b \<Longrightarrow> ca_wf K (ca_hash b) b"
  by (simp add: ca_wf_def newCABase_hash newCABase_pubKeyBytes)

lemma newUserCA_wf: "NewUserCA K bs sig adm = Ok u \<Longrightarrow> ca_wf K (ca_hash u) u"
  by (auto simp: NewUserCA_Ok ca_wf_def newCABase_hash newCABase_pubKeyBytes)

lemma store_inv_init: "store_inv K NewCarrierAuth"
  by (simp add: store_inv_def NewCarrierAuth_def list_ok_empty)

lemma AddAdminPubKey_inv:
  assumes "store_inv K ca" and "AddAdminPubKey K k ca = Ok ca'"
  shows "store_inv K ca'"
  using assms newCABase_wf
  by (fastforce simp: store_inv_def AddAdminPubKey_def NewAdminCA_def Let_def split: if_splits)

lemma verifyAnchor_anchored:
  assumes "store_inv K ca" and "verifyAnchor K ca u h = Ok v" and "anchorAdminHash u = h"
  shows "anchored K u"
  using assms
  by (auto simp: verifyAnchor_def store_inv_def anchored_def split: option.splits if_splits)

lemma AddUserPubKey_inv:
  assumes inv: "store_inv K ca" and ok: "AddUserPubKey K k s h ca = Ok ca'"
  shows "store_inv K ca'"
proof -
  obtain u where u: "NewUserCA K k s h = Ok u" "ca_hash u \<notin> revokedUserCAs ca"
      "verifyAnchor K ca u h = Ok ()" "ca' = ca\<lparr>userCAs := (userCAs ca)(ca_hash u \<mapsto> u)\<rparr>"
    using ok by (auto simp: AddUserPubKey_def Let_def split: if_splits)
  have "anchorAdminHash u = h"
    using u(1) by (auto simp: NewUserCA_Ok)
  then have "anchored K u" and "ca_wf K (ca_hash u) u"
    using verifyAnchor_anchored [OF inv u(3)] newUserCA_wf [OF u(1)] by auto
  with inv u show ?thesis by (auto simp: store_inv_def)
qed

lemma RemoveAdminPubKey_inv:
  "store_inv K ca \<Longrightarrow> RemoveAdminPubKey h ca = Ok ca' \<Longrightarrow> store_inv K ca'"
  by (auto simp: store_inv_def RemoveAdminPubKey_def Let_def list_ok_insert split: if_splits)

lemma RemoveUserPubKey_inv:
  "store_inv K ca \<Longrightarrow> RemoveUserPubKey h ca = Ok ca' \<Longrightarrow> store_inv K ca'"
  by (auto simp: store_inv_def RemoveUserPubKey_def Let_def list_ok_insert split: if_splits)

lemma RevokeUserCA_inv:
  "store_inv K ca \<Longrightarrow> RevokeUserCA K h ca = Ok (ca', calls) \<Longrightarrow> store_inv K ca'"
  by (auto simp: store_inv_def RevokeUserCA_def list_ok_insert split: if_splits)

lemma RevokeAdminCA_inv:
  "store_inv K ca \<Longrightarrow> RevokeAdminCA K h ca = Ok (ca', calls) \<Longrightarrow> store_inv K ca'"
  by (auto simp: store_inv_def RevokeAdminCA_def list_ok_insert split: if_splits)

lemma RevokeNode_inv:
  "store_inv K ca \<Longrightarrow> RevokeNode n ca = Ok (ca', calls) \<Longrightarrow> store_inv K ca'"
  by (auto simp: store_inv_def RevokeNode_def list_ok_insert split: if_splits)

lemma SetRevocationHook_inv: "store_inv K ca \<Longrightarrow> store_inv K (SetRevocationHook hook ca)"
  by (simp add: store_inv_def SetRevocationHook_def)

lemmas store_op_invs = SetRevocationHook_inv AddAdminPubKey_inv AddUserPubKey_inv RemoveAdminPubKey_inv
  RemoveUserPubKey_inv RevokeUserCA_inv RevokeAdminCA_inv RevokeNode_inv

lemma op_result_inv: "store_inv K ca \<Longrightarrow> op_result K op ca = Ok ca' \<Longrightarrow> store_inv K ca'"
  by (cases op) (auto dest: store_op_invs split: prod.splits)

lemma exec_op_inv: "store_inv K ca \<Longrightarrow> store_inv K (exec_op K op ca)"
  by (auto simp: exec_op_def dest: op_result_inv split: outcome.splits)

section \<open>The interface: revocation is permanent\<close>

locale revocation_log =
  fixes exec :: "'op \<Rightarrow> 's \<Rightarrow> 's"
    and revoked :: "'s \<Rightarrow> 'k set"
  assumes revoked_mono: "revoked s \<subseteq> revoked (exec op s)"
begin

lemma revoked_run: "revoked s \<subseteq> revoked (fold exec ops s)"
proof (induction ops arbitrary: s)
  case Nil
  then show ?case by simp
next
  case (Cons op ops)
  then show ?case using revoked_mono by fastforce
qed

end

locale revocable_store = revocation_log +
  fixes inv :: "'s \<Rightarrow> bool"
    and active :: "'s \<Rightarrow> 'k set"
  assumes inv_exec: "inv s \<Longrightarrow> inv (exec op s)"
    and active_not_revoked: "inv s \<Longrightarrow> active s \<inter> revoked s = {}"
begin

lemma inv_run: "inv s \<Longrightarrow> inv (fold exec ops s)"
  by (induction ops arbitrary: s) (auto simp: inv_exec)

lemma never_active_again: "inv s \<Longrightarrow> k \<in> revoked s \<Longrightarrow> k \<notin> active (fold exec ops s)"
  using inv_run active_not_revoked revoked_run by blast

end

lemma revoked_mono_op:
  assumes "op_result K op ca = Ok ca'"
  shows "revokedAdminCAs ca \<subseteq> revokedAdminCAs ca'" "revokedUserCAs ca \<subseteq> revokedUserCAs ca'"
    "revokedNodes ca \<subseteq> revokedNodes ca'"
  using assms by (cases op; force simp: store_op_defs Let_def split: if_splits)+

lemma revoked_mono_exec:
  "revokedAdminCAs ca \<subseteq> revokedAdminCAs (exec_op K op ca)"
  "revokedUserCAs ca \<subseteq> revokedUserCAs (exec_op K op ca)"
  "revokedNodes ca \<subseteq> revokedNodes (exec_op K op ca)"
  using revoked_mono_op by (auto simp: exec_op_def split: outcome.splits) blast+

lemma store_inv_disjoint:
  "store_inv K ca \<Longrightarrow> dom (adminCAs ca) \<inter> revokedAdminCAs ca = {}"
  "store_inv K ca \<Longrightarrow> dom (userCAs ca) \<inter> revokedUserCAs ca = {}"
  by (auto simp: store_inv_def)

interpretation admin_store: revocable_store "exec_op K" revokedAdminCAs "store_inv K"
    "\<lambda>ca. dom (adminCAs ca)" for K
  by unfold_locales (simp_all add: revoked_mono_exec exec_op_inv store_inv_disjoint)

interpretation user_store: revocable_store "exec_op K" revokedUserCAs "store_inv K"
    "\<lambda>ca. dom (userCAs ca)" for K
  by unfold_locales (simp_all add: revoked_mono_exec exec_op_inv store_inv_disjoint)

interpretation node_log: revocation_log "exec_op K" revokedNodes for K
  by unfold_locales (simp add: revoked_mono_exec)

end
