(* ===== verification/TrustSnapshot.thy ===== *)
theory TrustSnapshot
  imports TrustStore
begin

text \<open>
  \<^verbatim>\<open>internal/auth/trust_snapshot.go\<close>: the copy of the trust store a verification runs against,
  and checks 1 to 3 of the protocol: issuer discovery, validity and revocation, authority
  signatures.  The peer may send CA certificates along with its bundle; shown here is that they
  can only add user CAs that an already trusted, unrevoked admin CA has anchored, and exactly
  which certificates an authority check accepts.
\<close>

section \<open>State\<close>

record 'pk trustSnapshot =
  ts_adminCAs :: "string \<rightharpoonup> 'pk AdminCAImpl"
  ts_userCAs :: "string \<rightharpoonup> 'pk UserCAImpl"
  ts_revokedAdminCAs :: "string set"
  ts_revokedUserCAs :: "string set"
  ts_revokedNodes :: "nodeid set"

definition snapTrustStore :: "('pk, 'h) carrierAuth \<Rightarrow> 'pk trustSnapshot" where
  "snapTrustStore ca =
     \<lparr>ts_adminCAs = adminCAs ca, ts_userCAs = userCAs ca,
      ts_revokedAdminCAs = revokedAdminCAs ca, ts_revokedUserCAs = revokedUserCAs ca,
      ts_revokedNodes = revokedNodes ca\<rparr>"

datatype issuerType = issuerAdmin | issuerUser

record 'pk issuerInfo =
  ii_typ :: issuerType
  ii_verifier :: "'pk caBase"

record 'pk authResult =
  ar_nodePubKey :: 'pk
  ar_nodeID :: nodeid
  ar_adminValid :: bool
  ar_userHashes :: "string list"

section \<open>Validity\<close>

definition lookupIssuer :: "'pk trustSnapshot \<Rightarrow> string \<Rightarrow> 'pk issuerInfo option" where
  "lookupIssuer ts h =
     (case ts_adminCAs ts h of
        Some admin \<Rightarrow> Some \<lparr>ii_typ = issuerAdmin, ii_verifier = admin\<rparr>
      | None \<Rightarrow>
         (case ts_userCAs ts h of
            Some user \<Rightarrow> Some \<lparr>ii_typ = issuerUser, ii_verifier = caBase.truncate user\<rparr>
          | None \<Rightarrow> None))"

definition isCARevoked :: "'pk trustSnapshot \<Rightarrow> string \<Rightarrow> bool" where
  "isCARevoked ts h \<longleftrightarrow> h \<in> ts_revokedAdminCAs ts \<or> h \<in> ts_revokedUserCAs ts"

definition isNodeRevoked :: "'pk trustSnapshot \<Rightarrow> nodeid \<Rightarrow> bool" where
  "isNodeRevoked ts nid \<longleftrightarrow> nid \<in> ts_revokedNodes ts"

definition isUserCAAnchorValid :: "'pk trustSnapshot \<Rightarrow> string \<Rightarrow> bool" where
  "isUserCAAnchorValid ts h =
     (case ts_userCAs ts h of
        None \<Rightarrow> True
      | Some issuer \<Rightarrow>
         (let ah = anchorAdminHash issuer in
          if ah \<in> ts_revokedAdminCAs ts then False else ah \<in> dom (ts_adminCAs ts)))"

definition isCertValid ::
  "('pk, 'sk) keyslib \<Rightarrow> 'pk trustSnapshot \<Rightarrow> int64 \<Rightarrow> 'pk nodecert \<Rightarrow> bool result" where
  "isCertValid K ts now cert =
     (if sint now < sint (validFrom cert) \<or> sint now > sint (validUntil cert) then Ok False
      else
      let h = issuerCAHash cert in
      if lookupIssuer ts h = None then Ok False
      else if isCARevoked ts h then Ok False
      else if \<not> isUserCAAnchorValid ts h then Ok False
      else (case kl_NodeID K (nodePubKey cert) of
              Panic \<Rightarrow> Panic
            | Err e \<Rightarrow> Ok False
            | Ok nid \<Rightarrow> Ok (\<not> isNodeRevoked ts nid)))"

fun valid_indices ::
  "('pk, 'sk) keyslib \<Rightarrow> 'pk trustSnapshot \<Rightarrow> int64 \<Rightarrow> nat \<Rightarrow> 'pk nodecert list \<Rightarrow> nat list result" where
  "valid_indices K ts now i [] = Ok []"
| "valid_indices K ts now i (c # cs) =
     obind (isCertValid K ts now c) (\<lambda>v.
     obind (valid_indices K ts now (Suc i) cs) (\<lambda>is. Ok (if v then i # is else is)))"

definition filterValidCerts ::
  "('pk, 'sk) keyslib \<Rightarrow> 'pk trustSnapshot \<Rightarrow> 'pk nodecert list \<Rightarrow> int64 \<Rightarrow> nat list result" where
  "filterValidCerts K ts certs now =
     obind (valid_indices K ts now 0 certs) (\<lambda>valid.
     if valid = [] then Err (Sent ErrNoValidCerts) else Ok valid)"

section \<open>Authorities sent by the peer\<close>

definition embeddedAuthorityPubKeyBytes ::
  "('pk, 'sk) keyslib \<Rightarrow> EmbeddedCA \<Rightarrow> bytes result" where
  "embeddedAuthorityPubKeyBytes K authority =
     obind (wrap_err (errorw ''parse embedded authority: %w'')
              (kl_NewPublicKeyFromBinary K (ea_PubKEM authority) (ea_PubSign authority))) (\<lambda>pub.
     wrap_err (errorw ''marshal embedded authority: %w'') (marshalPubKeyBytes K pub))"

definition addEmbeddedAdmin ::
  "('pk, 'sk) keyslib \<Rightarrow> 'pk trustSnapshot \<Rightarrow> EmbeddedCA \<Rightarrow> 'pk trustSnapshot result" where
  "addEmbeddedAdmin K ts authority =
     obind (embeddedAuthorityPubKeyBytes K authority) (\<lambda>pubBytes.
     obind (NewAdminCA K pubBytes) (\<lambda>admin.
     let h = ca_hash admin in
     if h \<in> ts_revokedAdminCAs ts then Err (Sent ErrCARevoked)
     else if h \<notin> dom (ts_adminCAs ts) then Err (Sent ErrUnknownIssuer)
     else Ok ts))"

definition addEmbeddedUser ::
  "('pk, 'sk) keyslib \<Rightarrow> 'pk trustSnapshot \<Rightarrow> EmbeddedCA \<Rightarrow> 'pk trustSnapshot result" where
  "addEmbeddedUser K ts authority =
     obind (embeddedAuthorityPubKeyBytes K authority) (\<lambda>pubBytes.
     obind (NewUserCA K pubBytes (ea_AnchorSig authority) (ea_AnchorAdmin authority)) (\<lambda>user.
     let h = ca_hash user in
     if h \<in> ts_revokedUserCAs ts then Err (Sent ErrCARevoked)
     else if h \<in> dom (ts_userCAs ts) then Ok ts
     else
     (case ts_adminCAs ts (ea_AnchorAdmin authority) of
        None \<Rightarrow> Err (Sent ErrAnchorAdminNotFound)
      | Some admin \<Rightarrow>
          if ea_AnchorAdmin authority \<in> ts_revokedAdminCAs ts then Err (Sent ErrAnchorAdminRevoked)
          else if \<not> ca_Verify K admin (DomainSeparate CTXUserCAAnchorV1 pubBytes)
                      (ea_AnchorSig authority)
          then Err (Sent ErrInvalidAnchorSig)
          else Ok (ts\<lparr>ts_userCAs := (ts_userCAs ts)(h \<mapsto> user)\<rparr>))))"

definition withEmbeddedAuthorities ::
  "('pk, 'sk) keyslib \<Rightarrow> 'pk trustSnapshot \<Rightarrow> EmbeddedCA list \<Rightarrow> 'pk trustSnapshot result" where
  "withEmbeddedAuthorities K ts authorities =
     obind (foldM (addEmbeddedAdmin K) ts
              (filter (\<lambda>a. ea_Type a = ''admin-ca'') authorities)) (\<lambda>clone.
     foldM (addEmbeddedUser K) clone (filter (\<lambda>a. ea_Type a = ''user-ca'') authorities))"

section \<open>Authority verification\<close>

definition verifySingleCert ::
  "('pk, 'sk) keyslib \<Rightarrow> protolib \<Rightarrow> 'pk trustSnapshot \<Rightarrow> 'pk nodecert \<Rightarrow> bytes
     \<Rightarrow> (nodeid \<times> 'pk \<times> issuerType) result" where
  "verifySingleCert K P ts cert sig =
     (case lookupIssuer ts (issuerCAHash cert) of
        None \<Rightarrow> Err (Sent ErrUnknownIssuer)
      | Some issuer \<Rightarrow>
          obind (VerifyNodeCert K P (ii_verifier issuer) cert sig) (\<lambda>nid.
          obind (wrap_err (errorw ''node ID derivation from pubkey: %w'')
                   (kl_NodeID K (nodePubKey cert))) (\<lambda>pubKeyNID.
          if nid \<noteq> pubKeyNID then Err (Sent ErrMismatchedNodeID)
          else Ok (nid, nodePubKey cert, ii_typ issuer))))"

text \<open>The loop of \<open>verifyAuthority\<close>: the accumulator is the result so far, \<open>None\<close> while no
  certificate has been verified (\<open>nidSet\<close> is false).\<close>

fun verifyAuthority_loop ::
  "('pk, 'sk) keyslib \<Rightarrow> protolib \<Rightarrow> 'pk trustSnapshot \<Rightarrow> 'pk nodecert list \<Rightarrow> bytes list \<Rightarrow> nat list
     \<Rightarrow> 'pk authResult option \<Rightarrow> 'pk authResult option result" where
  "verifyAuthority_loop K P ts certs sigs [] acc = Ok acc"
| "verifyAuthority_loop K P ts certs sigs (idx # idxs) acc =
     (if idx \<ge> length certs \<or> idx \<ge> length sigs then Panic
      else
      case verifySingleCert K P ts (certs ! idx) (sigs ! idx) of
        Panic \<Rightarrow> Panic
      | Err e \<Rightarrow> verifyAuthority_loop K P ts certs sigs idxs acc
      | Ok (nid, pub, iTyp) \<Rightarrow>
          (let base = (case acc of
                 None \<Rightarrow> \<lparr>ar_nodePubKey = pub, ar_nodeID = nid, ar_adminValid = False,
                          ar_userHashes = []\<rparr>
               | Some r \<Rightarrow> r)
           in if ar_nodeID base \<noteq> nid
              then Err (authErr (Sent ErrMismatchedNodeID) ''certs bind to different nodes''
                          [AStr ''certIndex'', AInt (int idx)])
              else verifyAuthority_loop K P ts certs sigs idxs
                     (Some (if iTyp = issuerAdmin then base\<lparr>ar_adminValid := True\<rparr>
                            else base\<lparr>ar_userHashes :=
                                        ar_userHashes base @ [issuerCAHash (certs ! idx)]\<rparr>))))"

definition verifyAuthority ::
  "('pk, 'sk) keyslib \<Rightarrow> protolib \<Rightarrow> 'pk trustSnapshot \<Rightarrow> 'pk nodecert list \<Rightarrow> bytes list \<Rightarrow> nat list
     \<Rightarrow> 'pk authResult result" where
  "verifyAuthority K P ts certs sigs validIdxs =
     obind (verifyAuthority_loop K P ts certs sigs validIdxs None) (\<lambda>acc.
     case acc of None \<Rightarrow> Err (Sent ErrNoValidCerts) | Some r \<Rightarrow> Ok r)"

definition verifyChain ::
  "('pk, 'sk) keyslib \<Rightarrow> protolib \<Rightarrow> 'pk trustSnapshot \<Rightarrow> 'pk nodecert list \<Rightarrow> bytes list \<Rightarrow> int64
     \<Rightarrow> 'pk authResult result" where
  "verifyChain K P ts certs sigs now =
     obind (filterValidCerts K ts certs now) (\<lambda>validIdxs.
     verifyAuthority K P ts certs sigs validIdxs)"

section \<open>What the authorities sent by the peer can change\<close>

lemma snapTrustStore_simps [simp]:
  "ts_adminCAs (snapTrustStore ca) = adminCAs ca" "ts_userCAs (snapTrustStore ca) = userCAs ca"
  "ts_revokedAdminCAs (snapTrustStore ca) = revokedAdminCAs ca"
  "ts_revokedUserCAs (snapTrustStore ca) = revokedUserCAs ca"
  "ts_revokedNodes (snapTrustStore ca) = revokedNodes ca"
  by (simp_all add: snapTrustStore_def)

text \<open>\<open>ts'\<close> extends \<open>ts\<close> by user CAs that an unrevoked admin CA of \<open>ts\<close> has anchored, and
  by nothing else.\<close>

definition anchored_extension ::
  "('pk, 'sk) keyslib \<Rightarrow> 'pk trustSnapshot \<Rightarrow> 'pk trustSnapshot \<Rightarrow> bool" where
  "anchored_extension K ts ts' \<longleftrightarrow>
     ts' = ts\<lparr>ts_userCAs := ts_userCAs ts'\<rparr> \<and>
     (\<forall>h u. ts_userCAs ts h = Some u \<longrightarrow> ts_userCAs ts' h = Some u) \<and>
     (\<forall>h u. ts_userCAs ts' h = Some u \<longrightarrow> ts_userCAs ts h = None \<longrightarrow>
        h \<notin> ts_revokedUserCAs ts \<and> anchorAdminHash u \<notin> ts_revokedAdminCAs ts \<and>
        (\<exists>admin pubBytes. ts_adminCAs ts (anchorAdminHash u) = Some admin \<and> ca_hash u = h \<and>
           NewUserCA K pubBytes (anchorSig u) (anchorAdminHash u) = Ok u \<and>
           ca_Verify K admin (DomainSeparate CTXUserCAAnchorV1 pubBytes) (anchorSig u)))"

lemma anchored_extension_refl: "anchored_extension K ts ts"
  by (simp add: anchored_extension_def)

lemma addEmbeddedAdmin_id: "addEmbeddedAdmin K ts a = Ok ts' \<Longrightarrow> ts' = ts"
  by (auto simp: addEmbeddedAdmin_def Let_def split: if_splits)

lemma foldM_addEmbeddedAdmin: "foldM (addEmbeddedAdmin K) ts as = Ok ts' \<Longrightarrow> ts' = ts"
  by (rule foldM_invariant [where P = "\<lambda>t. t = ts"]) (auto dest: addEmbeddedAdmin_id)

lemma addEmbeddedUser_cases:
  assumes "addEmbeddedUser K ts a = Ok ts'"
  obtains (known) "ts' = ts"
  | (added) user admin pubBytes where
      "NewUserCA K pubBytes (anchorSig user) (anchorAdminHash user) = Ok user"
      and "ca_hash user \<notin> ts_revokedUserCAs ts" and "ts_userCAs ts (ca_hash user) = None"
      and "ts_adminCAs ts (anchorAdminHash user) = Some admin"
      and "anchorAdminHash user \<notin> ts_revokedAdminCAs ts"
      and "ca_Verify K admin (DomainSeparate CTXUserCAAnchorV1 pubBytes) (anchorSig user)"
      and "ts' = ts\<lparr>ts_userCAs := (ts_userCAs ts)(ca_hash user \<mapsto> user)\<rparr>"
proof -
  obtain pubBytes user where
      u: "NewUserCA K pubBytes (ea_AnchorSig a) (ea_AnchorAdmin a) = Ok user"
    and ok: "(if ca_hash user \<in> ts_revokedUserCAs ts then Err (Sent ErrCARevoked)
      else if ca_hash user \<in> dom (ts_userCAs ts) then Ok ts
      else case ts_adminCAs ts (ea_AnchorAdmin a) of None \<Rightarrow> Err (Sent ErrAnchorAdminNotFound)
        | Some admin \<Rightarrow>
          if ea_AnchorAdmin a \<in> ts_revokedAdminCAs ts then Err (Sent ErrAnchorAdminRevoked)
          else if \<not> ca_Verify K admin (DomainSeparate CTXUserCAAnchorV1 pubBytes) (ea_AnchorSig a)
          then Err (Sent ErrInvalidAnchorSig)
          else Ok (ts\<lparr>ts_userCAs := (ts_userCAs ts)(ca_hash user \<mapsto> user)\<rparr>)) = Ok ts'"
    using assms unfolding addEmbeddedUser_def Let_def obind_Ok_iff by blast
  have rest: "ts' = ts \<or> (ca_hash user \<notin> ts_revokedUserCAs ts \<and> ts_userCAs ts (ca_hash user) = None \<and>
      (\<exists>admin. ts_adminCAs ts (ea_AnchorAdmin a) = Some admin \<and>
         ea_AnchorAdmin a \<notin> ts_revokedAdminCAs ts \<and>
         ca_Verify K admin (DomainSeparate CTXUserCAAnchorV1 pubBytes) (ea_AnchorSig a)) \<and>
      ts' = ts\<lparr>ts_userCAs := (ts_userCAs ts)(ca_hash user \<mapsto> user)\<rparr>)"
    using ok by (simp add: domIff split: if_splits option.splits)
  have "anchorSig user = ea_AnchorSig a" "anchorAdminHash user = ea_AnchorAdmin a"
    using u by (auto simp: NewUserCA_Ok)
  with u rest known added show ?thesis by metis
qed

lemma addEmbeddedUser_extension:
  assumes ext: "anchored_extension K ts t" and ok: "addEmbeddedUser K t a = Ok t'"
  shows "anchored_extension K ts t'"
  using ok
proof (cases rule: addEmbeddedUser_cases)
  case known
  with ext show ?thesis by simp
next
  case (added user admin pubBytes)
  have same: "ts_adminCAs t = ts_adminCAs ts" "ts_revokedAdminCAs t = ts_revokedAdminCAs ts"
      "ts_revokedUserCAs t = ts_revokedUserCAs ts"
    using ext unfolding anchored_extension_def
    by (metis trustSnapshot.select_convs trustSnapshot.update_convs(2) trustSnapshot.surjective)+
  have "ts_userCAs ts (ca_hash user) = None"
    using ext added(3) unfolding anchored_extension_def by (metis not_Some_eq)
  moreover have "t' = ts\<lparr>ts_userCAs := ts_userCAs t'\<rparr>"
    using ext added(7) unfolding anchored_extension_def by (metis (no_types) trustSnapshot.ext_inject trustSnapshot.surjective trustSnapshot.update_convs(2))
  ultimately show ?thesis
    using ext added same unfolding anchored_extension_def by auto
qed

lemma withEmbeddedAuthorities_extension:
  assumes "withEmbeddedAuthorities K ts as = Ok ts'"
  shows "anchored_extension K ts ts'"
proof -
  have "foldM (addEmbeddedUser K) ts (filter (\<lambda>a. ea_Type a = ''user-ca'') as) = Ok ts'"
    using assms by (auto simp: withEmbeddedAuthorities_def dest: foldM_addEmbeddedAdmin)
  then show ?thesis
    by (rule foldM_invariant)
       (auto simp: anchored_extension_refl intro: addEmbeddedUser_extension)
qed

lemma anchored_extension_same:
  assumes "anchored_extension K ts ts'"
  shows "ts_adminCAs ts' = ts_adminCAs ts" "ts_revokedAdminCAs ts' = ts_revokedAdminCAs ts"
    "ts_revokedUserCAs ts' = ts_revokedUserCAs ts" "ts_revokedNodes ts' = ts_revokedNodes ts"
  using assms unfolding anchored_extension_def
  by (metis trustSnapshot.select_convs trustSnapshot.update_convs(2) trustSnapshot.surjective)+

lemma anchored_extension_user:
  assumes "anchored_extension K ts ts'" and "ts_userCAs ts' h = Some u"
    and "ts_adminCAs ts (anchorAdminHash u) = Some admin"
  shows "ts_userCAs ts h = Some u \<or>
    (\<exists>pubBytes. ts_userCAs ts h = None \<and> ca_hash u = h \<and>
       NewUserCA K pubBytes (anchorSig u) (anchorAdminHash u) = Ok u \<and>
       ca_Verify K admin (DomainSeparate CTXUserCAAnchorV1 pubBytes) (anchorSig u))"
proof (cases "ts_userCAs ts h")
  case None
  have "\<exists>admin pubBytes. ts_adminCAs ts (anchorAdminHash u) = Some admin \<and> ca_hash u = h \<and>
       NewUserCA K pubBytes (anchorSig u) (anchorAdminHash u) = Ok u \<and>
       ca_Verify K admin (DomainSeparate CTXUserCAAnchorV1 pubBytes) (anchorSig u)"
    using assms(1,2) None unfolding anchored_extension_def by blast
  with assms(3) None show ?thesis by auto
next
  case (Some v)
  have "ts_userCAs ts' h = Some v"
    using assms(1) Some unfolding anchored_extension_def by blast
  with assms(2) Some show ?thesis by simp
qed

section \<open>Which certificates an authority check accepts\<close>

text \<open>
  The specification of checks 1 to 3, stated on the trust store alone: a certificate counts when
  it is in its time window, its issuer is a trusted CA that is not revoked, the anchor of a user
  CA is a trusted admin CA that is not revoked, its node is not revoked, and the issuer's
  signature over its canonical encoding verifies.
\<close>

definition cert_current ::
  "('pk, 'sk) keyslib \<Rightarrow> 'pk trustSnapshot \<Rightarrow> int64 \<Rightarrow> 'pk nodecert \<Rightarrow> bool" where
  "cert_current K ts now c \<longleftrightarrow>
     sint (validFrom c) \<le> sint now \<and> sint now \<le> sint (validUntil c) \<and>
     issuerCAHash c \<in> dom (ts_adminCAs ts) \<union> dom (ts_userCAs ts) \<and>
     issuerCAHash c \<notin> ts_revokedAdminCAs ts \<union> ts_revokedUserCAs ts \<and>
     (\<forall>u. ts_userCAs ts (issuerCAHash c) = Some u \<longrightarrow>
        anchorAdminHash u \<in> dom (ts_adminCAs ts) - ts_revokedAdminCAs ts) \<and>
     (\<exists>nid. kl_NodeID K (nodePubKey c) = Ok nid \<and> nid \<notin> ts_revokedNodes ts)"

definition issuer_key :: "'pk trustSnapshot \<Rightarrow> string \<Rightarrow> 'pk caBase option" where
  "issuer_key ts h =
     (case ts_adminCAs ts h of Some a \<Rightarrow> Some a | None \<Rightarrow> map_option caBase.truncate (ts_userCAs ts h))"

definition cert_signed ::
  "('pk, 'sk) keyslib \<Rightarrow> protolib \<Rightarrow> 'pk trustSnapshot \<Rightarrow> 'pk nodecert \<Rightarrow> bytes \<Rightarrow> bool" where
  "cert_signed K P ts c sig \<longleftrightarrow>
     (\<exists>b enc. issuer_key ts (issuerCAHash c) = Some b \<and> CanonicalNodeCert K P c = Ok enc \<and>
        ca_Verify K b (DomainSeparate CTXNodeAdmissionV1 enc) sig)"

definition accepted_certs ::
  "('pk, 'sk) keyslib \<Rightarrow> protolib \<Rightarrow> 'pk trustSnapshot \<Rightarrow> int64 \<Rightarrow> 'pk nodecert list \<Rightarrow> bytes list
     \<Rightarrow> ('pk nodecert \<times> bytes) list" where
  "accepted_certs K P ts now certs sigs =
     filter (\<lambda>(c, sig). cert_current K ts now c \<and> cert_signed K P ts c sig) (zip certs sigs)"

definition admin_issued :: "'pk trustSnapshot \<Rightarrow> 'pk nodecert \<Rightarrow> bool" where
  "admin_issued ts c \<longleftrightarrow> issuerCAHash c \<in> dom (ts_adminCAs ts)"

definition chain_spec ::
  "('pk, 'sk) keyslib \<Rightarrow> 'pk trustSnapshot \<Rightarrow> ('pk nodecert \<times> bytes) list \<Rightarrow> 'pk authResult \<Rightarrow> bool" where
  "chain_spec K ts A r \<longleftrightarrow>
     A \<noteq> [] \<and> (\<forall>(c, sig) \<in> set A. kl_NodeID K (nodePubKey c) = Ok (ar_nodeID r)) \<and>
     ar_nodePubKey r = nodePubKey (fst (hd A)) \<and>
     (ar_adminValid r \<longleftrightarrow> (\<exists>(c, sig) \<in> set A. admin_issued ts c)) \<and>
     ar_userHashes r = map (issuerCAHash \<circ> fst) (filter (\<lambda>(c, sig). \<not> admin_issued ts c) A)"

text \<open>No call into the key library or the encoder panics.\<close>

definition libs_no_panic :: "('pk, 'sk) keyslib \<Rightarrow> protolib \<Rightarrow> bool" where
  "libs_no_panic K P \<longleftrightarrow>
     (\<forall>pk. kl_NodeID K pk \<noteq> Panic \<and> kl_MarshalBinaryKEM K pk \<noteq> Panic \<and>
        kl_MarshalBinarySign K pk \<noteq> Panic) \<and>
     (\<forall>kem sign. kl_NewPublicKeyFromBinary K kem sign \<noteq> Panic) \<and>
     (\<forall>m. pl_MarshalDet P m \<noteq> Panic)"

lemma lookupIssuer_issuer_key:
  "lookupIssuer ts h =
     map_option (\<lambda>b. \<lparr>ii_typ = (if h \<in> dom (ts_adminCAs ts) then issuerAdmin else issuerUser),
                       ii_verifier = b\<rparr>) (issuer_key ts h)"
  by (auto simp: lookupIssuer_def issuer_key_def domIff split: option.splits)

lemma isCertValid_iff: "isCertValid K ts now c = Ok True \<longleftrightarrow> cert_current K ts now c"
  by (auto simp: isCertValid_def cert_current_def Let_def lookupIssuer_def isCARevoked_def
        isUserCAAnchorValid_def isNodeRevoked_def split: option.splits outcome.splits if_splits)

lemma isCertValid_total: "libs_no_panic K P \<Longrightarrow> \<exists>v. isCertValid K ts now c = Ok v"
  by (auto simp: isCertValid_def libs_no_panic_def Let_def split: outcome.splits)

lemma valid_indices_Ok:
  "valid_indices K ts now i cs = Ok is \<Longrightarrow>
     is = map fst (filter (\<lambda>(j, c). cert_current K ts now c) (enumerate i cs))"
proof (induction cs arbitrary: i "is")
  case Nil
  then show ?case by simp
next
  case (Cons c cs)
  then obtain v js where "isCertValid K ts now c = Ok v" "valid_indices K ts now (Suc i) cs = Ok js"
      "is = (if v then i # js else js)"
    by auto
  with Cons.IH [of "Suc i" js] show ?case
    using isCertValid_iff [of K ts now c] by auto
qed

lemma valid_indices_total:
  "libs_no_panic K P \<Longrightarrow> \<exists>is. valid_indices K ts now i cs = Ok is"
proof (induction cs arbitrary: i)
  case Nil
  then show ?case by simp
next
  case (Cons c cs)
  obtain v where "isCertValid K ts now c = Ok v"
    using isCertValid_total [OF Cons.prems] by blast
  with Cons show ?case by fastforce
qed

lemma verifySingleCert_Ok_iff [outcome_simps]:
  "verifySingleCert K P ts c sig = Ok (nid, pub, ty) \<longleftrightarrow>
     cert_signed K P ts c sig \<and> kl_NodeID K (nodePubKey c) = Ok nid \<and> pub = nodePubKey c \<and>
     ty = (if admin_issued ts c then issuerAdmin else issuerUser)"
  by (auto simp: verifySingleCert_def lookupIssuer_issuer_key cert_signed_def VerifyNodeCert_Ok_iff
        admin_issued_def split: option.splits)

lemma verifySingleCert_not_Panic: "libs_no_panic K P \<Longrightarrow> verifySingleCert K P ts c sig \<noteq> Panic"
  by (auto simp: verifySingleCert_def libs_no_panic_def VerifyNodeCert_def marshalPubKeyBytes_def
        obind_Panic_iff ensure_def split: option.splits)

text \<open>The certificates of the loop of \<open>verifyAuthority\<close> that verify.\<close>

definition picked ::
  "('pk, 'sk) keyslib \<Rightarrow> protolib \<Rightarrow> 'pk trustSnapshot \<Rightarrow> ('pk nodecert \<times> bytes) list
     \<Rightarrow> ('pk nodecert \<times> bytes) list" where
  "picked K P ts ps =
     filter (\<lambda>(c, sig). cert_signed K P ts c sig \<and> is_Ok (kl_NodeID K (nodePubKey c))) ps"

lemma picked_simps [simp]:
  "picked K P ts [] = []"
  "picked K P ts ((c, sig) # ps) =
     (if cert_signed K P ts c sig \<and> is_Ok (kl_NodeID K (nodePubKey c))
      then (c, sig) # picked K P ts ps else picked K P ts ps)"
  by (simp_all add: picked_def)

lemma verifySingleCert_skip:
  "verifySingleCert K P ts c sig = Err e \<Longrightarrow>
     \<not> (cert_signed K P ts c sig \<and> is_Ok (kl_NodeID K (nodePubKey c)))"
  using verifySingleCert_Ok_iff [of K P ts c sig] by (auto simp: is_Ok_iff)

definition absorb ::
  "'pk trustSnapshot \<Rightarrow> 'pk authResult \<Rightarrow> ('pk nodecert \<times> bytes) list \<Rightarrow> 'pk authResult" where
  "absorb ts r A =
     r\<lparr>ar_adminValid := ar_adminValid r \<or> (\<exists>(c, sig) \<in> set A. admin_issued ts c),
       ar_userHashes := ar_userHashes r @
         map (issuerCAHash \<circ> fst) (filter (\<lambda>(c, sig). \<not> admin_issued ts c) A)\<rparr>"

lemma absorb_Nil [simp]: "absorb ts r [] = r"
  by (simp add: absorb_def)

lemma absorb_Cons:
  "absorb ts r ((c, sig) # A) =
     absorb ts (if admin_issued ts c then r\<lparr>ar_adminValid := True\<rparr>
                else r\<lparr>ar_userHashes := ar_userHashes r @ [issuerCAHash c]\<rparr>) A"
  by (simp add: absorb_def)

abbreviation cert_at :: "'pk nodecert list \<Rightarrow> bytes list \<Rightarrow> nat \<Rightarrow> 'pk nodecert \<times> bytes" where
  "cert_at certs sigs i \<equiv> (certs ! i, sigs ! i)"

lemma verifyAuthority_loop_Some:
  assumes "verifyAuthority_loop K P ts certs sigs idxs (Some r) = Ok res"
  shows "res = Some (absorb ts r (picked K P ts (map (cert_at certs sigs) idxs))) \<and>
    (\<forall>(c, sig) \<in> set (picked K P ts (map (cert_at certs sigs) idxs)).
       kl_NodeID K (nodePubKey c) = Ok (ar_nodeID r))"
  using assms
proof (induction idxs arbitrary: r)
  case Nil
  then show ?case by simp
next
  case (Cons i idxs)
  show ?case
  proof (cases "verifySingleCert K P ts (certs ! i) (sigs ! i)")
    case (Ok x)
    obtain nid pub ty where x: "x = (nid, pub, ty)" by (cases x)
    have v: "cert_signed K P ts (certs ! i) (sigs ! i)" "kl_NodeID K (nodePubKey (certs ! i)) = Ok nid"
      "ty = (if admin_issued ts (certs ! i) then issuerAdmin else issuerUser)"
      using Ok x by (auto simp: verifySingleCert_Ok_iff)
    from Cons.prems Ok x have "ar_nodeID r = nid"
      by (auto simp: Let_def split: if_splits)
    moreover have "verifyAuthority_loop K P ts certs sigs idxs
        (Some (if admin_issued ts (certs ! i) then r\<lparr>ar_adminValid := True\<rparr>
               else r\<lparr>ar_userHashes := ar_userHashes r @ [issuerCAHash (certs ! i)]\<rparr>)) = Ok res"
      using Cons.prems Ok x v(3) by (auto simp: Let_def split: if_splits)
    ultimately show ?thesis
      using Cons.IH v by (fastforce simp: absorb_Cons split: if_splits)
  next
    case (Err e)
    then show ?thesis
      using Cons verifySingleCert_skip [OF Err] by (auto split: if_splits)
  next
    case Panic
    then show ?thesis using Cons.prems by (auto split: if_splits)
  qed
qed

lemma verifyAuthority_loop_None:
  assumes "verifyAuthority_loop K P ts certs sigs idxs None = Ok res"
  shows "case res of None \<Rightarrow> picked K P ts (map (cert_at certs sigs) idxs) = []
    | Some r \<Rightarrow> chain_spec K ts (picked K P ts (map (cert_at certs sigs) idxs)) r"
  using assms
proof (induction idxs)
  case Nil
  then show ?case by auto
next
  case (Cons i idxs)
  show ?case
  proof (cases "verifySingleCert K P ts (certs ! i) (sigs ! i)")
    case (Ok x)
    obtain nid pub ty where x: "x = (nid, pub, ty)" by (cases x)
    have v: "cert_signed K P ts (certs ! i) (sigs ! i)" "kl_NodeID K (nodePubKey (certs ! i)) = Ok nid"
      "pub = nodePubKey (certs ! i)"
      "ty = (if admin_issued ts (certs ! i) then issuerAdmin else issuerUser)"
      using Ok x by (auto simp: verifySingleCert_Ok_iff)
    let ?r = "\<lparr>ar_nodePubKey = pub, ar_nodeID = nid, ar_adminValid = admin_issued ts (certs ! i),
       ar_userHashes = (if admin_issued ts (certs ! i) then [] else [issuerCAHash (certs ! i)])\<rparr>"
    have "verifyAuthority_loop K P ts certs sigs idxs (Some ?r) = Ok res"
      using Cons.prems Ok x v(4) by (auto simp: Let_def split: if_splits)
    from verifyAuthority_loop_Some [OF this] v show ?thesis
      by (auto simp: chain_spec_def absorb_def)
  next
    case (Err e)
    then show ?thesis
      using Cons verifySingleCert_skip [OF Err] by (auto split: if_splits option.splits)
  next
    case Panic
    then show ?thesis using Cons.prems by (auto split: if_splits)
  qed
qed

lemma verifyAuthority_loop_total:
  assumes "libs_no_panic K P" and "\<forall>i \<in> set idxs. i < length certs \<and> i < length sigs"
    and "\<forall>(c, sig) \<in> set (picked K P ts (map (cert_at certs sigs) idxs)).
           kl_NodeID K (nodePubKey c) = Ok nid"
    and "\<forall>r. acc = Some r \<longrightarrow> ar_nodeID r = nid"
  shows "\<exists>res. verifyAuthority_loop K P ts certs sigs idxs acc = Ok res"
  using assms(2-4)
proof (induction idxs arbitrary: acc)
  case Nil
  then show ?case by simp
next
  case (Cons i idxs)
  show ?case
  proof (cases "verifySingleCert K P ts (certs ! i) (sigs ! i)")
    case (Ok x)
    obtain nid' pub ty where x: "x = (nid', pub, ty)" by (cases x)
    then have "nid' = nid"
      using Cons.prems(2) Ok by (auto simp: verifySingleCert_Ok_iff is_Ok_iff split: if_splits)
    with Cons Ok x show ?thesis
      by (cases acc) (auto simp: Let_def split: if_splits)
  next
    case (Err e)
    then show ?thesis using Cons by (auto split: if_splits)
  next
    case Panic
    then show ?thesis using verifySingleCert_not_Panic [OF assms(1)] by blast
  qed
qed

lemma picked_valid:
  assumes "length sigs = length certs"
  shows "picked K P ts (map (cert_at certs sigs)
           (map fst (filter (\<lambda>(j, c). cert_current K ts now c) (enumerate 0 certs)))) =
         accepted_certs K P ts now certs sigs"
proof -
  have z: "zip certs sigs = map (cert_at certs sigs) [0..<length certs]"
    using assms by (auto intro: nth_equalityI)
  have e: "enumerate 0 certs = map (\<lambda>i. (i, certs ! i)) [0..<length certs]"
    by (auto intro: nth_equalityI simp: nth_enumerate_eq)
  show ?thesis
    unfolding picked_def accepted_certs_def z e
    by (auto simp: filter_map comp_def cert_current_def is_Ok_iff
          intro!: arg_cong [where f = "map (cert_at certs sigs)"] filter_cong)
qed

theorem verifyChain_sound:
  assumes len: "length sigs = length certs" and ok: "verifyChain K P ts certs sigs now = Ok r"
  shows "chain_spec K ts (accepted_certs K P ts now certs sigs) r"
proof -
  obtain idxs where i: "valid_indices K ts now 0 certs = Ok idxs"
    and v: "verifyAuthority_loop K P ts certs sigs idxs None = Ok (Some r)"
    using ok by (auto simp: verifyChain_def filterValidCerts_def verifyAuthority_def
        split: if_splits option.splits)
  from verifyAuthority_loop_None [OF v] show ?thesis
    by (simp add: valid_indices_Ok [OF i] picked_valid [OF len] del: map_map)
qed

lemma chain_spec_member:
  assumes "chain_spec K ts A r"
  obtains c sig where "(c, sig) \<in> set A" and "kl_NodeID K (nodePubKey c) = Ok (ar_nodeID r)"
  using assms by (cases A) (auto simp: chain_spec_def)

lemma chain_spec_unique: "chain_spec K ts A r \<Longrightarrow> chain_spec K ts A r' \<Longrightarrow> r = r'"
  by (cases A; cases r; cases r') (auto simp: chain_spec_def)

theorem verifyChain_complete:
  assumes len: "length sigs = length certs" and np: "libs_no_panic K P"
    and spec: "chain_spec K ts (accepted_certs K P ts now certs sigs) r"
  shows "verifyChain K P ts certs sigs now = Ok r"
proof -
  obtain idxs where i: "valid_indices K ts now 0 certs = Ok idxs"
    using valid_indices_total [OF np] by blast
  have A: "picked K P ts (map (cert_at certs sigs) idxs) = accepted_certs K P ts now certs sigs"
    by (simp add: valid_indices_Ok [OF i] picked_valid [OF len] del: map_map)
  have ne: "idxs \<noteq> []" using A spec by (auto simp: chain_spec_def)
  have "\<forall>i \<in> set idxs. i < length certs \<and> i < length sigs"
    using valid_indices_Ok [OF i] len by (auto simp: in_set_enumerate_eq)
  then obtain res where v: "verifyAuthority_loop K P ts certs sigs idxs None = Ok res"
    using verifyAuthority_loop_total [OF np, of idxs certs sigs ts "ar_nodeID r" None] A spec
    by (auto simp: chain_spec_def)
  from verifyAuthority_loop_None [OF v] spec have "res = Some r"
    unfolding A by (auto simp: chain_spec_def [of K ts "[]"] intro: chain_spec_unique
        split: option.splits)
  with i v ne show ?thesis
    by (simp add: verifyChain_def filterValidCerts_def verifyAuthority_def)
qed

lemma newCABase_not_Panic: "libs_no_panic K P \<Longrightarrow> newCABase K bs \<noteq> Panic"
  by (auto simp: libs_no_panic_def newCABase_def splitAndParsePubKey_def caHash_def
        marshalPubKeyBytes_def obind_Panic_iff split: if_splits)

lemma foldM_not_Panic: "(\<And>s x. f s x \<noteq> Panic) \<Longrightarrow> foldM f s xs \<noteq> Panic"
  by (induction xs arbitrary: s) (auto simp: obind_Panic_iff)

lemma withEmbeddedAuthorities_not_Panic:
  assumes "libs_no_panic K P"
  shows "withEmbeddedAuthorities K ts as \<noteq> Panic"
proof -
  have e: "embeddedAuthorityPubKeyBytes K a \<noteq> Panic" for a
    using assms by (auto simp: libs_no_panic_def embeddedAuthorityPubKeyBytes_def
        marshalPubKeyBytes_def obind_Panic_iff)
  have "addEmbeddedAdmin K t a \<noteq> Panic" "addEmbeddedUser K t a \<noteq> Panic" for t a
    using e newCABase_not_Panic [OF assms]
    by (auto simp: addEmbeddedAdmin_def addEmbeddedUser_def NewAdminCA_def NewUserCA_def Let_def
        obind_Panic_iff split: if_splits option.splits)
  then show ?thesis
    by (simp add: withEmbeddedAuthorities_def obind_Panic_iff foldM_not_Panic)
qed

lemma verifyAuthority_loop_not_Panic:
  assumes "libs_no_panic K P" and "\<forall>i \<in> set idxs. i < length certs \<and> i < length sigs"
  shows "verifyAuthority_loop K P ts certs sigs idxs acc \<noteq> Panic"
  using assms(2)
proof (induction idxs arbitrary: acc)
  case Nil
  then show ?case by simp
next
  case (Cons i idxs)
  then show ?case
    using verifySingleCert_not_Panic [OF assms(1)] by (auto simp: Let_def split: outcome.splits)
qed

lemma verifyChain_not_Panic:
  assumes np: "libs_no_panic K P" and len: "length sigs = length certs"
  shows "verifyChain K P ts certs sigs now \<noteq> Panic"
proof -
  obtain idxs where i: "valid_indices K ts now 0 certs = Ok idxs"
    using valid_indices_total [OF np] by blast
  have "\<forall>i \<in> set idxs. i < length certs \<and> i < length sigs"
    using valid_indices_Ok [OF i] len by (auto simp: in_set_enumerate_eq)
  from verifyAuthority_loop_not_Panic [OF np this] i show ?thesis
    by (auto simp: verifyChain_def filterValidCerts_def verifyAuthority_def obind_Panic_iff
        split: option.splits)
qed

end
