(* ===== verification/VerifyPeer.thy ===== *)
theory VerifyPeer
  imports Snapshots TrustSnapshot
begin

text \<open>
  \<^verbatim>\<open>internal/auth/carrier_auth_verify.go\<close>: the verification of a peer's handshake.
  \<open>VerifyPeerCert\<close> runs the five checks of the protocol in the order of the code.  The
  specification \<open>peer_spec\<close> says what an accepted handshake establishes, on the frozen inputs
  and the trust store only; \<open>VerifyPeerCert\<close> accepts exactly what it allows.
\<close>

section \<open>Inputs and outputs\<close>

definition MaxPeerCertBundleSize :: nat where
  "MaxPeerCertBundleSize = 1024"

definition TLSCertPubKeyHashSize :: nat where
  "TLSCertPubKeyHashSize = 32"

definition X509FingerprintSize :: nat where
  "X509FingerprintSize = 32"

definition NodeCertBundleHashSize :: nat where
  "NodeCertBundleHashSize = 32"

lemmas [go_defs] = MaxPeerCertBundleSize_def TLSCertPubKeyHashSize_def X509FingerprintSize_def
  NodeCertBundleHashSize_def

record TLSBindings =
  tb_CertPubKeyHash :: bytes
  tb_ExporterBinding :: bytes
  tb_X509Fingerprint :: bytes
  tb_TranscriptHash :: bytes

record 'pk PeerHandshake =
  ph_Certs :: "'pk NodeCertLike option list"
  ph_CASignatures :: "bytes list"
  ph_Authorities :: "EmbeddedCA list"
  ph_DelegationProof :: "DelegationProofLike option"
  ph_DelegationSig :: bytes
  ph_TLS :: TLSBindings

record AuthContext =
  ac_NodeID :: nodeid
  ac_EffectiveScope :: TrustScope
  ac_HasValidAdminCert :: bool
  ac_AllowedUserCAOwners :: "string list"

record bindingField =
  bf_name :: string
  bf_value :: bytes
  bf_expectedL :: nat

section \<open>The checks\<close>

definition validateHandshake :: "'pk PeerHandshake \<Rightarrow> unit result" where
  "validateHandshake hs =
     (if ph_Certs hs = [] then Err (Sent ErrNoCerts)
      else if length (ph_Certs hs) > MaxPeerCertBundleSize then Err (Sent ErrBundleTooLarge)
      else if length (ph_CASignatures hs) \<noteq> length (ph_Certs hs)
      then Err (Sent ErrSignatureCountMismatch)
      else if ph_DelegationProof hs = None then Err (Sent ErrNilDelegationProof)
      else if ph_DelegationSig hs = [] then Err (Sent ErrInvalidDelegationSig)
      else Ok ())"

fun validateBindingFields :: "bindingField list \<Rightarrow> unit result" where
  "validateBindingFields [] = Ok ()"
| "validateBindingFields (field # fs) =
     (if length (bf_value field) \<noteq> bf_expectedL field
      then Err (authErr (Sent ErrInvalidBindingField) (bf_name field)
                  [AStr ''expectedLen'', AInt (int (bf_expectedL field)),
                   AStr ''actualLen'', AInt (int (length (bf_value field)))])
      else validateBindingFields fs)"

definition secureEqual :: "bytes \<Rightarrow> bytes \<Rightarrow> bool" where
  "secureEqual a b = (if length a \<noteq> length b then False else ConstantTimeCompare a b = 1)"

definition verifyBundleHash ::
  "('pk, 'sk) keyslib \<Rightarrow> protolib \<Rightarrow> delegation_proof \<Rightarrow> 'pk nodecert list \<Rightarrow> unit result" where
  "verifyBundleHash K P proof certs =
     obind (wrap_err (errorw ''bundle canonical encoding: %w'')
              (CanonicalNodeCertBundle K P certs)) (\<lambda>bundleBytes.
     let computed = Sum256 bundleBytes in
     if \<not> secureEqual (nodeCertBundleHash proof) computed then Err (Sent ErrBundleHashMismatch)
     else Ok ())"

definition verifyDelegation ::
  "('pk, 'sk) keyslib \<Rightarrow> protolib \<Rightarrow> 'pk authResult \<Rightarrow> delegation_proof \<Rightarrow> bytes
     \<Rightarrow> 'pk nodecert list \<Rightarrow> bytes \<Rightarrow> bytes \<Rightarrow> unit result" where
  "verifyDelegation K P res proof sig certs certPubKeyHash fingerprint =
     obind (wrap_err (errorw ''delegation canonical encoding: %w'')
              (CanonicalDelegationProof P proof)) (\<lambda>canonicalData.
     let msg = DomainSeparate CTXNodeDelegationV1 canonicalData in
     if \<not> kl_Verify K (ar_nodePubKey res) msg sig then Err (Sent ErrInvalidDelegationSig)
     else if \<not> secureEqual (tlsCertPubKeyHash proof) certPubKeyHash
     then Err (authErr (Sent ErrTLSBindingMismatch) ''TLS cert pubkey hash mismatch'' [])
     else if \<not> secureEqual (x509Fingerprint proof) fingerprint
     then Err (authErr (Sent ErrTLSBindingMismatch) ''X.509 fingerprint mismatch'' [])
     else verifyBundleHash K P proof certs)"

text \<open>\<open>ttl\<close> is the 64-bit difference of the two instants, wrap-around included.\<close>

definition verifyFreshness ::
  "protolib \<Rightarrow> delegation_proof \<Rightarrow> bytes \<Rightarrow> bytes \<Rightarrow> int64 \<Rightarrow> unit result" where
  "verifyFreshness P proof exporterBinding transcriptHash now =
     (if sint now < sint (notBefore proof) \<or> sint now > sint (notAfter proof)
      then Err (authErr (Sent ErrDelegationExpired) ''delegation outside time window''
                  [AStr ''now'', AInt (sint now), AStr ''notBefore'', AInt (sint (notBefore proof)),
                   AStr ''notAfter'', AInt (sint (notAfter proof))])
      else
      let ttl = notAfter proof - notBefore proof in
      if sint ttl < 0 \<or> sint ttl > sint MaxDelegationTTL
      then Err (authErr (Sent ErrDelegationTooLong) ''TTL exceeds maximum''
                  [AStr ''ttl'', AInt (sint ttl), AStr ''max'', AInt (sint MaxDelegationTTL)])
      else
      obind (wrap_err (errorw ''exporter canonical encoding: %w'')
               (CanonicalDelegationProofForExporter P proof)) (\<lambda>_.
      if \<not> secureEqual (tlsExporterBinding proof) exporterBinding
      then Err (authErr (Sent ErrTLSBindingMismatch) ''TLS exporter binding mismatch'' [])
      else if \<not> secureEqual (tlsTranscriptHash proof) transcriptHash
      then Err (authErr (Sent ErrTLSBindingMismatch) ''TLS transcript hash mismatch'' [])
      else Ok ()))"

definition deriveScope :: "'pk authResult \<Rightarrow> AuthContext" where
  "deriveScope res =
     (if ar_adminValid res
      then \<lparr>ac_NodeID = ar_nodeID res, ac_EffectiveScope = ScopeAdmin,
            ac_HasValidAdminCert = ar_adminValid res, ac_AllowedUserCAOwners = []\<rparr>
      else \<lparr>ac_NodeID = ar_nodeID res, ac_EffectiveScope = ScopeUser,
            ac_HasValidAdminCert = ar_adminValid res, ac_AllowedUserCAOwners = ar_userHashes res\<rparr>)"

definition binding_fields :: "delegation_proof \<Rightarrow> TLSBindings \<Rightarrow> bindingField list" where
  "binding_fields proof tls =
     [\<lparr>bf_name = ''proof TLS cert pubkey hash'', bf_value = tlsCertPubKeyHash proof,
       bf_expectedL = TLSCertPubKeyHashSize\<rparr>,
      \<lparr>bf_name = ''proof TLS exporter binding'', bf_value = tlsExporterBinding proof,
       bf_expectedL = TLSExporterBindingSize\<rparr>,
      \<lparr>bf_name = ''proof TLS transcript hash'', bf_value = tlsTranscriptHash proof,
       bf_expectedL = TLSTranscriptHashSize\<rparr>,
      \<lparr>bf_name = ''proof X.509 fingerprint'', bf_value = x509Fingerprint proof,
       bf_expectedL = X509FingerprintSize\<rparr>,
      \<lparr>bf_name = ''proof node cert bundle hash'', bf_value = nodeCertBundleHash proof,
       bf_expectedL = NodeCertBundleHashSize\<rparr>,
      \<lparr>bf_name = ''transport TLS cert pubkey hash'', bf_value = tb_CertPubKeyHash tls,
       bf_expectedL = TLSCertPubKeyHashSize\<rparr>,
      \<lparr>bf_name = ''transport TLS exporter binding'', bf_value = tb_ExporterBinding tls,
       bf_expectedL = TLSExporterBindingSize\<rparr>,
      \<lparr>bf_name = ''transport X.509 fingerprint'', bf_value = tb_X509Fingerprint tls,
       bf_expectedL = X509FingerprintSize\<rparr>,
      \<lparr>bf_name = ''transport TLS transcript hash'', bf_value = tb_TranscriptHash tls,
       bf_expectedL = TLSTranscriptHashSize\<rparr>]"

text \<open>The clock is read once, after the inputs were frozen; \<open>now\<close> is what it returned.\<close>

definition VerifyPeerCert ::
  "('pk, 'sk) keyslib \<Rightarrow> protolib \<Rightarrow> ('pk, 'h) carrierAuth \<Rightarrow> int64 \<Rightarrow> 'pk PeerHandshake
     \<Rightarrow> AuthContext result" where
  "VerifyPeerCert K P ca now hs =
     obind (validateHandshake hs) (\<lambda>_.
     obind (snapshotCerts K (ph_Certs hs)) (\<lambda>certs.
     let proof = snapshotDelegation (the (ph_DelegationProof hs)); tls = ph_TLS hs;
         ts = snapTrustStore ca in
     obind (if ph_Authorities hs \<noteq> [] then withEmbeddedAuthorities K ts (ph_Authorities hs)
            else Ok ts) (\<lambda>ts.
     obind (verifyChain K P ts certs (ph_CASignatures hs) now) (\<lambda>res.
     obind (validateBindingFields (binding_fields proof tls)) (\<lambda>_.
     obind (verifyDelegation K P res proof (ph_DelegationSig hs) certs (tb_CertPubKeyHash tls)
              (tb_X509Fingerprint tls)) (\<lambda>_.
     obind (verifyFreshness P proof (tb_ExporterBinding tls) (tb_TranscriptHash tls) now) (\<lambda>_.
     Ok (deriveScope res))))))))"

section \<open>The meaning of the checks\<close>

lemma secureEqual_iff [simp]: "secureEqual a b \<longleftrightarrow> a = b"
  by (auto simp: secureEqual_def)

lemma validateBindingFields_Ok_iff [simp]:
  "validateBindingFields fs = Ok u \<longleftrightarrow> (\<forall>f \<in> set fs. length (bf_value f) = bf_expectedL f)"
  by (induction fs) auto

lemma validateBindingFields_not_Panic [simp]: "validateBindingFields fs \<noteq> Panic"
  by (induction fs) auto

lemma validateHandshake_Ok_iff [simp]:
  "validateHandshake hs = Ok u \<longleftrightarrow>
     ph_Certs hs \<noteq> [] \<and> length (ph_Certs hs) \<le> MaxPeerCertBundleSize \<and>
     length (ph_CASignatures hs) = length (ph_Certs hs) \<and>
     ph_DelegationProof hs \<noteq> None \<and> ph_DelegationSig hs \<noteq> []"
  by (auto simp: validateHandshake_def)

text \<open>When the window contains the present, the wrapped difference is within the bound exactly
  when the true difference is.\<close>

lemma signed_diff_bound:
  fixes a b :: int64
  assumes "sint a \<le> sint b"
  shows "0 \<le> sint (b - a) \<and> sint (b - a) \<le> 300 \<longleftrightarrow> sint b - sint a \<le> 300"
proof -
  have r: "- (2 ^ 63) \<le> sint x" "sint x < 2 ^ 63" for x :: int64
    using sint_greater_eq [of x] sint_less [of x] by simp_all
  have "sint (b - a) = signed_take_bit 63 (sint b - sint a)"
    by (simp add: sint_word_ariths(2))
  also have "\<dots> = (sint b - sint a + 2 ^ 63) mod 2 ^ 64 - 2 ^ 63"
    by (simp add: signed_take_bit_eq_take_bit_shift take_bit_eq_mod)
  finally have d: "sint (b - a) = (sint b - sint a + 2 ^ 63) mod 2 ^ 64 - 2 ^ 63" .
  show ?thesis
  proof (cases "sint b - sint a < 2 ^ 63")
    case True
    with assms have "sint (b - a) = sint b - sint a" unfolding d by simp
    with assms show ?thesis by simp
  next
    case False
    have "(sint b - sint a + 2 ^ 63) mod 2 ^ 64 = sint b - sint a + 2 ^ 63 - 2 ^ 64"
    proof -
      have "(sint b - sint a + 2 ^ 63) mod 2 ^ 64 = (sint b - sint a + 2 ^ 63 - 2 ^ 64) mod 2 ^ 64"
        by (rule minus_mod_self2 [symmetric])
      also have "\<dots> = sint b - sint a + 2 ^ 63 - 2 ^ 64"
        using False r [of a] r [of b] by (intro mod_pos_pos_trivial) simp_all
      finally show ?thesis .
    qed
    then have "sint (b - a) = sint b - sint a - 18446744073709551616" unfolding d by simp
    with False r [of a] r [of b] show ?thesis by simp
  qed
qed

lemma verifyBundleHash_Ok_iff [outcome_simps]:
  "verifyBundleHash K P proof certs = Ok u \<longleftrightarrow>
     (\<exists>b. CanonicalNodeCertBundle K P certs = Ok b \<and> nodeCertBundleHash proof = Sum256 b)"
  by (auto simp: verifyBundleHash_def Let_def split: if_splits)

lemma verifyDelegation_Ok_iff [outcome_simps]:
  "verifyDelegation K P res proof sig certs h f = Ok u \<longleftrightarrow>
     (\<exists>enc. CanonicalDelegationProof P proof = Ok enc \<and>
        kl_Verify K (ar_nodePubKey res) (DomainSeparate CTXNodeDelegationV1 enc) sig) \<and>
     tlsCertPubKeyHash proof = h \<and> x509Fingerprint proof = f \<and>
     (\<exists>b. CanonicalNodeCertBundle K P certs = Ok b \<and> nodeCertBundleHash proof = Sum256 b)"
  by (auto simp: verifyDelegation_def Let_def verifyBundleHash_Ok_iff split: if_splits)

lemma verifyFreshness_Ok_iff [outcome_simps]:
  "verifyFreshness P proof e t now = Ok u \<longleftrightarrow>
     sint (notBefore proof) \<le> sint now \<and> sint now \<le> sint (notAfter proof) \<and>
     sint (notAfter proof) - sint (notBefore proof) \<le> 300 \<and>
     is_Ok (CanonicalDelegationProofForExporter P proof) \<and>
     tlsExporterBinding proof = e \<and> tlsTranscriptHash proof = t"
  using signed_diff_bound [of "notBefore proof" "notAfter proof"]
  by (auto simp: verifyFreshness_def Let_def is_Ok_iff MaxDelegationTTL_def not_less
        split: if_splits)

lemma deriveScope_simps [simp]:
  "ac_NodeID (deriveScope res) = ar_nodeID res"
  "ac_EffectiveScope (deriveScope res) = (if ar_adminValid res then ScopeAdmin else ScopeUser)"
  "ac_AllowedUserCAOwners (deriveScope res) = (if ar_adminValid res then [] else ar_userHashes res)"
  by (simp_all add: deriveScope_def)

section \<open>The specification of an accepted handshake\<close>

text \<open>The trust the verification runs on: the store, extended by the user CAs sent along.\<close>

definition effective_trust ::
  "('pk, 'sk) keyslib \<Rightarrow> ('pk, 'h) carrierAuth \<Rightarrow> EmbeddedCA list \<Rightarrow> 'pk trustSnapshot result" where
  "effective_trust K ca authorities =
     (if authorities \<noteq> [] then withEmbeddedAuthorities K (snapTrustStore ca) authorities
      else Ok (snapTrustStore ca))"

text \<open>Check 4 and 5: the key that the certificates bind has signed a proof that names this TLS
  session and this bundle, for a window of at most five minutes around now.\<close>

definition session_bound ::
  "('pk, 'sk) keyslib \<Rightarrow> protolib \<Rightarrow> 'pk \<Rightarrow> delegation_proof \<Rightarrow> bytes \<Rightarrow> 'pk nodecert list
     \<Rightarrow> TLSBindings \<Rightarrow> int64 \<Rightarrow> bool" where
  "session_bound K P pk proof sig certs tls now \<longleftrightarrow>
     (\<exists>enc. CanonicalDelegationProof P proof = Ok enc \<and>
        kl_Verify K pk (DomainSeparate CTXNodeDelegationV1 enc) sig) \<and>
     tls = \<lparr>tb_CertPubKeyHash = tlsCertPubKeyHash proof,
            tb_ExporterBinding = tlsExporterBinding proof,
            tb_X509Fingerprint = x509Fingerprint proof,
            tb_TranscriptHash = tlsTranscriptHash proof\<rparr> \<and>
     length (tb_CertPubKeyHash tls) = 32 \<and> length (tb_ExporterBinding tls) = 32 \<and>
     length (tb_X509Fingerprint tls) = 32 \<and> length (tb_TranscriptHash tls) = 32 \<and>
     (\<exists>b. CanonicalNodeCertBundle K P certs = Ok b \<and> nodeCertBundleHash proof = Sum256 b) \<and>
     is_Ok (CanonicalDelegationProofForExporter P proof) \<and>
     sint (notBefore proof) \<le> sint now \<and> sint now \<le> sint (notAfter proof) \<and>
     sint (notAfter proof) - sint (notBefore proof) \<le> 300"

definition peer_spec ::
  "('pk, 'sk) keyslib \<Rightarrow> protolib \<Rightarrow> ('pk, 'h) carrierAuth \<Rightarrow> int64 \<Rightarrow> 'pk PeerHandshake
     \<Rightarrow> AuthContext \<Rightarrow> bool" where
  "peer_spec K P ca now hs ctx \<longleftrightarrow>
     (\<exists>certs proof ts res.
        snapshotCerts K (ph_Certs hs) = Ok certs \<and> certs \<noteq> [] \<and> length certs \<le> 1024 \<and>
        length (ph_CASignatures hs) = length certs \<and>
        map_option snapshotDelegation (ph_DelegationProof hs) = Some proof \<and>
        ph_DelegationSig hs \<noteq> [] \<and>
        effective_trust K ca (ph_Authorities hs) = Ok ts \<and>
        chain_spec K ts (accepted_certs K P ts now certs (ph_CASignatures hs)) res \<and>
        session_bound K P (ar_nodePubKey res) proof (ph_DelegationSig hs) certs (ph_TLS hs) now \<and>
        ctx = deriveScope res)"

lemma snapshotCerts_length: "snapshotCerts K cs = Ok ss \<Longrightarrow> length ss = length cs"
  by (simp add: snapshotCerts_Ok_iff list_all2_lengthD)

lemma binding_checks_iff:
  "(\<forall>f \<in> set (binding_fields proof tls). length (bf_value f) = bf_expectedL f) \<and>
   verifyDelegation K P res proof sig certs (tb_CertPubKeyHash tls) (tb_X509Fingerprint tls) = Ok () \<and>
   verifyFreshness P proof (tb_ExporterBinding tls) (tb_TranscriptHash tls) now = Ok () \<longleftrightarrow>
   session_bound K P (ar_nodePubKey res) proof sig certs tls now"
  unfolding verifyDelegation_Ok_iff verifyFreshness_Ok_iff session_bound_def binding_fields_def
  by (cases tls) (auto simp: go_defs)

lemma VerifyPeerCert_Ok_iff:
  "VerifyPeerCert K P ca now hs = Ok ctx \<longleftrightarrow>
     (\<exists>certs p ts res.
        snapshotCerts K (ph_Certs hs) = Ok certs \<and> certs \<noteq> [] \<and> length certs \<le> 1024 \<and>
        length (ph_CASignatures hs) = length certs \<and>
        ph_DelegationProof hs = Some p \<and> ph_DelegationSig hs \<noteq> [] \<and>
        effective_trust K ca (ph_Authorities hs) = Ok ts \<and>
        verifyChain K P ts certs (ph_CASignatures hs) now = Ok res \<and>
        session_bound K P (ar_nodePubKey res) (snapshotDelegation p) (ph_DelegationSig hs) certs
          (ph_TLS hs) now \<and>
        ctx = deriveScope res)"
proof -
  have len: "length certs = length (ph_Certs hs)" "certs = [] \<longleftrightarrow> ph_Certs hs = []"
    if "snapshotCerts K (ph_Certs hs) = Ok certs" for certs
    using snapshotCerts_length [OF that] by auto
  show ?thesis
    unfolding VerifyPeerCert_def Let_def obind_Ok_iff validateBindingFields_Ok_iff
      validateHandshake_Ok_iff MaxPeerCertBundleSize_def effective_trust_def [symmetric]
      binding_checks_iff [symmetric]
    by (auto simp: len simp del: obind_Ok_iff)
qed

theorem VerifyPeerCert_sound:
  "VerifyPeerCert K P ca now hs = Ok ctx \<Longrightarrow> peer_spec K P ca now hs ctx"
  unfolding VerifyPeerCert_Ok_iff peer_spec_def by (fastforce dest: verifyChain_sound)

theorem VerifyPeerCert_complete:
  "libs_no_panic K P \<Longrightarrow> peer_spec K P ca now hs ctx \<Longrightarrow> VerifyPeerCert K P ca now hs = Ok ctx"
  unfolding VerifyPeerCert_Ok_iff peer_spec_def by (fastforce intro: verifyChain_complete)

end
