(* ===== verification/Handshake.thy ===== *)
theory Handshake
  imports VerifyPeer
begin

text \<open>
  \<^verbatim>\<open>internal/transport/auth_handshake.go\<close> and the bindings of \<^verbatim>\<open>internal/transport/connection.go\<close>:
  the auth message on the wire.  A connection is what it exposes: the peer's X.509 certificates
  and the keying-material exporter of its TLS session.  Shown here: the length prefix and the
  size limits, and that the reader recovers what the writer sent.
\<close>

section \<open>Connections\<close>

record quicConnection =
  qc_PeerCertificates :: "x509_parsed list"
  qc_ekm :: ExporterFunc
  qc_nodeID :: nodeid

definition conn_TLSBindings :: "quicConnection \<Rightarrow> TLSBindings" where
  "conn_TLSBindings qc =
     (let (h, f) = (case qc_PeerCertificates qc of
            [] \<Rightarrow> (replicate 32 0, replicate 32 0)
          | peer # _ \<Rightarrow> (Sum256 (xp_RawSubjectPublicKeyInfo peer), Sum256 (xp_Raw peer)))
      in \<lparr>tb_CertPubKeyHash = h, tb_ExporterBinding = [], tb_X509Fingerprint = f,
          tb_TranscriptHash = []\<rparr>)"

definition conn_ExportKeyingMaterial ::
  "quicConnection \<Rightarrow> string \<Rightarrow> bytes \<Rightarrow> nat \<Rightarrow> bytes result" where
  "conn_ExportKeyingMaterial qc label ctx len = qc_ekm qc label ctx len"

section \<open>Wire conversion\<close>

definition maxAuthMessageSize :: nat where
  "maxAuthMessageSize = 2 ^ 20"

definition certToPB :: "('pk, 'sk) keyslib \<Rightarrow> 'pk nodecert \<Rightarrow> WireNodeCert result" where
  "certToPB K c =
     obind (wrap_err (errorw ''marshal public key: %w'')
              (marshalPubKeyBytes K (nodePubKey c))) (\<lambda>pubBytes.
     Ok \<lparr>wc_CertVersion = ucast (certVersion c), wc_NodePubKey = pubBytes,
         wc_IssuerCaHash = issuerCAHash c, wc_ValidFrom = validFrom c,
         wc_ValidUntil = validUntil c, wc_Serial = serial c, wc_CertNonce = certNonce c\<rparr>)"

definition pbToNodeCert :: "('pk, 'sk) keyslib \<Rightarrow> WireNodeCert \<Rightarrow> 'pk nodecert result" where
  "pbToNodeCert K wc =
     (if length (wc_NodePubKey wc) \<le> KEMPublicKeySize
      then Err (Errorf ''public key too short: %d bytes'' [AInt (int (length (wc_NodePubKey wc)))])
      else
      obind (wrap_err (errorw ''parse public key: %w'')
               (kl_NewPublicKeyFromBinary K (take KEMPublicKeySize (wc_NodePubKey wc))
                  (drop KEMPublicKeySize (wc_NodePubKey wc)))) (\<lambda>pub.
      NewNodeCert K pub (wc_IssuerCaHash wc) (wc_ValidFrom wc) (wc_ValidUntil wc) (wc_Serial wc)
        (wc_CertNonce wc)))"

definition pbToDelegation :: "WireDelegationProof option \<Rightarrow> delegation_proof" where
  "pbToDelegation wd =
     (case wd of
        None \<Rightarrow> NewDelegationProof [] [] [] [] [] 0 0
      | Some d \<Rightarrow> NewDelegationProof (wd_TlsCertPubKeyHash d) (wd_TlsExporterBinding d)
          (wd_TlsTranscriptHash d) (wd_X509Fingerprint d) (wd_NodeCertBundleHash d)
          (wd_NotBefore d) (wd_NotAfter d))"

definition delegation_to_pb :: "delegation_proof \<Rightarrow> WireDelegationProof" where
  "delegation_to_pb proof =
     \<lparr>wd_TlsCertPubKeyHash = tlsCertPubKeyHash proof,
      wd_TlsExporterBinding = tlsExporterBinding proof,
      wd_TlsTranscriptHash = tlsTranscriptHash proof,
      wd_X509Fingerprint = x509Fingerprint proof,
      wd_NodeCertBundleHash = nodeCertBundleHash proof,
      wd_NotBefore = notBefore proof, wd_NotAfter = notAfter proof\<rparr>"

definition authority_to_pb :: "EmbeddedCA \<Rightarrow> WireEmbeddedCA" where
  "authority_to_pb a =
     \<lparr>we_Type = ea_Type a, we_PubKem = ea_PubKEM a, we_PubSign = ea_PubSign a,
      we_AnchorSig = ea_AnchorSig a, we_AnchorAdmin = ea_AnchorAdmin a\<rparr>"

definition pb_to_authority :: "WireEmbeddedCA \<Rightarrow> EmbeddedCA" where
  "pb_to_authority a =
     \<lparr>ea_Type = we_Type a, ea_PubKEM = we_PubKem a, ea_PubSign = we_PubSign a,
      ea_AnchorSig = we_AnchorSig a, ea_AnchorAdmin = we_AnchorAdmin a\<rparr>"

section \<open>Writing and reading\<close>

text \<open>The argument \<open>w\<close> gives the error, if any, of each \<open>Write\<close> on the stream; the result is
  what the stream carries.\<close>

definition writeAuthHandshake ::
  "('pk, 'sk) keyslib \<Rightarrow> protolib \<Rightarrow> (nat \<Rightarrow> goerror option) \<Rightarrow> 'pk nodecert list \<Rightarrow> bytes list
     \<Rightarrow> EmbeddedCA list \<Rightarrow> delegation_proof \<Rightarrow> bytes \<Rightarrow> bytes result" where
  "writeAuthHandshake K P w certs caSigs authorities proof delegationSig =
     obind (mapM_from 0 (\<lambda>i c. wrap_err (\<lambda>e. Errorf ''cert %d: %w'' [AInt (int i), AErr e])
              (certToPB K c)) certs) (\<lambda>wireCerts.
     let msg = \<lparr>wa_Certs = wireCerts, wa_CaSignatures = caSigs,
                wa_Authorities = map authority_to_pb authorities,
                wa_Delegation = Some (delegation_to_pb proof), wa_DelegationSig = delegationSig\<rparr> in
     obind (wrap_err (errorw ''encode handshake: %w'') (pl_Marshal P (PWireAuthMessage msg)))
       (\<lambda>payload.
     if length payload > maxAuthMessageSize
     then Err (Errorf ''auth message too large: %d bytes'' [AInt (int (length payload))])
     else write_all w 0 [(''write length: %w'', be32_put (of_nat (length payload))),
                         (''write payload: %w'', payload)]))"

text \<open>The part of \<open>readAuthHandshake\<close> after the message is decoded: wire types are converted and
  the TLS bindings are derived from the connection, the exporter value with the received proof
  as its context.\<close>

definition handshake_of_message ::
  "('pk, 'sk) keyslib \<Rightarrow> protolib \<Rightarrow> quicConnection \<Rightarrow> WireAuthMessage \<Rightarrow> 'pk PeerHandshake result" where
  "handshake_of_message K P conn msg =
     obind (mapM_from 0 (\<lambda>i wc. wrap_err (\<lambda>e. Errorf ''cert %d: %w'' [AInt (int i), AErr e])
              (pbToNodeCert K wc)) (wa_Certs msg)) (\<lambda>certs.
     let proof = pbToDelegation (wa_Delegation msg);
         authorities = map pb_to_authority (wa_Authorities msg);
         tls = conn_TLSBindings conn in
     obind (wrap_err (errorw ''derive transcript binding: %w'')
              (conn_ExportKeyingMaterial conn TranscriptBindingLabel [] TLSTranscriptHashSize))
       (\<lambda>transcript.
     let tls = tls\<lparr>tb_TranscriptHash := transcript\<rparr> in
     obind (wrap_err (errorw ''exporter context: %w'')
              (CanonicalDelegationProofForExporter P proof)) (\<lambda>expCtx.
     obind (wrap_err (errorw ''derive exporter binding: %w'')
              (conn_ExportKeyingMaterial conn ExporterLabel expCtx TLSExporterBindingSize))
       (\<lambda>exporter.
     let tls = tls\<lparr>tb_ExporterBinding := exporter\<rparr> in
     Ok \<lparr>ph_Certs = map (Some \<circ> frozen) certs, ph_CASignatures = wa_CaSignatures msg,
         ph_Authorities = authorities, ph_DelegationProof = Some (frozen proof),
         ph_DelegationSig = wa_DelegationSig msg, ph_TLS = tls\<rparr>))))"

text \<open>\<open>proto.Unmarshal\<close> fills a message of the type it is given; the last branch is the library
  breaking that.\<close>

definition readAuthHandshake ::
  "('pk, 'sk) keyslib \<Rightarrow> protolib \<Rightarrow> instream \<Rightarrow> quicConnection \<Rightarrow> 'pk PeerHandshake result" where
  "readAuthHandshake K P stream conn =
     obind (wrap_err (errorw ''read length: %w'') (io_ReadFull 4 stream)) (\<lambda>(lenBuf, stream).
     let msgLen = unat (be32_get lenBuf) in
     if msgLen = 0 \<or> msgLen > maxAuthMessageSize
     then Err (Errorf ''message size %d out of bounds'' [AInt (int msgLen)])
     else
     obind (wrap_err (errorw ''read payload: %w'') (io_ReadFull msgLen stream)) (\<lambda>(buf, stream).
     obind (wrap_err (errorw ''decode handshake: %w'')
              (pl_Unmarshal P KWireAuthMessage buf)) (\<lambda>m.
     case m of PWireAuthMessage msg \<Rightarrow> handshake_of_message K P conn msg | _ \<Rightarrow> Panic)))"

section \<open>Round trips\<close>

text \<open>Every KEM public key has the size the code splits at.\<close>

definition kem_size_fixed :: "('pk, 'sk) keyslib \<Rightarrow> bool" where
  "kem_size_fixed K \<longleftrightarrow>
     (\<forall>pk kem sign. kl_MarshalBinaryKEM K pk = Ok kem \<longrightarrow> kl_MarshalBinarySign K pk = Ok sign
        \<longrightarrow> length kem = KEMPublicKeySize \<and> sign \<noteq> [])"

text \<open>A certificate as \<open>NewNodeCert\<close> makes it.\<close>

definition cert_built :: "('pk, 'sk) keyslib \<Rightarrow> 'pk nodecert \<Rightarrow> bool" where
  "cert_built K c \<longleftrightarrow> certVersion c = DefaultCertVersion \<and> kl_NodeID K (nodePubKey c) = Ok (nodeID c)"

lemma pbToDelegation_to_pb [simp]: "pbToDelegation (Some (delegation_to_pb proof)) = proof"
  by (simp add: pbToDelegation_def delegation_to_pb_def NewDelegationProof_def)

lemma pb_to_authority_to_pb [simp]: "pb_to_authority (authority_to_pb a) = a"
  by (simp add: pb_to_authority_def authority_to_pb_def)

interpretation delegation_pb: codec "\<lambda>p. Some (delegation_to_pb p)" "\<lambda>w. Ok (pbToDelegation w)"
    "\<lambda>_. True"
  by unfold_locales simp

interpretation authority_pb: codec authority_to_pb "\<lambda>w. Ok (pb_to_authority w)" "\<lambda>_. True"
  by unfold_locales simp

lemma pbToNodeCert_certToPB:
  assumes "pubkey_parses K" and "kem_size_fixed K" and "cert_built K c" and "certToPB K c = Ok wc"
  shows "pbToNodeCert K wc = Ok c"
proof -
  obtain kem sign where ks: "kl_MarshalBinaryKEM K (nodePubKey c) = Ok kem"
      "kl_MarshalBinarySign K (nodePubKey c) = Ok sign" and wc: "wc_NodePubKey wc = kem @ sign"
      "wc_IssuerCaHash wc = issuerCAHash c" "wc_ValidFrom wc = validFrom c"
      "wc_ValidUntil wc = validUntil c" "wc_Serial wc = serial c" "wc_CertNonce wc = certNonce c"
    using assms(4) by (auto simp: certToPB_def marshalPubKeyBytes_def)
  have l: "length kem = KEMPublicKeySize" "sign \<noteq> []"
    using assms(2) ks unfolding kem_size_fixed_def by blast+
  have "kl_NewPublicKeyFromBinary K kem sign = Ok (nodePubKey c)"
    using assms(1) ks unfolding pubkey_parses_def by blast
  then show ?thesis
    using l wc assms(3) by (simp add: pbToNodeCert_def NewNodeCert_Ok_iff cert_built_def)
qed

lemma mapM_from_wrap_Ok_iff:
  "mapM_from i (\<lambda>i c. wrap_err (w i) (f c)) xs = Ok ys \<longleftrightarrow> list_all2 (\<lambda>x y. f x = Ok y) xs ys"
  by (rule mapM_from_Ok_iff) simp

lemma certs_roundtrip:
  assumes "pubkey_parses K" and "kem_size_fixed K" and "\<forall>c \<in> set certs. cert_built K c"
    and "list_all2 (\<lambda>c wc. certToPB K c = Ok wc) certs wcs"
  shows "list_all2 (\<lambda>wc c. pbToNodeCert K wc = Ok c) wcs certs"
  using assms(4,3)
  by (induction rule: list_all2_induct) (auto intro: pbToNodeCert_certToPB [OF assms(1,2)])

lemma write_all_no_error [simp]:
  "(\<And>k. w k = None) \<Longrightarrow> write_all w k bs = Ok (concat (map snd bs))"
  by (induction bs arbitrary: k) auto

lemma writeAuthHandshake_Ok:
  assumes "writeAuthHandshake K P w certs caSigs authorities proof sig = Ok out"
  obtains wcs payload where "list_all2 (\<lambda>c wc. certToPB K c = Ok wc) certs wcs"
    and "pl_Marshal P (PWireAuthMessage \<lparr>wa_Certs = wcs, wa_CaSignatures = caSigs,
           wa_Authorities = map authority_to_pb authorities,
           wa_Delegation = Some (delegation_to_pb proof), wa_DelegationSig = sig\<rparr>) = Ok payload"
    and "length payload \<le> maxAuthMessageSize"
    and "out = be32_put (of_nat (length payload)) @ payload"
  using assms
  by (auto simp: writeAuthHandshake_def Let_def mapM_from_wrap_Ok_iff simp del: write_all.simps
      dest!: write_all_Ok split: if_splits)

definition derived_bindings ::
  "quicConnection \<Rightarrow> bytes \<Rightarrow> bytes \<Rightarrow> TLSBindings" where
  "derived_bindings conn transcript exporter =
     (conn_TLSBindings conn)\<lparr>tb_TranscriptHash := transcript, tb_ExporterBinding := exporter\<rparr>"

lemma readAuthHandshake_of_write:
  assumes lib: "proto_decodes P" "pubkey_parses K" "kem_size_fixed K"
    and built: "\<forall>c \<in> set certs. cert_built K c"
    and wr: "writeAuthHandshake K P w certs caSigs authorities proof sig = Ok out"
    and ne: "length out > 4"
    and t: "qc_ekm conn TranscriptBindingLabel [] TLSTranscriptHashSize = Ok transcript"
    and c: "CanonicalDelegationProofForExporter P proof = Ok expCtx"
    and e: "qc_ekm conn ExporterLabel expCtx TLSExporterBindingSize = Ok exporter"
  shows "readAuthHandshake K P \<lparr>avail = out @ rest, fin = err\<rparr> conn =
    Ok \<lparr>ph_Certs = map (Some \<circ> frozen) certs, ph_CASignatures = caSigs, ph_Authorities = authorities,
        ph_DelegationProof = Some (frozen proof), ph_DelegationSig = sig,
        ph_TLS = derived_bindings conn transcript exporter\<rparr>"
proof -
  obtain wcs payload where w: "list_all2 (\<lambda>c wc. certToPB K c = Ok wc) certs wcs"
    and m: "pl_Marshal P (PWireAuthMessage \<lparr>wa_Certs = wcs, wa_CaSignatures = caSigs,
           wa_Authorities = map authority_to_pb authorities,
           wa_Delegation = Some (delegation_to_pb proof), wa_DelegationSig = sig\<rparr>) = Ok payload"
    and len: "length payload \<le> maxAuthMessageSize"
    and out: "out = be32_put (of_nat (length payload)) @ payload"
    using writeAuthHandshake_Ok [OF wr] .
  have n: "unat (of_nat (length payload) :: 32 word) = length payload"
    using len by (simp add: unat_of_nat maxAuthMessageSize_def)
  have u: "pl_Unmarshal P KWireAuthMessage payload = Ok (PWireAuthMessage
      \<lparr>wa_Certs = wcs, wa_CaSignatures = caSigs, wa_Authorities = map authority_to_pb authorities,
       wa_Delegation = Some (delegation_to_pb proof), wa_DelegationSig = sig\<rparr>)"
    using lib(1) m unfolding proto_decodes_def by (metis proto_kind_of.simps(5))
  have r: "mapM_from 0 (\<lambda>i wc. wrap_err (\<lambda>e. Errorf ''cert %d: %w'' [AInt (int i), AErr e])
      (pbToNodeCert K wc)) wcs = Ok certs"
    using certs_roundtrip [OF lib(2,3) built w] by (simp add: mapM_from_wrap_Ok_iff)
  have ne': "payload \<noteq> []" using ne out by auto
  show ?thesis
    using len ne' t e
    by (simp add: readAuthHandshake_def handshake_of_message_def out n u r c Let_def conn_ExportKeyingMaterial_def comp_def
        derived_bindings_def)
qed

lemma handshake_of_message_Ok_iff [outcome_simps]:
  "handshake_of_message K P conn msg = Ok hs \<longleftrightarrow>
     (\<exists>certs transcript expCtx exporter.
        list_all2 (\<lambda>wc c. pbToNodeCert K wc = Ok c) (wa_Certs msg) certs \<and>
        qc_ekm conn TranscriptBindingLabel [] 32 = Ok transcript \<and>
        CanonicalDelegationProofForExporter P (pbToDelegation (wa_Delegation msg)) = Ok expCtx \<and>
        qc_ekm conn ExporterLabel expCtx 32 = Ok exporter \<and>
        hs = \<lparr>ph_Certs = map (Some \<circ> frozen) certs, ph_CASignatures = wa_CaSignatures msg,
           ph_Authorities = map pb_to_authority (wa_Authorities msg),
           ph_DelegationProof = Some (frozen (pbToDelegation (wa_Delegation msg))),
           ph_DelegationSig = wa_DelegationSig msg,
           ph_TLS = derived_bindings conn transcript exporter\<rparr>)"
  unfolding handshake_of_message_def Let_def obind_Ok_iff wrap_err_Ok_iff mapM_from_wrap_Ok_iff
    conn_ExportKeyingMaterial_def TLSTranscriptHashSize_def TLSExporterBindingSize_def
    derived_bindings_def
  by (simp only: outcome.inject(1) simp_thms eq_commute [of _ hs]) blast

lemma readAuthHandshake_Ok:
  assumes "readAuthHandshake K P stream conn = Ok hs"
  obtains n msg where "length (avail stream) \<ge> 4 + n"
    and "n = unat (be32_get (take 4 (avail stream)))" and "0 < n" and "n \<le> 2 ^ 20"
    and "pl_Unmarshal P KWireAuthMessage (take n (drop 4 (avail stream))) = Ok (PWireAuthMessage msg)"
    and "handshake_of_message K P conn msg = Ok hs"
proof -
  obtain lenBuf s1 buf s2 m where r1: "io_ReadFull 4 stream = Ok (lenBuf, s1)"
    and n: "unat (be32_get lenBuf) \<noteq> 0" "unat (be32_get lenBuf) \<le> 2 ^ 20"
    and r2: "io_ReadFull (unat (be32_get lenBuf)) s1 = Ok (buf, s2)"
    and m: "pl_Unmarshal P KWireAuthMessage buf = Ok m"
    and h: "(case m of PWireAuthMessage msg \<Rightarrow> handshake_of_message K P conn msg | _ \<Rightarrow> Panic) = Ok hs"
    using assms
    by (auto simp: readAuthHandshake_def Let_def maxAuthMessageSize_def not_less
        split: if_splits prod.splits)
  obtain msg where msg: "m = PWireAuthMessage msg" using h by (cases m) auto
  have "lenBuf = take 4 (avail stream)" "s1 = stream\<lparr>avail := drop 4 (avail stream)\<rparr>"
      "4 \<le> length (avail stream)"
    using r1 by (auto simp: io_ReadFull_def split: if_splits)
  moreover have "buf = take (unat (be32_get lenBuf)) (avail s1)"
      "unat (be32_get lenBuf) \<le> length (avail s1)"
    using r2 by (auto simp: io_ReadFull_def split: if_splits)
  ultimately show ?thesis using that n m h unfolding msg by auto
qed

end
