(* ===== verification/Samples.thy ===== *)
theory Samples
  imports Handshake
begin

text \<open>
  Concrete instances of the external libraries, on which the theorems with hypotheses about
  them are instantiated: a key library whose keys are single bytes and whose signature of a
  message is the key followed by the message, and a protobuf library given by a finite table of
  messages and their encodings.  Both are shown to have the documented behaviour.  A sample
  trust store with one admin CA, and a sample prover that it certified, follow.
\<close>

section \<open>A key library\<close>

definition byte_keys :: "(byte, byte) keyslib" where
  "byte_keys =
     \<lparr>kl_NodeID = \<lambda>pk. Ok (replicate 32 pk),
      kl_MarshalBinaryKEM = \<lambda>pk. Ok (replicate KEMPublicKeySize pk),
      kl_MarshalBinarySign = \<lambda>pk. Ok [pk],
      kl_Verify = \<lambda>pk m sig. sig = pk # m,
      kl_NewPublicKeyFromBinary = \<lambda>kem sign.
        (if length sign = 1 \<and> kem = replicate KEMPublicKeySize (hd sign) then Ok (hd sign)
         else Err (New ''bad public key'')),
      kl_GetPublicKey = \<lambda>sk. sk,
      kl_Sign = \<lambda>sk m. Ok (sk # m),
      kl_NodeIDSize = 32, kl_NodeID_IsZero = \<lambda>nid. nid = replicate 32 0,
      kl_NodeID_String = EncodeToString\<rparr>"

lemma byte_keys_simps [simp]:
  "kl_NodeID byte_keys pk = Ok (replicate 32 pk)"
  "kl_MarshalBinaryKEM byte_keys pk = Ok (replicate KEMPublicKeySize pk)"
  "kl_MarshalBinarySign byte_keys pk = Ok [pk]"
  "kl_Verify byte_keys pk m sig \<longleftrightarrow> sig = pk # m"
  "kl_NewPublicKeyFromBinary byte_keys (replicate KEMPublicKeySize pk) [pk] = Ok pk"
  "kl_GetPublicKey byte_keys sk = sk"
  "kl_Sign byte_keys sk m = Ok (sk # m)"
  "kl_NodeIDSize byte_keys = 32"
  "kl_NodeID_IsZero byte_keys nid \<longleftrightarrow> nid = replicate 32 0"
  "kl_NodeID_String byte_keys = EncodeToString"
  by (simp_all add: byte_keys_def)

lemma byte_keys_sign_verifies [simp]: "sign_verifies byte_keys"
  by (simp add: sign_verifies_def)

lemma byte_keys_pubkey_parses [simp]: "pubkey_parses byte_keys"
  by (simp add: pubkey_parses_def)

lemma marshal_byte_keys [simp]:
  "marshalPubKeyBytes byte_keys pk = Ok (replicate KEMPublicKeySize pk @ [pk])"
  by (simp add: marshalPubKeyBytes_def)

section \<open>A protobuf library\<close>

definition table_proto :: "(proto_message \<times> bytes) list \<Rightarrow> protolib" where
  "table_proto T =
     (let marshal = (\<lambda>m. case map_of T m of Some b \<Rightarrow> Ok b | None \<Rightarrow> Err (New ''no encoding'')) in
      \<lparr>pl_Marshal = marshal, pl_MarshalDet = marshal,
       pl_Unmarshal = \<lambda>k b.
         (case map_of (map (\<lambda>(m, b). ((proto_kind_of m, b), m)) T) (k, b) of
            Some m \<Rightarrow> Ok m | None \<Rightarrow> Err (New ''no message''))\<rparr>)"

lemma table_proto_marshal [simp]:
  "pl_Marshal (table_proto T) m =
     (case map_of T m of Some b \<Rightarrow> Ok b | None \<Rightarrow> Err (New ''no encoding''))"
  "pl_MarshalDet (table_proto T) m =
     (case map_of T m of Some b \<Rightarrow> Ok b | None \<Rightarrow> Err (New ''no encoding''))"
  by (simp_all add: table_proto_def Let_def)

lemma table_proto_unmarshal:
  assumes "distinct (map snd T)" and "map_of T m = Some b"
  shows "pl_Unmarshal (table_proto T) (proto_kind_of m) b = Ok m"
proof -
  have "map_of (map (\<lambda>(m, b). ((proto_kind_of m, b), m)) T) (proto_kind_of m, b) = Some m"
    using assms
  proof (induction T)
    case Nil
    then show ?case by simp
  next
    case (Cons p T)
    obtain m' b' where p: "p = (m', b')" by (cases p)
    show ?case
    proof (cases "m' = m")
      case True
      with Cons.prems p show ?thesis by simp
    next
      case False
      with Cons.prems p have "map_of T m = Some b" by simp
      then have "b \<in> set (map snd T)" by (force dest: map_of_SomeD)
      with Cons.prems(1) p have "b' \<noteq> b" by auto
      with Cons p \<open>map_of T m = Some b\<close> show ?thesis by simp
    qed
  qed
  then show ?thesis by (simp add: table_proto_def Let_def)
qed

lemma table_proto_decodes [simp]:
  "distinct (map snd T) \<Longrightarrow> proto_decodes (table_proto T)"
  "distinct (map snd T) \<Longrightarrow> proto_decodes_det (table_proto T)"
  by (auto simp: proto_decodes_def proto_decodes_det_def table_proto_unmarshal split: option.splits)

lemma byte_table_no_panic [simp]: "libs_no_panic byte_keys (table_proto T)"
  by (simp add: libs_no_panic_def split: option.splits) (simp add: byte_keys_def)

section \<open>Trust stores and a certified prover\<close>

definition sample_admin :: "string \<Rightarrow> byte AdminCAImpl" where
  "sample_admin h = \<lparr>ca_pubKey = 7, ca_pubKeyBytes = replicate KEMPublicKeySize 7 @ [7], ca_hash = h\<rparr>"

definition sample_admin_hash :: string where
  "sample_admin_hash = EncodeToString (Sum256 [7])"

definition sample_user_hash :: string where
  "sample_user_hash = EncodeToString (Sum256 [9])"

definition sample_store :: "string \<Rightarrow> (byte, unit) carrierAuth" where
  "sample_store h = NewCarrierAuth\<lparr>adminCAs := [h \<mapsto> sample_admin h]\<rparr>"

lemma sample_store_simps [simp]:
  "adminCAs (sample_store h) = [h \<mapsto> sample_admin h]" "userCAs (sample_store h) = Map.empty"
  "revokedAdminCAs (sample_store h) = {}" "revokedUserCAs (sample_store h) = {}"
  "revokedNodes (sample_store h) = {}"
  by (simp_all add: sample_store_def NewCarrierAuth_def)

text \<open>A user CA with key 9, anchored by the admin CA \<open>h\<close>, as a peer sends it.\<close>

definition sample_authority :: "string \<Rightarrow> EmbeddedCA" where
  "sample_authority h =
     \<lparr>ea_Type = ''user-ca'', ea_PubKEM = replicate KEMPublicKeySize 9, ea_PubSign = [9],
      ea_AnchorSig = 7 # DomainSeparate CTXUserCAAnchorV1 (replicate KEMPublicKeySize 9 @ [9]),
      ea_AnchorAdmin = h\<rparr>"

text \<open>The certificate of the node with key 5, issued by \<open>h\<close>, and its delegation.\<close>

definition sample_cert :: "string \<Rightarrow> byte nodecert" where
  "sample_cert h =
     \<lparr>certVersion = 1, nodePubKey = 5, issuerCAHash = h, validFrom = 0,
      validUntil = 1000, serial = [1], certNonce = [2], nodeID = replicate 32 5\<rparr>"

definition sample_proof :: delegation_proof where
  "sample_proof =
     \<lparr>tlsCertPubKeyHash = Sum256 [10], tlsExporterBinding = replicate 32 11,
      tlsTranscriptHash = replicate 32 12, x509Fingerprint = Sum256 [13],
      nodeCertBundleHash = Sum256 [2], notBefore = 100, notAfter = 400\<rparr>"

definition sample_wire :: "string \<Rightarrow> WireAuthMessage" where
  "sample_wire h =
     \<lparr>wa_Certs = [\<lparr>wc_CertVersion = 1, wc_NodePubKey = replicate KEMPublicKeySize 5 @ [5],
                   wc_IssuerCaHash = h, wc_ValidFrom = 0, wc_ValidUntil = 1000, wc_Serial = [1],
                   wc_CertNonce = [2]\<rparr>],
      wa_CaSignatures = [7 # DomainSeparate CTXNodeAdmissionV1 [1]], wa_Authorities = [],
      wa_Delegation = Some (delegation_to_pb sample_proof),
      wa_DelegationSig = 5 # DomainSeparate CTXNodeDelegationV1 [3]\<rparr>"

text \<open>The encodings the prover and the verifier need: the certificate, the bundle, the proof,
  the proof without exporter value and the auth message.\<close>

definition sample_table :: "string \<Rightarrow> (proto_message \<times> bytes) list" where
  "sample_table h =
     [(PCanonicalCert (canonical_cert (sample_cert h) (replicate KEMPublicKeySize 5 @ [5])), [1]),
      (PCanonicalCertBundle [[1]], [2]),
      (PCanonicalDelegation
         \<lparr>cd_TlsCertPubKeyHash = Sum256 [10], cd_TlsExporterBinding = replicate 32 11,
          cd_TlsTranscriptHash = replicate 32 12, cd_X509Fingerprint = Sum256 [13],
          cd_NodeCertBundleHash = Sum256 [2], cd_NotBefore = 100, cd_NotAfter = 400\<rparr>, [3]),
      (PCanonicalDelegationNoExporter
         \<lparr>ne_TlsCertPubKeyHash = Sum256 [10], ne_TlsTranscriptHash = replicate 32 12,
          ne_X509Fingerprint = Sum256 [13], ne_NodeCertBundleHash = Sum256 [2],
          ne_NotBefore = 100, ne_NotAfter = 400\<rparr>, [4]),
      (PWireAuthMessage (sample_wire h), [5])]"

abbreviation sample_proto :: "string \<Rightarrow> protolib" where
  "sample_proto h \<equiv> table_proto (sample_table h)"

definition sample_tls :: TLSBindings where
  "sample_tls =
     \<lparr>tb_CertPubKeyHash = Sum256 [10], tb_ExporterBinding = replicate 32 11,
      tb_X509Fingerprint = Sum256 [13], tb_TranscriptHash = replicate 32 12\<rparr>"

text \<open>The handshake of that node, its certificate signed with the CA key \<open>k\<close>.\<close>

definition sample_handshake :: "string \<Rightarrow> byte \<Rightarrow> EmbeddedCA list \<Rightarrow> byte PeerHandshake" where
  "sample_handshake h k authorities =
     \<lparr>ph_Certs = [Some (frozen (sample_cert h))],
      ph_CASignatures = [k # DomainSeparate CTXNodeAdmissionV1 [1]],
      ph_Authorities = authorities, ph_DelegationProof = Some (frozen sample_proof),
      ph_DelegationSig = 5 # DomainSeparate CTXNodeDelegationV1 [3], ph_TLS = sample_tls\<rparr>"

lemma sample_encodings [simp]:
  "CanonicalNodeCert byte_keys (sample_proto h) (sample_cert h) = Ok [1]"
  "CanonicalNodeCertBundle byte_keys (sample_proto h) [sample_cert h] = Ok [2]"
  "CanonicalDelegationProof (sample_proto h) sample_proof = Ok [3]"
  "CanonicalDelegationProofForExporter (sample_proto h) sample_proof = Ok [4]"
proof -
  show c: "CanonicalNodeCert byte_keys (sample_proto h) (sample_cert h) = Ok [1]"
    by (simp add: CanonicalNodeCert_def sample_table_def) (simp add: sample_cert_def)
  show "CanonicalNodeCertBundle byte_keys (sample_proto h) [sample_cert h] = Ok [2]"
    by (simp add: CanonicalNodeCertBundle_def c) (simp add: sample_table_def sort_Slice_def)
  show "CanonicalDelegationProof (sample_proto h) sample_proof = Ok [3]"
    by (simp add: CanonicalDelegationProof_def sample_table_def sample_proof_def)
  show "CanonicalDelegationProofForExporter (sample_proto h) sample_proof = Ok [4]"
    by (simp add: CanonicalDelegationProofForExporter_def sample_table_def sample_proof_def)
qed

lemma sample_table_distinct [simp]: "distinct (map snd (sample_table h))"
  by (simp add: sample_table_def)

lemma sample_snapshot [simp]:
  "snapshotCerts byte_keys (ph_Certs (sample_handshake h k as)) = Ok [sample_cert h]"
  using snapshotCerts_frozen [of byte_keys "[sample_cert h]" "[sample_cert h]"]
  by (simp add: sample_handshake_def sample_cert_def DefaultCertVersion_def)

lemma sample_session_bound:
  "session_bound byte_keys (sample_proto h) 5 sample_proof (ph_DelegationSig (sample_handshake h k as))
     [sample_cert h] (ph_TLS (sample_handshake h k as)) 200"
  by (simp add: session_bound_def sample_handshake_def sample_tls_def) (simp add: sample_proof_def)

text \<open>The sample handshake is accepted under every trust that has its issuer's key \<open>k\<close>.\<close>

definition sample_result :: "byte trustSnapshot \<Rightarrow> string \<Rightarrow> byte authResult" where
  "sample_result ts h =
     \<lparr>ar_nodePubKey = 5, ar_nodeID = replicate 32 5, ar_adminValid = (h \<in> dom (ts_adminCAs ts)),
      ar_userHashes = (if h \<in> dom (ts_adminCAs ts) then [] else [h])\<rparr>"

lemma sample_chain:
  assumes b: "issuer_key ts h = Some b" "ca_pubKey b = k"
    and nr: "h \<notin> ts_revokedAdminCAs ts" "h \<notin> ts_revokedUserCAs ts" "replicate 32 5 \<notin> ts_revokedNodes ts"
    and an: "\<forall>u. ts_userCAs ts h = Some u \<longrightarrow>
               anchorAdminHash u \<in> dom (ts_adminCAs ts) - ts_revokedAdminCAs ts"
  shows "chain_spec byte_keys ts (accepted_certs byte_keys (sample_proto h) ts 200 [sample_cert h]
      [k # DomainSeparate CTXNodeAdmissionV1 [1]]) (sample_result ts h)"
proof -
  let ?sig = "k # DomainSeparate CTXNodeAdmissionV1 [1]" and ?c = "sample_cert h"
  have h: "issuerCAHash ?c = h" "nodePubKey ?c = 5" by (simp_all add: sample_cert_def)
  have "h \<in> dom (ts_adminCAs ts) \<union> dom (ts_userCAs ts)"
    using b(1) by (auto simp: issuer_key_def split: option.splits)
  then have cur: "cert_current byte_keys ts 200 ?c"
    using nr an unfolding cert_current_def h by (simp add: sample_cert_def)
  have "cert_signed byte_keys (sample_proto h) ts ?c ?sig"
    by (simp add: cert_signed_def h b ca_Verify_def)
  with cur have "accepted_certs byte_keys (sample_proto h) ts 200 [?c] [?sig] = [(?c, ?sig)]"
    by (simp add: accepted_certs_def)
  then show ?thesis by (simp add: chain_spec_def admin_issued_def sample_result_def h)
qed

lemma sample_accepted:
  assumes e: "effective_trust byte_keys ca as = Ok ts"
    and "issuer_key ts h = Some b" "ca_pubKey b = k"
    and "h \<notin> ts_revokedAdminCAs ts" "h \<notin> ts_revokedUserCAs ts" "replicate 32 5 \<notin> ts_revokedNodes ts"
    and "\<forall>u. ts_userCAs ts h = Some u \<longrightarrow>
               anchorAdminHash u \<in> dom (ts_adminCAs ts) - ts_revokedAdminCAs ts"
  shows "VerifyPeerCert byte_keys (sample_proto h) ca 200 (sample_handshake h k as) =
    Ok (deriveScope (sample_result ts h))"
proof -
  have "chain_spec byte_keys ts (accepted_certs byte_keys (sample_proto h) ts 200 [sample_cert h]
      (ph_CASignatures (sample_handshake h k as))) (sample_result ts h)"
    using sample_chain [OF assms(2-7)] by (simp add: sample_handshake_def)
  moreover have "ar_nodePubKey (sample_result ts h) = 5" by (simp add: sample_result_def)
  ultimately have "peer_spec byte_keys (sample_proto h) ca 200 (sample_handshake h k as)
      (deriveScope (sample_result ts h))"
    unfolding peer_spec_def
    using sample_session_bound [of h k as] e sample_snapshot [of h k as]
    by (intro exI [of _ "[sample_cert h]"] exI [of _ sample_proof] exI [of _ ts]
          exI [of _ "sample_result ts h"]) (simp add: sample_handshake_def)
  then show ?thesis by (simp add: VerifyPeerCert_complete)
qed

definition sample_admin_ctx :: AuthContext where
  "sample_admin_ctx =
     \<lparr>ac_NodeID = replicate 32 5, ac_EffectiveScope = ScopeAdmin, ac_HasValidAdminCert = True,
      ac_AllowedUserCAOwners = []\<rparr>"

definition sample_user_ctx :: AuthContext where
  "sample_user_ctx =
     \<lparr>ac_NodeID = replicate 32 5, ac_EffectiveScope = ScopeUser, ac_HasValidAdminCert = False,
      ac_AllowedUserCAOwners = [sample_user_hash]\<rparr>"

lemma sample_admin_accepted:
  assumes "adminCAs ca h = Some (sample_admin h)" "userCAs ca h = None"
    "h \<notin> revokedAdminCAs ca" "h \<notin> revokedUserCAs ca" "replicate 32 5 \<notin> revokedNodes ca"
  shows "VerifyPeerCert byte_keys (sample_proto h) ca 200 (sample_handshake h 7 []) =
    Ok sample_admin_ctx"
  using assms sample_accepted [of ca "[]" "snapTrustStore ca" h "sample_admin h" 7]
  by (simp add: effective_trust_def snapTrustStore_def issuer_key_def sample_admin_def dom_def
      deriveScope_def sample_admin_ctx_def sample_result_def)

definition sample_user :: "byte UserCAImpl" where
  "sample_user =
     \<lparr>ca_pubKey = 9, ca_pubKeyBytes = replicate KEMPublicKeySize 9 @ [9], ca_hash = sample_user_hash,
      anchorSig = 7 # DomainSeparate CTXUserCAAnchorV1 (replicate KEMPublicKeySize 9 @ [9]),
      anchorAdminHash = ''admin''\<rparr>"

lemma anchorAdminHash_sample_user: "anchorAdminHash sample_user = ''admin''"
  by (simp add: sample_user_def)

lemma newCABase_byte_keys:
  "newCABase byte_keys (replicate KEMPublicKeySize k @ [k]) =
     Ok \<lparr>ca_pubKey = k, ca_pubKeyBytes = replicate KEMPublicKeySize k @ [k],
         ca_hash = EncodeToString (Sum256 [k])\<rparr>"
  by (simp add: newCABase_def splitAndParsePubKey_def caHash_def)

lemma sample_hash_length: "length sample_user_hash = 64" "length sample_admin_hash = 64"
  by (simp_all add: sample_user_hash_def sample_admin_hash_def)

lemma sample_hash_not_short: "sample_user_hash \<noteq> ''admin''" "sample_admin_hash \<noteq> ''old''"
proof -
  have "length sample_user_hash \<noteq> length ''admin''" "length sample_admin_hash \<noteq> length ''old''"
    by (simp_all add: sample_hash_length)
  then show "sample_user_hash \<noteq> ''admin''" "sample_admin_hash \<noteq> ''old''" by metis+
qed

lemma sample_withEmbedded:
  "withEmbeddedAuthorities byte_keys (snapTrustStore (sample_store ''admin''))
     [sample_authority ''admin''] =
   Ok (snapTrustStore (sample_store ''admin'')\<lparr>ts_userCAs := [sample_user_hash \<mapsto> sample_user]\<rparr>)"
  by (simp add: withEmbeddedAuthorities_def sample_authority_def addEmbeddedUser_def
      embeddedAuthorityPubKeyBytes_def NewUserCA_def newCABase_byte_keys Let_def)
     (simp add: sample_admin_def ca_Verify_def
      sample_user_def sample_user_hash_def caBase.extend_def UserCAImpl.fields_def)

lemma sample_user_accepted:
  "VerifyPeerCert byte_keys (sample_proto sample_user_hash) (sample_store ''admin'') 200
     (sample_handshake sample_user_hash 9 [sample_authority ''admin'']) = Ok sample_user_ctx"
proof -
  let ?ts = "snapTrustStore (sample_store ''admin'')\<lparr>ts_userCAs := [sample_user_hash \<mapsto> sample_user]\<rparr>"
  have "effective_trust byte_keys (sample_store ''admin'') [sample_authority ''admin''] = Ok ?ts"
    by (simp add: effective_trust_def sample_withEmbedded)
  moreover have "issuer_key ?ts sample_user_hash = Some (caBase.truncate sample_user)"
    "ca_pubKey (caBase.truncate sample_user) = 9"
    by (simp_all add: issuer_key_def sample_hash_not_short) (simp add: sample_user_def caBase.truncate_def)
  ultimately show ?thesis
    using sample_accepted [of "sample_store ''admin''" "[sample_authority ''admin'']" ?ts
        sample_user_hash "caBase.truncate sample_user" 9]
    by (simp add: sample_hash_not_short sample_user_ctx_def deriveScope_def sample_result_def
        anchorAdminHash_sample_user)
qed

section \<open>A connection and the prover's node identity\<close>

definition sample_ekm :: ExporterFunc where
  "sample_ekm label ctx n =
     Ok (if label = TranscriptBindingLabel then replicate n 12 else replicate n 11)"

definition sample_conn :: quicConnection where
  "sample_conn =
     \<lparr>qc_PeerCertificates = [\<lparr>xp_RawSubjectPublicKeyInfo = [10], xp_Raw = [13]\<rparr>],
      qc_ekm = sample_ekm, qc_nodeID = []\<rparr>"

definition sample_identity :: "string \<Rightarrow> (byte, byte) NodeIdentity" where
  "sample_identity h =
     \<lparr>ni_key = 5,
      ni_session = \<lparr>si_TLSCertificate = \<lparr>tc_Certificate = [[13]], tc_PrivateKey = [],
          tc_Leaf = \<lparr>xp_RawSubjectPublicKeyInfo = [10], xp_Raw = [13]\<rparr>\<rparr>,
        si_X509DER = [13], si_CertPubKeyHash = Sum256 [10], si_X509Fingerprint = Sum256 [13]\<rparr>,
      ni_certs = [sample_cert h], ni_caSigs = [7 # DomainSeparate CTXNodeAdmissionV1 [1]],
      ni_authorities = [], ni_nodeID = replicate 32 5\<rparr>"

definition sample_wire_bytes :: bytes where
  "sample_wire_bytes = [0, 0, 0, 1, 5]"

lemma byte_keys_kem_size [simp]: "kem_size_fixed byte_keys"
  by (simp add: kem_size_fixed_def)

lemma sample_cert_built [simp]: "cert_built byte_keys (sample_cert h)"
  by (simp add: cert_built_def sample_cert_def DefaultCertVersion_def)

lemma sample_labels [simp]: "ExporterLabel \<noteq> TranscriptBindingLabel"
  by (simp add: ExporterLabel_def TranscriptBindingLabel_def)

lemma sample_conn_ekm [simp]:
  "qc_ekm sample_conn TranscriptBindingLabel ctx n = Ok (replicate n 12)"
  "qc_ekm sample_conn ExporterLabel ctx n = Ok (replicate n 11)"
  by (simp_all add: sample_conn_def sample_ekm_def)

lemma sample_written:
  "writeAuthHandshake byte_keys (sample_proto h) (\<lambda>_. None) [sample_cert h]
     [7 # DomainSeparate CTXNodeAdmissionV1 [1]] [] sample_proof
     (5 # DomainSeparate CTXNodeDelegationV1 [3]) = Ok sample_wire_bytes"
proof -
  have c: "certToPB byte_keys (sample_cert h) = Ok (hd (wa_Certs (sample_wire h)))"
    by (simp add: certToPB_def sample_cert_def sample_wire_def)
  have m: "\<lparr>wa_Certs = [hd (wa_Certs (sample_wire h))],
      wa_CaSignatures = [7 # DomainSeparate CTXNodeAdmissionV1 [1]], wa_Authorities = [],
      wa_Delegation = Some (delegation_to_pb sample_proof),
      wa_DelegationSig = 5 # DomainSeparate CTXNodeDelegationV1 [3]\<rparr> = sample_wire h"
    by (simp add: sample_wire_def)
  have "pl_Marshal (sample_proto h) (PWireAuthMessage (sample_wire h)) = Ok [5]"
    by (simp add: sample_table_def)
  then show ?thesis
    by (simp add: writeAuthHandshake_def c m maxAuthMessageSize_def sample_wire_bytes_def be32_put_def
        del: table_proto_marshal)
qed

lemma sample_sent:
  "writeAuthHandshake byte_keys (sample_proto h) (\<lambda>_. None) (ni_certs (sample_identity h))
     (ni_caSigs (sample_identity h)) (ni_authorities (sample_identity h)) sample_proof
     (5 # DomainSeparate CTXNodeDelegationV1 [3]) = Ok sample_wire_bytes"
  using sample_written [of h] by (simp add: sample_identity_def)

lemma sample_signed:
  "SignDelegation byte_keys (sample_proto h) (ni_key (sample_identity h))
     (ni_certs (sample_identity h)) (ni_session (sample_identity h)) (qc_ekm sample_conn) 100 =
     Ok (sample_proof, 5 # DomainSeparate CTXNodeDelegationV1 [3])"
proof -
  have p: "NewDelegationProof (Sum256 [10]) (replicate 32 11) (replicate 32 12) (Sum256 [13])
      (Sum256 [2]) 100 400 = sample_proof"
    by (simp add: NewDelegationProof_def sample_proof_def)
  have n: "CanonicalDelegationProofForExporter (sample_proto h)
      (NewDelegationProof (Sum256 [10]) [] (replicate 32 12) (Sum256 [13]) (Sum256 [2]) 100 400) = Ok [4]"
    by (simp add: CanonicalDelegationProofForExporter_def NewDelegationProof_def sample_table_def)
  show ?thesis
    by (simp add: SignDelegation_def sample_identity_def go_defs Let_def p n)
qed

lemma sample_read:
  "readAuthHandshake byte_keys (sample_proto h)
     \<lparr>avail = sample_wire_bytes @ rest, fin = err\<rparr> sample_conn = Ok (sample_handshake h 7 [])"
proof -
  have "derived_bindings sample_conn (replicate TLSTranscriptHashSize 12)
      (replicate TLSExporterBindingSize 11) = sample_tls"
    by (simp add: derived_bindings_def conn_TLSBindings_def sample_conn_def sample_tls_def go_defs)
  then show ?thesis
    using readAuthHandshake_of_write [where K = byte_keys and P = "sample_proto h" and
      w = "\<lambda>_. None" and certs = "[sample_cert h]" and out = sample_wire_bytes and
      conn = sample_conn and rest = rest and err = err, OF _ _ _ _ sample_written]
    by (simp add: sample_handshake_def sample_wire_bytes_def)
qed

end
