(* ===== verification/Authentication.thy ===== *)
theory Authentication
  imports Samples
begin

text \<open>
  The properties of peer authentication: what an accepted handshake establishes, where admin
  and user authority can come from, that revocation is permanent, and the properties of the
  encodings and of the freezing of peer-supplied objects they rest on.
\<close>

section \<open>What an accepted handshake establishes\<close>

text \<open>C1: \<open>VerifyPeerCert\<close> accepts a handshake with a given authorization context exactly when the
  specification \<open>peer_spec\<close> allows it: on the frozen certificates, the certificates that are
  current and signed by a trusted issuer exist and agree on one node, the key they bind has
  signed a proof naming this TLS session and this bundle for a window of at most 300 seconds
  that contains the present, and the context is derived from them.\<close>

theorem VerifyPeerCert_exact:
  assumes "libs_no_panic K P"
  shows "VerifyPeerCert K P ca now hs = Ok ctx \<longleftrightarrow> peer_spec K P ca now hs ctx"
  using VerifyPeerCert_sound VerifyPeerCert_complete [OF assms] by blast

theorem VerifyPeerCert_exact_witness:
  "peer_spec byte_keys (sample_proto ''admin'') (sample_store ''admin'') 200
     (sample_handshake ''admin'' 7 []) sample_admin_ctx"
proof -
  have "VerifyPeerCert byte_keys (sample_proto ''admin'') (sample_store ''admin'') 200
     (sample_handshake ''admin'' 7 []) = Ok sample_admin_ctx"
    by (rule sample_admin_accepted) (simp_all add: sample_store_def NewCarrierAuth_def)
  from VerifyPeerCert_exact [THEN iffD1, OF _ this] show ?thesis by simp
qed



section \<open>Where authority comes from\<close>

lemma effective_trust_extension:
  "effective_trust K ca as = Ok ts \<Longrightarrow> anchored_extension K (snapTrustStore ca) ts"
  by (auto simp: effective_trust_def intro: withEmbeddedAuthorities_extension
      anchored_extension_refl split: if_splits)

lemma effective_trust_same:
  assumes "effective_trust K ca as = Ok ts"
  shows "ts_adminCAs ts = adminCAs ca" "ts_revokedAdminCAs ts = revokedAdminCAs ca"
    "ts_revokedUserCAs ts = revokedUserCAs ca" "ts_revokedNodes ts = revokedNodes ca"
  using anchored_extension_same [OF effective_trust_extension [OF assms]] by simp_all

text \<open>The accepted certificates behind an authorization context.\<close>

lemma VerifyPeerCert_chain:
  assumes "VerifyPeerCert K P ca now hs = Ok ctx"
  obtains certs ts res where "snapshotCerts K (ph_Certs hs) = Ok certs"
    and "effective_trust K ca (ph_Authorities hs) = Ok ts"
    and "chain_spec K ts (accepted_certs K P ts now certs (ph_CASignatures hs)) res"
    and "ctx = deriveScope res"
  using VerifyPeerCert_sound [OF assms] unfolding peer_spec_def by blast

lemma accepted_cert_facts:
  assumes "(c, sig) \<in> set (accepted_certs K P ts now certs sigs)"
  shows "(c, sig) \<in> set (zip certs sigs)" and "cert_current K ts now c" and "cert_signed K P ts c sig"
  using assms by (auto simp: accepted_certs_def)

lemma admin_scope_cert:
  assumes "VerifyPeerCert K P ca now hs = Ok ctx" and "ac_EffectiveScope ctx = ScopeAdmin"
  shows "\<exists>certs c sig a enc. snapshotCerts K (ph_Certs hs) = Ok certs \<and>
    (c, sig) \<in> set (zip certs (ph_CASignatures hs)) \<and>
    adminCAs ca (issuerCAHash c) = Some a \<and> issuerCAHash c \<notin> revokedAdminCAs ca \<and>
    CanonicalNodeCert K P c = Ok enc \<and>
    kl_Verify K (ca_pubKey a) (DomainSeparate CTXNodeAdmissionV1 enc) sig \<and>
    sint (validFrom c) \<le> sint now \<and> sint now \<le> sint (validUntil c) \<and>
    kl_NodeID K (nodePubKey c) = Ok (ac_NodeID ctx) \<and> ac_NodeID ctx \<notin> revokedNodes ca"
proof -
  obtain certs ts res where s: "snapshotCerts K (ph_Certs hs) = Ok certs"
    and e: "effective_trust K ca (ph_Authorities hs) = Ok ts"
    and r: "chain_spec K ts (accepted_certs K P ts now certs (ph_CASignatures hs)) res"
    and ctx: "ctx = deriveScope res"
    using VerifyPeerCert_chain [OF assms(1)] .
  note same = effective_trust_same [OF e]
  have "ar_adminValid res" using assms(2) ctx by (auto simp: deriveScope_def split: if_splits)
  then obtain c sig where m: "(c, sig) \<in> set (accepted_certs K P ts now certs (ph_CASignatures hs))"
    and ai: "admin_issued ts c"
    using r by (auto simp: chain_spec_def)
  note f = accepted_cert_facts [OF m]
  obtain a where a: "adminCAs ca (issuerCAHash c) = Some a"
    using ai by (auto simp: admin_issued_def same)
  then have "issuer_key ts (issuerCAHash c) = Some a" by (simp add: issuer_key_def same)
  then obtain enc where "CanonicalNodeCert K P c = Ok enc"
      "kl_Verify K (ca_pubKey a) (DomainSeparate CTXNodeAdmissionV1 enc) sig"
    using f(3) by (auto simp: cert_signed_def ca_Verify_def)
  moreover have "kl_NodeID K (nodePubKey c) = Ok (ac_NodeID ctx)"
    using r m ctx by (auto simp: chain_spec_def deriveScope_def)
  ultimately show ?thesis
    using s f(1,2) a by (fastforce simp: cert_current_def same)
qed

text \<open>C2: a peer obtains admin scope only with a certificate that an admin CA of the local trust
  store, not revoked, has signed over its canonical encoding, that is current and that binds
  the node the context names; nothing the peer sends along can add such a CA.\<close>

theorem admin_scope_rooted:
  assumes "VerifyPeerCert K P ca now hs = Ok ctx" and "ac_EffectiveScope ctx = ScopeAdmin"
  shows "\<exists>certs c sig a enc. snapshotCerts K (ph_Certs hs) = Ok certs \<and>
    (c, sig) \<in> set (zip certs (ph_CASignatures hs)) \<and>
    adminCAs ca (issuerCAHash c) = Some a \<and> issuerCAHash c \<notin> revokedAdminCAs ca \<and>
    CanonicalNodeCert K P c = Ok enc \<and>
    kl_Verify K (ca_pubKey a) (DomainSeparate CTXNodeAdmissionV1 enc) sig \<and>
    sint (validFrom c) \<le> sint now \<and> sint now \<le> sint (validUntil c) \<and>
    kl_NodeID K (nodePubKey c) = Ok (ac_NodeID ctx) \<and> ac_NodeID ctx \<notin> revokedNodes ca"
  by (rule admin_scope_cert [OF assms])

theorem admin_scope_rooted_witness:
  "\<exists>certs c sig a enc.
    snapshotCerts byte_keys (ph_Certs (sample_handshake ''admin'' 7 [])) = Ok certs \<and>
    (c, sig) \<in> set (zip certs (ph_CASignatures (sample_handshake ''admin'' 7 []))) \<and>
    adminCAs (sample_store ''admin'') (issuerCAHash c) = Some a \<and>
    issuerCAHash c \<notin> revokedAdminCAs (sample_store ''admin'') \<and>
    CanonicalNodeCert byte_keys (sample_proto ''admin'') c = Ok enc \<and>
    kl_Verify byte_keys (ca_pubKey a) (DomainSeparate CTXNodeAdmissionV1 enc) sig \<and>
    sint (validFrom c) \<le> sint (200 :: int64) \<and> sint (200 :: int64) \<le> sint (validUntil c) \<and>
    kl_NodeID byte_keys (nodePubKey c) = Ok (ac_NodeID sample_admin_ctx) \<and>
    ac_NodeID sample_admin_ctx \<notin> revokedNodes (sample_store ''admin'')"
proof (rule admin_scope_rooted)
  show "VerifyPeerCert byte_keys (sample_proto ''admin'') (sample_store ''admin'') 200
     (sample_handshake ''admin'' 7 []) = Ok sample_admin_ctx"
    by (rule sample_admin_accepted) simp_all
qed (simp add: sample_admin_ctx_def)

lemma user_scope_owner:
  assumes "VerifyPeerCert K P ca now hs = Ok ctx" and "ac_EffectiveScope ctx \<noteq> ScopeAdmin"
  shows "ac_EffectiveScope ctx = ScopeUser \<and> ac_AllowedUserCAOwners ctx \<noteq> [] \<and>
    (\<forall>h \<in> set (ac_AllowedUserCAOwners ctx). h \<notin> revokedUserCAs ca \<and> h \<notin> revokedAdminCAs ca \<and>
      (\<exists>u admin. adminCAs ca (anchorAdminHash u) = Some admin \<and>
         anchorAdminHash u \<notin> revokedAdminCAs ca \<and>
         (userCAs ca h = Some u \<or>
          (\<exists>pubBytes. userCAs ca h = None \<and> ca_hash u = h \<and>
             NewUserCA K pubBytes (anchorSig u) (anchorAdminHash u) = Ok u \<and>
             ca_Verify K admin (DomainSeparate CTXUserCAAnchorV1 pubBytes) (anchorSig u)))))"
proof -
  obtain certs ts res where e: "effective_trust K ca (ph_Authorities hs) = Ok ts"
    and r: "chain_spec K ts (accepted_certs K P ts now certs (ph_CASignatures hs)) res"
    and ctx: "ctx = deriveScope res"
    using VerifyPeerCert_chain [OF assms(1)] .
  note same = effective_trust_same [OF e] and ext = effective_trust_extension [OF e]
  have na: "\<not> ar_adminValid res" and owners: "ac_AllowedUserCAOwners ctx = ar_userHashes res"
      "ac_EffectiveScope ctx = ScopeUser"
    using assms(2) ctx by (auto simp: deriveScope_def split: if_splits)
  let ?A = "accepted_certs K P ts now certs (ph_CASignatures hs)"
  have hashes: "ar_userHashes res = map (issuerCAHash \<circ> fst) ?A"
    using r na by (auto simp: chain_spec_def filter_id_conv
        intro!: arg_cong [where f = "map (issuerCAHash \<circ> fst)"])
  have "h \<notin> revokedUserCAs ca \<and> h \<notin> revokedAdminCAs ca \<and>
      (\<exists>u admin. adminCAs ca (anchorAdminHash u) = Some admin \<and>
         anchorAdminHash u \<notin> revokedAdminCAs ca \<and>
         (userCAs ca h = Some u \<or>
          (\<exists>pubBytes. userCAs ca h = None \<and> ca_hash u = h \<and>
             NewUserCA K pubBytes (anchorSig u) (anchorAdminHash u) = Ok u \<and>
             ca_Verify K admin (DomainSeparate CTXUserCAAnchorV1 pubBytes) (anchorSig u))))"
    if h: "h \<in> set (ar_userHashes res)" for h
  proof -
    obtain c sig where c: "(c, sig) \<in> set ?A" "h = issuerCAHash c"
      using h unfolding hashes by auto
    have "\<not> admin_issued ts c" using r na c by (auto simp: chain_spec_def)
    then obtain u where u: "ts_userCAs ts h = Some u"
      using accepted_cert_facts(2) [OF c(1)] c(2)
      by (auto simp: cert_current_def admin_issued_def)
    then obtain admin where admin: "adminCAs ca (anchorAdminHash u) = Some admin"
      "anchorAdminHash u \<notin> revokedAdminCAs ca"
      using accepted_cert_facts(2) [OF c(1)] c(2) by (auto simp: cert_current_def same)
    have "userCAs ca h = Some u \<or>
          (\<exists>pubBytes. userCAs ca h = None \<and> ca_hash u = h \<and>
             NewUserCA K pubBytes (anchorSig u) (anchorAdminHash u) = Ok u \<and>
             ca_Verify K admin (DomainSeparate CTXUserCAAnchorV1 pubBytes) (anchorSig u))"
      using anchored_extension_user [OF ext u] admin(1) by simp
    with admin c show ?thesis
      using accepted_cert_facts(2) [OF c(1)] by (auto simp: cert_current_def same)
  qed
  moreover have "ar_userHashes res \<noteq> []" using r hashes by (auto simp: chain_spec_def)
  ultimately show ?thesis using owners by auto
qed

text \<open>C6: a peer without admin scope gets user scope with at least one owner, and every owner it
  may act for is a user CA that is not revoked, is anchored at an unrevoked admin CA of the
  local store, and either is in the local store or was sent along with a signature of that
  admin CA over its public key.\<close>

theorem user_scope_owners_anchored:
  assumes "VerifyPeerCert K P ca now hs = Ok ctx" and "ac_EffectiveScope ctx \<noteq> ScopeAdmin"
  shows "ac_EffectiveScope ctx = ScopeUser \<and> ac_AllowedUserCAOwners ctx \<noteq> [] \<and>
    (\<forall>h \<in> set (ac_AllowedUserCAOwners ctx). h \<notin> revokedUserCAs ca \<and> h \<notin> revokedAdminCAs ca \<and>
      (\<exists>u admin. adminCAs ca (anchorAdminHash u) = Some admin \<and>
         anchorAdminHash u \<notin> revokedAdminCAs ca \<and>
         (userCAs ca h = Some u \<or>
          (\<exists>pubBytes. userCAs ca h = None \<and> ca_hash u = h \<and>
             NewUserCA K pubBytes (anchorSig u) (anchorAdminHash u) = Ok u \<and>
             ca_Verify K admin (DomainSeparate CTXUserCAAnchorV1 pubBytes) (anchorSig u)))))"
  by (rule user_scope_owner [OF assms])

theorem user_scope_owners_anchored_witness:
  "ac_AllowedUserCAOwners sample_user_ctx \<noteq> [] \<and>
   sample_user_hash \<notin> revokedUserCAs (sample_store ''admin'') \<and>
   (\<exists>(u :: byte UserCAImpl) admin.
      adminCAs (sample_store ''admin'') (anchorAdminHash u) = Some admin)"
proof -
  have "ac_EffectiveScope sample_user_ctx \<noteq> ScopeAdmin"
    and "sample_user_hash \<in> set (ac_AllowedUserCAOwners sample_user_ctx)"
    by (simp_all add: sample_user_ctx_def)
  with user_scope_owners_anchored [OF sample_user_accepted] show ?thesis by blast
qed

text \<open>C22: CA certificates sent along with a handshake change the trust a verification runs on
  only by adding user CAs that an unrevoked admin CA of the store has signed; the admin CAs and
  all revocation lists stay those of the store.\<close>

theorem embedded_authorities_add_only_anchored_users:
  assumes "withEmbeddedAuthorities K (snapTrustStore ca) authorities = Ok ts"
  shows "anchored_extension K (snapTrustStore ca) ts \<and> ts_adminCAs ts = adminCAs ca \<and>
    ts_revokedAdminCAs ts = revokedAdminCAs ca \<and> ts_revokedUserCAs ts = revokedUserCAs ca \<and>
    ts_revokedNodes ts = revokedNodes ca"
  using withEmbeddedAuthorities_extension [OF assms]
    anchored_extension_same [OF withEmbeddedAuthorities_extension [OF assms]] by simp

theorem embedded_authorities_add_only_anchored_users_witness:
  "anchored_extension byte_keys (snapTrustStore (sample_store ''admin''))
     (snapTrustStore (sample_store ''admin'')\<lparr>ts_userCAs := [sample_user_hash \<mapsto> sample_user]\<rparr>)"
  using embedded_authorities_add_only_anchored_users [OF sample_withEmbedded] by simp

section \<open>Revocation is permanent\<close>

text \<open>C7: once a node is revoked, no handshake is accepted for it in any later state of the store,
  whatever operations ran in between.\<close>

theorem revoked_node_never_accepted:
  assumes "nid \<in> revokedNodes ca"
    and "VerifyPeerCert K P (fold (exec_op K) ops ca) now hs = Ok ctx"
  shows "ac_NodeID ctx \<noteq> nid"
proof -
  let ?ca = "fold (exec_op K) ops ca"
  obtain certs ts res where e: "effective_trust K ?ca (ph_Authorities hs) = Ok ts"
    and r: "chain_spec K ts (accepted_certs K P ts now certs (ph_CASignatures hs)) res"
    and ctx: "ctx = deriveScope res"
    using VerifyPeerCert_chain [OF assms(2)] .
  obtain c sig where c: "(c, sig) \<in> set (accepted_certs K P ts now certs (ph_CASignatures hs))"
    and "kl_NodeID K (nodePubKey c) = Ok (ac_NodeID ctx)"
    using chain_spec_member [OF r] ctx by auto
  then have "ac_NodeID ctx \<notin> revokedNodes ?ca"
    using accepted_cert_facts(2) [OF c] by (auto simp: cert_current_def effective_trust_same [OF e])
  then show ?thesis using assms(1) node_log.revoked_run by blast
qed

theorem revoked_node_never_accepted_witness:
  "ac_NodeID sample_admin_ctx \<noteq> replicate 32 6"
proof -
  let ?ca = "sample_store ''admin''\<lparr>revokedNodes := {replicate 32 6}\<rparr>"
  let ?ca' = "fold (exec_op byte_keys) [OpRevokeUserCA ''u''] ?ca"
  have ca': "?ca' = ?ca\<lparr>revokedUserCAs := {''u''}\<rparr>"
    by (simp add: exec_op_def RevokeUserCA_def sample_store_def NewCarrierAuth_def
        MaxRevocationEntries_def)
  have "(6 :: byte) \<noteq> 5" by simp
  then have "VerifyPeerCert byte_keys (sample_proto ''admin'') ?ca' 200 (sample_handshake ''admin'' 7 [])
      = Ok sample_admin_ctx"
    unfolding ca'
    by (intro sample_admin_accepted) (simp_all add: sample_store_def NewCarrierAuth_def)
  then show ?thesis
    by (rule revoked_node_never_accepted [rotated]) simp
qed

text \<open>C8: once an admin CA is revoked, no later handshake, in any state of the store reached by
  any operations, is accepted on the strength of a certificate it issued or of a user CA it
  anchored: an accepted certificate has another issuer and another anchor.\<close>

theorem revoked_admin_never_relied_on:
  assumes "store_inv K ca" and "h \<in> revokedAdminCAs ca"
    and "VerifyPeerCert K P (fold (exec_op K) ops ca) now hs = Ok ctx"
  shows "h \<notin> dom (adminCAs (fold (exec_op K) ops ca)) \<and>
    (\<exists>certs ts. snapshotCerts K (ph_Certs hs) = Ok certs \<and>
      effective_trust K (fold (exec_op K) ops ca) (ph_Authorities hs) = Ok ts \<and>
      (\<exists>(c, sig) \<in> set (accepted_certs K P ts now certs (ph_CASignatures hs)).
         kl_NodeID K (nodePubKey c) = Ok (ac_NodeID ctx)) \<and>
      (\<forall>(c, sig) \<in> set (accepted_certs K P ts now certs (ph_CASignatures hs)).
         issuerCAHash c \<noteq> h \<and>
         (\<forall>u. ts_userCAs ts (issuerCAHash c) = Some u \<longrightarrow> anchorAdminHash u \<noteq> h)))"
proof -
  let ?ca = "fold (exec_op K) ops ca"
  obtain certs ts res where s: "snapshotCerts K (ph_Certs hs) = Ok certs"
    and e: "effective_trust K ?ca (ph_Authorities hs) = Ok ts"
    and r: "chain_spec K ts (accepted_certs K P ts now certs (ph_CASignatures hs)) res"
    and ctx: "ctx = deriveScope res"
    using VerifyPeerCert_chain [OF assms(3)] .
  have h: "h \<in> revokedAdminCAs ?ca" using assms(2) admin_store.revoked_run by blast
  have "\<forall>(c, sig) \<in> set (accepted_certs K P ts now certs (ph_CASignatures hs)).
         issuerCAHash c \<noteq> h \<and>
         (\<forall>u. ts_userCAs ts (issuerCAHash c) = Some u \<longrightarrow> anchorAdminHash u \<noteq> h)"
    using h by (auto dest!: accepted_cert_facts(2) simp: cert_current_def effective_trust_same [OF e])
  moreover have "\<exists>(c, sig) \<in> set (accepted_certs K P ts now certs (ph_CASignatures hs)).
         kl_NodeID K (nodePubKey c) = Ok (ac_NodeID ctx)"
    by (rule chain_spec_member [OF r]) (use ctx in auto)
  ultimately show ?thesis
    using s e admin_store.never_active_again [OF assms(1,2)] by blast
qed

theorem revoked_admin_never_relied_on_witness:
  "''old'' \<notin> dom (adminCAs (fold (exec_op byte_keys) [OpRevokeNode (replicate 32 6)]
     (sample_store sample_admin_hash\<lparr>revokedAdminCAs := {''old''}\<rparr>)))"
proof -
  let ?ca = "sample_store sample_admin_hash\<lparr>revokedAdminCAs := {''old''}\<rparr>"
  let ?ca' = "fold (exec_op byte_keys) [OpRevokeNode (replicate 32 6)] ?ca"
  note old = sample_hash_not_short(2)
  have ca': "?ca' = ?ca\<lparr>revokedNodes := {replicate 32 6}\<rparr>"
    by (simp add: exec_op_def RevokeNode_def sample_store_def NewCarrierAuth_def MaxRevocationEntries_def)
  have "ca_wf byte_keys sample_admin_hash (sample_admin sample_admin_hash)"
    by (simp add: ca_wf_def sample_admin_def caHash_def sample_admin_hash_def)
  then have inv: "store_inv byte_keys ?ca"
    using old by (simp add: store_inv_def sample_store_def NewCarrierAuth_def list_ok_def
        MaxRevocationEntries_def)
  have "(6 :: byte) \<noteq> 5" by simp
  then have "VerifyPeerCert byte_keys (sample_proto sample_admin_hash) ?ca' 200
      (sample_handshake sample_admin_hash 7 []) = Ok sample_admin_ctx"
    unfolding ca' using old
    by (intro sample_admin_accepted) (simp_all add: sample_store_def NewCarrierAuth_def)
  from revoked_admin_never_relied_on [OF inv _ this, of "''old''"] show ?thesis by simp
qed

text \<open>C18: the invariant of the trust store holds in every state any sequence of operations reaches
  from the empty store: CAs are filed under the hash of their signing key with their canonical
  bytes, every user CA carries an anchor signature by the CA it names, no revoked CA is
  trusted, and no revocation list exceeds its capacity.\<close>

theorem store_inv_always: "store_inv K (fold (exec_op K) ops NewCarrierAuth)"
  by (rule admin_store.inv_run [OF store_inv_init])

section \<open>Time\<close>

text \<open>C19: the freshness check accepts a proof exactly when the present lies in its window and the
  window, computed without wrap-around, is at most 300 seconds long, although the code computes
  its length with wrapping 64-bit subtraction; and the exporter and transcript values are the
  ones derived from this TLS session.\<close>

theorem verifyFreshness_window:
  "verifyFreshness P proof exporter transcript now = Ok () \<longleftrightarrow>
     sint (notBefore proof) \<le> sint now \<and> sint now \<le> sint (notAfter proof) \<and>
     sint (notAfter proof) - sint (notBefore proof) \<le> 300 \<and>
     (\<exists>enc. CanonicalDelegationProofForExporter P proof = Ok enc) \<and>
     tlsExporterBinding proof = exporter \<and> tlsTranscriptHash proof = transcript"
  by (auto simp: verifyFreshness_Ok_iff is_Ok_iff)

section \<open>Encodings\<close>

text \<open>C23: domain-separated messages are equal only for the same context and the same data, so a
  signature made for one purpose (admission, anchoring, delegation) never verifies as one
  made for another.\<close>

theorem DomainSeparate_injective:
  assumes "length c < 2 ^ 32" and "length c' < 2 ^ 32"
  shows "DomainSeparate c d = DomainSeparate c' d' \<longleftrightarrow> c = c' \<and> d = d'"
  by (rule DomainSeparate_eq_iff [OF assms])

theorem DomainSeparate_injective_witness:
  "\<forall>d d'. DomainSeparate CTXNodeAdmissionV1 d \<noteq> DomainSeparate CTXUserCAAnchorV1 d' \<and>
   DomainSeparate CTXNodeAdmissionV1 d \<noteq> DomainSeparate CTXNodeDelegationV1 d' \<and>
   DomainSeparate CTXUserCAAnchorV1 d \<noteq> DomainSeparate CTXNodeDelegationV1 d'"
  by (simp add: DomainSeparate_injective CTXNodeAdmissionV1_def CTXUserCAAnchorV1_def
      CTXNodeDelegationV1_def)



text \<open>The verifier of a certificate rebuilds exactly the bytes the signer gets from
  \<open>CanonicalNodeCert\<close>: \<open>VerifyNodeCert\<close> succeeds if and only if the CA's key verifies the
  signature over the separated canonical encoding, and then returns the node ID of the key.\<close>

lemma VerifyNodeCert_exact:
  "VerifyNodeCert K P b cert sig = Ok nid \<longleftrightarrow>
     (\<exists>enc. CanonicalNodeCert K P cert = Ok enc \<and>
        kl_Verify K (ca_pubKey b) (DomainSeparate CTXNodeAdmissionV1 enc) sig \<and>
        kl_NodeID K (nodePubKey cert) = Ok nid)"
  by (simp add: VerifyNodeCert_Ok_iff ca_Verify_def)

section \<open>Peer-supplied objects\<close>

text \<open>C25: however a certificate object answers its calls, every frozen certificate of a bundle
  has the node ID of its own frozen public key, the first version it reported is the supported
  one, and freezing never panics; an object that answers consistently is frozen to its
  fields.\<close>

theorem snapshotCerts_consistent:
  "snapshotCerts K cs \<noteq> Panic \<and>
   (\<forall>ss. snapshotCerts K cs = Ok ss \<longrightarrow> length ss = length cs \<and>
      (\<forall>i < length cs. kl_NodeID K (nodePubKey (ss ! i)) = Ok (nodeID (ss ! i)) \<and>
         (\<exists>c. cs ! i = Some c \<and> certVersion (c 0) = DefaultCertVersion \<and>
            (\<forall>v. c = frozen v \<longrightarrow> ss ! i = v))))"
proof (intro conjI allI impI)
  show "snapshotCerts K cs \<noteq> Panic" by (simp add: snapshotCerts_def)
next
  fix ss
  assume ok: "snapshotCerts K cs = Ok ss"
  then show "length ss = length cs" by (rule snapshotCerts_length)
  fix i
  assume i: "i < length cs"
  then obtain c where c: "cs ! i = Some c" "snapshotCert K c = Ok (ss ! i)"
    using ok by (auto simp: snapshotCerts_Ok_iff list_all2_conv_all_nth)
  from snapshotCert_NodeID [OF c(2)]
  show "kl_NodeID K (nodePubKey (ss ! i)) = Ok (nodeID (ss ! i))" .
  have "certVersion (c 0) = DefaultCertVersion"
    using c(2) by (auto simp: snapshotCert_def Let_def split: if_splits)
  moreover have "\<forall>v. c = frozen v \<longrightarrow> ss ! i = v"
    using c(2) by (auto simp: snapshotCert_frozen)
  ultimately show "\<exists>c. cs ! i = Some c \<and> certVersion (c 0) = DefaultCertVersion \<and>
      (\<forall>v. c = frozen v \<longrightarrow> ss ! i = v)"
    using c(1) by blast
qed

theorem snapshotCerts_consistent_witness:
  "kl_NodeID byte_keys (nodePubKey ([sample_cert ''admin''] ! 0)) =
     Ok (nodeID ([sample_cert ''admin''] ! 0))"
proof -
  have "0 < length (ph_Certs (sample_handshake ''admin'' 7 []))" by (simp add: sample_handshake_def)
  with snapshotCerts_consistent sample_snapshot [of "''admin''" 7 "[]"] show ?thesis by blast
qed

end
