(* ===== verification/HandshakeProps.thy ===== *)
theory HandshakeProps
  imports Samples
begin

text \<open>
  Properties of the handshake across the wire: what the reader accepts, the round trip, that an
  accepted handshake names the verifier's own TLS session, and that an honest prover with
  trusted certificates is accepted from end to end.
\<close>

section \<open>The wire\<close>

text \<open>C20: what \<open>writeAuthHandshake\<close> puts on the stream, \<open>readAuthHandshake\<close> recovers at the other
  end: the same certificates, signatures, authorities, proof and delegation signature, joined
  with TLS bindings the reader derives from its own connection.\<close>

theorem auth_handshake_roundtrip:
  assumes "proto_decodes P" and "pubkey_parses K" and "kem_size_fixed K"
    and "\<forall>c \<in> set certs. cert_built K c"
    and "writeAuthHandshake K P w certs caSigs authorities proof sig = Ok out"
    and "length out > 4"
    and "qc_ekm conn TranscriptBindingLabel [] TLSTranscriptHashSize = Ok transcript"
    and "CanonicalDelegationProofForExporter P proof = Ok expCtx"
    and "qc_ekm conn ExporterLabel expCtx TLSExporterBindingSize = Ok exporter"
  shows "readAuthHandshake K P \<lparr>avail = out @ rest, fin = err\<rparr> conn =
    Ok \<lparr>ph_Certs = map (Some \<circ> frozen) certs, ph_CASignatures = caSigs, ph_Authorities = authorities,
        ph_DelegationProof = Some (frozen proof), ph_DelegationSig = sig,
        ph_TLS = derived_bindings conn transcript exporter\<rparr>"
  by (rule readAuthHandshake_of_write [OF assms])

theorem auth_handshake_roundtrip_witness:
  "readAuthHandshake byte_keys (sample_proto ''admin'')
     \<lparr>avail = sample_wire_bytes @ [], fin = Sent io_EOF\<rparr> sample_conn =
   Ok \<lparr>ph_Certs = map (Some \<circ> frozen) [sample_cert ''admin''],
       ph_CASignatures = [7 # DomainSeparate CTXNodeAdmissionV1 [1]], ph_Authorities = [],
       ph_DelegationProof = Some (frozen sample_proof),
       ph_DelegationSig = 5 # DomainSeparate CTXNodeDelegationV1 [3],
       ph_TLS = derived_bindings sample_conn (replicate TLSTranscriptHashSize 12)
         (replicate TLSExporterBindingSize 11)\<rparr>"
  by (rule auth_handshake_roundtrip [OF _ _ _ _ sample_written])
     (simp_all add: sample_wire_bytes_def)

text \<open>C26: a handshake is only ever read from a frame whose length prefix lies between 1 and 2^20
  and whose payload has arrived in full; a longer or empty frame, or a stream that ends early,
  is an error.\<close>

theorem readAuthHandshake_bounds:
  assumes "readAuthHandshake K P stream conn = Ok hs"
  shows "0 < unat (be32_get (take 4 (avail stream))) \<and>
    unat (be32_get (take 4 (avail stream))) \<le> 2 ^ 20 \<and>
    4 + unat (be32_get (take 4 (avail stream))) \<le> length (avail stream)"
  using readAuthHandshake_Ok [OF assms] by metis

theorem readAuthHandshake_bounds_witness:
  "unat (be32_get (take 4 (avail \<lparr>avail = sample_wire_bytes @ [], fin = Sent io_EOF\<rparr>))) \<le> 2 ^ 20"
  using readAuthHandshake_bounds [OF sample_read [of "''admin''" "[]" "Sent io_EOF"]] by blast

text \<open>C3: when the verifier accepts a handshake it read from a connection, the key its certificates
  bind has signed a proof that carries the transcript and exporter values of that very
  connection, the hash of the certificate the peer presented on it, and the hash of the bundle;
  a proof made for another TLS session is never accepted.\<close>

theorem accepted_peer_signed_this_session:
  assumes "readAuthHandshake K P stream conn = Ok hs" and "VerifyPeerCert K P ca now hs = Ok ctx"
  shows "\<exists>pk proof enc expCtx certs b.
    kl_NodeID K pk = Ok (ac_NodeID ctx) \<and>
    CanonicalDelegationProof P proof = Ok enc \<and>
    kl_Verify K pk (DomainSeparate CTXNodeDelegationV1 enc) (ph_DelegationSig hs) \<and>
    qc_ekm conn TranscriptBindingLabel [] 32 = Ok (tlsTranscriptHash proof) \<and>
    CanonicalDelegationProofForExporter P proof = Ok expCtx \<and>
    qc_ekm conn ExporterLabel expCtx 32 = Ok (tlsExporterBinding proof) \<and>
    tlsCertPubKeyHash proof = tb_CertPubKeyHash (conn_TLSBindings conn) \<and>
    x509Fingerprint proof = tb_X509Fingerprint (conn_TLSBindings conn) \<and>
    snapshotCerts K (ph_Certs hs) = Ok certs \<and>
    CanonicalNodeCertBundle K P certs = Ok b \<and> nodeCertBundleHash proof = Sum256 b"
proof -
  obtain n msg where "handshake_of_message K P conn msg = Ok hs"
    using readAuthHandshake_Ok [OF assms(1)] by metis
  then obtain transcript expCtx exporter where
      e: "qc_ekm conn TranscriptBindingLabel [] 32 = Ok transcript"
        "CanonicalDelegationProofForExporter P (pbToDelegation (wa_Delegation msg)) = Ok expCtx"
        "qc_ekm conn ExporterLabel expCtx 32 = Ok exporter"
    and hs: "ph_DelegationProof hs = Some (frozen (pbToDelegation (wa_Delegation msg)))"
      "ph_TLS hs = derived_bindings conn transcript exporter"
    by (auto simp: handshake_of_message_Ok_iff)
  let ?dp = "pbToDelegation (wa_Delegation msg)"
  obtain certs ts res where s: "snapshotCerts K (ph_Certs hs) = Ok certs"
    and c: "chain_spec K ts (accepted_certs K P ts now certs (ph_CASignatures hs)) res"
    and b: "session_bound K P (ar_nodePubKey res) ?dp (ph_DelegationSig hs) certs (ph_TLS hs) now"
    and ctx: "ctx = deriveScope res"
    using VerifyPeerCert_sound [OF assms(2)] hs(1) unfolding peer_spec_def by auto
  have "kl_NodeID K (ar_nodePubKey res) = Ok (ac_NodeID ctx)"
    using c ctx by (cases "accepted_certs K P ts now certs (ph_CASignatures hs)")
      (auto simp: chain_spec_def)
  moreover have "tlsTranscriptHash ?dp = transcript" "tlsExporterBinding ?dp = exporter"
      "tlsCertPubKeyHash ?dp = tb_CertPubKeyHash (conn_TLSBindings conn)"
      "x509Fingerprint ?dp = tb_X509Fingerprint (conn_TLSBindings conn)"
    using b hs(2) by (cases "conn_TLSBindings conn"; auto simp: session_bound_def derived_bindings_def)+
  ultimately show ?thesis using b s e by (fastforce simp: session_bound_def)
qed

theorem accepted_peer_signed_this_session_witness:
  "\<exists>pk proof enc. kl_NodeID byte_keys pk = Ok (ac_NodeID sample_admin_ctx) \<and>
     CanonicalDelegationProof (sample_proto ''admin'') proof = Ok enc \<and>
     qc_ekm sample_conn TranscriptBindingLabel [] 32 = Ok (tlsTranscriptHash proof)"
proof -
  have "VerifyPeerCert byte_keys (sample_proto ''admin'') (sample_store ''admin'') 200
      (sample_handshake ''admin'' 7 []) = Ok sample_admin_ctx"
    by (rule sample_admin_accepted) simp_all
  from accepted_peer_signed_this_session [OF sample_read [of "''admin''" "[]" "Sent io_EOF"] this]
  show ?thesis by blast
qed

section \<open>The honest prover\<close>

lemma sint_add_no_overflow:
  fixes t :: int64
  assumes "sint t + 300 < 2 ^ 63"
  shows "sint (t + 300) = sint t + 300"
proof -
  have "- (2 ^ 63) \<le> sint t" using sint_greater_eq [of t] by simp
  moreover have "sint (t + 300) = signed_take_bit 63 (sint t + 300)"
    by (simp add: sint_word_ariths(1))
  ultimately show ?thesis
    using assms by (simp add: signed_take_bit_int_eq_self)
qed

text \<open>The steps of an honest prover and of its verifier, joined.\<close>

lemma honest_handshake_accepted:
  assumes lib: "proto_decodes P" "pubkey_parses K" "kem_size_fixed K" "sign_verifies K"
      "libs_no_panic K P"
    and signed: "SignDelegation K P (ni_key ni) (ni_certs ni) (ni_session ni) (qc_ekm conn) t =
      Ok (proof, sig)" "sig \<noteq> []"
    and sent: "writeAuthHandshake K P w (ni_certs ni) (ni_caSigs ni) (ni_authorities ni) proof sig =
      Ok out" "length out > 4"
    and session: "si_CertPubKeyHash (ni_session ni) = tb_CertPubKeyHash (conn_TLSBindings conn)"
      "si_X509Fingerprint (ni_session ni) = tb_X509Fingerprint (conn_TLSBindings conn)"
      "\<forall>l c n b. qc_ekm conn l c n = Ok b \<longrightarrow> length b = n"
    and certs: "\<forall>c \<in> set (ni_certs ni). cert_built K c" "length (ni_certs ni) \<le> 1024"
      "length (ni_caSigs ni) = length (ni_certs ni)"
    and trust: "effective_trust K ca (ni_authorities ni) = Ok ts"
      "chain_spec K ts (accepted_certs K P ts now (ni_certs ni) (ni_caSigs ni)) res"
      "ar_nodePubKey res = kl_GetPublicKey K (ni_key ni)"
    and time: "sint t \<le> sint now" "sint now \<le> sint t + 300" "sint t + 300 < 2 ^ 63"
  shows "\<exists>hs. readAuthHandshake K P \<lparr>avail = out @ rest, fin = err\<rparr> conn = Ok hs \<and>
    VerifyPeerCert K P ca now hs = Ok (deriveScope res)"
proof -
  obtain bundleEnc expCtx canon where
    s: "CanonicalNodeCertBundle K P (ni_certs ni) = Ok bundleEnc"
      "nodeCertBundleHash proof = Sum256 bundleEnc"
      "tlsCertPubKeyHash proof = si_CertPubKeyHash (ni_session ni)"
      "x509Fingerprint proof = si_X509Fingerprint (ni_session ni)"
      "qc_ekm conn TranscriptBindingLabel [] TLSTranscriptHashSize = Ok (tlsTranscriptHash proof)"
      "CanonicalDelegationProofForExporter P proof = Ok expCtx"
      "qc_ekm conn ExporterLabel expCtx TLSExporterBindingSize = Ok (tlsExporterBinding proof)"
      "notBefore proof = t" "notAfter proof = t + MaxDelegationTTL"
      "CanonicalDelegationProof P proof = Ok canon"
      "kl_Sign K (ni_key ni) (DomainSeparate CTXNodeDelegationV1 canon) = Ok sig"
    using SignDelegation_Ok [OF signed(1)] .
  let ?tls = "derived_bindings conn (tlsTranscriptHash proof) (tlsExporterBinding proof)"
  let ?hs = "\<lparr>ph_Certs = map (Some \<circ> frozen) (ni_certs ni), ph_CASignatures = ni_caSigs ni,
     ph_Authorities = ni_authorities ni, ph_DelegationProof = Some (frozen proof),
     ph_DelegationSig = sig, ph_TLS = ?tls\<rparr>"
  have read: "readAuthHandshake K P \<lparr>avail = out @ rest, fin = err\<rparr> conn = Ok ?hs"
    by (rule readAuthHandshake_of_write [OF lib(1-3) certs(1) sent s(5-7)])
  have ne: "ni_certs ni \<noteq> []" using trust(2) by (auto simp: chain_spec_def accepted_certs_def)
  have snap: "snapshotCerts K (map (Some \<circ> frozen) (ni_certs ni)) = Ok (ni_certs ni)"
    using certs(1) by (simp add: snapshotCerts_frozen cert_built_def)
  have tl: "?tls = \<lparr>tb_CertPubKeyHash = tlsCertPubKeyHash proof,
      tb_ExporterBinding = tlsExporterBinding proof, tb_X509Fingerprint = x509Fingerprint proof,
      tb_TranscriptHash = tlsTranscriptHash proof\<rparr>"
    using s(3,4) session(1,2) by (cases "conn_TLSBindings conn") (simp add: derived_bindings_def)
  have len: "length (tlsCertPubKeyHash proof) = 32" "length (x509Fingerprint proof) = 32"
      "length (tlsTranscriptHash proof) = 32" "length (tlsExporterBinding proof) = 32"
    using s(3-7) session by (auto simp: conn_TLSBindings_def go_defs split: list.splits)
  have "kl_Verify K (ar_nodePubKey res) (DomainSeparate CTXNodeDelegationV1 canon) sig"
    using lib(4) s(11) trust(3) unfolding sign_verifies_def by metis
  then have "session_bound K P (ar_nodePubKey res) proof sig (ni_certs ni) ?tls now"
    using s time len sint_add_no_overflow [OF time(3)]
    unfolding session_bound_def tl by (simp add: is_Ok_iff MaxDelegationTTL_def)
  then have "peer_spec K P ca now ?hs (deriveScope res)"
    unfolding peer_spec_def using snap ne certs trust signed(2)
    by (intro exI [of _ "ni_certs ni"] exI [of _ "proof"] exI [of _ ts] exI [of _ res]) simp
  with VerifyPeerCert_complete [OF lib(5)] read show ?thesis by blast
qed

text \<open>C4: a node whose certificates the verifier trusts is accepted, from end to end: the
  delegation it signs for the TLS session and sends with \<open>writeAuthHandshake\<close> is read by
  \<open>readAuthHandshake\<close> and accepted by \<open>VerifyPeerCert\<close> at any time within 300 seconds, with the
  scope its certificates give; both ends use the same keying-material exporter.\<close>

theorem honest_prover_accepted:
  assumes lib: "proto_decodes P" "pubkey_parses K" "kem_size_fixed K" "sign_verifies K"
      "libs_no_panic K P"
    and signed: "SignDelegation K P (ni_key ni) (ni_certs ni) (ni_session ni) (qc_ekm conn) t =
      Ok (proof, sig)" "sig \<noteq> []"
    and sent: "writeAuthHandshake K P w (ni_certs ni) (ni_caSigs ni) (ni_authorities ni) proof sig =
      Ok out" "length out > 4"
    and session: "si_CertPubKeyHash (ni_session ni) = tb_CertPubKeyHash (conn_TLSBindings conn)"
      "si_X509Fingerprint (ni_session ni) = tb_X509Fingerprint (conn_TLSBindings conn)"
      "\<forall>l c n b. qc_ekm conn l c n = Ok b \<longrightarrow> length b = n"
    and certs: "\<forall>c \<in> set (ni_certs ni). cert_built K c" "length (ni_certs ni) \<le> 1024"
      "length (ni_caSigs ni) = length (ni_certs ni)"
    and trust: "effective_trust K ca (ni_authorities ni) = Ok ts"
      "chain_spec K ts (accepted_certs K P ts now (ni_certs ni) (ni_caSigs ni)) res"
      "ar_nodePubKey res = kl_GetPublicKey K (ni_key ni)"
    and time: "sint t \<le> sint now" "sint now \<le> sint t + 300" "sint t + 300 < 2 ^ 63"
  shows "\<exists>hs. readAuthHandshake K P \<lparr>avail = out @ rest, fin = err\<rparr> conn = Ok hs \<and>
    VerifyPeerCert K P ca now hs = Ok (deriveScope res)"
  by (rule honest_handshake_accepted [OF assms])

theorem honest_prover_accepted_witness:
  "\<exists>hs. readAuthHandshake byte_keys (sample_proto ''admin'')
       \<lparr>avail = sample_wire_bytes @ [], fin = Sent io_EOF\<rparr> sample_conn = Ok hs \<and>
     VerifyPeerCert byte_keys (sample_proto ''admin'') (sample_store ''admin'') 200 hs =
       Ok (deriveScope \<lparr>ar_nodePubKey = 5 :: byte, ar_nodeID = replicate 32 5, ar_adminValid = True,
             ar_userHashes = []\<rparr>)"
proof -
  let ?ts = "snapTrustStore (sample_store ''admin'')" and ?h = "''admin''"
  have e: "effective_trust byte_keys (sample_store ?h) [] = Ok ?ts"
    by (simp add: effective_trust_def)
  have "chain_spec byte_keys ?ts (accepted_certs byte_keys (sample_proto ?h) ?ts 200
      [sample_cert ?h] [7 # DomainSeparate CTXNodeAdmissionV1 [1]])
      \<lparr>ar_nodePubKey = 5, ar_nodeID = replicate 32 5, ar_adminValid = True, ar_userHashes = []\<rparr>"
    using sample_chain [of ?ts ?h "sample_admin ?h" 7]
    by (simp add: issuer_key_def sample_admin_def sample_result_def)
  then show ?thesis
    using e
    by (intro honest_prover_accepted [OF _ _ _ _ _ sample_signed _ sample_sent])
       (simp_all add: sample_identity_def sample_wire_bytes_def
          conn_TLSBindings_def, simp_all add: sample_conn_def sample_ekm_def)
qed

end
