(* ===== verification/Privilege.thy ===== *)
theory Privilege
  imports Authentication
begin

text \<open>
  \<^verbatim>\<open>internal/datacas/cas/privilege_checker.go\<close>: which data a peer may access.  Shown here: the
  rule, and, across the authentication of the peer, that a peer can access the data of an
  owner only with a certificate that the local trust store stands behind.
\<close>

record AccessContext =
  acx_Scope :: TrustScope
  acx_AllowedOwnerCAHashes :: "string set"

fun add_owners :: "string list \<Rightarrow> string set \<Rightarrow> string set" where
  "add_owners [] allowed = allowed"
| "add_owners (h # hs) allowed = add_owners hs (if h = [] then allowed else insert h allowed)"

definition NewAccessContext :: "TrustScope \<Rightarrow> string list \<Rightarrow> AccessContext" where
  "NewAccessContext scope ownerCAHashes =
     \<lparr>acx_Scope = scope, acx_AllowedOwnerCAHashes = add_owners ownerCAHashes {}\<rparr>"

definition CanAccessData :: "AccessContext \<Rightarrow> string \<Rightarrow> bool" where
  "CanAccessData access ownerCAHash =
     (if acx_Scope access = ScopeAdmin then True
      else if acx_Scope access \<noteq> ScopeUser then False
      else if ownerCAHash = [] then False
      else ownerCAHash \<in> acx_AllowedOwnerCAHashes access)"

lemma add_owners_set: "add_owners hs A = A \<union> (set hs - {[]})"
  by (induction hs arbitrary: A) auto

text \<open>An access context built for a scope and a list of owners grants access to an owner's data
  exactly for the admin scope, or for the user scope when the owner is named, is not empty and
  is in the list; no other scope value grants anything.\<close>

lemma CanAccessData_exact:
  "CanAccessData (NewAccessContext scope owners) h \<longleftrightarrow>
     scope = ScopeAdmin \<or> (scope = ScopeUser \<and> h \<noteq> [] \<and> h \<in> set owners)"
  by (auto simp: CanAccessData_def NewAccessContext_def add_owners_set)

text \<open>C9: a peer that was authenticated against the local trust store can access the data of an
  owner only if it has admin scope, hence a certificate signed by an unrevoked admin CA of the
  store, or the owner is a user CA that is not revoked and whose anchor is an unrevoked admin
  CA of the store.\<close>

theorem verified_peer_access:
  assumes v: "VerifyPeerCert K P ca now hs = Ok ctx"
    and "CanAccessData (NewAccessContext (ac_EffectiveScope ctx) (ac_AllowedUserCAOwners ctx)) h"
  shows "(\<exists>certs c sig a enc. snapshotCerts K (ph_Certs hs) = Ok certs \<and>
      (c, sig) \<in> set (zip certs (ph_CASignatures hs)) \<and>
      adminCAs ca (issuerCAHash c) = Some a \<and> issuerCAHash c \<notin> revokedAdminCAs ca \<and>
      CanonicalNodeCert K P c = Ok enc \<and>
      kl_Verify K (ca_pubKey a) (DomainSeparate CTXNodeAdmissionV1 enc) sig) \<or>
    (h \<notin> revokedUserCAs ca \<and>
      (\<exists>(u :: 'pk UserCAImpl) admin. adminCAs ca (anchorAdminHash u) = Some admin \<and>
         anchorAdminHash u \<notin> revokedAdminCAs ca \<and> (userCAs ca h = Some u \<or>
         (ca_hash u = h \<and> (\<exists>pubBytes. NewUserCA K pubBytes (anchorSig u) (anchorAdminHash u) = Ok u \<and>
            ca_Verify K admin (DomainSeparate CTXUserCAAnchorV1 pubBytes) (anchorSig u))))))"
proof (cases "ac_EffectiveScope ctx = ScopeAdmin")
  case True
  from admin_scope_cert [OF v True] show ?thesis by blast
next
  case False
  with assms(2) have "h \<in> set (ac_AllowedUserCAOwners ctx)"
    by (auto simp: CanAccessData_def NewAccessContext_def add_owners_set split: if_splits)
  with user_scope_owner [OF v False] show ?thesis by blast
qed

theorem verified_peer_access_witness:
  "\<exists>h a. adminCAs (sample_store ''admin'') h = Some a \<and> h \<notin> revokedAdminCAs (sample_store ''admin'')"
proof -
  have v: "VerifyPeerCert byte_keys (sample_proto ''admin'') (sample_store ''admin'') 200
     (sample_handshake ''admin'' 7 []) = Ok sample_admin_ctx"
    by (rule sample_admin_accepted) simp_all
  have "CanAccessData (NewAccessContext (ac_EffectiveScope sample_admin_ctx)
      (ac_AllowedUserCAOwners sample_admin_ctx)) ''owner''"
    by (simp add: CanAccessData_def NewAccessContext_def sample_admin_ctx_def)
  from verified_peer_access [OF v this] show ?thesis by blast
qed

end
