(* ===== verification/Registry.thy ===== *)
theory Registry
  imports External
begin

text \<open>
  \<^verbatim>\<open>internal/transport/node_registry.go\<close>, the node types of \<^verbatim>\<open>pkg/interfaces/peer_node.go\<close>
  and \<open>compactAddresses\<close> of \<^verbatim>\<open>internal/transport/carrier.go\<close>: the registry of known nodes.
  The operations that change one field of a known node share a contract, the locale
  \<open>node_update\<close>.  Certificates are opaque here; \<open>'c\<close> is their type.  \<open>isZero\<close> is the
  key library's \<open>NodeID.IsZero\<close>.
\<close>

section \<open>Nodes\<close>

type_synonym NodeRole = int
type_synonym ConnectionStatus = int

definition NodeRoleServer :: NodeRole where "NodeRoleServer = 0"
definition NodeRoleClient :: NodeRole where "NodeRoleClient = 1"

definition NodeRole_String :: "NodeRole \<Rightarrow> string" where
  "NodeRole_String r =
     (if r = NodeRoleServer then ''server'' else if r = NodeRoleClient then ''client'' else ''unknown'')"

definition ConnectionStatusDisconnected :: ConnectionStatus where "ConnectionStatusDisconnected = 0"
definition ConnectionStatusConnecting :: ConnectionStatus where "ConnectionStatusConnecting = 1"
definition ConnectionStatusConnected :: ConnectionStatus where "ConnectionStatusConnected = 2"
definition ConnectionStatusFailed :: ConnectionStatus where "ConnectionStatusFailed = 3"

definition ConnectionStatus_String :: "ConnectionStatus \<Rightarrow> string" where
  "ConnectionStatus_String s =
     (if s = ConnectionStatusDisconnected then ''disconnected''
      else if s = ConnectionStatusConnecting then ''connecting''
      else if s = ConnectionStatusConnected then ''connected''
      else if s = ConnectionStatusFailed then ''failed'' else ''unknown'')"

lemmas status_defs = ConnectionStatusDisconnected_def ConnectionStatusConnecting_def
  ConnectionStatusConnected_def ConnectionStatusFailed_def
lemmas role_defs = NodeRoleServer_def NodeRoleClient_def

record 'c Node =
  nd_NodeID :: nodeid
  nd_Addresses :: "string list"
  nd_NodeCerts :: "'c list"
  nd_Role :: NodeRole
  nd_LastSeen :: gotime
  nd_ConnectionStatus :: ConnectionStatus

type_synonym 'c nodeRegistry = "nodeid \<rightharpoonup> 'c Node"

definition newNodeRegistry :: "'c nodeRegistry" where
  "newNodeRegistry = Map.empty"

section \<open>Addresses\<close>

text \<open>The loop of \<open>compactAddresses\<close>; \<open>seen\<close> and \<open>out\<close> as in the code.\<close>

fun compact_loop :: "string set \<Rightarrow> string list \<Rightarrow> string list \<Rightarrow> string list" where
  "compact_loop seen out [] = out"
| "compact_loop seen out (a # as) =
     (if a = [] then compact_loop seen out as
      else if a \<in> seen then compact_loop seen out as
      else compact_loop (insert a seen) (out @ [a]) as)"

definition compactAddresses :: "string list \<Rightarrow> string list" where
  "compactAddresses addresses = compact_loop {} [] addresses"

section \<open>Operations\<close>

definition mergeNode :: "'c Node \<Rightarrow> 'c Node \<Rightarrow> 'c Node" where
  "mergeNode existing incoming =
     incoming
       \<lparr>nd_Addresses :=
          (if nd_Addresses incoming = [] then nd_Addresses existing
           else compactAddresses (nd_Addresses existing @ nd_Addresses incoming)),
        nd_NodeCerts := (if nd_NodeCerts incoming = [] then nd_NodeCerts existing else nd_NodeCerts incoming),
        nd_LastSeen := (if time_IsZero (nd_LastSeen incoming) then nd_LastSeen existing
                        else nd_LastSeen incoming),
        nd_Role := (if nd_Role incoming = NodeRoleServer \<and> nd_Role existing = NodeRoleClient
                    then nd_Role existing else nd_Role incoming),
        nd_ConnectionStatus :=
          (if nd_ConnectionStatus incoming = ConnectionStatusDisconnected \<and>
              nd_ConnectionStatus existing \<noteq> ConnectionStatusDisconnected
           then nd_ConnectionStatus existing else nd_ConnectionStatus incoming)\<rparr>"

definition AddNode :: "(nodeid \<Rightarrow> bool) \<Rightarrow> 'c Node \<Rightarrow> 'c list \<Rightarrow> 'c nodeRegistry \<Rightarrow> 'c nodeRegistry result" where
  "AddNode isZero node certs r =
     (if isZero (nd_NodeID node) then Err (New ''node ID must not be zero'')
      else
      let n = node\<lparr>nd_NodeCerts := (if certs = [] then nd_NodeCerts node else certs)\<rparr>;
          n' = (case r (nd_NodeID node) of Some existing \<Rightarrow> mergeNode existing n | None \<Rightarrow> n)
      in Ok (r(nd_NodeID node \<mapsto> n')))"

definition registry_RemoveNode :: "nodeid \<Rightarrow> 'c nodeRegistry \<Rightarrow> 'c nodeRegistry result" where
  "registry_RemoveNode nid r =
     (if nid \<notin> dom r then Err (New ''node not found'') else Ok (r(nid := None)))"

definition registry_GetNode :: "nodeid \<Rightarrow> 'c nodeRegistry \<Rightarrow> 'c Node result" where
  "registry_GetNode nid r =
     (case r nid of None \<Rightarrow> Err (New ''node not found'') | Some node \<Rightarrow> Ok node)"

definition UpdateLastSeen :: "nodeid \<Rightarrow> gotime \<Rightarrow> 'c nodeRegistry \<Rightarrow> 'c nodeRegistry result" where
  "UpdateLastSeen nid seenAt r =
     (case r nid of
        None \<Rightarrow> Err (New ''node not found'')
      | Some node \<Rightarrow> Ok (r(nid \<mapsto> node\<lparr>nd_LastSeen := seenAt\<rparr>)))"

definition SetStatus :: "nodeid \<Rightarrow> ConnectionStatus \<Rightarrow> 'c nodeRegistry \<Rightarrow> 'c nodeRegistry result" where
  "SetStatus nid status r =
     (case r nid of
        None \<Rightarrow> Err (New ''node not found'')
      | Some node \<Rightarrow> Ok (r(nid \<mapsto> node\<lparr>nd_ConnectionStatus := status\<rparr>)))"

definition SetRole :: "nodeid \<Rightarrow> NodeRole \<Rightarrow> 'c nodeRegistry \<Rightarrow> 'c nodeRegistry result" where
  "SetRole nid role r =
     (case r nid of
        None \<Rightarrow> Err (New ''node not found'')
      | Some node \<Rightarrow> Ok (r(nid \<mapsto> node\<lparr>nd_Role := role\<rparr>)))"

definition MergeAddresses :: "nodeid \<Rightarrow> string list \<Rightarrow> 'c nodeRegistry \<Rightarrow> 'c nodeRegistry result" where
  "MergeAddresses nid addresses r =
     (case r nid of
        None \<Rightarrow> Err (New ''node not found'')
      | Some node \<Rightarrow>
          Ok (r(nid \<mapsto> node\<lparr>nd_Addresses := compactAddresses (nd_Addresses node @ addresses)\<rparr>)))"

text \<open>The operations that range over the registry take the order of the range as \<open>ks\<close>.\<close>

definition GetAllNodes :: "nodeid list \<Rightarrow> 'c nodeRegistry \<Rightarrow> 'c Node list" where
  "GetAllNodes ks r = map snd (range_map ks r)"

definition GetAdminNodes :: "nodeid list \<Rightarrow> 'c nodeRegistry \<Rightarrow> 'c Node list" where
  "GetAdminNodes ks r = GetAllNodes ks r"

definition GetUserNodes :: "nodeid list \<Rightarrow> 'c nodeRegistry \<Rightarrow> 'c Node list" where
  "GetUserNodes ks r = GetAllNodes ks r"

definition GetUnreachableNodes :: "nodeid list \<Rightarrow> 'c nodeRegistry \<Rightarrow> 'c Node list" where
  "GetUnreachableNodes ks r =
     filter (\<lambda>n. nd_ConnectionStatus n \<noteq> ConnectionStatusConnected) (map snd (range_map ks r))"

definition GetServerNodes :: "nodeid list \<Rightarrow> 'c nodeRegistry \<Rightarrow> 'c Node list" where
  "GetServerNodes ks r =
     filter (\<lambda>n. nd_Role n \<noteq> NodeRoleClient) (map snd (range_map ks r))"

section \<open>Addresses, shown\<close>

lemma compact_loop_spec:
  "set out = seen \<Longrightarrow> distinct out \<Longrightarrow> [] \<notin> seen \<Longrightarrow>
     distinct (compact_loop seen out as) \<and>
     set (compact_loop seen out as) = seen \<union> (set as - {[]}) \<and>
     (\<exists>rest. compact_loop seen out as = out @ rest)"
proof (induction seen out as rule: compact_loop.induct)
  case (1 seen out)
  then show ?case by simp
next
  case (2 seen out a as)
  then show ?case by (cases "a = [] \<or> a \<in> seen") auto
qed

lemma set_compactAddresses [simp]: "set (compactAddresses as) = set as - {[]}"
  using compact_loop_spec [of "[]" "{}" as] by (simp add: compactAddresses_def)

lemma distinct_compactAddresses [simp]: "distinct (compactAddresses as)"
  using compact_loop_spec [of "[]" "{}" as] by (simp add: compactAddresses_def)

lemma compact_loop_done:
  "distinct as \<Longrightarrow> [] \<notin> set as \<Longrightarrow> set as \<inter> seen = {} \<Longrightarrow> compact_loop seen out as = out @ as"
  by (induction as arbitrary: seen out) auto

lemma compact_loop_append:
  "compact_loop seen out (as @ bs) =
     compact_loop (seen \<union> (set as - {[]})) (compact_loop seen out as) bs"
proof (induction as arbitrary: seen out)
  case Nil
  then show ?case by simp
next
  case (Cons a as)
  have "a = [] \<or> a \<in> seen \<Longrightarrow> seen \<union> (set (a # as) - {[]}) = seen \<union> (set as - {[]})"
    "a \<noteq> [] \<Longrightarrow> seen \<union> (set (a # as) - {[]}) = insert a seen \<union> (set as - {[]})"
    by auto
  with Cons show ?case by (cases "a = [] \<or> a \<in> seen") (simp_all del: Un_insert_left)
qed

lemma compactAddresses_compact: "distinct as \<Longrightarrow> [] \<notin> set as \<Longrightarrow> compactAddresses as = as"
  by (simp add: compactAddresses_def compact_loop_done)

lemma compactAddresses_idem [simp]: "compactAddresses (compactAddresses as) = compactAddresses as"
  by (rule compactAddresses_compact) simp_all

lemma compact_loop_skip: "set bs \<subseteq> insert [] seen \<Longrightarrow> compact_loop seen out bs = out"
  by (induction bs arbitrary: seen out) auto

text \<open>Merging addresses that are known already changes nothing.\<close>

lemma compactAddresses_absorb:
  "distinct as \<Longrightarrow> [] \<notin> set as \<Longrightarrow> set bs \<subseteq> set as \<Longrightarrow> compactAddresses (as @ bs) = as"
  by (auto simp: compactAddresses_def compact_loop_append compact_loop_done intro!: compact_loop_skip)

section \<open>The interface: updates of one node\<close>

locale node_update =
  fixes upd :: "nodeid \<Rightarrow> 'v \<Rightarrow> 'c nodeRegistry \<Rightarrow> 'c nodeRegistry result"
    and f :: "'v \<Rightarrow> 'c Node \<Rightarrow> 'c Node"
  assumes upd_known: "r nid = Some node \<Longrightarrow> upd nid v r = Ok (r(nid \<mapsto> f v node))"
    and upd_unknown: "r nid = None \<Longrightarrow> upd nid v r = Err (New ''node not found'')"
    and f_NodeID: "nd_NodeID (f v node) = nd_NodeID node"
begin

lemma upd_Ok_iff: "upd nid v r = Ok r' \<longleftrightarrow> (\<exists>node. r nid = Some node \<and> r' = r(nid \<mapsto> f v node))"
  by (cases "r nid") (auto simp: upd_known upd_unknown)

lemma upd_dom: "upd nid v r = Ok r' \<Longrightarrow> dom r' = dom r"
  by (auto simp: upd_Ok_iff split: if_splits)

lemma upd_other: "upd nid v r = Ok r' \<Longrightarrow> j \<noteq> nid \<Longrightarrow> r' j = r j"
  by (auto simp: upd_Ok_iff)

lemma upd_keys:
  "\<forall>k n. r k = Some n \<longrightarrow> nd_NodeID n = k \<Longrightarrow> upd nid v r = Ok r' \<Longrightarrow>
     \<forall>k n. r' k = Some n \<longrightarrow> nd_NodeID n = k"
  by (auto simp: upd_Ok_iff f_NodeID split: if_splits)

end

interpretation last_seen: node_update UpdateLastSeen "\<lambda>t n. n\<lparr>nd_LastSeen := t\<rparr>"
  by unfold_locales (auto simp: UpdateLastSeen_def)

interpretation status: node_update SetStatus "\<lambda>s n. n\<lparr>nd_ConnectionStatus := s\<rparr>"
  by unfold_locales (auto simp: SetStatus_def)

interpretation role: node_update SetRole "\<lambda>s n. n\<lparr>nd_Role := s\<rparr>"
  by unfold_locales (auto simp: SetRole_def)

interpretation addresses: node_update MergeAddresses
    "\<lambda>as n. n\<lparr>nd_Addresses := compactAddresses (nd_Addresses n @ as)\<rparr>"
  by unfold_locales (auto simp: MergeAddresses_def)

section \<open>The invariant\<close>

definition registry_inv :: "(nodeid \<Rightarrow> bool) \<Rightarrow> 'c nodeRegistry \<Rightarrow> bool" where
  "registry_inv isZero r \<longleftrightarrow> (\<forall>k n. r k = Some n \<longrightarrow> nd_NodeID n = k \<and> \<not> isZero k)"

datatype 'c registry_op =
    OpAddNode "'c Node" "'c list"
  | OpRemoveNode nodeid
  | OpUpdateLastSeen nodeid gotime
  | OpSetStatus nodeid ConnectionStatus
  | OpSetRole nodeid NodeRole
  | OpMergeAddresses nodeid "string list"

fun registry_exec :: "(nodeid \<Rightarrow> bool) \<Rightarrow> 'c registry_op \<Rightarrow> 'c nodeRegistry \<Rightarrow> 'c nodeRegistry result" where
  "registry_exec isZero (OpAddNode n cs) r = AddNode isZero n cs r"
| "registry_exec isZero (OpRemoveNode k) r = registry_RemoveNode k r"
| "registry_exec isZero (OpUpdateLastSeen k t) r = UpdateLastSeen k t r"
| "registry_exec isZero (OpSetStatus k s) r = SetStatus k s r"
| "registry_exec isZero (OpSetRole k s) r = SetRole k s r"
| "registry_exec isZero (OpMergeAddresses k as) r = MergeAddresses k as r"

definition registry_step :: "(nodeid \<Rightarrow> bool) \<Rightarrow> 'c registry_op \<Rightarrow> 'c nodeRegistry \<Rightarrow> 'c nodeRegistry" where
  "registry_step isZero op r = (case registry_exec isZero op r of Ok r' \<Rightarrow> r' | Err e \<Rightarrow> r | Panic \<Rightarrow> r)"

lemma mergeNode_simps [simp]:
  "nd_NodeID (mergeNode e i) = nd_NodeID i"
  "nd_ConnectionStatus (mergeNode e i) =
     (if nd_ConnectionStatus i = ConnectionStatusDisconnected then nd_ConnectionStatus e
      else nd_ConnectionStatus i)"
  "nd_Role (mergeNode e i) =
     (if nd_Role i = NodeRoleServer \<and> nd_Role e = NodeRoleClient then NodeRoleClient else nd_Role i)"
  by (auto simp: mergeNode_def)

lemma AddNode_Ok_iff [outcome_simps]:
  "AddNode isZero n cs r = Ok r' \<longleftrightarrow> \<not> isZero (nd_NodeID n) \<and>
     r' = r(nd_NodeID n \<mapsto>
       (case r (nd_NodeID n) of
          Some e \<Rightarrow> mergeNode e (n\<lparr>nd_NodeCerts := (if cs = [] then nd_NodeCerts n else cs)\<rparr>)
        | None \<Rightarrow> n\<lparr>nd_NodeCerts := (if cs = [] then nd_NodeCerts n else cs)\<rparr>))"
  by (auto simp: AddNode_def Let_def)

lemma AddNode_inv: "registry_inv isZero r \<Longrightarrow> AddNode isZero n cs r = Ok r' \<Longrightarrow> registry_inv isZero r'"
  by (auto simp: AddNode_Ok_iff registry_inv_def split: option.splits)

lemma registry_RemoveNode_inv:
  "registry_inv isZero r \<Longrightarrow> registry_RemoveNode k r = Ok r' \<Longrightarrow> registry_inv isZero r'"
  by (auto simp: registry_RemoveNode_def registry_inv_def split: if_splits)

lemma node_update_inv:
  assumes "node_update upd f" and "registry_inv isZero r" and "upd k v r = Ok r'"
  shows "registry_inv isZero r'"
proof -
  have "dom r' = dom r" using assms(1,3) by (rule node_update.upd_dom)
  moreover have "\<forall>k n. r k = Some n \<longrightarrow> nd_NodeID n = k"
    using assms(2) unfolding registry_inv_def by blast
  then have "\<forall>k n. r' k = Some n \<longrightarrow> nd_NodeID n = k"
    by (rule node_update.upd_keys [OF assms(1) _ assms(3)])
  ultimately show ?thesis
    using assms(2) unfolding registry_inv_def by (metis domD domI)
qed

lemmas field_update_invs = node_update_inv [OF last_seen.node_update_axioms]
  node_update_inv [OF status.node_update_axioms] node_update_inv [OF role.node_update_axioms]
  node_update_inv [OF addresses.node_update_axioms]

lemma registry_exec_inv:
  assumes "registry_inv isZero r" and "registry_exec isZero op r = Ok r'"
  shows "registry_inv isZero r'"
proof (cases op)
  case (OpAddNode n cs)
  then show ?thesis using AddNode_inv [OF assms(1)] assms(2) by (metis registry_exec.simps(1))
next
  case (OpRemoveNode k)
  then show ?thesis
    using registry_RemoveNode_inv [OF assms(1)] assms(2) by (metis registry_exec.simps(2))
next
  case (OpUpdateLastSeen k t)
  then show ?thesis
    using field_update_invs(1) [OF assms(1)] assms(2) by (metis registry_exec.simps(3))
next
  case (OpSetStatus k t)
  then show ?thesis
    using field_update_invs(2) [OF assms(1)] assms(2) by (metis registry_exec.simps(4))
next
  case (OpSetRole k t)
  then show ?thesis
    using field_update_invs(3) [OF assms(1)] assms(2) by (metis registry_exec.simps(5))
next
  case (OpMergeAddresses k t)
  then show ?thesis
    using field_update_invs(4) [OF assms(1)] assms(2) by (metis registry_exec.simps(6))
qed

lemma registry_step_inv: "registry_inv isZero r \<Longrightarrow> registry_inv isZero (registry_step isZero op r)"
  unfolding registry_step_def using registry_exec_inv [of isZero r op]
  by (cases "registry_exec isZero op r") auto

lemma registry_inv_empty: "registry_inv isZero newNodeRegistry"
  by (simp add: registry_inv_def newNodeRegistry_def)

lemma registry_run_inv: "registry_inv isZero r \<Longrightarrow> registry_inv isZero (fold (registry_step isZero) ops r)"
  by (induction ops arbitrary: r) (auto intro: registry_step_inv)

text \<open>The listing of the registry: every registered node, once.\<close>

lemma GetAllNodes_ids:
  assumes "registry_inv isZero r"
  shows "map nd_NodeID (GetAllNodes ks r) = map fst (range_map ks r)"
proof -
  have "nd_NodeID (snd p) = fst p" if "p \<in> set (range_map ks r)" for p
    using that assms unfolding set_range_map registry_inv_def by auto
  then show ?thesis by (simp add: GetAllNodes_def)
qed

lemma GetAllNodes_distinct:
  "registry_inv isZero r \<Longrightarrow> enumerates ks r \<Longrightarrow> distinct (map nd_NodeID (GetAllNodes ks r))"
  by (simp only: GetAllNodes_ids) (simp add: enumerates_def distinct_range_map)

lemma set_GetAllNodes:
  assumes "registry_inv isZero r" and "enumerates ks r"
  shows "set (GetAllNodes ks r) = {n. r (nd_NodeID n) = Some n}"
proof (intro equalityI subsetI)
  fix n
  assume "n \<in> set (GetAllNodes ks r)"
  then obtain k where k: "r k = Some n"
    unfolding GetAllNodes_def by (auto simp: enumerates_range [OF assms(2)])
  moreover have "nd_NodeID n = k" using assms(1) k unfolding registry_inv_def by blast
  ultimately show "n \<in> {n. r (nd_NodeID n) = Some n}" by simp
next
  fix n
  assume "n \<in> {n. r (nd_NodeID n) = Some n}"
  then show "n \<in> set (GetAllNodes ks r)"
    unfolding GetAllNodes_def by (force simp: enumerates_range [OF assms(2)])
qed

section \<open>Properties\<close>

text \<open>C29: in every state the registry reaches by any sequence of its operations, every node is filed
  under its own node ID and no node has the zero ID.\<close>

theorem registry_inv_always: "registry_inv isZero (fold (registry_step isZero) ops newNodeRegistry)"
  by (rule registry_run_inv [OF registry_inv_empty])


definition sample_node :: "string list \<Rightarrow> NodeRole \<Rightarrow> unit Node" where
  "sample_node as role =
     \<lparr>nd_NodeID = [1], nd_Addresses = as, nd_NodeCerts = [], nd_Role = role, nd_LastSeen = 7,
      nd_ConnectionStatus = ConnectionStatusConnected\<rparr>"


text \<open>In whatever order a range visits the registry, the unreachable nodes it returns are
  exactly the registered nodes whose status is not connected, each once.\<close>

lemma GetUnreachableNodes_exact:
  assumes "registry_inv isZero r" and "enumerates ks r"
  shows "distinct (GetUnreachableNodes ks r) \<and>
    set (GetUnreachableNodes ks r) =
      {n. r (nd_NodeID n) = Some n \<and> nd_ConnectionStatus n \<noteq> ConnectionStatusConnected}"
proof -
  have "distinct (map snd (range_map ks r))"
    using GetAllNodes_distinct [OF assms] unfolding GetAllNodes_def by (metis distinct_map)
  then show ?thesis
    using set_GetAllNodes [OF assms]
    by (simp only: GetUnreachableNodes_def GetAllNodes_def set_filter distinct_filter simp_thms)
      (simp only: mem_Collect_eq)
qed

lemma GetUnreachableNodes_exact_example:
  "distinct (GetUnreachableNodes [[1]] [[1] \<mapsto> sample_node [''a''] NodeRoleClient])"
proof -
  have "registry_inv (\<lambda>k. k = [0]) [[1] \<mapsto> sample_node [''a''] NodeRoleClient]"
    by (simp add: registry_inv_def sample_node_def)
  moreover have "enumerates [[1]] [[1] \<mapsto> sample_node [''a''] NodeRoleClient]"
    by (simp add: enumerates_def)
  ultimately show ?thesis using GetUnreachableNodes_exact by blast
qed

end
