(* ===== verification/MessageIO.thy ===== *)
theory MessageIO
  imports External
begin

text \<open>
  \<^verbatim>\<open>internal/transport/message_io.go\<close> and the message types of \<^verbatim>\<open>pkg/interfaces/interfaces.go\<close>:
  the frame of a message, one type byte followed by the payload, on streams and in datagrams,
  and the reply envelope.
\<close>

section \<open>Messages\<close>

type_synonym MessageType = int

definition MessageTypeBlockSliceRequest :: MessageType where "MessageTypeBlockSliceRequest = 0"
definition MessageTypeBlockSliceResponse :: MessageType where "MessageTypeBlockSliceResponse = 1"
definition MessageTypeChunkMetaRequest :: MessageType where "MessageTypeChunkMetaRequest = 2"
definition MessageTypeVertexMetaRequest :: MessageType where "MessageTypeVertexMetaRequest = 3"
definition MessageTypeHeartbeat :: MessageType where "MessageTypeHeartbeat = 4"
definition MessageTypeUserMessage :: MessageType where "MessageTypeUserMessage = 5"
definition MessageTypeNodeJoinRequest :: MessageType where "MessageTypeNodeJoinRequest = 6"
definition MessageTypeNodeLeaveNotification :: MessageType where "MessageTypeNodeLeaveNotification = 7"
definition MessageTypeUserAuthDecision :: MessageType where "MessageTypeUserAuthDecision = 8"
definition MessageTypeNewNodeAnnouncement :: MessageType where "MessageTypeNewNodeAnnouncement = 9"
definition MessageTypeKeyEntryRequest :: MessageType where "MessageTypeKeyEntryRequest = 10"
definition MessageTypeKeyEntryResponse :: MessageType where "MessageTypeKeyEntryResponse = 11"
definition MessageTypeBlockSyncRequest :: MessageType where "MessageTypeBlockSyncRequest = 12"
definition MessageTypeLogPush :: MessageType where "MessageTypeLogPush = 13"
definition MessageTypeLogSendResponse :: MessageType where "MessageTypeLogSendResponse = 14"
definition MessageTypeAuthHandshake :: MessageType where "MessageTypeAuthHandshake = 15"

lemmas MessageType_defs = MessageTypeBlockSliceRequest_def MessageTypeBlockSliceResponse_def
  MessageTypeChunkMetaRequest_def MessageTypeVertexMetaRequest_def MessageTypeHeartbeat_def
  MessageTypeUserMessage_def MessageTypeNodeJoinRequest_def MessageTypeNodeLeaveNotification_def
  MessageTypeUserAuthDecision_def MessageTypeNewNodeAnnouncement_def MessageTypeKeyEntryRequest_def
  MessageTypeKeyEntryResponse_def MessageTypeBlockSyncRequest_def MessageTypeLogPush_def
  MessageTypeLogSendResponse_def MessageTypeAuthHandshake_def

record Message =
  msg_Type :: MessageType
  msg_Payload :: bytes

definition maxMessageSize :: nat where
  "maxMessageSize = 2 ^ 20"

section \<open>Frames\<close>

text \<open>\<open>byte(msg.Type)\<close> keeps the low eight bits of the type.\<close>

definition marshalMessage :: "Message \<Rightarrow> bytes" where
  "marshalMessage msg = word_of_int (msg_Type msg) # msg_Payload msg"

definition unmarshalMessage :: "bytes \<Rightarrow> Message result" where
  "unmarshalMessage data =
     (case data of
        [] \<Rightarrow> Err (New ''message too short: 0 bytes'')
      | b # bs \<Rightarrow> Ok \<lparr>msg_Type = uint b, msg_Payload = bs\<rparr>)"

definition writeMessageStream :: "(nat \<Rightarrow> goerror option) \<Rightarrow> Message \<Rightarrow> bytes result" where
  "writeMessageStream w msg =
     (if 1 + length (msg_Payload msg) > maxMessageSize
      then Err (Errorf ''message too large: %d bytes'' [AInt (int (1 + length (msg_Payload msg)))])
      else write_all w 0
             ((''write type: %w'', [word_of_int (msg_Type msg)]) #
              (if length (msg_Payload msg) > 0 then [(''write payload: %w'', msg_Payload msg)] else [])))"

definition readMessageStream :: "instream \<Rightarrow> Message result" where
  "readMessageStream stream =
     obind (wrap_err (errorw ''read type: %w'') (io_ReadFull 1 stream)) (\<lambda>(typeBuf, stream).
     obind (wrap_err (errorw ''read payload: %w'') (io_ReadAll_Limit maxMessageSize stream))
       (\<lambda>payload.
     Ok \<lparr>msg_Type = uint (hd typeBuf), msg_Payload = payload\<rparr>))"

section \<open>Replies\<close>

definition writeMessageReply ::
  "protolib \<Rightarrow> (nat \<Rightarrow> goerror option) \<Rightarrow> proto_message option \<Rightarrow> goerror option \<Rightarrow> bytes result" where
  "writeMessageReply P w payload handlerErr =
     obind (case payload of
              None \<Rightarrow> Ok []
            | Some m \<Rightarrow> wrap_err (errorw ''marshal reply payload: %w'') (pl_Marshal P m))
       (\<lambda>encodedPayload.
     obind (wrap_err (errorw ''marshal reply envelope: %w'')
              (pl_Marshal P (PMessageReply
                 \<lparr>mr_Success = (handlerErr = None), mr_Payload = encodedPayload,
                  mr_Error = (case handlerErr of None \<Rightarrow> [] | Some e \<Rightarrow> error_text e)\<rparr>)))
       (\<lambda>data.
     if length data > maxMessageSize
     then Err (Errorf ''reply too large: %d bytes'' [AInt (int (length data))])
     else write_all w 0 [(''write reply: %w'', data)]))"

definition readMessageReply :: "protolib \<Rightarrow> instream \<Rightarrow> MessageReply result" where
  "readMessageReply P stream =
     obind (wrap_err (errorw ''read reply: %w'') (io_ReadAll_Limit maxMessageSize stream)) (\<lambda>data.
     obind (wrap_err (errorw ''decode reply: %w'') (pl_Unmarshal P KMessageReply data)) (\<lambda>m.
     case m of PMessageReply r \<Rightarrow> Ok r | _ \<Rightarrow> Panic))"

section \<open>Round trips\<close>

text \<open>The types that survive the one-byte encoding.\<close>

definition type_fits :: "Message \<Rightarrow> bool" where
  "type_fits m \<longleftrightarrow> 0 \<le> msg_Type m \<and> msg_Type m < 256"

lemma uint_word_of_int_byte: "0 \<le> i \<Longrightarrow> i < 256 \<Longrightarrow> uint (word_of_int i :: byte) = i"
  by (simp add: uint_word_of_int)

interpretation frame: codec marshalMessage unmarshalMessage type_fits
  by unfold_locales (simp add: marshalMessage_def unmarshalMessage_def type_fits_def
      uint_word_of_int_byte)

text \<open>A type outside the range arrives as its residue.\<close>

lemma unmarshal_marshal_wraps:
  "unmarshalMessage (marshalMessage m) = Ok (m\<lparr>msg_Type := msg_Type m mod 256\<rparr>)"
  by (simp add: marshalMessage_def unmarshalMessage_def uint_word_of_int)

lemma writeMessageStream_Ok:
  "writeMessageStream w m = Ok out \<Longrightarrow> out = marshalMessage m \<and> 1 + length (msg_Payload m) \<le> maxMessageSize"
  by (auto simp: writeMessageStream_def marshalMessage_def simp del: write_all.simps
      dest!: write_all_Ok split: if_splits)

lemma readMessageStream_frame:
  "readMessageStream \<lparr>avail = b # bs, fin = Sent io_EOF\<rparr> =
     Ok \<lparr>msg_Type = uint b, msg_Payload = take maxMessageSize bs\<rparr>"
  by (simp add: readMessageStream_def io_ReadFull_def io_ReadAll_Limit_def maxMessageSize_def)

section \<open>Properties\<close>

text \<open>A message whose type fits in a byte and that the sender's size check admits arrives
  unchanged: on a stream that ends after it, and as a datagram.\<close>

lemma message_roundtrip:
  assumes "type_fits m" and "writeMessageStream w m = Ok out"
  shows "readMessageStream \<lparr>avail = out, fin = Sent io_EOF\<rparr> = Ok m \<and>
    unmarshalMessage (marshalMessage m) = Ok m"
proof -
  have o: "out = marshalMessage m" and l: "length (msg_Payload m) \<le> maxMessageSize"
    using writeMessageStream_Ok [OF assms(2)] by auto
  have "readMessageStream \<lparr>avail = out, fin = Sent io_EOF\<rparr> =
      Ok \<lparr>msg_Type = msg_Type m, msg_Payload = msg_Payload m\<rparr>"
    using l assms(1) unfolding o marshalMessage_def readMessageStream_frame
    by (simp add: type_fits_def uint_word_of_int_byte)
  then show ?thesis using frame.dec_enc [OF assms(1)] by simp
qed

lemma message_roundtrip_example:
  "readMessageStream \<lparr>avail = [4, 1, 2], fin = Sent io_EOF\<rparr> =
     Ok \<lparr>msg_Type = MessageTypeHeartbeat, msg_Payload = [1, 2]\<rparr>"
  using message_roundtrip [of "\<lparr>msg_Type = MessageTypeHeartbeat, msg_Payload = [1, 2]\<rparr>"
      "\<lambda>_. None" "[4, 1, 2]"]
  by (simp add: type_fits_def MessageType_defs writeMessageStream_def maxMessageSize_def)

text \<open>C28: a reader never holds more payload than 2^20 bytes; a longer stream is not rejected but
  delivered with its payload cut to that length, and a datagram is delivered at any length.\<close>

theorem readMessageStream_truncates:
  "(\<forall>m. readMessageStream s = Ok m \<longrightarrow> length (msg_Payload m) \<le> 2 ^ 20) \<and>
   readMessageStream \<lparr>avail = b # bs, fin = Sent io_EOF\<rparr> =
     Ok \<lparr>msg_Type = uint b, msg_Payload = take (2 ^ 20) bs\<rparr> \<and>
   unmarshalMessage (b # bs) = Ok \<lparr>msg_Type = uint b, msg_Payload = bs\<rparr>"
  by (auto simp: readMessageStream_frame maxMessageSize_def unmarshalMessage_def)
     (auto simp: readMessageStream_def maxMessageSize_def dest!: io_ReadAll_Limit_bound)

theorem readMessageStream_truncates_witness:
  "readMessageStream \<lparr>avail = 4 # replicate (2 ^ 20 + 1) 0, fin = Sent io_EOF\<rparr> =
     Ok \<lparr>msg_Type = uint (4 :: byte), msg_Payload = take (2 ^ 20) (replicate (2 ^ 20 + 1) 0)\<rparr>"
  using readMessageStream_truncates by blast

text \<open>The reply envelope a node writes for a handler's result is what the sender reads: success
  exactly when the handler returned no error, with the error's text and the encoded payload.\<close>

lemma reply_roundtrip:
  assumes "proto_decodes P" and "writeMessageReply P w payload err = Ok out"
  shows "\<exists>r. readMessageReply P \<lparr>avail = out, fin = Sent io_EOF\<rparr> = Ok r \<and>
    (mr_Success r \<longleftrightarrow> err = None) \<and> (\<forall>e. err = Some e \<longrightarrow> mr_Error r = error_text e) \<and>
    (\<forall>m. payload = Some m \<longrightarrow> pl_Marshal P m = Ok (mr_Payload r)) \<and>
    (payload = None \<longrightarrow> mr_Payload r = [])"
proof -
  obtain enc r where enc: "(case payload of None \<Rightarrow> Ok [] | Some m \<Rightarrow>
        wrap_err (errorw ''marshal reply payload: %w'') (pl_Marshal P m)) = Ok enc"
    and r: "r = \<lparr>mr_Success = (err = None), mr_Payload = enc,
              mr_Error = (case err of None \<Rightarrow> [] | Some e \<Rightarrow> error_text e)\<rparr>"
    and o: "pl_Marshal P (PMessageReply r) = Ok out" "length out \<le> maxMessageSize"
    using assms(2)
    by (auto simp: writeMessageReply_def simp del: write_all.simps dest!: write_all_Ok split: if_splits)
  have "pl_Unmarshal P KMessageReply out = Ok (PMessageReply r)"
    using assms(1) o(1) unfolding proto_decodes_def by (metis proto_kind_of.simps(7))
  moreover have "io_ReadAll_Limit maxMessageSize \<lparr>avail = out, fin = Sent io_EOF\<rparr> = Ok out"
    using o(2) by (auto simp: io_ReadAll_Limit_def)
  ultimately have "readMessageReply P \<lparr>avail = out, fin = Sent io_EOF\<rparr> = Ok r"
    by (simp add: readMessageReply_def)
  with enc show ?thesis by (auto simp: r split: option.splits)
qed

definition ack :: MessageReply where
  "ack = \<lparr>mr_Success = True, mr_Payload = [], mr_Error = []\<rparr>"

definition ack_proto :: protolib where
  "ack_proto =
     \<lparr>pl_Marshal = (\<lambda>m. if m = PMessageReply ack then Ok [9] else Err (New ''none'')),
      pl_MarshalDet = (\<lambda>m. Err (New ''none'')),
      pl_Unmarshal = (\<lambda>k b. if k = KMessageReply \<and> b = [9] then Ok (PMessageReply ack)
                            else Err (New ''none''))\<rparr>"

lemma reply_roundtrip_example:
  "\<exists>r. readMessageReply ack_proto \<lparr>avail = [9], fin = Sent io_EOF\<rparr> = Ok r \<and> mr_Success r"
proof -
  have "proto_decodes ack_proto" by (simp add: proto_decodes_def ack_proto_def)
  moreover have "writeMessageReply ack_proto (\<lambda>_. None) None None = Ok [9]"
    by (simp add: writeMessageReply_def ack_proto_def ack_def maxMessageSize_def)
  ultimately show ?thesis using reply_roundtrip by blast
qed

end
