(* ===== verification/Controller.thy ===== *)
theory Controller
  imports MessageIO TrustStore
begin

text \<open>
  \<^verbatim>\<open>internal/control/cluster_controller.go\<close> and \<^verbatim>\<open>pkg/interfaces/message_registry.go\<close>: the
  registry of message handlers and the access control in front of them.  A handler acts on an
  application state \<open>'s\<close> and returns, as a Go handler does, a response and an error side by
  side.  The payload factory of a registration is given by the type of message it makes.
\<close>

section \<open>Handlers and registrations\<close>

type_synonym reply = "proto_message option \<times> goerror option"
type_synonym 's MessageHandler = "proto_message \<Rightarrow> nodeid \<Rightarrow> TrustScope \<Rightarrow> 's \<Rightarrow> reply \<times> 's"

record 's MessageRegistration =
  reg_MsgType :: MessageType
  reg_AllowedScopes :: "TrustScope list"
  reg_NewPayload :: "proto_kind option"
  reg_Handler :: "'s MessageHandler"

record AccessDecision =
  ad_Allowed :: bool
  ad_Reason :: string

text \<open>What a caller may pass as the \<open>any\<close> argument \<open>handler\<close>: a (possibly nil) \<open>MessageHandler\<close>
  or a value of another type.\<close>

datatype 's any_handler = AnyMessageHandler "'s MessageHandler option" | AnyOther

definition messageSchemas :: "MessageType \<rightharpoonup> proto_kind" where
  "messageSchemas = [MessageTypeUserMessage \<mapsto> KUserMessage]"

text \<open>\<open>TypedHandler\<close> for a handler whose \<open>In\<close> type is the message type \<open>k\<close>.  A payload of another
  type is reported and the handler is not called.\<close>

definition TypedHandler :: "proto_kind \<Rightarrow> (proto_kind \<Rightarrow> string) \<Rightarrow> 's MessageHandler \<Rightarrow> 's MessageHandler" where
  "TypedHandler k type_name fn payload peer scope s =
     (if proto_kind_of payload \<noteq> k
      then ((None, Some (Errorf ''payload type %T does not match %T''
               [AStr (type_name (proto_kind_of payload)), AStr (type_name k)])), s)
      else fn payload peer scope s)"

definition BuildMessageRegistration ::
  "MessageType \<Rightarrow> TrustScope list \<Rightarrow> 's any_handler \<Rightarrow> 's MessageRegistration result" where
  "BuildMessageRegistration msgType scopes handler =
     (case messageSchemas msgType of
        None \<Rightarrow> Err (Errorf ''no message schema for type %d'' [AInt msgType])
      | Some schema \<Rightarrow>
         (case handler of
            AnyMessageHandler (Some mh) \<Rightarrow>
              Ok \<lparr>reg_MsgType = msgType, reg_AllowedScopes = scopes, reg_NewPayload = Some schema,
                  reg_Handler = mh\<rparr>
          | _ \<Rightarrow> Err (New (''handler must be a non-nil MessageHandler; use TypedHandler or '' @
                   ''RegisterTypedHandler for typed handlers''))))"

section \<open>The controller\<close>

record 's clusterController =
  handlers :: "MessageType \<rightharpoonup> 's MessageRegistration"

definition NewClusterController :: "bool \<Rightarrow> bool \<Rightarrow> 's clusterController result" where
  "NewClusterController carrier_nil logger_nil =
     (if carrier_nil then Err (New ''carrier must not be nil'')
      else if logger_nil then Err (New ''logger must not be nil'')
      else Ok \<lparr>handlers = Map.empty\<rparr>)"

definition RegisterHandler ::
  "MessageType \<Rightarrow> TrustScope list \<Rightarrow> 's any_handler \<Rightarrow> 's clusterController
     \<Rightarrow> 's clusterController result" where
  "RegisterHandler msgType scopes handler cc =
     (if scopes = [] then Err (New ''at least one scope is required'')
      else if msgType \<in> dom (handlers cc)
      then Err (Errorf ''handler already registered for message type %d'' [AInt msgType])
      else obind (BuildMessageRegistration msgType scopes handler) (\<lambda>registration.
           Ok (cc\<lparr>handlers := (handlers cc)(msgType \<mapsto> registration)\<rparr>)))"

definition UnregisterHandler :: "MessageType \<Rightarrow> 's clusterController \<Rightarrow> 's clusterController result" where
  "UnregisterHandler msgType cc =
     (if msgType \<notin> dom (handlers cc)
      then Err (Errorf ''no handler registered for message type %d'' [AInt msgType])
      else Ok (cc\<lparr>handlers := (handlers cc)(msgType := None)\<rparr>))"

definition GetHandler :: "MessageType \<Rightarrow> 's clusterController \<Rightarrow> 's MessageRegistration option" where
  "GetHandler msgType cc = handlers cc msgType"

definition RegisterTypedHandler ::
  "proto_kind \<Rightarrow> (proto_kind \<Rightarrow> string) \<Rightarrow> MessageType \<Rightarrow> TrustScope list \<Rightarrow> 's MessageHandler
     \<Rightarrow> 's clusterController option \<Rightarrow> 's clusterController result" where
  "RegisterTypedHandler k type_name msgType scopes fn controller =
     (case controller of
        None \<Rightarrow> Err (New ''controller must not be nil'')
      | Some cc \<Rightarrow>
          RegisterHandler msgType scopes (AnyMessageHandler (Some (TypedHandler k type_name fn))) cc)"

definition GetEffectiveScopes :: "TrustScope \<Rightarrow> TrustScope list" where
  "GetEffectiveScopes scope =
     (if scope = ScopeAdmin then [ScopeAdmin, ScopeUser]
      else if scope = ScopeUser then [ScopeUser] else [])"

definition getEffectiveScopesUnlocked :: "TrustScope \<Rightarrow> TrustScope list" where
  "getEffectiveScopesUnlocked scope =
     (if scope = ScopeAdmin then [ScopeAdmin, ScopeUser]
      else if scope = ScopeUser then [ScopeUser] else [])"

definition CheckAccess :: "MessageType \<Rightarrow> TrustScope \<Rightarrow> 's clusterController \<Rightarrow> AccessDecision" where
  "CheckAccess msgType peerScope cc =
     (case handlers cc msgType of
        None \<Rightarrow> \<lparr>ad_Allowed = False,
                 ad_Reason = sprintf ''no handler registered for message type %d'' [itoa msgType]\<rparr>
      | Some reg \<Rightarrow>
          if list_ex (\<lambda>es. list_ex (\<lambda>as. es = as) (reg_AllowedScopes reg))
               (getEffectiveScopesUnlocked peerScope)
          then \<lparr>ad_Allowed = True, ad_Reason = []\<rparr>
          else \<lparr>ad_Allowed = False,
                ad_Reason = sprintf (''peer scope %s does not match any allowed scope for '' @
                   ''message type %d'') [TrustScope_String peerScope, itoa msgType]\<rparr>)"

text \<open>
  \<open>HandleIncomingMessage\<close> takes the lock twice: \<open>cc\<close> is the controller when access is checked,
  \<open>cc'\<close> when the registration is fetched.  Another goroutine may have registered or
  unregistered handlers in between.
\<close>

definition HandleIncomingMessage ::
  "protolib \<Rightarrow> 's clusterController \<Rightarrow> 's clusterController \<Rightarrow> Message \<Rightarrow> nodeid \<Rightarrow> TrustScope
     \<Rightarrow> 's \<Rightarrow> (reply \<times> 's) result" where
  "HandleIncomingMessage P cc cc' msg peer peerScope s =
     (let decision = CheckAccess (msg_Type msg) peerScope cc in
      if \<not> ad_Allowed decision
      then Ok ((None, Some (Errorf ''access denied: %s'' [AStr (ad_Reason decision)])), s)
      else
      case handlers cc' (msg_Type msg) of
        None \<Rightarrow> Ok ((None, Some (Errorf ''no handler registered for message type %d''
                   [AInt (msg_Type msg)])), s)
      | Some reg \<Rightarrow>
         (case reg_NewPayload reg of
            None \<Rightarrow> Ok ((None, Some (Errorf ''payload factory returned nil for message type %d''
                       [AInt (msg_Type msg)])), s)
          | Some k \<Rightarrow>
             (case pl_Unmarshal P k (msg_Payload msg) of
                Ok payload \<Rightarrow> Ok (reg_Handler reg payload peer peerScope s)
              | Err e \<Rightarrow> Ok ((None, Some (Errorf ''decode message type %d: %w''
                          [AInt (msg_Type msg), AErr e])), s)
              | Panic \<Rightarrow> Panic)))"

section \<open>The interface of the handler registry\<close>

text \<open>A partial map with an insertion that refuses existing keys and a deletion that refuses
  missing ones.\<close>

locale handler_registry =
  fixes get :: "'k \<Rightarrow> 't \<Rightarrow> 'v option"
    and add :: "'k \<Rightarrow> 'v \<Rightarrow> 't \<Rightarrow> ('e, 't) outcome"
    and del :: "'k \<Rightarrow> 't \<Rightarrow> ('e, 't) outcome"
  assumes add_Ok: "add k v t = Ok t' \<Longrightarrow> get k t = None \<and> get j t' = (if j = k then Some v else get j t)"
    and del_Ok: "del k t = Ok t' \<Longrightarrow> get k t \<noteq> None \<and> get j t' = (if j = k then None else get j t)"
    and del_defined: "get k t \<noteq> None \<Longrightarrow> is_Ok (del k t)"
begin

lemma add_twice_fails: "add k v t = Ok t' \<Longrightarrow> \<not> is_Ok (add k u t')"
  using add_Ok [of k v t t' k] add_Ok [of k u t' _ k] by (auto simp: is_Ok_iff)

lemma del_twice_fails: "del k t = Ok t' \<Longrightarrow> \<not> is_Ok (del k t')"
  using del_Ok [of k t t' k] del_Ok [of k t' _ k] by (auto simp: is_Ok_iff)

lemma add_del: "add k v t = Ok t' \<Longrightarrow> \<exists>t''. del k t' = Ok t'' \<and> (\<forall>j. get j t'' = get j t)"
proof -
  assume a: "add k v t = Ok t'"
  then have "get k t' \<noteq> None" using add_Ok [OF a, of k] by simp
  then obtain t'' where "del k t' = Ok t''" using del_defined by (auto simp: is_Ok_iff)
  moreover from this have "get j t'' = get j t" for j
    using del_Ok [of k t' t'' j] add_Ok [OF a, of j] by (auto split: if_splits)
  ultimately show ?thesis by blast
qed

end

text \<open>Registration stores the registration that \<open>BuildMessageRegistration\<close> makes.\<close>

definition register_built ::
  "MessageType \<Rightarrow> 's MessageRegistration \<Rightarrow> 's clusterController \<Rightarrow> 's clusterController result" where
  "register_built t r cc =
     (case RegisterHandler t (reg_AllowedScopes r) (AnyMessageHandler (Some (reg_Handler r))) cc of
        Ok cc' \<Rightarrow> if handlers cc' t = Some r then Ok cc' else Err (New ''not the built registration'')
      | Err e \<Rightarrow> Err e | Panic \<Rightarrow> Panic)"

lemma RegisterHandler_Ok_iff [outcome_simps]:
  "RegisterHandler t scopes h cc = Ok cc' \<longleftrightarrow>
     scopes \<noteq> [] \<and> handlers cc t = None \<and>
     (\<exists>k mh. messageSchemas t = Some k \<and> h = AnyMessageHandler (Some mh) \<and>
        cc' = cc\<lparr>handlers := (handlers cc)(t \<mapsto> \<lparr>reg_MsgType = t, reg_AllowedScopes = scopes,
                 reg_NewPayload = Some k, reg_Handler = mh\<rparr>)\<rparr>)"
  by (auto simp: RegisterHandler_def BuildMessageRegistration_def domIff
      split: option.splits any_handler.splits)

lemma UnregisterHandler_Ok_iff [outcome_simps]:
  "UnregisterHandler t cc = Ok cc' \<longleftrightarrow>
     handlers cc t \<noteq> None \<and> cc' = cc\<lparr>handlers := (handlers cc)(t := None)\<rparr>"
  by (auto simp: UnregisterHandler_def domIff)

interpretation controller_registry: handler_registry GetHandler register_built UnregisterHandler
  by unfold_locales
     (auto simp: register_built_def GetHandler_def RegisterHandler_Ok_iff UnregisterHandler_Ok_iff
        is_Ok_iff UnregisterHandler_def domIff split: outcome.splits if_splits)

section \<open>Access control\<close>

lemma effective_scopes_set:
  "set (getEffectiveScopesUnlocked s) = (if s = ScopeAdmin then {ScopeAdmin, ScopeUser}
     else if s = ScopeUser then {ScopeUser} else {})"
  by (simp add: getEffectiveScopesUnlocked_def)

lemma GetEffectiveScopes_unlocked: "GetEffectiveScopes = getEffectiveScopesUnlocked"
  by (simp add: fun_eq_iff GetEffectiveScopes_def getEffectiveScopesUnlocked_def)

lemma CheckAccess_iff:
  "ad_Allowed (CheckAccess t scope cc) \<longleftrightarrow>
     (\<exists>reg. handlers cc t = Some reg \<and>
        (\<exists>es \<in> set (GetEffectiveScopes scope). es \<in> set (reg_AllowedScopes reg)))"
  by (auto simp: CheckAccess_def GetEffectiveScopes_unlocked list_ex_iff split: option.splits)

lemma CheckAccess_reason:
  "ad_Allowed (CheckAccess t scope cc) \<longleftrightarrow> ad_Reason (CheckAccess t scope cc) = []"
  by (auto simp: CheckAccess_def split: option.splits)

lemma HandleIncomingMessage_denied:
  "\<not> ad_Allowed (CheckAccess (msg_Type msg) scope cc) \<Longrightarrow>
     HandleIncomingMessage P cc cc' msg peer scope s =
       Ok ((None, Some (Errorf ''access denied: %s''
          [AStr (ad_Reason (CheckAccess (msg_Type msg) scope cc))])), s)"
  by (simp add: HandleIncomingMessage_def Let_def)


definition echo_registration :: "TrustScope list \<Rightarrow> nat MessageRegistration" where
  "echo_registration scopes =
     \<lparr>reg_MsgType = MessageTypeUserMessage, reg_AllowedScopes = scopes,
      reg_NewPayload = Some KUserMessage,
      reg_Handler = (\<lambda>payload peer scope n. ((Some payload, None), Suc n))\<rparr>"

definition echo_proto :: protolib where
  "echo_proto =
     \<lparr>pl_Marshal = \<lambda>m. Err (New ''none''), pl_MarshalDet = \<lambda>m. Err (New ''none''),
      pl_Unmarshal = \<lambda>k b. Ok (PUserMessage \<lparr>um_From = [], um_Text = []\<rparr>)\<rparr>"

definition echo_message :: Message where
  "echo_message = \<lparr>msg_Type = MessageTypeUserMessage, msg_Payload = []\<rparr>"

lemma echo_runs:
  assumes "handlers cc MessageTypeUserMessage = Some reg" and "scope \<in> set (reg_AllowedScopes reg)"
    and "scope = ScopeAdmin \<or> scope = ScopeUser"
    and "handlers cc' MessageTypeUserMessage = Some (echo_registration scopes)"
  shows "HandleIncomingMessage echo_proto cc cc' echo_message peer scope n =
    Ok ((Some (PUserMessage \<lparr>um_From = [], um_Text = []\<rparr>), None), Suc n)"
proof -
  have "ad_Allowed (CheckAccess MessageTypeUserMessage scope cc)"
    using assms(1-3) by (auto simp: CheckAccess_iff GetEffectiveScopes_def)
  with assms(4) show ?thesis
    by (simp add: HandleIncomingMessage_def echo_message_def echo_registration_def echo_proto_def)
qed


text \<open>Every message type a user-scope peer may send, an admin-scope peer may send as well, and a
  peer with any other scope value may send nothing.\<close>

lemma admin_implies_user:
  "(ad_Allowed (CheckAccess t ScopeUser cc) \<longrightarrow> ad_Allowed (CheckAccess t ScopeAdmin cc)) \<and>
   (scope \<noteq> ScopeAdmin \<longrightarrow> scope \<noteq> ScopeUser \<longrightarrow> \<not> ad_Allowed (CheckAccess t scope cc))"
  by (auto simp: CheckAccess_iff GetEffectiveScopes_def)

lemma admin_implies_user_example:
  "ad_Allowed (CheckAccess MessageTypeUserMessage ScopeAdmin
     \<lparr>handlers = [MessageTypeUserMessage \<mapsto> echo_registration [ScopeUser]]\<rparr>)"
proof -
  have "ad_Allowed (CheckAccess MessageTypeUserMessage ScopeUser
     \<lparr>handlers = [MessageTypeUserMessage \<mapsto> echo_registration [ScopeUser]]\<rparr>)"
    by (simp add: CheckAccess_iff GetEffectiveScopes_def echo_registration_def)
  with admin_implies_user show ?thesis by blast
qed

text \<open>C27: the handler registry behaves as a map: a successful registration is found under its type
  and changes no other type, cannot be repeated, and is undone by unregistering, which in turn
  cannot be repeated.\<close>

theorem register_unregister_laws:
  assumes "RegisterHandler t scopes h cc = Ok cc'"
  shows "GetHandler t cc = None \<and>
    (\<exists>reg. GetHandler t cc' = Some reg \<and> reg_AllowedScopes reg = scopes \<and>
       h = AnyMessageHandler (Some (reg_Handler reg))) \<and>
    (\<forall>j. j \<noteq> t \<longrightarrow> GetHandler j cc' = GetHandler j cc) \<and>
    (\<forall>scopes' h'. \<not> is_Ok (RegisterHandler t scopes' h' cc')) \<and>
    (\<exists>cc''. UnregisterHandler t cc' = Ok cc'' \<and> (\<forall>j. GetHandler j cc'' = GetHandler j cc) \<and>
       \<not> is_Ok (UnregisterHandler t cc''))"
proof -
  obtain k mh where r: "scopes \<noteq> []" "handlers cc t = None" "messageSchemas t = Some k"
      "h = AnyMessageHandler (Some mh)"
    and cc': "cc' = cc\<lparr>handlers := (handlers cc)(t \<mapsto> \<lparr>reg_MsgType = t, reg_AllowedScopes = scopes,
                 reg_NewPayload = Some k, reg_Handler = mh\<rparr>)\<rparr>"
    using assms by (auto simp: RegisterHandler_Ok_iff)
  have b: "register_built t \<lparr>reg_MsgType = t, reg_AllowedScopes = scopes, reg_NewPayload = Some k,
      reg_Handler = mh\<rparr> cc = Ok cc'"
    using assms unfolding register_built_def r(4) by (simp add: cc')
  obtain cc'' where u: "UnregisterHandler t cc' = Ok cc''" "\<forall>j. GetHandler j cc'' = GetHandler j cc"
    using controller_registry.add_del [OF b] by blast
  have "\<not> is_Ok (UnregisterHandler t cc'')" by (rule controller_registry.del_twice_fails [OF u(1)])
  moreover have "\<not> is_Ok (RegisterHandler t scopes' h' cc')" for scopes' h'
    by (auto simp: is_Ok_iff RegisterHandler_Ok_iff cc')
  ultimately show ?thesis
    using u r by (auto simp: GetHandler_def cc')
qed

theorem register_unregister_laws_witness:
  "\<exists>reg. GetHandler MessageTypeUserMessage
     \<lparr>handlers = [MessageTypeUserMessage \<mapsto> echo_registration [ScopeUser]]\<rparr> = Some reg \<and>
     reg_AllowedScopes reg = [ScopeUser]"
proof -
  have "RegisterHandler MessageTypeUserMessage [ScopeUser]
      (AnyMessageHandler (Some (reg_Handler (echo_registration [ScopeUser])))) \<lparr>handlers = Map.empty\<rparr> =
      Ok \<lparr>handlers = [MessageTypeUserMessage \<mapsto> echo_registration [ScopeUser]]\<rparr>"
    by (simp add: RegisterHandler_Ok_iff messageSchemas_def echo_registration_def)
  from register_unregister_laws [OF this] show ?thesis by blast
qed

section \<open>Access is checked on one state and the handler taken from another\<close>

text \<open>When a handler is replaced between the two locked sections of \<open>HandleIncomingMessage\<close>, a
  user-scope peer reaches a handler that allows admins only.\<close>

theorem check_then_use_race:
  "\<exists>(cc :: nat clusterController) cc' s'.
     \<not> ad_Allowed (CheckAccess MessageTypeUserMessage ScopeUser cc') \<and>
     HandleIncomingMessage echo_proto cc cc' echo_message [] ScopeUser 0 =
       Ok ((Some (PUserMessage \<lparr>um_From = [], um_Text = []\<rparr>), None), s') \<and> s' \<noteq> 0"
proof -
  let ?cc = "\<lambda>scopes. \<lparr>handlers = [MessageTypeUserMessage \<mapsto> echo_registration scopes]\<rparr>"
  have "HandleIncomingMessage echo_proto (?cc [ScopeUser]) (?cc [ScopeAdmin]) echo_message [] ScopeUser 0 =
      Ok ((Some (PUserMessage \<lparr>um_From = [], um_Text = []\<rparr>), None), Suc 0)"
    by (rule echo_runs [where reg = "echo_registration [ScopeUser]"])
      (simp_all add: echo_registration_def)
  moreover have "\<not> ad_Allowed (CheckAccess MessageTypeUserMessage ScopeUser (?cc [ScopeAdmin]))"
    by (simp add: CheckAccess_iff GetEffectiveScopes_def echo_registration_def)
  ultimately show ?thesis by (metis Zero_not_Suc)
qed

end
