(* ===== verification/Carrier.thy ===== *)
theory Carrier
  imports Handshake Registry Controller
begin

text \<open>
  The carrier of \<^verbatim>\<open>internal/transport\<close>: \<^verbatim>\<open>carrier.go\<close> (configuration, construction, status),
  \<^verbatim>\<open>carrier_cluster.go\<close> (mutual authentication, registration, leaving), \<^verbatim>\<open>carrier_connection.go\<close>
  (outbound connections) and the connection bookkeeping of \<^verbatim>\<open>carrier_dispatch.go\<close>.  The state
  of a carrier is a record; an operation returns its outcome and the state it leaves behind.
  What the network does is an argument: a connection is its identity, its TLS session, the
  stream it hands out next and how writing to a stream it opens behaves.  Closing a connection
  and starting a goroutine are recorded in the state.  The log is left out.
\<close>

section \<open>Configuration\<close>

definition time_Millisecond :: duration where "time_Millisecond = 1000000"
definition time_Minute :: duration where "time_Minute = 60 * time_Second"

definition defaultHeartbeatInterval :: duration where "defaultHeartbeatInterval = 5 * time_Second"
definition defaultHeartbeatTimeout :: duration where "defaultHeartbeatTimeout = 15 * time_Second"
definition defaultReconnectInterval :: duration where "defaultReconnectInterval = 5 * time_Minute"
definition defaultBootstrapRetryInterval :: duration where
  "defaultBootstrapRetryInterval = 5 * time_Second"
definition defaultBootstrapMaxRetries :: int where "defaultBootstrapMaxRetries = 4"
definition defaultBroadcastMaxRetries :: int where "defaultBroadcastMaxRetries = 3"
definition defaultBroadcastRetryInterval :: duration where
  "defaultBroadcastRetryInterval = 250 * time_Millisecond"

lemmas default_defs = time_Millisecond_def time_Minute_def time_Second_def
  defaultHeartbeatInterval_def defaultHeartbeatTimeout_def defaultReconnectInterval_def
  defaultBootstrapRetryInterval_def defaultBootstrapMaxRetries_def
  defaultBroadcastMaxRetries_def defaultBroadcastRetryInterval_def

text \<open>The trust store behind the \<open>Auth\<close> interface stands in the configuration with the content it
  has when an operation reads it.\<close>

record ('pk, 'sk, 'h) CarrierConfig =
  cfg_BootstrapAddresses :: "string list"
  cfg_SelfCert :: "'pk nodecert option"
  cfg_ListenAddress :: string
  cfg_Auth :: "('pk, 'h) carrierAuth option"
  cfg_NodeIdentity :: "('pk, 'sk) NodeIdentity option"
  cfg_NodeRole :: NodeRole
  cfg_HeartbeatInterval :: duration
  cfg_HeartbeatTimeout :: duration
  cfg_ReconnectInterval :: duration
  cfg_BootstrapRetryInterval :: duration
  cfg_BootstrapMaxRetries :: int
  cfg_BroadcastMaxRetries :: int
  cfg_BroadcastRetryInterval :: duration

section \<open>State\<close>

type_synonym connid = nat

record connection =
  cn_id :: connid
  cn_tls :: quicConnection
  cn_RemoteAddr :: string
  cn_AcceptStream :: "instream result"
  cn_OpenStream :: "(nat \<Rightarrow> goerror option) result"

type_synonym 'pk cert_value = "'pk NodeCertLike option"

datatype 'pk goroutine =
    RunHeartbeatLoop | RunReconnectLoop | RunBootstrapLoop
  | HandleIncomingConn connection
  | HandleReliableStreams nodeid connid
  | HandleDatagrams nodeid connid
  | HandleMessageStream nodeid instream
  | ConnectDiscoveredPeers "'pk cert_value Node list"

definition nodeStatusOnline :: int where "nodeStatusOnline = 0"
definition nodeStatusOffline :: int where "nodeStatusOffline = 1"

text \<open>The transport is nil or bound to a local address.  The last two fields record the effects
  outside the struct: the connections \<open>Close\<close> was called on and the goroutines started.\<close>

record ('pk, 'sk, 'h, 's) carrierImpl =
  cr_config :: "('pk, 'sk, 'h) CarrierConfig"
  cr_registry :: "'pk cert_value nodeRegistry"
  cr_transport :: "string option"
  cr_connections :: "nodeid \<rightharpoonup> connid"
  cr_controller :: "'s clusterController option"
  cr_peerScopes :: "nodeid \<rightharpoonup> TrustScope"
  cr_backgroundStarted :: bool
  cr_nodeStatus :: int
  cr_closed :: "connid set"
  cr_spawned :: "'pk goroutine list"

text \<open>The defaults \<open>New\<close> writes into the configuration.\<close>

definition config_defaults :: "('pk, 'sk, 'h) CarrierConfig \<Rightarrow> ('pk, 'sk, 'h) CarrierConfig" where
  "config_defaults conf =
     (let interval = (if cfg_HeartbeatInterval conf \<le> 0 then defaultHeartbeatInterval
                      else cfg_HeartbeatInterval conf);
          timeout = (if cfg_HeartbeatTimeout conf \<le> 0 then defaultHeartbeatTimeout
                     else cfg_HeartbeatTimeout conf)
      in conf
        \<lparr>cfg_HeartbeatInterval := interval,
         cfg_HeartbeatTimeout := (if timeout < interval then interval else timeout),
         cfg_ReconnectInterval := (if cfg_ReconnectInterval conf \<le> 0 then defaultReconnectInterval
                                   else cfg_ReconnectInterval conf),
         cfg_BootstrapRetryInterval :=
           (if cfg_BootstrapRetryInterval conf \<le> 0 then defaultBootstrapRetryInterval
            else cfg_BootstrapRetryInterval conf),
         cfg_BootstrapMaxRetries :=
           (if cfg_BootstrapMaxRetries conf \<le> 0 then defaultBootstrapMaxRetries
            else cfg_BootstrapMaxRetries conf),
         cfg_BroadcastMaxRetries :=
           (if cfg_BroadcastMaxRetries conf \<le> 0 then defaultBroadcastMaxRetries
            else cfg_BroadcastMaxRetries conf),
         cfg_BroadcastRetryInterval :=
           (if cfg_BroadcastRetryInterval conf \<le> 0 then defaultBroadcastRetryInterval
            else cfg_BroadcastRetryInterval conf)\<rparr>)"

text \<open>\<open>newTransport\<close> is the result of \<open>newQuicTransport\<close>, the bound address or its error.\<close>

definition carrier_New ::
  "string result \<Rightarrow> ('pk, 'sk, 'h) CarrierConfig \<Rightarrow> ('pk, 'sk, 'h, 's) carrierImpl result" where
  "carrier_New newTransport conf =
     (if cfg_SelfCert conf = None then Err (New ''SelfCert must not be nil'')
      else
      let conf = config_defaults conf;
          c = \<lparr>cr_config = conf, cr_registry = newNodeRegistry, cr_transport = None,
               cr_connections = Map.empty, cr_controller = None, cr_peerScopes = Map.empty,
               cr_backgroundStarted = False, cr_nodeStatus = nodeStatusOnline, cr_closed = {},
               cr_spawned = []\<rparr>
      in if cfg_NodeIdentity conf \<noteq> None
         then obind (wrap_err (errorw ''init transport: %w'') newTransport) (\<lambda>qt.
              Ok (c\<lparr>cr_transport := Some qt\<rparr>))
         else Ok c)"

definition carrier_ListenAddress :: "('pk, 'sk, 'h, 's) carrierImpl \<Rightarrow> string" where
  "carrier_ListenAddress c =
     (case cr_transport c of None \<Rightarrow> cfg_ListenAddress (cr_config c) | Some qt \<Rightarrow> qt)"

definition spawn :: "'pk goroutine list \<Rightarrow> ('pk, 'sk, 'h, 's) carrierImpl \<Rightarrow> ('pk, 'sk, 'h, 's) carrierImpl" where
  "spawn gs c = c\<lparr>cr_spawned := cr_spawned c @ gs\<rparr>"

definition closeConn :: "connid \<Rightarrow> ('pk, 'sk, 'h, 's) carrierImpl \<Rightarrow> ('pk, 'sk, 'h, 's) carrierImpl" where
  "closeConn i c = c\<lparr>cr_closed := insert i (cr_closed c)\<rparr>"

definition ensureBackgroundLoops ::
  "('pk, 'sk, 'h, 's) carrierImpl \<Rightarrow> ('pk, 'sk, 'h, 's) carrierImpl" where
  "ensureBackgroundLoops c =
     (if cr_backgroundStarted c then c
      else spawn [RunHeartbeatLoop, RunReconnectLoop, RunBootstrapLoop]
             (c\<lparr>cr_backgroundStarted := True\<rparr>))"

definition isOffline :: "('pk, 'sk, 'h, 's) carrierImpl \<Rightarrow> bool" where
  "isOffline c \<longleftrightarrow> cr_nodeStatus c = nodeStatusOffline"

definition setOffline :: "('pk, 'sk, 'h, 's) carrierImpl \<Rightarrow> ('pk, 'sk, 'h, 's) carrierImpl" where
  "setOffline c = c\<lparr>cr_nodeStatus := nodeStatusOffline\<rparr>"

definition setOnline :: "('pk, 'sk, 'h, 's) carrierImpl \<Rightarrow> ('pk, 'sk, 'h, 's) carrierImpl" where
  "setOnline c = c\<lparr>cr_nodeStatus := nodeStatusOnline\<rparr>"

definition SetController ::
  "'s clusterController option \<Rightarrow> ('pk, 'sk, 'h, 's) carrierImpl \<Rightarrow> ('pk, 'sk, 'h, 's) carrierImpl" where
  "SetController controller c = c\<lparr>cr_controller := controller\<rparr>"

section \<open>Queries\<close>

record PeerNode =
  pn_NodeID :: nodeid
  pn_Addresses :: "string list"
  pn_Role :: NodeRole

record NodeConnection =
  nc_Peer :: PeerNode
  nc_Conn :: "connid option"

text \<open>The certificate of a \<open>PeerNode\<close> is always nil here.\<close>

definition toPeerNode :: "'c Node \<Rightarrow> PeerNode" where
  "toPeerNode n = \<lparr>pn_NodeID = nd_NodeID n, pn_Addresses = nd_Addresses n, pn_Role = nd_Role n\<rparr>"

definition getNodesUnlocked :: "nodeid list \<Rightarrow> ('pk, 'sk, 'h, 's) carrierImpl \<Rightarrow> PeerNode list" where
  "getNodesUnlocked ks c = map toPeerNode (GetAllNodes ks (cr_registry c))"

definition GetNodes :: "nodeid list \<Rightarrow> ('pk, 'sk, 'h, 's) carrierImpl \<Rightarrow> PeerNode list" where
  "GetNodes ks c = getNodesUnlocked ks c"

definition carrier_GetNode :: "nodeid \<Rightarrow> ('pk, 'sk, 'h, 's) carrierImpl \<Rightarrow> PeerNode result" where
  "carrier_GetNode nid c =
     obind (registry_GetNode nid (cr_registry c)) (\<lambda>node. Ok (toPeerNode node))"

definition GetNodeConnection :: "nodeid \<Rightarrow> ('pk, 'sk, 'h, 's) carrierImpl \<Rightarrow> NodeConnection result" where
  "GetNodeConnection nid c =
     obind (registry_GetNode nid (cr_registry c)) (\<lambda>node.
     Ok \<lparr>nc_Peer = toPeerNode node, nc_Conn = cr_connections c nid\<rparr>)"

definition IsConnected :: "nodeid \<Rightarrow> ('pk, 'sk, 'h, 's) carrierImpl \<Rightarrow> bool" where
  "IsConnected nid c \<longleftrightarrow> cr_connections c nid \<noteq> None"

definition connectionForNode :: "nodeid \<Rightarrow> ('pk, 'sk, 'h, 's) carrierImpl \<Rightarrow> connid result" where
  "connectionForNode nid c =
     (case cr_connections c nid of None \<Rightarrow> Err (New ''node not connected'') | Some i \<Rightarrow> Ok i)"

section \<open>Connections come and go\<close>

text \<open>A registry call whose error is dropped.\<close>

definition registry_ignore ::
  "('pk cert_value nodeRegistry \<Rightarrow> 'pk cert_value nodeRegistry result)
     \<Rightarrow> ('pk, 'sk, 'h, 's) carrierImpl \<Rightarrow> ('pk, 'sk, 'h, 's) carrierImpl" where
  "registry_ignore f c = (case f (cr_registry c) of Ok r \<Rightarrow> c\<lparr>cr_registry := r\<rparr> | _ \<Rightarrow> c)"

definition dropConnection ::
  "nodeid \<Rightarrow> connid \<Rightarrow> ('pk, 'sk, 'h, 's) carrierImpl \<Rightarrow> ('pk, 'sk, 'h, 's) carrierImpl" where
  "dropConnection nid conn c =
     (if cr_connections c nid \<noteq> Some conn then c
      else registry_ignore (SetStatus nid ConnectionStatusDisconnected)
             (closeConn conn
               (c\<lparr>cr_connections := (cr_connections c)(nid := None),
                  cr_peerScopes := (cr_peerScopes c)(nid := None)\<rparr>)))"

definition markPeerSeen ::
  "nodeid \<Rightarrow> gotime \<Rightarrow> ('pk, 'sk, 'h, 's) carrierImpl \<Rightarrow> ('pk, 'sk, 'h, 's) carrierImpl" where
  "markPeerSeen nid seenAt c =
     registry_ignore (SetStatus nid ConnectionStatusConnected)
       (registry_ignore (UpdateLastSeen nid seenAt) c)"

definition markPeerFailed ::
  "nodeid \<Rightarrow> connid \<Rightarrow> ('pk, 'sk, 'h, 's) carrierImpl \<Rightarrow> ('pk, 'sk, 'h, 's) carrierImpl" where
  "markPeerFailed nid conn c =
     registry_ignore (SetStatus nid ConnectionStatusFailed) (dropConnection nid conn c)"

text \<open>\<open>closeErr\<close> is what \<open>conn.Close()\<close> returns.\<close>

definition LeaveCluster ::
  "goerror option \<Rightarrow> nodeid \<Rightarrow> ('pk, 'sk, 'h, 's) carrierImpl
     \<Rightarrow> unit result \<times> ('pk, 'sk, 'h, 's) carrierImpl" where
  "LeaveCluster closeErr nid c =
     (case cr_connections c nid of
        None \<Rightarrow> (Err (New ''node not connected''), c)
      | Some conn \<Rightarrow>
         (case closeErr of
            Some e \<Rightarrow> (Err e, closeConn conn c)
          | None \<Rightarrow> (Ok (), closeConn conn
                      (c\<lparr>cr_connections := (cr_connections c)(nid := None),
                         cr_peerScopes := (cr_peerScopes c)(nid := None)\<rparr>))))"

definition carrier_RemoveNode ::
  "nodeid \<Rightarrow> ('pk, 'sk, 'h, 's) carrierImpl \<Rightarrow> unit result \<times> ('pk, 'sk, 'h, 's) carrierImpl" where
  "carrier_RemoveNode nid c =
     (let c = (case cr_connections c nid of
                 Some conn \<Rightarrow> closeConn conn (c\<lparr>cr_connections := (cr_connections c)(nid := None)\<rparr>)
               | None \<Rightarrow> c);
          c = c\<lparr>cr_peerScopes := (cr_peerScopes c)(nid := None)\<rparr>
      in on_result (registry_RemoveNode nid (cr_registry c)) c (\<lambda>e. (Err e, c))
           (\<lambda>r. (Ok (), c\<lparr>cr_registry := r\<rparr>)))"

text \<open>\<open>registerPeer\<close> takes two locks in turn: the registry's for \<open>AddNode\<close> and then the
  carrier's.  The second section is \<open>publishPeer\<close>.\<close>

definition peer_record ::
  "gotime \<Rightarrow> AuthContext \<Rightarrow> 'pk cert_value list \<Rightarrow> string list \<Rightarrow> 'pk cert_value Node" where
  "peer_record seenAt authCtx certs addresses =
     \<lparr>nd_NodeID = ac_NodeID authCtx, nd_Addresses = compactAddresses addresses,
      nd_NodeCerts = certs, nd_Role = NodeRoleServer, nd_LastSeen = seenAt,
      nd_ConnectionStatus = ConnectionStatusConnected\<rparr>"

definition publishPeer ::
  "AuthContext \<Rightarrow> connid \<Rightarrow> ('pk, 'sk, 'h, 's) carrierImpl \<Rightarrow> ('pk, 'sk, 'h, 's) carrierImpl" where
  "publishPeer authCtx conn c =
     c\<lparr>cr_connections := (cr_connections c)(ac_NodeID authCtx \<mapsto> conn),
       cr_peerScopes := (cr_peerScopes c)(ac_NodeID authCtx \<mapsto> ac_EffectiveScope authCtx)\<rparr>"

definition registerPeer ::
  "('pk, 'sk) keyslib \<Rightarrow> gotime \<Rightarrow> AuthContext \<Rightarrow> connid \<Rightarrow> 'pk cert_value list \<Rightarrow> string list
     \<Rightarrow> ('pk, 'sk, 'h, 's) carrierImpl \<Rightarrow> unit result \<times> ('pk, 'sk, 'h, 's) carrierImpl" where
  "registerPeer K seenAt authCtx conn certs addresses c =
     on_result (AddNode (kl_NodeID_IsZero K) (peer_record seenAt authCtx certs addresses) certs (cr_registry c)) c
       (\<lambda>e. (Err e, c))
       (\<lambda>r. (Ok (), publishPeer authCtx conn (c\<lparr>cr_registry := r\<rparr>)))"

definition startConnectionLoops ::
  "nodeid \<Rightarrow> connid \<Rightarrow> ('pk, 'sk, 'h, 's) carrierImpl \<Rightarrow> ('pk, 'sk, 'h, 's) carrierImpl" where
  "startConnectionLoops nid conn c = spawn [HandleReliableStreams nid conn, HandleDatagrams nid conn] c"

section \<open>Mutual authentication\<close>

text \<open>The instants the clock is read at: for \<open>SignDelegation\<close>, for \<open>VerifyPeerCert\<close> and for
  \<open>registerPeer\<close>.\<close>

record instants =
  at_sign :: int64
  at_verify :: int64
  at_seen :: gotime

text \<open>The result of \<open>dialAndAuth\<close> and \<open>writeLocalAuth\<close> is what they put on the stream.\<close>

definition dialAndAuth ::
  "('pk, 'sk) keyslib \<Rightarrow> protolib \<Rightarrow> int64 \<Rightarrow> connection \<Rightarrow> ('pk, 'sk) NodeIdentity \<Rightarrow> bytes result" where
  "dialAndAuth K P now conn ni =
     obind (wrap_err (errorw ''sign delegation: %w'')
              (SignDelegation K P (ni_key ni) (ni_certs ni) (ni_session ni)
                 (conn_ExportKeyingMaterial (cn_tls conn)) now)) (\<lambda>(dp, sig).
     obind (wrap_err (errorw ''open auth stream: %w'') (cn_OpenStream conn)) (\<lambda>stream.
     writeAuthHandshake K P stream (ni_certs ni) (ni_caSigs ni) (ni_authorities ni) dp sig))"

definition writeLocalAuth ::
  "('pk, 'sk) keyslib \<Rightarrow> protolib \<Rightarrow> int64 \<Rightarrow> connection \<Rightarrow> ('pk, 'sk) NodeIdentity option
     \<Rightarrow> bytes result" where
  "writeLocalAuth K P now conn identity =
     (case identity of
        None \<Rightarrow> Err (New ''node identity is not configured'')
      | Some ni \<Rightarrow>
          obind (wrap_err (errorw ''sign delegation: %w'')
                   (SignDelegation K P (ni_key ni) (ni_certs ni) (ni_session ni)
                      (conn_ExportKeyingMaterial (cn_tls conn)) now)) (\<lambda>(dp, sig).
          obind (wrap_err (errorw ''open auth response stream: %w'') (cn_OpenStream conn)) (\<lambda>stream.
          writeAuthHandshake K P stream (ni_certs ni) (ni_caSigs ni) (ni_authorities ni) dp sig)))"

definition awaitPeerAuth ::
  "('pk, 'sk) keyslib \<Rightarrow> protolib \<Rightarrow> int64 \<Rightarrow> ('pk, 'h) carrierAuth option \<Rightarrow> connection
     \<Rightarrow> (AuthContext \<times> 'pk cert_value list) result" where
  "awaitPeerAuth K P now auth conn =
     (case auth of
        None \<Rightarrow> Err (New ''carrier auth is required to verify peers'')
      | Some ca \<Rightarrow>
          obind (wrap_err (errorw ''accept peer auth stream: %w'') (cn_AcceptStream conn)) (\<lambda>stream.
          obind (readAuthHandshake K P stream (cn_tls conn)) (\<lambda>hs.
          obind (VerifyPeerCert K P ca now hs) (\<lambda>authCtx.
          Ok (authCtx, ph_Certs hs)))))"

text \<open>The errors of an inbound connection are logged; nothing is returned.\<close>

definition handleIncomingConn ::
  "('pk, 'sk) keyslib \<Rightarrow> protolib \<Rightarrow> instants \<Rightarrow> connection \<Rightarrow> ('pk, 'sk, 'h, 's) carrierImpl
     \<Rightarrow> unit result \<times> ('pk, 'sk, 'h, 's) carrierImpl" where
  "handleIncomingConn K P t conn c =
     (let c = ensureBackgroundLoops c; reject = (\<lambda>c e. (Ok (), closeConn (cn_id conn) c)) in
      case cfg_Auth (cr_config c) of
        None \<Rightarrow> (Ok (), closeConn (cn_id conn) c)
      | Some ca \<Rightarrow>
          on_result (cn_AcceptStream conn) c (reject c) (\<lambda>stream.
          on_result (readAuthHandshake K P stream (cn_tls conn)) c (reject c) (\<lambda>hs.
          on_result (VerifyPeerCert K P ca (at_verify t) hs) c (reject c) (\<lambda>authCtx.
          let (registered, c) = registerPeer K (at_seen t) authCtx (cn_id conn) (ph_Certs hs)
                [cn_RemoteAddr conn] c in
          on_result registered c (reject c) (\<lambda>_.
          on_result (writeLocalAuth K P (at_sign t) conn (cfg_NodeIdentity (cr_config c))) c (reject c)
            (\<lambda>_. (Ok (), startConnectionLoops (ac_NodeID authCtx) (cn_id conn) c)))))))"

section \<open>Outbound connections\<close>

text \<open>\<open>dial nodeID address\<close> is what the transport's \<open>Dial\<close> returns for a node with this one
  address.  The loop keeps the error of the last attempt.\<close>

fun dial_loop ::
  "(string \<Rightarrow> connection result) \<Rightarrow> goerror option \<Rightarrow> string list \<Rightarrow> (connection \<times> string) result" where
  "dial_loop dial lastErr [] =
     Err (case lastErr of None \<Rightarrow> New ''no dial attempts were made'' | Some e \<Rightarrow> e)"
| "dial_loop dial lastErr (a # as) =
     (case dial a of
        Ok conn \<Rightarrow> Ok (conn, a)
      | Err e \<Rightarrow> dial_loop dial (Some e) as
      | Panic \<Rightarrow> Panic)"

definition dialKnownAddresses ::
  "(nodeid \<Rightarrow> string \<Rightarrow> connection result) \<Rightarrow> 'c Node \<Rightarrow> (connection \<times> string) result" where
  "dialKnownAddresses dial node =
     (if nd_Addresses node = [] then Err (New ''node has no addresses'')
      else dial_loop (dial (nd_NodeID node)) None (compactAddresses (nd_Addresses node)))"

definition connectNode ::
  "('pk, 'sk) keyslib \<Rightarrow> protolib \<Rightarrow> instants \<Rightarrow> (nodeid \<Rightarrow> string \<Rightarrow> connection result) \<Rightarrow> 'c Node
     \<Rightarrow> ('pk, 'sk, 'h, 's) carrierImpl \<Rightarrow> unit result \<times> ('pk, 'sk, 'h, 's) carrierImpl" where
  "connectNode K P t dial node c =
     (case cfg_NodeIdentity (cr_config c) of
        None \<Rightarrow> (Err (New ''NodeIdentity is required to open peer channel''), c)
      | Some ni \<Rightarrow>
      if cr_transport c = None then (Err (New ''transport is not initialized''), c)
      else
      on_result (dialKnownAddresses dial node) c (\<lambda>e. (Err (errorw ''dial peer: %w'' e), c))
        (\<lambda>(conn, usedAddress).
      let fail = (\<lambda>ctx e. (Err (errorw ctx e), closeConn (cn_id conn) c)) in
      on_result (dialAndAuth K P (at_sign t) conn ni) c (fail ''auth handshake: %w'') (\<lambda>_.
      on_result (awaitPeerAuth K P (at_verify t) (cfg_Auth (cr_config c)) conn) c
        (fail ''verify peer auth: %w'') (\<lambda>(authCtx, certs).
      let (registered, c) = registerPeer K (at_seen t) authCtx (cn_id conn) certs [usedAddress] c in
      on_result registered c (fail ''register peer: %w'') (\<lambda>_.
      (Ok (), startConnectionLoops (ac_NodeID authCtx) (cn_id conn) c))))))"

definition OpenPeerChannel ::
  "('pk, 'sk) keyslib \<Rightarrow> protolib \<Rightarrow> instants \<Rightarrow> (nodeid \<Rightarrow> string \<Rightarrow> connection result) \<Rightarrow> PeerNode
     \<Rightarrow> ('pk, 'sk, 'h, 's) carrierImpl \<Rightarrow> unit result \<times> ('pk, 'sk, 'h, 's) carrierImpl" where
  "OpenPeerChannel K P t dial peer c =
     connectNode K P t dial
       \<lparr>nd_NodeID = pn_NodeID peer, nd_Addresses = pn_Addresses peer, nd_NodeCerts = [] :: unit list,
        nd_Role = pn_Role peer, nd_LastSeen = 0, nd_ConnectionStatus = ConnectionStatusDisconnected\<rparr>
       (ensureBackgroundLoops c)"

section \<open>The listener\<close>

text \<open>\<open>startErr\<close> is the error of \<open>startListener\<close>; \<open>accepted\<close> are the connections \<open>Accept\<close>
  returns before it fails with \<open>acceptErr\<close>, and \<open>ctxErr\<close> is the error of the context if it is
  done by then.\<close>

definition StartListener ::
  "goerror option \<Rightarrow> connection list \<Rightarrow> goerror \<Rightarrow> goerror option \<Rightarrow> ('pk, 'sk, 'h, 's) carrierImpl
     \<Rightarrow> unit result \<times> ('pk, 'sk, 'h, 's) carrierImpl" where
  "StartListener startErr accepted acceptErr ctxErr c =
     (let c = ensureBackgroundLoops c in
      if cfg_ListenAddress (cr_config c) = [] then (Err (New ''ListenAddress is not configured''), c)
      else if cr_transport c = None then (Err (New ''transport is not initialized''), c)
      else
      case startErr of
        Some e \<Rightarrow> (Err e, c)
      | None \<Rightarrow>
          (Err (case ctxErr of Some e \<Rightarrow> e | None \<Rightarrow> errorw ''accept: %w'' acceptErr),
           spawn (map HandleIncomingConn accepted) c))"

end
