(* ===== verification/Bootstrap.thy ===== *)
theory Bootstrap
  imports Carrier
begin

text \<open>
  \<^verbatim>\<open>internal/transport/bootstrap.go\<close> and \<open>Reconnect\<close> of \<^verbatim>\<open>carrier.go\<close>: the rounds of
  connection attempts to the configured addresses, after which the node is connected or
  offline.  The network is an argument: what \<open>Dial\<close> returns for an address, in each round.
\<close>

section \<open>One address\<close>

definition dialBootstrapAddr ::
  "('pk, 'sk) keyslib \<Rightarrow> protolib \<Rightarrow> instants \<Rightarrow> (string \<Rightarrow> connection result) \<Rightarrow> string
     \<Rightarrow> ('pk, 'sk, 'h, 's) carrierImpl \<Rightarrow> unit result \<times> ('pk, 'sk, 'h, 's) carrierImpl" where
  "dialBootstrapAddr K P t dial addr c =
     (case cfg_NodeIdentity (cr_config c) of
        None \<Rightarrow> (Err (errorw ''%w'' (Sent ErrNodeIdentityRequired)), c)
      | Some ni \<Rightarrow>
      if cr_transport c = None then (Err (errorw ''%w'' (Sent ErrTransportNotInitialized)), c)
      else
      on_result (dial addr) c (\<lambda>e. (Err (Errorf ''dial %s: %w'' [AStr addr, AErr e]), c)) (\<lambda>conn.
      let fail = (\<lambda>ctx s e. (Err (Errorf ctx [AStr addr, AErr (Sent s), AErr e]),
                             closeConn (cn_id conn) c)) in
      on_result (dialAndAuth K P (at_sign t) conn ni) c
        (fail ''auth %s: %w: %w'' ErrBootstrapDialAuthFailed) (\<lambda>_.
      on_result (awaitPeerAuth K P (at_verify t) (cfg_Auth (cr_config c)) conn) c
        (fail ''verify %s: %w: %w'' ErrBootstrapVerifyFailed) (\<lambda>(authCtx, certs).
      if IsConnected (ac_NodeID authCtx) c then (Ok (), closeConn (cn_id conn) c)
      else
      let (registered, c) = registerPeer K (at_seen t) authCtx (cn_id conn) certs [addr] c in
      on_result registered c (fail ''register %s: %w: %w'' ErrBootstrapRegisterFailed) (\<lambda>_.
      (Ok (), startConnectionLoops (ac_NodeID authCtx) (cn_id conn) c))))))"

section \<open>One round\<close>

text \<open>The loop over the addresses; \<open>connected\<close> counts the calls without an error.\<close>

fun dial_all ::
  "(string \<Rightarrow> ('pk, 'sk, 'h, 's) carrierImpl \<Rightarrow> unit result \<times> ('pk, 'sk, 'h, 's) carrierImpl)
     \<Rightarrow> nat \<Rightarrow> string list \<Rightarrow> ('pk, 'sk, 'h, 's) carrierImpl
     \<Rightarrow> nat result \<times> ('pk, 'sk, 'h, 's) carrierImpl" where
  "dial_all dial1 connected [] c = (Ok connected, c)"
| "dial_all dial1 connected (a # as) c =
     (case dial1 a c of
        (Ok _, c') \<Rightarrow> dial_all dial1 (Suc connected) as c'
      | (Err e, c') \<Rightarrow> dial_all dial1 connected as c'
      | (Panic, c') \<Rightarrow> (Panic, c'))"

definition dialBootstrapAll ::
  "('pk, 'sk) keyslib \<Rightarrow> protolib \<Rightarrow> instants \<Rightarrow> (string \<Rightarrow> connection result) \<Rightarrow> string list
     \<Rightarrow> ('pk, 'sk, 'h, 's) carrierImpl \<Rightarrow> nat result \<times> ('pk, 'sk, 'h, 's) carrierImpl" where
  "dialBootstrapAll K P t dial addrs c = dial_all (dialBootstrapAddr K P t dial) 0 addrs c"

section \<open>All rounds\<close>

definition bootstrapRetryInterval :: "('pk, 'sk, 'h, 's) carrierImpl \<Rightarrow> duration" where
  "bootstrapRetryInterval c =
     (if cfg_BootstrapRetryInterval (cr_config c) > 0 then cfg_BootstrapRetryInterval (cr_config c)
      else defaultBootstrapRetryInterval)"

definition bootstrapMaxRetries :: "('pk, 'sk, 'h, 's) carrierImpl \<Rightarrow> int" where
  "bootstrapMaxRetries c =
     (if cfg_BootstrapMaxRetries (cr_config c) > 0 then cfg_BootstrapMaxRetries (cr_config c)
      else defaultBootstrapMaxRetries)"

text \<open>
  The environment of the rounds: the instants and the dial results of the round with a given
  number, and whether the wait before it ends because the context is cancelled.  The loop runs
  over the numbers of the rounds; the interval only sets the length of the wait.
\<close>

record bootstrap_env =
  be_instants :: "nat \<Rightarrow> instants"
  be_dial :: "nat \<Rightarrow> string \<Rightarrow> connection result"
  be_cancelled :: "nat \<Rightarrow> bool"

fun bootstrap_rounds ::
  "(nat \<Rightarrow> ('pk, 'sk, 'h, 's) carrierImpl \<Rightarrow> nat result \<times> ('pk, 'sk, 'h, 's) carrierImpl)
     \<Rightarrow> (nat \<Rightarrow> bool) \<Rightarrow> nat list \<Rightarrow> ('pk, 'sk, 'h, 's) carrierImpl
     \<Rightarrow> bool result \<times> ('pk, 'sk, 'h, 's) carrierImpl" where
  "bootstrap_rounds round cancelled [] c = (Ok False, setOffline c)"
| "bootstrap_rounds round cancelled (attempt # attempts) c =
     (if attempt > 0 \<and> cancelled attempt then (Ok False, c)
      else
      case round attempt c of
        (Ok connected, c') \<Rightarrow>
          if connected > 0 then (Ok True, c') else bootstrap_rounds round cancelled attempts c'
      | (Err e, c') \<Rightarrow> (Err e, c')
      | (Panic, c') \<Rightarrow> (Panic, c'))"

definition attemptBootstrap ::
  "('pk, 'sk) keyslib \<Rightarrow> protolib \<Rightarrow> bootstrap_env \<Rightarrow> string list \<Rightarrow> ('pk, 'sk, 'h, 's) carrierImpl
     \<Rightarrow> bool result \<times> ('pk, 'sk, 'h, 's) carrierImpl" where
  "attemptBootstrap K P env addrs c =
     bootstrap_rounds
       (\<lambda>attempt. dialBootstrapAll K P (be_instants env attempt) (be_dial env attempt) addrs)
       (be_cancelled env) (range_upto (bootstrapMaxRetries c)) c"

definition runBootstrapLoop ::
  "('pk, 'sk) keyslib \<Rightarrow> protolib \<Rightarrow> bootstrap_env \<Rightarrow> ('pk, 'sk, 'h, 's) carrierImpl
     \<Rightarrow> unit result \<times> ('pk, 'sk, 'h, 's) carrierImpl" where
  "runBootstrapLoop K P env c =
     (let addrs = cfg_BootstrapAddresses (cr_config c) in
      if addrs = [] then (Ok (), c)
      else case attemptBootstrap K P env addrs c of (r, c') \<Rightarrow> (obind r (\<lambda>_. Ok ()), c'))"

definition Reconnect ::
  "('pk, 'sk) keyslib \<Rightarrow> protolib \<Rightarrow> bootstrap_env \<Rightarrow> ('pk, 'sk, 'h, 's) carrierImpl
     \<Rightarrow> unit result \<times> ('pk, 'sk, 'h, 's) carrierImpl" where
  "Reconnect K P env c =
     (let c = setOnline c; addrs = cfg_BootstrapAddresses (cr_config c) in
      if addrs = [] then (Err (Sent ErrNoBootstrapAddresses), c)
      else
      case attemptBootstrap K P env addrs c of
        (Ok connected, c') \<Rightarrow> if connected then (Ok (), c') else (Err (Sent ErrBootstrapFailed), c')
      | (Err e, c') \<Rightarrow> (Err e, c')
      | (Panic, c') \<Rightarrow> (Panic, c'))"

end
