(* ===== verification/Broadcast.thy ===== *)
theory Broadcast
  imports Carrier
begin

text \<open>
  \<^verbatim>\<open>internal/transport/carrier_broadcast.go\<close>: sending a message to one node or to all of them.
  The network decides, for each attempt and node, how the stream behaves and what it answers.
\<close>

section \<open>One node\<close>

text \<open>What one reliable send meets: the stream \<open>OpenStream\<close> returns, the error of closing the
  request direction, and what can be read as the reply.\<close>

record send_env =
  se_OpenStream :: "(nat \<Rightarrow> goerror option) result"
  se_Close :: "goerror option"
  se_Reply :: instream

definition SendMessageToNodeReliable ::
  "('pk, 'sk) keyslib \<Rightarrow> protolib \<Rightarrow> send_env \<Rightarrow> nodeid \<Rightarrow> Message \<Rightarrow> ('pk, 'sk, 'h, 's) carrierImpl \<Rightarrow> unit result" where
  "SendMessageToNodeReliable K P E nid message c =
     obind (connectionForNode nid c) (\<lambda>conn.
     obind (wrap_err (errorw ''open stream: %w'') (se_OpenStream E)) (\<lambda>stream.
     obind (writeMessageStream stream message) (\<lambda>_.
     case se_Close E of
       Some e \<Rightarrow> Err (errorw ''close request stream: %w'' e)
     | None \<Rightarrow>
     obind (readMessageReply P (se_Reply E)) (\<lambda>reply.
     if \<not> mr_Success reply
     then Err (if mr_Error reply = []
               then Errorf ''message rejected by peer %s'' [AStr (kl_NodeID_String K nid)]
               else New (mr_Error reply))
     else Ok ()))))"

definition SendMessageToNode ::
  "('pk, 'sk) keyslib \<Rightarrow> protolib \<Rightarrow> send_env \<Rightarrow> nodeid \<Rightarrow> Message \<Rightarrow> ('pk, 'sk, 'h, 's) carrierImpl \<Rightarrow> unit result" where
  "SendMessageToNode K P E nid message c = SendMessageToNodeReliable K P E nid message c"

text \<open>\<open>sendDatagram\<close> is the connection's \<open>SendDatagram\<close>.\<close>

definition SendMessageToNodeUnreliable ::
  "(connid \<Rightarrow> bytes \<Rightarrow> unit result) \<Rightarrow> nodeid \<Rightarrow> Message \<Rightarrow> ('pk, 'sk, 'h, 's) carrierImpl
     \<Rightarrow> unit result" where
  "SendMessageToNodeUnreliable sendDatagram nid message c =
     obind (connectionForNode nid c) (\<lambda>conn. sendDatagram conn (marshalMessage message))"

section \<open>All nodes\<close>

text \<open>One pass over the pending nodes: the successes are appended to \<open>success\<close>, the failures are
  the next pending list.\<close>

fun send_pass ::
  "(PeerNode \<Rightarrow> unit result) \<Rightarrow> PeerNode list \<Rightarrow> PeerNode list \<Rightarrow> PeerNode list
     \<Rightarrow> (PeerNode list \<times> PeerNode list) result" where
  "send_pass send success stillFailed [] = Ok (success, stillFailed)"
| "send_pass send success stillFailed (n # ns) =
     (case send n of
        Ok _ \<Rightarrow> send_pass send (success @ [n]) stillFailed ns
      | Err e \<Rightarrow> send_pass send success (stillFailed @ [n]) ns
      | Panic \<Rightarrow> Panic)"

text \<open>The attempts; the loop is left early when nothing is pending.\<close>

fun send_attempts ::
  "(nat \<Rightarrow> PeerNode \<Rightarrow> unit result) \<Rightarrow> PeerNode list \<Rightarrow> PeerNode list \<Rightarrow> nat list
     \<Rightarrow> (PeerNode list \<times> PeerNode list) result" where
  "send_attempts send success pending [] = Ok (success, pending)"
| "send_attempts send success pending (attempt # attempts) =
     obind (send_pass (send attempt) success [] pending) (\<lambda>(success, pending).
     if pending = [] then Ok (success, pending)
     else send_attempts send success pending attempts)"

text \<open>The carrier may change between the sends: \<open>at attempt node\<close> is its state at that send, and
  \<open>c\<close> the state the nodes are listed in.\<close>

definition BroadcastReliable ::
  "('pk, 'sk) keyslib \<Rightarrow> protolib \<Rightarrow> (nat \<Rightarrow> nodeid \<Rightarrow> send_env) \<Rightarrow> (nat \<Rightarrow> nodeid \<Rightarrow> ('pk, 'sk, 'h, 's) carrierImpl)
     \<Rightarrow> nodeid list \<Rightarrow> Message \<Rightarrow> ('pk, 'sk, 'h, 's) carrierImpl
     \<Rightarrow> (PeerNode list \<times> PeerNode list) result" where
  "BroadcastReliable K P E at ks message c =
     (let nodes = getNodesUnlocked ks c in
      if nodes = [] then Err (New ''no peers available'')
      else send_attempts
             (\<lambda>attempt n. SendMessageToNodeReliable K P (E attempt (pn_NodeID n)) (pn_NodeID n) message
                            (at attempt (pn_NodeID n)))
             [] nodes (range_upto (cfg_BroadcastMaxRetries (cr_config c))))"

definition carrier_Broadcast ::
  "('pk, 'sk) keyslib \<Rightarrow> protolib \<Rightarrow> (nat \<Rightarrow> nodeid \<Rightarrow> send_env) \<Rightarrow> (nat \<Rightarrow> nodeid \<Rightarrow> ('pk, 'sk, 'h, 's) carrierImpl)
     \<Rightarrow> nodeid list \<Rightarrow> Message \<Rightarrow> ('pk, 'sk, 'h, 's) carrierImpl \<Rightarrow> PeerNode list result" where
  "carrier_Broadcast K P E at ks message c =
     obind (BroadcastReliable K P E at ks message c) (\<lambda>(success, _). Ok success)"

definition BroadcastUnreliable ::
  "(connid \<Rightarrow> bytes \<Rightarrow> unit result) \<Rightarrow> nodeid list \<Rightarrow> Message \<Rightarrow> ('pk, 'sk, 'h, 's) carrierImpl
     \<Rightarrow> PeerNode list result" where
  "BroadcastUnreliable sendDatagram ks message c =
     foldM (\<lambda>attempted n.
        case SendMessageToNodeUnreliable sendDatagram (pn_NodeID n) message c of
          Panic \<Rightarrow> Panic
        | _ \<Rightarrow> Ok (attempted @ [n]))
       [] (getNodesUnlocked ks c)"

section \<open>The attempts, shown\<close>

text \<open>The nodes a send has reached by attempt \<open>n\<close>, and the number of sends made.\<close>

definition ok_by :: "(nat \<Rightarrow> PeerNode \<Rightarrow> unit result) \<Rightarrow> nat list \<Rightarrow> PeerNode \<Rightarrow> bool" where
  "ok_by send attempts n \<longleftrightarrow> (\<exists>a \<in> set attempts. send a n = Ok ())"

lemma send_pass_Ok:
  "send_pass send success failed ns = Ok (success', failed') \<longleftrightarrow>
     (\<forall>n \<in> set ns. send n \<noteq> Panic) \<and>
     success' = success @ filter (\<lambda>n. send n = Ok ()) ns \<and>
     failed' = failed @ filter (\<lambda>n. send n \<noteq> Ok ()) ns"
  by (induction send success failed ns rule: send_pass.induct) (auto split: outcome.splits)

lemma filter_mset_filter: "mset (filter p xs) + mset (filter (\<lambda>x. \<not> p x) xs) = mset xs"
  by (induction xs) auto

lemma send_attempts_Ok:
  assumes "send_attempts send success pending attempts = Ok (success', failed')"
  shows "mset success' + mset failed' = mset success + mset pending \<and>
    failed' = filter (\<lambda>n. \<not> ok_by send attempts n) pending \<and>
    (\<exists>new. success' = success @ new \<and> set new = {n \<in> set pending. ok_by send attempts n})"
  using assms
proof (induction attempts arbitrary: success pending)
  case Nil
  then show ?case by (auto simp: ok_by_def)
next
  case (Cons a as)
  let ?ok = "filter (\<lambda>n. send a n = Ok ()) pending"
  let ?bad = "filter (\<lambda>n. send a n \<noteq> Ok ()) pending"
  obtain s f where p: "send_pass (send a) success [] pending = Ok (s, f)"
    and k: "(if f = [] then Ok (s, f) else send_attempts send s f as) = Ok (success', failed')"
    using Cons.prems by (auto split: prod.splits)
  have sf: "s = success @ ?ok" "f = ?bad" using p by (simp_all add: send_pass_Ok)
  have m: "mset ?ok + mset ?bad = mset pending" by (rule filter_mset_filter)
  have ok: "ok_by send (a # as) n \<longleftrightarrow> send a n = Ok () \<or> ok_by send as n" for n
    by (auto simp: ok_by_def)
  show ?case
  proof (cases "f = []")
    case True
    then have "\<forall>n \<in> set pending. send a n = Ok ()" using sf(2) by (simp add: filter_empty_conv)
    with True k sf m show ?thesis by (auto simp: ok)
  next
    case False
    with k have "send_attempts send s f as = Ok (success', failed')" by simp
    from Cons.IH [OF this] obtain new where
      "mset success' + mset failed' = mset s + mset f"
      "failed' = filter (\<lambda>n. \<not> ok_by send as n) f"
      "success' = s @ new" "set new = {n \<in> set f. ok_by send as n}"
      by blast
    with m sf show ?thesis
      by (intro conjI exI [of _ "?ok @ new"]) (auto simp: ok intro!: filter_cong)
  qed
qed

lemma send_attempts_total:
  assumes "\<forall>a n. send a n \<noteq> Panic"
  shows "\<exists>s f. send_attempts send success pending attempts = Ok (s, f)"
proof (induction attempts arbitrary: success pending)
  case Nil
  then show ?case by simp
next
  case (Cons a as)
  have "send_pass (send a) success [] pending =
      Ok (success @ filter (\<lambda>n. send a n = Ok ()) pending, filter (\<lambda>n. send a n \<noteq> Ok ()) pending)"
    using assms by (simp add: send_pass_Ok)
  with Cons show ?case by simp
qed

end
