(* ===== verification/Heartbeat.thy ===== *)
theory Heartbeat
  imports Broadcast
begin

text \<open>
  \<^verbatim>\<open>internal/transport/heartbeat.go\<close>: the heartbeat payload and its encoding, the gossip of
  known nodes, the sending of heartbeats, the detection of stale peers and the reconnection to
  unreachable ones.  The operations that range over the registry take the order of the range,
  and the ones that send or dial take what the network does.
\<close>

section \<open>The payload\<close>

record heartbeatNodeEntry =
  he_NodeID :: nodeid
  he_Addresses :: "string list"
  he_Role :: NodeRole

record heartbeatPayload =
  hb_SentAtUnix :: int64
  hb_SenderRole :: NodeRole
  hb_KnownNodes :: "heartbeatNodeEntry list"
  hb_Stats :: "string \<rightharpoonup> 64 word"
  hb_StorageFreeBytes :: "64 word"
  hb_CustomFields :: "string \<rightharpoonup> bytes"

text \<open>\<open>int32(n.Role)\<close> keeps the low 32 bits.\<close>

definition entry_to_pb :: "heartbeatNodeEntry \<Rightarrow> HeartbeatNodeEntry" where
  "entry_to_pb n = \<lparr>hn_NodeId = he_NodeID n, hn_Addresses = he_Addresses n,
                    hn_Role = word_of_int (he_Role n)\<rparr>"

definition marshalHeartbeatPayload :: "protolib \<Rightarrow> heartbeatPayload \<Rightarrow> bytes result" where
  "marshalHeartbeatPayload P payload =
     pl_Marshal P (PHeartbeatPayload
       \<lparr>hp_SentAtUnix = hb_SentAtUnix payload, hp_SenderRole = word_of_int (hb_SenderRole payload),
        hp_KnownNodes = map entry_to_pb (hb_KnownNodes payload), hp_Stats = hb_Stats payload,
        hp_StorageFreeBytes = hb_StorageFreeBytes payload,
        hp_CustomFields = hb_CustomFields payload\<rparr>)"

text \<open>\<open>copy(nodeID[:], b)\<close> into a zeroed array of the size of a node ID.\<close>

definition copy_NodeID :: "('pk, 'sk) keyslib \<Rightarrow> bytes \<Rightarrow> nodeid" where
  "copy_NodeID K b = take (kl_NodeIDSize K) b @ replicate (kl_NodeIDSize K - length b) 0"

definition pb_to_entry :: "('pk, 'sk) keyslib \<Rightarrow> HeartbeatNodeEntry \<Rightarrow> heartbeatNodeEntry" where
  "pb_to_entry K n = \<lparr>he_NodeID = copy_NodeID K (hn_NodeId n), he_Addresses = hn_Addresses n,
                      he_Role = sint (hn_Role n)\<rparr>"

definition unmarshalHeartbeatPayload ::
  "('pk, 'sk) keyslib \<Rightarrow> protolib \<Rightarrow> bytes \<Rightarrow> heartbeatPayload result" where
  "unmarshalHeartbeatPayload K P data =
     obind (pl_Unmarshal P KHeartbeatPayload data) (\<lambda>m.
     case m of
       PHeartbeatPayload msg \<Rightarrow>
         Ok \<lparr>hb_SentAtUnix = hp_SentAtUnix msg, hb_SenderRole = sint (hp_SenderRole msg),
             hb_KnownNodes = map (pb_to_entry K) (hp_KnownNodes msg), hb_Stats = hp_Stats msg,
             hb_StorageFreeBytes = hp_StorageFreeBytes msg, hb_CustomFields = hp_CustomFields msg\<rparr>
     | _ \<Rightarrow> Panic)"

section \<open>Building a heartbeat\<close>

text \<open>A call on the nil interface \<open>SelfCert\<close> panics; \<open>New\<close> refuses a nil one.\<close>

definition selfNodeID :: "('pk, 'sk, 'h, 's) carrierImpl \<Rightarrow> nodeid result" where
  "selfNodeID c = (case cfg_SelfCert (cr_config c) of None \<Rightarrow> Panic | Some cert \<Rightarrow> Ok (nodeID cert))"

definition selfAddresses :: "('pk, 'sk, 'h, 's) carrierImpl \<Rightarrow> string list" where
  "selfAddresses c = compactAddresses [carrier_ListenAddress c]"

definition connectedCount :: "('pk, 'sk, 'h, 's) carrierImpl \<Rightarrow> nat" where
  "connectedCount c = card (dom (cr_connections c))"

definition node_entry :: "'c Node \<Rightarrow> heartbeatNodeEntry" where
  "node_entry n = \<lparr>he_NodeID = nd_NodeID n, he_Addresses = nd_Addresses n, he_Role = nd_Role n\<rparr>"

definition heartbeatKnownNodes ::
  "nodeid list \<Rightarrow> ('pk, 'sk, 'h, 's) carrierImpl \<Rightarrow> heartbeatNodeEntry list result" where
  "heartbeatKnownNodes ks c =
     obind (selfNodeID c) (\<lambda>self.
     Ok (\<lparr>he_NodeID = self, he_Addresses = selfAddresses c, he_Role = cfg_NodeRole (cr_config c)\<rparr>
         # map node_entry (GetAllNodes ks (cr_registry c))))"

definition buildHeartbeatPayload ::
  "int64 \<Rightarrow> nodeid list \<Rightarrow> ('pk, 'sk, 'h, 's) carrierImpl \<Rightarrow> heartbeatPayload result" where
  "buildHeartbeatPayload now ks c =
     obind (heartbeatKnownNodes ks c) (\<lambda>knownNodes.
     Ok \<lparr>hb_SentAtUnix = now, hb_SenderRole = cfg_NodeRole (cr_config c),
         hb_KnownNodes = knownNodes,
         hb_Stats = [''connectedNodes'' \<mapsto> of_nat (connectedCount c),
                     ''knownNodes'' \<mapsto> of_nat (length knownNodes)],
         hb_StorageFreeBytes = 0, hb_CustomFields = Map.empty\<rparr>)"

section \<open>Sending\<close>

definition shouldHeartbeatPeer :: "PeerNode \<Rightarrow> ('pk, 'sk, 'h, 's) carrierImpl \<Rightarrow> bool" where
  "shouldHeartbeatPeer peer c \<longleftrightarrow> IsConnected (pn_NodeID peer) c \<and> pn_Role peer \<noteq> NodeRoleClient"

definition sendHeartbeat ::
  "('pk, 'sk) keyslib \<Rightarrow> protolib \<Rightarrow> send_env \<Rightarrow> int64 \<Rightarrow> nodeid list \<Rightarrow> nodeid
     \<Rightarrow> ('pk, 'sk, 'h, 's) carrierImpl \<Rightarrow> unit result" where
  "sendHeartbeat K P E now ks nid c =
     obind (buildHeartbeatPayload now ks c) (\<lambda>payload.
     obind (wrap_err (errorw ''marshal heartbeat: %w'') (marshalHeartbeatPayload P payload)) (\<lambda>encoded.
     SendMessageToNodeReliable K P E nid
       \<lparr>msg_Type = MessageTypeHeartbeat, msg_Payload = encoded\<rparr> c))"

text \<open>The loop over the peers listed at the start: a failed send marks the peer's current
  connection as failed.\<close>

fun heartbeat_batch ::
  "(nodeid \<Rightarrow> ('pk, 'sk, 'h, 's) carrierImpl \<Rightarrow> unit result) \<Rightarrow> PeerNode list
     \<Rightarrow> ('pk, 'sk, 'h, 's) carrierImpl \<Rightarrow> unit result \<times> ('pk, 'sk, 'h, 's) carrierImpl" where
  "heartbeat_batch send [] c = (Ok (), c)"
| "heartbeat_batch send (peer # peers) c =
     (if \<not> shouldHeartbeatPeer peer c then heartbeat_batch send peers c
      else
      on_result (send (pn_NodeID peer) c) c
        (\<lambda>e. heartbeat_batch send peers
               (case connectionForNode (pn_NodeID peer) c of
                  Ok conn \<Rightarrow> markPeerFailed (pn_NodeID peer) conn c
                | _ \<Rightarrow> c))
        (\<lambda>_. heartbeat_batch send peers c))"

definition sendHeartbeatBatch ::
  "('pk, 'sk) keyslib \<Rightarrow> protolib \<Rightarrow> (nodeid \<Rightarrow> send_env) \<Rightarrow> int64 \<Rightarrow> nodeid list
     \<Rightarrow> (nodeid \<Rightarrow> nodeid list) \<Rightarrow> ('pk, 'sk, 'h, 's) carrierImpl
     \<Rightarrow> unit result \<times> ('pk, 'sk, 'h, 's) carrierImpl" where
  "sendHeartbeatBatch K P E now ks order c =
     heartbeat_batch (\<lambda>nid. sendHeartbeat K P (E nid) now (order nid) nid) (GetNodes ks c) c"

section \<open>Receiving\<close>

text \<open>The nodes of a heartbeat: unknown ones are added as disconnected and returned, known ones
  get the new addresses and the announced role.\<close>

fun merge_nodes ::
  "(nodeid \<Rightarrow> bool) \<Rightarrow> nodeid \<Rightarrow> 'c Node list \<Rightarrow> heartbeatNodeEntry list \<Rightarrow> 'c nodeRegistry
     \<Rightarrow> 'c Node list result \<times> 'c nodeRegistry" where
  "merge_nodes isZero self discovered [] r = (Ok discovered, r)"
| "merge_nodes isZero self discovered (entry # entries) r =
     (if isZero (he_NodeID entry) \<or> he_NodeID entry = self
      then merge_nodes isZero self discovered entries r
      else
      case registry_GetNode (he_NodeID entry) r of
        Ok node \<Rightarrow>
          let node = node\<lparr>nd_Addresses := compactAddresses (nd_Addresses node @ he_Addresses entry),
                          nd_Role := he_Role entry\<rparr> in
          on_result (AddNode isZero node (nd_NodeCerts node) r) r (\<lambda>e. (Err e, r))
            (\<lambda>r. merge_nodes isZero self discovered entries r)
      | _ \<Rightarrow>
          let newNode = \<lparr>nd_NodeID = he_NodeID entry,
                         nd_Addresses = compactAddresses (he_Addresses entry), nd_NodeCerts = [],
                         nd_Role = he_Role entry, nd_LastSeen = 0,
                         nd_ConnectionStatus = ConnectionStatusDisconnected\<rparr> in
          on_result (AddNode isZero newNode [] r) r (\<lambda>e. (Err e, r))
            (\<lambda>r. merge_nodes isZero self (discovered @ [newNode]) entries r))"

definition mergeHeartbeatNodes ::
  "('pk, 'sk) keyslib \<Rightarrow> heartbeatNodeEntry list \<Rightarrow> ('pk, 'sk, 'h, 's) carrierImpl
     \<Rightarrow> 'pk cert_value Node list result \<times> ('pk, 'sk, 'h, 's) carrierImpl" where
  "mergeHeartbeatNodes K nodes c =
     on_result (selfNodeID c) c (\<lambda>e. (Err e, c)) (\<lambda>self.
     case merge_nodes (kl_NodeID_IsZero K) self [] nodes (cr_registry c) of
       (res, r) \<Rightarrow> (res, c\<lparr>cr_registry := r\<rparr>))"

definition handleHeartbeatMessage ::
  "('pk, 'sk) keyslib \<Rightarrow> protolib \<Rightarrow> gotime \<Rightarrow> nodeid \<Rightarrow> Message \<Rightarrow> ('pk, 'sk, 'h, 's) carrierImpl
     \<Rightarrow> unit result \<times> ('pk, 'sk, 'h, 's) carrierImpl" where
  "handleHeartbeatMessage K P now peerID msg c =
     on_result (wrap_err (errorw ''unmarshal heartbeat: %w'')
                  (unmarshalHeartbeatPayload K P (msg_Payload msg))) c (\<lambda>e. (Err e, c)) (\<lambda>payload.
     let c = markPeerSeen peerID now c in
     on_result (SetRole peerID (hb_SenderRole payload) (cr_registry c)) c (\<lambda>e. (Err e, c)) (\<lambda>r.
     let c = c\<lparr>cr_registry := r\<rparr>;
         (merged, c) = mergeHeartbeatNodes K (hb_KnownNodes payload) c in
     on_result merged c (\<lambda>e. (Err e, c)) (\<lambda>newPeers.
     (Ok (), if length newPeers > 0 then spawn [ConnectDiscoveredPeers newPeers] c else c))))"

section \<open>Reconnecting\<close>

text \<open>The common loop of \<open>connectDiscoveredPeers\<close> and \<open>retryUnreachablePeers\<close>: clients and
  connected peers are skipped, a failure to connect is logged.\<close>

fun connect_each ::
  "('c Node \<Rightarrow> ('pk, 'sk, 'h, 's) carrierImpl \<Rightarrow> unit result \<times> ('pk, 'sk, 'h, 's) carrierImpl)
     \<Rightarrow> 'c Node list \<Rightarrow> ('pk, 'sk, 'h, 's) carrierImpl
     \<Rightarrow> unit result \<times> ('pk, 'sk, 'h, 's) carrierImpl" where
  "connect_each connect [] c = (Ok (), c)"
| "connect_each connect (node # nodes) c =
     (if nd_Role node = NodeRoleClient then connect_each connect nodes c
      else if IsConnected (nd_NodeID node) c then connect_each connect nodes c
      else
      case connect node c of
        (Panic, c') \<Rightarrow> (Panic, c')
      | (_, c') \<Rightarrow> connect_each connect nodes c')"

definition connectDiscoveredPeers ::
  "('pk, 'sk) keyslib \<Rightarrow> protolib \<Rightarrow> (nodeid \<Rightarrow> instants) \<Rightarrow> (nodeid \<Rightarrow> string \<Rightarrow> connection result)
     \<Rightarrow> 'pk cert_value Node list \<Rightarrow> ('pk, 'sk, 'h, 's) carrierImpl
     \<Rightarrow> unit result \<times> ('pk, 'sk, 'h, 's) carrierImpl" where
  "connectDiscoveredPeers K P t dial peers c =
     connect_each (\<lambda>node. connectNode K P (t (nd_NodeID node)) dial node) peers c"

definition retryUnreachablePeers ::
  "('pk, 'sk) keyslib \<Rightarrow> protolib \<Rightarrow> (nodeid \<Rightarrow> instants) \<Rightarrow> (nodeid \<Rightarrow> string \<Rightarrow> connection result)
     \<Rightarrow> nodeid list \<Rightarrow> ('pk, 'sk, 'h, 's) carrierImpl
     \<Rightarrow> unit result \<times> ('pk, 'sk, 'h, 's) carrierImpl" where
  "retryUnreachablePeers K P t dial ks c =
     connect_each (\<lambda>node. connectNode K P (t (nd_NodeID node)) dial node)
       (GetUnreachableNodes ks (cr_registry c)) c"

section \<open>Stale peers\<close>

definition heartbeatInterval :: "('pk, 'sk, 'h, 's) carrierImpl \<Rightarrow> duration" where
  "heartbeatInterval c =
     (if cfg_HeartbeatInterval (cr_config c) > 0 then cfg_HeartbeatInterval (cr_config c)
      else defaultHeartbeatInterval)"

definition heartbeatTimeout :: "('pk, 'sk, 'h, 's) carrierImpl \<Rightarrow> duration" where
  "heartbeatTimeout c =
     (if cfg_HeartbeatTimeout (cr_config c) > 0 then cfg_HeartbeatTimeout (cr_config c)
      else defaultHeartbeatTimeout)"

definition reconnectInterval :: "('pk, 'sk, 'h, 's) carrierImpl \<Rightarrow> duration" where
  "reconnectInterval c =
     (if cfg_ReconnectInterval (cr_config c) > 0 then cfg_ReconnectInterval (cr_config c)
      else defaultReconnectInterval)"

definition failStalePeer ::
  "gotime \<Rightarrow> 'pk cert_value Node \<Rightarrow> ('pk, 'sk, 'h, 's) carrierImpl \<Rightarrow> ('pk, 'sk, 'h, 's) carrierImpl" where
  "failStalePeer now peer c =
     (if time_IsZero (nd_LastSeen peer) then c
      else if time_Sub now (nd_LastSeen peer) \<le> heartbeatTimeout c then c
      else
      case connectionForNode (nd_NodeID peer) c of
        Ok conn \<Rightarrow> markPeerFailed (nd_NodeID peer) conn c
      | _ \<Rightarrow> c)"

definition failStalePeers ::
  "gotime \<Rightarrow> nodeid list \<Rightarrow> ('pk, 'sk, 'h, 's) carrierImpl \<Rightarrow> ('pk, 'sk, 'h, 's) carrierImpl" where
  "failStalePeers now ks c = fold (failStalePeer now) (GetAllNodes ks (cr_registry c)) c"

section \<open>The background loops\<close>

text \<open>What a tick of the two tickers meets; a loop runs its ticks until the context is done.\<close>

record tick =
  tk_send :: "nodeid \<Rightarrow> send_env"
  tk_unix :: int64
  tk_now :: gotime
  tk_instants :: "nodeid \<Rightarrow> instants"
  tk_dial :: "nodeid \<Rightarrow> string \<Rightarrow> connection result"
  tk_peers :: "nodeid list"
  tk_payload :: "nodeid \<Rightarrow> nodeid list"
  tk_nodes :: "nodeid list"

fun runHeartbeatLoop ::
  "('pk, 'sk) keyslib \<Rightarrow> protolib \<Rightarrow> tick list \<Rightarrow> ('pk, 'sk, 'h, 's) carrierImpl
     \<Rightarrow> unit result \<times> ('pk, 'sk, 'h, 's) carrierImpl" where
  "runHeartbeatLoop K P [] c = (Ok (), c)"
| "runHeartbeatLoop K P (t # ts) c =
     (case sendHeartbeatBatch K P (tk_send t) (tk_unix t) (tk_peers t) (tk_payload t) c of
        (Panic, c') \<Rightarrow> (Panic, c')
      | (_, c') \<Rightarrow> runHeartbeatLoop K P ts (failStalePeers (tk_now t) (tk_nodes t) c'))"

fun runReconnectLoop ::
  "('pk, 'sk) keyslib \<Rightarrow> protolib \<Rightarrow> tick list \<Rightarrow> ('pk, 'sk, 'h, 's) carrierImpl
     \<Rightarrow> unit result \<times> ('pk, 'sk, 'h, 's) carrierImpl" where
  "runReconnectLoop K P [] c = (Ok (), c)"
| "runReconnectLoop K P (t # ts) c =
     (case retryUnreachablePeers K P (tk_instants t) (tk_dial t) (tk_nodes t) c of
        (Panic, c') \<Rightarrow> (Panic, c')
      | (_, c') \<Rightarrow> runReconnectLoop K P ts c')"

end
