(* ===== verification/Dispatch.thy ===== *)
theory Dispatch
  imports Heartbeat
begin

text \<open>
  \<^verbatim>\<open>internal/transport/carrier_dispatch.go\<close>: the loops that read streams and datagrams of an
  authenticated connection and hand the messages to the heartbeat code or, with the scope
  recorded for the peer, to the cluster controller.  The state is the carrier and the state
  \<open>'s\<close> of the application behind the controller.
\<close>

type_synonym ('pk, 'sk, 'h, 's) node_state = "('pk, 'sk, 'h, 's) carrierImpl \<times> 's"

definition dispatchMessage ::
  "('pk, 'sk) keyslib \<Rightarrow> protolib \<Rightarrow> gotime \<Rightarrow> gotime \<Rightarrow> nodeid \<Rightarrow> Message
     \<Rightarrow> ('pk, 'sk, 'h, 's) node_state \<Rightarrow> reply result \<times> ('pk, 'sk, 'h, 's) node_state" where
  "dispatchMessage K P now now' nid msg st =
     (case st of (c, s) \<Rightarrow>
      let c = markPeerSeen nid now c in
      if msg_Type msg = MessageTypeHeartbeat
      then (case handleHeartbeatMessage K P now' nid msg c of
              (Ok _, c') \<Rightarrow> (Ok (Some PResponseEmptyPayload, None), (c', s))
            | (Err e, c') \<Rightarrow> (Ok (None, Some e), (c', s))
            | (Panic, c') \<Rightarrow> (Panic, (c', s)))
      else
      let scope = map_get (cr_peerScopes c) nid in
      case cr_controller c of
        None \<Rightarrow> (Ok (None, Some (Errorf ''no cluster controller configured for message type %d''
                   [AInt (msg_Type msg)])), (c, s))
      | Some cc \<Rightarrow>
         (case HandleIncomingMessage P cc cc msg nid scope s of
            Ok (r, s') \<Rightarrow> (Ok r, (c, s'))
          | Err e \<Rightarrow> (Err e, (c, s))
          | Panic \<Rightarrow> (Panic, (c, s))))"

text \<open>\<open>w\<close> gives the errors of the writes on the stream; the result is the reply that is sent, if
  any.\<close>

definition handleMessageStream ::
  "('pk, 'sk) keyslib \<Rightarrow> protolib \<Rightarrow> gotime \<Rightarrow> gotime \<Rightarrow> (nat \<Rightarrow> goerror option) \<Rightarrow> nodeid \<Rightarrow> instream
     \<Rightarrow> ('pk, 'sk, 'h, 's) node_state \<Rightarrow> bytes option result \<times> ('pk, 'sk, 'h, 's) node_state" where
  "handleMessageStream K P now now' w nid stream st =
     on_result (readMessageStream stream) st (\<lambda>e. (Ok None, st)) (\<lambda>msg.
     let (dispatched, st) = dispatchMessage K P now now' nid msg st in
     on_result dispatched st (\<lambda>e. (Ok None, st)) (\<lambda>(responsePayload, dispatchErr).
     on_result (writeMessageReply P w responsePayload dispatchErr) st (\<lambda>e. (Ok None, st))
       (\<lambda>out. (Ok (Some out), st))))"

text \<open>The datagrams received before \<open>ReceiveDatagram\<close> fails, with the instants of their
  dispatch.\<close>

fun handleDatagrams ::
  "('pk, 'sk) keyslib \<Rightarrow> protolib \<Rightarrow> nodeid \<Rightarrow> connid \<Rightarrow> (gotime \<times> gotime \<times> bytes) list
     \<Rightarrow> ('pk, 'sk, 'h, 's) node_state \<Rightarrow> unit result \<times> ('pk, 'sk, 'h, 's) node_state" where
  "handleDatagrams K P nid conn [] (c, s) = (Ok (), (dropConnection nid conn c, s))"
| "handleDatagrams K P nid conn ((now, now', data) # ds) st =
     (case unmarshalMessage data of
        Ok msg \<Rightarrow>
         (case dispatchMessage K P now now' nid msg st of
            (Panic, st') \<Rightarrow> (Panic, st')
          | (_, st') \<Rightarrow> handleDatagrams K P nid conn ds st')
      | Err e \<Rightarrow> handleDatagrams K P nid conn ds st
      | Panic \<Rightarrow> (Panic, st))"

text \<open>The streams accepted before \<open>AcceptStream\<close> fails; each is handled by a goroutine of its
  own.\<close>

fun handleReliableStreams ::
  "nodeid \<Rightarrow> connid \<Rightarrow> instream list \<Rightarrow> ('pk, 'sk, 'h, 's) carrierImpl
     \<Rightarrow> ('pk, 'sk, 'h, 's) carrierImpl" where
  "handleReliableStreams nid conn [] c = dropConnection nid conn c"
| "handleReliableStreams nid conn (stream # streams) c =
     handleReliableStreams nid conn streams (spawn [HandleMessageStream nid stream] c)"

end
