(* ===== verification/Interleaving.thy ===== *)
theory Interleaving
  imports Bootstrap Dispatch
begin

text \<open>
  The carrier as a state machine.  Its goroutines share the state and interleave between the
  sections they run under a lock: \<open>carrier_step\<close> has one rule for each such section.  The
  invariant \<open>peers_inv\<close> holds in every reachable state, whatever the interleaving; every
  operation of the carrier, run on its own, is a sequence of these steps (the locale
  \<open>stepwise\<close>), so that the invariant holds for the operations as well.
\<close>

section \<open>What the small operations leave alone\<close>

lemma spawn_simps [simp]:
  "cr_config (spawn gs c) = cr_config c" "cr_registry (spawn gs c) = cr_registry c"
  "cr_transport (spawn gs c) = cr_transport c" "cr_connections (spawn gs c) = cr_connections c"
  "cr_controller (spawn gs c) = cr_controller c" "cr_peerScopes (spawn gs c) = cr_peerScopes c"
  "cr_nodeStatus (spawn gs c) = cr_nodeStatus c" "cr_closed (spawn gs c) = cr_closed c"
  by (simp_all add: spawn_def)

lemma closeConn_simps [simp]:
  "cr_config (closeConn i c) = cr_config c" "cr_registry (closeConn i c) = cr_registry c"
  "cr_transport (closeConn i c) = cr_transport c" "cr_connections (closeConn i c) = cr_connections c"
  "cr_controller (closeConn i c) = cr_controller c" "cr_peerScopes (closeConn i c) = cr_peerScopes c"
  "cr_nodeStatus (closeConn i c) = cr_nodeStatus c" "cr_closed (closeConn i c) = insert i (cr_closed c)"
  "cr_spawned (closeConn i c) = cr_spawned c"
  by (simp_all add: closeConn_def)

lemma ensureBackgroundLoops_simps [simp]:
  "cr_config (ensureBackgroundLoops c) = cr_config c"
  "cr_registry (ensureBackgroundLoops c) = cr_registry c"
  "cr_transport (ensureBackgroundLoops c) = cr_transport c"
  "cr_connections (ensureBackgroundLoops c) = cr_connections c"
  "cr_controller (ensureBackgroundLoops c) = cr_controller c"
  "cr_peerScopes (ensureBackgroundLoops c) = cr_peerScopes c"
  "cr_closed (ensureBackgroundLoops c) = cr_closed c"
  by (simp_all add: ensureBackgroundLoops_def)

lemma publishPeer_simps [simp]:
  "cr_config (publishPeer ctx i c) = cr_config c"
  "cr_registry (publishPeer ctx i c) = cr_registry c"
  "cr_connections (publishPeer ctx i c) = (cr_connections c)(ac_NodeID ctx \<mapsto> i)"
  "cr_peerScopes (publishPeer ctx i c) = (cr_peerScopes c)(ac_NodeID ctx \<mapsto> ac_EffectiveScope ctx)"
  "cr_closed (publishPeer ctx i c) = cr_closed c"
  by (simp_all add: publishPeer_def)

section \<open>Steps\<close>

text \<open>\<open>net\<close> gives the TLS session of each connection.  A peer is authenticated on a connection
  when some trust store accepted, at some time, a handshake read from that connection.\<close>

definition authenticated ::
  "(connid \<Rightarrow> quicConnection) \<Rightarrow> ('pk, 'sk) keyslib \<Rightarrow> protolib \<Rightarrow> 'h itself \<Rightarrow> AuthContext \<Rightarrow> connid \<Rightarrow> bool" where
  "authenticated net K P h ctx i \<longleftrightarrow>
     (\<exists>(ca :: ('pk, 'h) carrierAuth) now stream hs.
        readAuthHandshake K P stream (net i) = Ok hs \<and> VerifyPeerCert K P ca now hs = Ok ctx)"

definition net_ok :: "(connid \<Rightarrow> quicConnection) \<Rightarrow> connection result \<Rightarrow> bool" where
  "net_ok net r \<longleftrightarrow> (\<forall>conn. r = Ok conn \<longrightarrow> cn_tls conn = net (cn_id conn))"

definition withdrawPeer ::
  "nodeid \<Rightarrow> ('pk, 'sk, 'h, 's) carrierImpl \<Rightarrow> ('pk, 'sk, 'h, 's) carrierImpl" where
  "withdrawPeer nid c =
     c\<lparr>cr_connections := (cr_connections c)(nid := None),
       cr_peerScopes := (cr_peerScopes c)(nid := None)\<rparr>"

lemma withdrawPeer_simps [simp]:
  "cr_registry (withdrawPeer nid c) = cr_registry c" "cr_config (withdrawPeer nid c) = cr_config c"
  "cr_closed (withdrawPeer nid c) = cr_closed c"
  by (simp_all add: withdrawPeer_def)

inductive carrier_step ::
  "(connid \<Rightarrow> quicConnection) \<Rightarrow> ('pk, 'sk) keyslib \<Rightarrow> protolib \<Rightarrow> ('pk, 'sk, 'h, 's) carrierImpl
     \<Rightarrow> ('pk, 'sk, 'h, 's) carrierImpl \<Rightarrow> bool"
  for net :: "connid \<Rightarrow> quicConnection" and K :: "('pk, 'sk) keyslib" and P :: protolib where
  step_publish: "authenticated net K P TYPE('h) ctx i \<Longrightarrow>
    carrier_step net K P (c :: ('pk, 'sk, 'h, 's) carrierImpl) (publishPeer ctx i c)"
| step_withdraw: "carrier_step net K P c (withdrawPeer nid c)"
| step_registry: "carrier_step net K P c
    (c\<lparr>cr_registry := registry_step (kl_NodeID_IsZero K) op (cr_registry c)\<rparr>)"
| step_close: "carrier_step net K P c (closeConn i c)"
| step_spawn: "carrier_step net K P c (spawn gs c)"
| step_background: "carrier_step net K P c (ensureBackgroundLoops c)"
| step_offline: "carrier_step net K P c (setOffline c)"
| step_online: "carrier_step net K P c (setOnline c)"
| step_controller: "carrier_step net K P c (SetController cc c)"
| step_trust: "carrier_step net K P c (c\<lparr>cr_config := (cr_config c)\<lparr>cfg_Auth := a\<rparr>\<rparr>)"

abbreviation carrier_steps ::
  "(connid \<Rightarrow> quicConnection) \<Rightarrow> ('pk, 'sk) keyslib \<Rightarrow> protolib \<Rightarrow> ('pk, 'sk, 'h, 's) carrierImpl
     \<Rightarrow> ('pk, 'sk, 'h, 's) carrierImpl \<Rightarrow> bool" where
  "carrier_steps net K P \<equiv> (carrier_step net K P)\<^sup>*\<^sup>*"

lemmas carrier_step_1 = r_into_rtranclp [where r = "carrier_step net K P" for net K P]

section \<open>The invariant\<close>

definition peers_inv ::
  "(connid \<Rightarrow> quicConnection) \<Rightarrow> ('pk, 'sk) keyslib \<Rightarrow> protolib \<Rightarrow> ('pk, 'sk, 'h, 's) carrierImpl \<Rightarrow> bool" where
  "peers_inv net K P c \<longleftrightarrow>
     registry_inv (kl_NodeID_IsZero K) (cr_registry c) \<and>
     dom (cr_peerScopes c) = dom (cr_connections c) \<and>
     (\<forall>nid i. cr_connections c nid = Some i \<longrightarrow>
        (\<exists>ctx. authenticated net K P TYPE('h) ctx i \<and> ac_NodeID ctx = nid \<and>
           cr_peerScopes c nid = Some (ac_EffectiveScope ctx)))"

lemma peers_inv_step:
  assumes "carrier_step net K P c c'" and "peers_inv net K P c"
  shows "peers_inv net K P c'"
  using assms
proof (induction rule: carrier_step.induct)
  case (step_registry c op)
  then show ?case by (simp add: peers_inv_def registry_step_inv)
qed (auto simp: peers_inv_def withdrawPeer_def setOffline_def setOnline_def SetController_def
    split: if_splits)

lemma peers_inv_steps: "carrier_steps net K P c c' \<Longrightarrow> peers_inv net K P c \<Longrightarrow> peers_inv net K P c'"
  by (induction rule: rtranclp_induct) (auto intro: peers_inv_step)

lemma carrier_New_Ok:
  assumes "carrier_New qt conf = Ok c"
  shows "cr_config c = config_defaults conf" "cr_registry c = Map.empty"
    "cr_connections c = Map.empty" "cr_peerScopes c = Map.empty" "\<not> isOffline c"
  using assms
  by (auto simp: carrier_New_def Let_def newNodeRegistry_def isOffline_def nodeStatusOnline_def
      nodeStatusOffline_def split: if_splits)

lemma peers_inv_New: "carrier_New qt conf = Ok c \<Longrightarrow> peers_inv net K P c"
  by (simp add: peers_inv_def registry_inv_def carrier_New_Ok)

section \<open>Operations are sequences of steps\<close>

lemma steps_registry_ignore:
  assumes "\<And>r. registry_exec (kl_NodeID_IsZero K) op r = f r"
  shows "carrier_steps net K P c (registry_ignore f c)"
proof -
  have "registry_ignore f c =
      c\<lparr>cr_registry := registry_step (kl_NodeID_IsZero K) op (cr_registry c)\<rparr>"
    by (simp add: registry_ignore_def registry_step_def assms split: outcome.splits)
  then show ?thesis by (metis step_registry r_into_rtranclp)
qed

lemmas steps_SetStatus = steps_registry_ignore [OF registry_exec.simps(4)]
lemmas steps_UpdateLastSeen = steps_registry_ignore [OF registry_exec.simps(3)]

lemma steps_registry_exec:
  assumes "registry_exec (kl_NodeID_IsZero K) op (cr_registry c) = Ok r"
  shows "carrier_steps net K P c (c\<lparr>cr_registry := r\<rparr>)"
  using carrier_step_1 [OF step_registry [of net K P c op]] assms by (simp add: registry_step_def)

lemma steps_dropConnection: "carrier_steps net K P c (dropConnection nid i c)"
proof (cases "cr_connections c nid = Some i")
  case True
  have "carrier_steps net K P c (closeConn i (withdrawPeer nid c))"
    by (rule rtranclp_trans [OF carrier_step_1 [OF step_withdraw] carrier_step_1 [OF step_close]])
  from rtranclp_trans [OF this steps_SetStatus] True show ?thesis
    by (simp add: dropConnection_def withdrawPeer_def)
next
  case False
  then show ?thesis by (simp add: dropConnection_def)
qed

lemma steps_markPeerSeen: "carrier_steps net K P c (markPeerSeen nid t c)"
  unfolding markPeerSeen_def by (rule rtranclp_trans [OF steps_UpdateLastSeen steps_SetStatus])

lemma steps_markPeerFailed: "carrier_steps net K P c (markPeerFailed nid i c)"
  unfolding markPeerFailed_def by (rule rtranclp_trans [OF steps_dropConnection steps_SetStatus])

lemma steps_startConnectionLoops: "carrier_steps net K P c (startConnectionLoops nid i c)"
  unfolding startConnectionLoops_def by (rule carrier_step_1 [OF step_spawn])

lemma steps_registerPeer:
  assumes "authenticated net K P TYPE('h) ctx i"
  shows "carrier_steps net K P (c :: ('pk, 'sk, 'h, 's) carrierImpl)
    (snd (registerPeer (K :: ('pk, 'sk) keyslib) t ctx i certs as c))"
proof (cases "AddNode (kl_NodeID_IsZero K) (peer_record t ctx certs as) certs (cr_registry c)")
  case (Ok r)
  then have "carrier_steps net K P c (c\<lparr>cr_registry := r\<rparr>)"
    by (intro steps_registry_exec [of K "OpAddNode (peer_record t ctx certs as) certs"]) simp
  from rtranclp.rtrancl_into_rtrancl [OF this step_publish [OF assms]] show ?thesis
    by (simp add: registerPeer_def Ok)
qed (simp_all add: registerPeer_def)

text \<open>The interface: an operation, for the inputs the network can give it, moves the carrier by
  steps.\<close>

locale stepwise =
  fixes net :: "connid \<Rightarrow> quicConnection" and K :: "('pk, 'sk) keyslib" and P :: protolib
    and ok :: "'x \<Rightarrow> bool"
    and exec :: "'x \<Rightarrow> ('pk, 'sk, 'h, 's) carrierImpl \<Rightarrow> 'a result \<times> ('pk, 'sk, 'h, 's) carrierImpl"
  assumes exec_steps: "ok x \<Longrightarrow> carrier_steps net K P c (snd (exec x c))"
begin

lemma exec_inv: "ok x \<Longrightarrow> peers_inv net K P c \<Longrightarrow> peers_inv net K P (snd (exec x c))"
  by (rule peers_inv_steps [OF exec_steps])

lemma exec_reachable:
  "carrier_steps net K P c0 c \<Longrightarrow> ok x \<Longrightarrow> carrier_steps net K P c0 (snd (exec x c))"
  by (rule rtranclp_trans [OF _ exec_steps])

end

lemma awaitPeerAuth_authenticated:
  assumes "awaitPeerAuth K P now (auth :: ('pk, 'h) carrierAuth option) conn = Ok (ctx, certs)"
    and "cn_tls conn = net (cn_id conn)"
  shows "authenticated net K P TYPE('h) ctx (cn_id conn)"
  using assms by (auto simp: awaitPeerAuth_def authenticated_def split: option.splits)

lemma steps_register_start:
  assumes "authenticated net K P TYPE('h) ctx i"
    and "registerPeer K t ctx i certs as (c :: ('pk, 'sk, 'h, 's) carrierImpl) = (r, c')"
  shows "carrier_steps net K P c c'"
    and "carrier_steps net K P c (startConnectionLoops nid i c')"
    and "carrier_steps net K P c (closeConn j c')"
proof -
  show s: "carrier_steps net K P c c'"
    using steps_registerPeer [OF assms(1), of c t certs as] assms(2) by simp
  show "carrier_steps net K P c (startConnectionLoops nid i c')"
    by (rule rtranclp_trans [OF s steps_startConnectionLoops])
  show "carrier_steps net K P c (closeConn j c')"
    by (rule rtranclp.rtrancl_into_rtrancl [OF s step_close])
qed

lemmas steps_close = carrier_step_1 [OF step_close]

lemma steps_connectNode:
  fixes c :: "('pk, 'sk, 'h, 's) carrierImpl"
  assumes "\<forall>nid a. net_ok net (dial nid a)"
  shows "carrier_steps net K P c (snd (connectNode K P t dial node c))"
proof -
  have dl: "dial_loop (dial nid) e as = Ok (conn, a) \<Longrightarrow> cn_tls conn = net (cn_id conn)"
    for nid e as conn a
    using assms by (induction as arbitrary: e) (auto simp: net_ok_def split: outcome.splits)
  have a: "authenticated net K P TYPE('h) ctx (cn_id conn)"
    if "dialKnownAddresses dial node = Ok (conn, a)"
      "awaitPeerAuth K P now (auth :: ('pk, 'h) carrierAuth option) conn = Ok (ctx, certs)"
    for conn a ctx certs now auth
    using that by (auto simp: dialKnownAddresses_def split: if_splits
        intro!: awaitPeerAuth_authenticated dest: dl)
  show ?thesis
    unfolding connectNode_def Let_def
    by (auto simp: on_result_snd split: option.splits outcome.splits prod.splits
        intro: steps_register_start [OF a] steps_close)
qed

lemma steps_dialBootstrapAddr:
  fixes c :: "('pk, 'sk, 'h, 's) carrierImpl"
  assumes "\<forall>a. net_ok net (dial a)"
  shows "carrier_steps net K P c (snd (dialBootstrapAddr K P t dial addr c))"
proof -
  have a: "authenticated net K P TYPE('h) ctx (cn_id conn)"
    if "dial addr = Ok conn"
      "awaitPeerAuth K P now (auth :: ('pk, 'h) carrierAuth option) conn = Ok (ctx, certs)"
    for conn ctx certs now auth
    using that assms by (auto simp: net_ok_def intro: awaitPeerAuth_authenticated)
  show ?thesis
    unfolding dialBootstrapAddr_def Let_def
    by (auto simp: on_result_snd split: option.splits outcome.splits prod.splits
        intro: steps_register_start [OF a] steps_close)
qed

lemma steps_handleIncomingConn:
  fixes c :: "('pk, 'sk, 'h, 's) carrierImpl"
  assumes "cn_tls conn = net (cn_id conn)"
  shows "carrier_steps net K P c (snd (handleIncomingConn K P t conn c))"
proof -
  have a: "authenticated net K P TYPE('h) ctx (cn_id conn)"
    if "readAuthHandshake K P stream (cn_tls conn) = Ok hs"
      "VerifyPeerCert K P (ca :: ('pk, 'h) carrierAuth) now hs = Ok ctx"
    for stream hs ca now ctx
    using that assms by (auto simp: authenticated_def)
  have "carrier_steps net K P (ensureBackgroundLoops c) (snd (handleIncomingConn K P t conn c))"
    unfolding handleIncomingConn_def Let_def
    by (auto simp: on_result_snd split: option.splits outcome.splits prod.splits
        intro: steps_register_start [OF a] steps_close)
  then show ?thesis by (rule rtranclp_trans [OF carrier_step_1 [OF step_background]])
qed

lemma steps_LeaveCluster: "carrier_steps net K P c (snd (LeaveCluster e nid c))"
proof -
  have "carrier_steps net K P c (closeConn i (withdrawPeer nid c))" for i
    by (rule rtranclp_trans [OF carrier_step_1 [OF step_withdraw] steps_close])
  then show ?thesis
    by (auto simp: LeaveCluster_def withdrawPeer_def intro: steps_close split: option.splits)
qed

lemma steps_RemoveNode: "carrier_steps net K P c (snd (carrier_RemoveNode nid c))"
proof -
  let ?w = "withdrawPeer nid c"
  have w: "carrier_steps net K P c ?w" by (rule carrier_step_1 [OF step_withdraw])
  have wc: "carrier_steps net K P c (closeConn i ?w)" for i by (rule rtranclp_trans [OF w steps_close])
  have r: "carrier_steps net K P c (d\<lparr>cr_registry := r\<rparr>)"
    if "carrier_steps net K P c d" "registry_RemoveNode nid (cr_registry d) = Ok r" for d r
    by (rule rtranclp_trans [OF that(1) steps_registry_exec [of K "OpRemoveNode nid"]])
      (simp add: that(2))
  have e: "c\<lparr>cr_peerScopes := (cr_peerScopes c)(nid := None)\<rparr> = ?w" if "cr_connections c nid = None"
    using that by (simp add: withdrawPeer_def fun_upd_idem)
  have f: "(closeConn i (c\<lparr>cr_connections := (cr_connections c)(nid := None)\<rparr>))
      \<lparr>cr_peerScopes := (cr_peerScopes c)(nid := None)\<rparr> = closeConn i ?w" for i
    by (simp add: withdrawPeer_def closeConn_def)
  show ?thesis
  proof (cases "cr_connections c nid")
    case None
    then show ?thesis
      using w r [OF w] by (auto simp: carrier_RemoveNode_def Let_def on_result_snd e split: outcome.splits)
  next
    case (Some i)
    then show ?thesis
      using wc r [OF wc]
      by (auto simp: carrier_RemoveNode_def Let_def on_result_snd f split: outcome.splits)
  qed
qed

lemma steps_StartListener: "carrier_steps net K P c (snd (StartListener e cs ae ce c))"
proof -
  have "carrier_steps net K P c (ensureBackgroundLoops c)"
    by (rule carrier_step_1 [OF step_background])
  moreover from this have "carrier_steps net K P c (spawn gs (ensureBackgroundLoops c))" for gs
    by (rule rtranclp_trans [OF _ carrier_step_1 [OF step_spawn]])
  ultimately show ?thesis by (auto simp: StartListener_def Let_def split: option.splits)
qed

section \<open>Loops\<close>

lemma steps_dial_all:
  assumes "\<And>a c. carrier_steps net K P c (snd (dial1 a c))"
  shows "carrier_steps net K P c (snd (dial_all dial1 n as c))"
proof (induction as arbitrary: n c)
  case Nil
  then show ?case by simp
next
  case (Cons a as)
  have "carrier_steps net K P c d" if "dial1 a c = (r, d)" for r d using assms [of c a] that by simp
  with Cons show ?case by (auto split: outcome.splits prod.splits intro: rtranclp_trans)
qed

lemma steps_rounds:
  assumes "\<And>n c. carrier_steps net K P c (snd (round n c))"
  shows "carrier_steps net K P c (snd (bootstrap_rounds round cancelled ns c))"
proof (induction ns arbitrary: c)
  case Nil
  then show ?case by (simp add: carrier_step_1 [OF step_offline])
next
  case (Cons n ns)
  have "carrier_steps net K P c d" if "round n c = (r, d)" for r d using assms [of c n] that by simp
  with Cons show ?case by (auto split: outcome.splits prod.splits intro: rtranclp_trans)
qed

lemma steps_connect_each:
  assumes "\<And>n c. carrier_steps net K P c (snd (connect n c))"
  shows "carrier_steps net K P c (snd (connect_each connect ns c))"
proof (induction ns arbitrary: c)
  case Nil
  then show ?case by simp
next
  case (Cons n ns)
  have "carrier_steps net K P c d" if "connect n c = (r, d)" for r d using assms [of c n] that by simp
  with Cons show ?case by (auto split: outcome.splits prod.splits intro: rtranclp_trans)
qed

lemma steps_heartbeat_batch: "carrier_steps net K P c (snd (heartbeat_batch send ps c))"
proof (induction send ps c rule: heartbeat_batch.induct)
  case (1 send c)
  then show ?case by simp
next
  case (2 send p ps c)
  have m: "carrier_steps net K P c (snd (heartbeat_batch send ps (markPeerFailed (pn_NodeID p) i c)))"
    if "carrier_steps net K P (markPeerFailed (pn_NodeID p) i c)
          (snd (heartbeat_batch send ps (markPeerFailed (pn_NodeID p) i c)))" for i
    by (rule rtranclp_trans [OF steps_markPeerFailed that])
  show ?case
    using 2 by (auto simp: on_result_snd split: outcome.splits intro!: m)
qed

lemma steps_failStalePeers: "carrier_steps net K P c (failStalePeers now ks c)"
proof -
  have one: "carrier_steps net K P c (failStalePeer now n c)" for n c
    by (auto simp: failStalePeer_def split: outcome.splits intro: steps_markPeerFailed)
  have "carrier_steps net K P c (fold (failStalePeer now) ns c)" for ns
    by (induction ns arbitrary: c) (auto intro: rtranclp_trans [OF one])
  then show ?thesis by (simp add: failStalePeers_def)
qed

text \<open>What gossip does to the registry is a sequence of \<open>AddNode\<close> calls.\<close>

lemma merge_nodes_ops:
  "\<exists>ops. snd (merge_nodes isZero self d es r) = fold (registry_step isZero) ops r"
proof (induction es arbitrary: d r)
  case Nil
  have "snd (merge_nodes isZero self d [] r) = fold (registry_step isZero) [] r" by simp
  then show ?case by blast
next
  case (Cons e es)
  have add: "\<exists>ops. snd (on_result (AddNode isZero n cs r) r (\<lambda>e. (Err e, r)) k) =
      fold (registry_step isZero) ops r"
    if k: "\<And>r'. \<exists>ops. snd (k r') = fold (registry_step isZero) ops r'" for n cs k
  proof (cases "AddNode isZero n cs r")
    case (Ok r')
    obtain ops where "snd (k r') = fold (registry_step isZero) ops r'" using k by blast
    moreover have "registry_step isZero (OpAddNode n cs) r = r'" by (simp add: registry_step_def Ok)
    ultimately have "snd (on_result (AddNode isZero n cs r) r (\<lambda>e. (Err e, r)) k) =
        fold (registry_step isZero) (OpAddNode n cs # ops) r" by (simp add: Ok)
    then show ?thesis by blast
  qed (use exI [of _ "[]"] in \<open>auto simp: exI [of _ "[]"]\<close>)
  show ?case
    using Cons by (auto simp: Let_def split: outcome.splits intro!: add)
qed

lemma steps_registry_fold:
  "carrier_steps net K P c
     (c\<lparr>cr_registry := fold (registry_step (kl_NodeID_IsZero K)) ops (cr_registry c)\<rparr>)"
proof (induction ops arbitrary: c)
  case Nil
  then show ?case by simp
next
  case (Cons op ops)
  from rtranclp_trans [OF carrier_step_1 [OF step_registry [of net K P c op]] Cons [of "c\<lparr>cr_registry := _\<rparr>"]]
  show ?case by simp
qed

lemma steps_mergeHeartbeatNodes: "carrier_steps net K P c (snd (mergeHeartbeatNodes K es c))"
proof -
  have "carrier_steps net K P c
      (c\<lparr>cr_registry := snd (merge_nodes (kl_NodeID_IsZero K) self [] es (cr_registry c))\<rparr>)" for self
    using merge_nodes_ops [of "kl_NodeID_IsZero K" self "[]" es "cr_registry c"]
      steps_registry_fold [of net K P c] by metis
  then show ?thesis
    by (auto simp: mergeHeartbeatNodes_def on_result_snd case_prod_beta split: outcome.splits)
qed

lemma steps_handleHeartbeatMessage:
  "carrier_steps net K P c (snd (handleHeartbeatMessage K P now nid msg c))"
proof -
  let ?c = "markPeerSeen nid now c"
  have seen: "carrier_steps net K P c ?c" by (rule steps_markPeerSeen)
  have role: "carrier_steps net K P c (?c\<lparr>cr_registry := r\<rparr>)"
    if "SetRole nid role (cr_registry ?c) = Ok r" for role r
    by (rule rtranclp_trans [OF seen steps_registry_exec [of K "OpSetRole nid role"]]) (simp add: that)
  have merge: "carrier_steps net K P c d"
    if "SetRole nid role (cr_registry ?c) = Ok r"
      "mergeHeartbeatNodes K es (?c\<lparr>cr_registry := r\<rparr>) = (m, d)" for role r es m d
    using rtranclp_trans [OF role [OF that(1)] steps_mergeHeartbeatNodes [of net K P _ es]] that(2)
    by simp
  have sp: "carrier_steps net K P c (spawn gs d)"
    if "SetRole nid role (cr_registry ?c) = Ok r"
      "mergeHeartbeatNodes K es (?c\<lparr>cr_registry := r\<rparr>) = (m, d)" for role r es m d gs
    by (rule rtranclp_trans [OF merge [OF that] carrier_step_1 [OF step_spawn]])
  show ?thesis
    unfolding handleHeartbeatMessage_def Let_def
    by (auto simp: on_result_snd split: outcome.splits prod.splits intro: seen merge sp)
qed

lemma steps_dispatchMessage:
  "carrier_steps net K P c (fst (snd (dispatchMessage K P now now' nid msg (c, s))))"
proof -
  let ?c = "markPeerSeen nid now c"
  have seen: "carrier_steps net K P c ?c" by (rule steps_markPeerSeen)
  have "carrier_steps net K P c d" if "handleHeartbeatMessage K P now' nid msg ?c = (r, d)" for r d
    using rtranclp_trans [OF seen steps_handleHeartbeatMessage [of net K P _ now' nid msg]] that by simp
  with seen show ?thesis
    by (auto simp: dispatchMessage_def Let_def split: outcome.splits option.splits prod.splits)
qed

lemma steps_handleDatagrams:
  "carrier_steps net K P (fst st) (fst (snd (handleDatagrams K P nid i ds st)))"
proof (induction ds arbitrary: st)
  case Nil
  then show ?case by (cases st) (simp add: steps_dropConnection)
next
  case (Cons d ds)
  obtain now now' data where d: "d = (now, now', data)" by (cases d)
  have "carrier_steps net K P (fst st) (fst (snd (handleDatagrams K P nid i ds (a, s))))"
    if "dispatchMessage K P now now' nid m st = (r, a, s)" for m r a s
    using rtranclp_trans [OF steps_dispatchMessage [of net K P "fst st" now now' nid m "snd st"]]
      Cons [of "(a, s)"] that by simp
  moreover have "carrier_steps net K P (fst st) a"
    if "dispatchMessage K P now now' nid m st = (r, a, s)" for m r a s
    using steps_dispatchMessage [of net K P "fst st" now now' nid m "snd st"] that by simp
  ultimately show ?case using Cons by (auto simp: d split: outcome.splits prod.splits)
qed

lemma steps_handleReliableStreams: "carrier_steps net K P c (handleReliableStreams nid i ss c)"
proof (induction ss arbitrary: c)
  case Nil
  then show ?case by (simp add: steps_dropConnection)
next
  case (Cons s ss)
  from rtranclp_trans [OF carrier_step_1 [OF step_spawn] Cons] show ?case by simp
qed

section \<open>All operations\<close>

text \<open>The operations of the carrier with everything they are given.\<close>

datatype ('pk, 'h, 's) carrier_op =
    OpHandleIncomingConn instants connection
  | OpConnectNode instants "nodeid \<Rightarrow> string \<Rightarrow> connection result" "'pk cert_value Node"
  | OpOpenPeerChannel instants "nodeid \<Rightarrow> string \<Rightarrow> connection result" PeerNode
  | OpReconnect bootstrap_env
  | OpRunBootstrapLoop bootstrap_env
  | OpLeaveCluster "goerror option" nodeid
  | OpRemovePeer nodeid
  | OpStartListener "goerror option" "connection list" goerror "goerror option"
  | OpDispatchMessage gotime gotime nodeid Message 's
  | OpHandleDatagrams nodeid connid "(gotime \<times> gotime \<times> bytes) list" 's
  | OpHandleReliableStreams nodeid connid "instream list"
  | OpSendHeartbeatBatch "nodeid \<Rightarrow> send_env" int64 "nodeid list" "nodeid \<Rightarrow> nodeid list"
  | OpFailStalePeers gotime "nodeid list"
  | OpRetryUnreachablePeers "nodeid \<Rightarrow> instants" "nodeid \<Rightarrow> string \<Rightarrow> connection result" "nodeid list"
  | OpConnectDiscoveredPeers "nodeid \<Rightarrow> instants" "nodeid \<Rightarrow> string \<Rightarrow> connection result"
      "'pk cert_value Node list"
  | OpSetController "'s clusterController option"
  | OpTrustStore "('pk, 'h) carrierAuth option"

fun carrier_exec ::
  "('pk, 'sk) keyslib \<Rightarrow> protolib \<Rightarrow> ('pk, 'h, 's) carrier_op \<Rightarrow> ('pk, 'sk, 'h, 's) carrierImpl
     \<Rightarrow> ('pk, 'sk, 'h, 's) carrierImpl" where
  "carrier_exec K P (OpHandleIncomingConn t conn) c = snd (handleIncomingConn K P t conn c)"
| "carrier_exec K P (OpConnectNode t dial node) c = snd (connectNode K P t dial node c)"
| "carrier_exec K P (OpOpenPeerChannel t dial peer) c = snd (OpenPeerChannel K P t dial peer c)"
| "carrier_exec K P (OpReconnect env) c = snd (Reconnect K P env c)"
| "carrier_exec K P (OpRunBootstrapLoop env) c = snd (runBootstrapLoop K P env c)"
| "carrier_exec K P (OpLeaveCluster e nid) c = snd (LeaveCluster e nid c)"
| "carrier_exec K P (OpRemovePeer nid) c = snd (carrier_RemoveNode nid c)"
| "carrier_exec K P (OpStartListener e conns ae ce) c = snd (StartListener e conns ae ce c)"
| "carrier_exec K P (OpDispatchMessage now now' nid msg s) c =
     fst (snd (dispatchMessage K P now now' nid msg (c, s)))"
| "carrier_exec K P (OpHandleDatagrams nid i ds s) c =
     fst (snd (handleDatagrams K P nid i ds (c, s)))"
| "carrier_exec K P (OpHandleReliableStreams nid i ss) c = handleReliableStreams nid i ss c"
| "carrier_exec K P (OpSendHeartbeatBatch E now ks order) c =
     snd (sendHeartbeatBatch K P E now ks order c)"
| "carrier_exec K P (OpFailStalePeers now ks) c = failStalePeers now ks c"
| "carrier_exec K P (OpRetryUnreachablePeers t dial ks) c =
     snd (retryUnreachablePeers K P t dial ks c)"
| "carrier_exec K P (OpConnectDiscoveredPeers t dial peers) c =
     snd (connectDiscoveredPeers K P t dial peers c)"
| "carrier_exec K P (OpSetController cc) c = SetController cc c"
| "carrier_exec K P (OpTrustStore a) c = c\<lparr>cr_config := (cr_config c)\<lparr>cfg_Auth := a\<rparr>\<rparr>"

text \<open>The connections an operation is given have the TLS sessions \<open>net\<close> says.\<close>

fun op_net_ok :: "(connid \<Rightarrow> quicConnection) \<Rightarrow> ('pk, 'h, 's) carrier_op \<Rightarrow> bool" where
  "op_net_ok net (OpHandleIncomingConn t conn) \<longleftrightarrow> net_ok net (Ok conn)"
| "op_net_ok net (OpConnectNode t dial node) \<longleftrightarrow> (\<forall>nid a. net_ok net (dial nid a))"
| "op_net_ok net (OpOpenPeerChannel t dial peer) \<longleftrightarrow> (\<forall>nid a. net_ok net (dial nid a))"
| "op_net_ok net (OpReconnect env) \<longleftrightarrow> (\<forall>n a. net_ok net (be_dial env n a))"
| "op_net_ok net (OpRunBootstrapLoop env) \<longleftrightarrow> (\<forall>n a. net_ok net (be_dial env n a))"
| "op_net_ok net (OpRetryUnreachablePeers t dial ks) \<longleftrightarrow> (\<forall>nid a. net_ok net (dial nid a))"
| "op_net_ok net (OpConnectDiscoveredPeers t dial peers) \<longleftrightarrow> (\<forall>nid a. net_ok net (dial nid a))"
| "op_net_ok net _ \<longleftrightarrow> True"

lemma steps_attemptBootstrap:
  assumes "\<forall>n a. net_ok net (be_dial env n a)"
  shows "carrier_steps net K P c (snd (attemptBootstrap K P env addrs c))"
  unfolding attemptBootstrap_def dialBootstrapAll_def
  by (intro steps_rounds steps_dial_all steps_dialBootstrapAddr) (simp add: assms)

lemma steps_Reconnect:
  assumes "\<forall>n a. net_ok net (be_dial env n a)"
  shows "carrier_steps net K P c (snd (Reconnect K P env c))"
proof -
  have o: "carrier_steps net K P c (setOnline c)" by (rule carrier_step_1 [OF step_online])
  have "carrier_steps net K P c d" if "attemptBootstrap K P env addrs (setOnline c) = (r, d)" for addrs r d
    using rtranclp_trans [OF o steps_attemptBootstrap [OF assms, of K P _ addrs]] that by simp
  with o show ?thesis
    by (auto simp: Reconnect_def Let_def split: prod.splits outcome.splits)
qed

lemma steps_runBootstrapLoop:
  assumes "\<forall>n a. net_ok net (be_dial env n a)"
  shows "carrier_steps net K P c (snd (runBootstrapLoop K P env c))"
  using steps_attemptBootstrap [OF assms, of K P c "cfg_BootstrapAddresses (cr_config c)"]
  by (auto simp: runBootstrapLoop_def Let_def split: prod.splits)

lemma steps_OpenPeerChannel:
  assumes "\<forall>nid a. net_ok net (dial nid a)"
  shows "carrier_steps net K P c (snd (OpenPeerChannel K P t dial peer c))"
  unfolding OpenPeerChannel_def
  by (rule rtranclp_trans [OF carrier_step_1 [OF step_background] steps_connectNode [OF assms]])

lemmas operation_steps = steps_handleIncomingConn steps_connectNode steps_OpenPeerChannel
  steps_Reconnect steps_runBootstrapLoop steps_LeaveCluster steps_RemoveNode steps_StartListener
  steps_dispatchMessage steps_handleReliableStreams steps_heartbeat_batch steps_failStalePeers
  steps_connect_each

interpretation operations: stepwise net K P "op_net_ok net" "\<lambda>op c. (Ok (), carrier_exec K P op c)"
  for net and K :: "('pk, 'sk) keyslib" and P
proof
  fix op :: "('pk, 'h, 's) carrier_op" and c :: "('pk, 'sk, 'h, 's) carrierImpl"
  assume ok: "op_net_ok net op"
  have "carrier_steps net K P c (carrier_exec K P op c)"
  proof (cases op)
    case (OpHandleIncomingConn t conn)
    with ok show ?thesis by (simp add: net_ok_def operation_steps)
  next
    case (OpHandleDatagrams nid i ds s)
    with steps_handleDatagrams [of net K P "(c, s)"] show ?thesis by simp
  next
    case (OpSetController cc)
    then show ?thesis by (simp add: carrier_step_1 [OF step_controller])
  next
    case (OpTrustStore a)
    then show ?thesis by (simp add: carrier_step_1 [OF step_trust])
  qed (use ok in \<open>simp_all add: operation_steps sendHeartbeatBatch_def retryUnreachablePeers_def
      connectDiscoveredPeers_def\<close>)
  then show "carrier_steps net K P c (snd (Ok (), carrier_exec K P op c))" by simp
qed

end
