(* ===== verification/Gossip.thy ===== *)
theory Gossip
  imports Heartbeat Samples
begin

text \<open>
  What a heartbeat does to a node: the encoding of its payload, the effect of gossip on the
  registry and the detection of stale peers.
\<close>

section \<open>The payload\<close>

text \<open>Roles that fit in 32 bits and node IDs of the library's size.\<close>

definition role_fits :: "NodeRole \<Rightarrow> bool" where
  "role_fits r \<longleftrightarrow> - (2 ^ 31) \<le> r \<and> r < 2 ^ 31"

definition entry_fits :: "('pk, 'sk) keyslib \<Rightarrow> heartbeatNodeEntry \<Rightarrow> bool" where
  "entry_fits K e \<longleftrightarrow> length (he_NodeID e) = kl_NodeIDSize K \<and> role_fits (he_Role e)"

lemma role_roundtrip: "role_fits r \<Longrightarrow> sint (word_of_int r :: 32 word) = r"
  by (simp add: role_fits_def signed_of_int signed_take_bit_int_eq_self)

lemma copy_NodeID_id: "length b = kl_NodeIDSize K \<Longrightarrow> copy_NodeID K b = b"
  by (simp add: copy_NodeID_def)

interpretation gossip_entry: codec entry_to_pb "\<lambda>e. Ok (pb_to_entry K e)" "entry_fits K" for K
  by unfold_locales (simp add: entry_to_pb_def pb_to_entry_def entry_fits_def role_roundtrip copy_NodeID_id)

lemma entries_roundtrip: "\<forall>e \<in> set es. entry_fits K e \<Longrightarrow> map (pb_to_entry K \<circ> entry_to_pb) es = es"
  using gossip_entry.dec_enc by (intro map_idI) auto

text \<open>C35: a heartbeat arrives as it was sent: for roles that fit in 32 bits and node IDs of the
  library's size, decoding an encoded payload returns it.\<close>

theorem heartbeat_roundtrip:
  assumes "proto_decodes P" and "marshalHeartbeatPayload P hb = Ok data"
    and "role_fits (hb_SenderRole hb)" and "\<forall>e \<in> set (hb_KnownNodes hb). entry_fits K e"
  shows "unmarshalHeartbeatPayload K P data = Ok hb"
proof -
  let ?m = "\<lparr>hp_SentAtUnix = hb_SentAtUnix hb, hp_SenderRole = word_of_int (hb_SenderRole hb),
    hp_KnownNodes = map entry_to_pb (hb_KnownNodes hb), hp_Stats = hb_Stats hb,
    hp_StorageFreeBytes = hb_StorageFreeBytes hb, hp_CustomFields = hb_CustomFields hb\<rparr>"
  have "pl_Unmarshal P KHeartbeatPayload data = Ok (PHeartbeatPayload ?m)"
    using assms(1,2) unfolding proto_decodes_def marshalHeartbeatPayload_def
    by (metis proto_kind_of.simps(6))
  then show ?thesis
    using assms(3) entries_roundtrip [OF assms(4)]
    by (simp add: unmarshalHeartbeatPayload_def role_roundtrip)
qed

definition sample_beat :: heartbeatPayload where
  "sample_beat =
     \<lparr>hb_SentAtUnix = 9, hb_SenderRole = NodeRoleServer,
      hb_KnownNodes = [\<lparr>he_NodeID = replicate 32 5, he_Addresses = [''h:1''], he_Role = NodeRoleClient\<rparr>],
      hb_Stats = Map.empty, hb_StorageFreeBytes = 0, hb_CustomFields = Map.empty\<rparr>"

definition sample_beat_pb :: proto_message where
  "sample_beat_pb = PHeartbeatPayload
     \<lparr>hp_SentAtUnix = 9, hp_SenderRole = 0,
      hp_KnownNodes = [\<lparr>hn_NodeId = replicate 32 5, hn_Addresses = [''h:1''], hn_Role = 1\<rparr>],
      hp_Stats = Map.empty, hp_StorageFreeBytes = 0, hp_CustomFields = Map.empty\<rparr>"

theorem heartbeat_roundtrip_witness:
  "unmarshalHeartbeatPayload byte_keys (table_proto [(sample_beat_pb, [1])]) [1] = Ok sample_beat"
proof (rule heartbeat_roundtrip)
  show "marshalHeartbeatPayload (table_proto [(sample_beat_pb, [1])]) sample_beat = Ok [1]"
    by (simp add: marshalHeartbeatPayload_def sample_beat_def sample_beat_pb_def entry_to_pb_def role_defs)
qed (simp_all add: sample_beat_def role_fits_def entry_fits_def role_defs)

section \<open>Gossip\<close>

text \<open>What gossip keeps of a registry: every node stays, with its status, the time it was last
  seen, its certificates and its addresses.\<close>

definition grows :: "'c nodeRegistry \<Rightarrow> 'c nodeRegistry \<Rightarrow> bool" where
  "grows r r' \<longleftrightarrow>
     (\<forall>nid n. r nid = Some n \<longrightarrow>
        (\<exists>n'. r' nid = Some n' \<and> nd_ConnectionStatus n' = nd_ConnectionStatus n \<and>
           nd_LastSeen n' = nd_LastSeen n \<and> nd_NodeCerts n' = nd_NodeCerts n \<and>
           set (nd_Addresses n) - {[]} \<subseteq> set (nd_Addresses n')))"

lemma grows_refl [simp]: "grows r r"
  by (auto simp: grows_def)

lemma grows_trans:
  assumes "grows r s" and "grows s t"
  shows "grows r t"
  unfolding grows_def
proof (intro allI impI)
  fix nid n
  assume "r nid = Some n"
  then obtain m where m: "s nid = Some m" "nd_ConnectionStatus m = nd_ConnectionStatus n"
      "nd_LastSeen m = nd_LastSeen n" "nd_NodeCerts m = nd_NodeCerts n"
      "set (nd_Addresses n) - {[]} \<subseteq> set (nd_Addresses m)"
    using assms(1) unfolding grows_def by blast
  then obtain k where "t nid = Some k" "nd_ConnectionStatus k = nd_ConnectionStatus m"
      "nd_LastSeen k = nd_LastSeen m" "nd_NodeCerts k = nd_NodeCerts m"
      "set (nd_Addresses m) - {[]} \<subseteq> set (nd_Addresses k)"
    using assms(2) unfolding grows_def by blast
  with m show "\<exists>k. t nid = Some k \<and> nd_ConnectionStatus k = nd_ConnectionStatus n \<and>
      nd_LastSeen k = nd_LastSeen n \<and> nd_NodeCerts k = nd_NodeCerts n \<and>
      set (nd_Addresses n) - {[]} \<subseteq> set (nd_Addresses k)"
    by (intro exI [of _ k]) auto
qed

text \<open>A known node announced again.\<close>

lemma gossip_known:
  assumes "r nid = Some n" and "\<not> isZero nid" and "nd_NodeID n = nid"
    and "m = n\<lparr>nd_Addresses := compactAddresses (nd_Addresses n @ as), nd_Role := role\<rparr>"
  obtains r' where "AddNode isZero m (nd_NodeCerts m) r = Ok r'" and "grows r r'" and "dom r' = dom r"
    and "\<forall>j. j \<noteq> nid \<longrightarrow> r' j = r j"
proof -
  define r' where "r' = r(nid \<mapsto> mergeNode n m)"
  have "AddNode isZero m (nd_NodeCerts m) r = Ok r'"
    using assms by (cases n) (simp add: AddNode_Ok_iff r'_def)
  moreover have "grows r r'"
    using assms(1,4) by (auto simp: grows_def r'_def mergeNode_def time_IsZero_def)
  moreover have "dom r' = dom r" "\<forall>j. j \<noteq> nid \<longrightarrow> r' j = r j"
    using assms(1) by (auto simp: r'_def)
  ultimately show ?thesis by (rule that)
qed

text \<open>An unknown node.\<close>

lemma gossip_unknown:
  assumes "r nid = None" and "\<not> isZero nid" and "nd_NodeID m = nid" and "nd_NodeCerts m = []"
  shows "AddNode isZero m [] r = Ok (r(nid \<mapsto> m))" and "grows r (r(nid \<mapsto> m))"
  using assms by (auto simp: AddNode_Ok_iff grows_def)

definition announced :: "(nodeid \<Rightarrow> bool) \<Rightarrow> nodeid \<Rightarrow> heartbeatNodeEntry list \<Rightarrow> nodeid set" where
  "announced isZero self es = {he_NodeID e | e. e \<in> set es \<and> \<not> isZero (he_NodeID e) \<and> he_NodeID e \<noteq> self}"

lemma announced_simps [simp]:
  "announced isZero self [] = {}"
  "announced isZero self (e # es) =
     (if isZero (he_NodeID e) \<or> he_NodeID e = self then {} else {he_NodeID e}) \<union> announced isZero self es"
  by (auto simp: announced_def)

lemma merge_nodes_effect:
  assumes "registry_inv isZero r"
  shows "\<exists>new r'. merge_nodes isZero self d es r = (Ok (d @ new), r') \<and> registry_inv isZero r' \<and>
    grows r r' \<and> dom r' = dom r \<union> announced isZero self es \<and>
    distinct (map nd_NodeID new) \<and> set (map nd_NodeID new) = dom r' - dom r \<and>
    (\<forall>n \<in> set new. nd_ConnectionStatus n = ConnectionStatusDisconnected \<and> nd_NodeCerts n = []) \<and>
    r' self = r self"
  using assms
proof (induction es arbitrary: d r)
  case Nil
  then show ?case by simp
next
  case (Cons e es)
  let ?k = "he_NodeID e"
  consider (skip) "isZero ?k \<or> ?k = self"
    | (known) n where "\<not> isZero ?k" "?k \<noteq> self" "r ?k = Some n"
    | (new) "\<not> isZero ?k" "?k \<noteq> self" "r ?k = None"
    by (cases "r ?k") auto
  then show ?case
  proof cases
    case skip
    with Cons.IH [OF Cons.prems, of d] show ?thesis by simp
  next
    case known
    let ?m = "n\<lparr>nd_Addresses := compactAddresses (nd_Addresses n @ he_Addresses e), nd_Role := he_Role e\<rparr>"
    have "nd_NodeID n = ?k" using Cons.prems known(3) unfolding registry_inv_def by blast
    from gossip_known [where isZero = isZero and r = r and nid = ?k and n = n and m = ?m, OF known(3,1) this] obtain r1 where
      r1: "AddNode isZero ?m (nd_NodeCerts ?m) r = Ok r1" "grows r r1" "dom r1 = dom r"
        "\<forall>j. j \<noteq> ?k \<longrightarrow> r1 j = r j"
      by blast
    have s: "merge_nodes isZero self d (e # es) r = merge_nodes isZero self d es r1"
      using known r1(1) by (simp add: registry_GetNode_def Let_def)
    have "r1 self = r self" using r1(4) known(2) by auto
    moreover have "?k \<in> dom r" using known(3) by auto
    ultimately show ?thesis
      using Cons.IH [OF AddNode_inv [OF Cons.prems r1(1)], of d] known grows_trans [OF r1(2)]
      unfolding s r1(3) by (auto simp: insert_absorb)
  next
    case new
    let ?m = "\<lparr>nd_NodeID = ?k, nd_Addresses = compactAddresses (he_Addresses e), nd_NodeCerts = [],
      nd_Role = he_Role e, nd_LastSeen = 0, nd_ConnectionStatus = ConnectionStatusDisconnected\<rparr>"
    have a: "AddNode isZero ?m [] r = Ok (r(?k \<mapsto> ?m))" "grows r (r(?k \<mapsto> ?m))"
      using gossip_unknown [where isZero = isZero and r = r and nid = ?k and m = ?m, OF new(3,1)] by simp_all
    have i: "registry_inv isZero (r(?k \<mapsto> ?m))" by (rule AddNode_inv [OF Cons.prems a(1)])
    have s: "merge_nodes isZero self d (e # es) r = merge_nodes isZero self (d @ [?m]) es (r(?k \<mapsto> ?m))"
      using new a(1) by (simp add: registry_GetNode_def Let_def)
    obtain nw r' where n: "merge_nodes isZero self (d @ [?m]) es (r(?k \<mapsto> ?m)) = (Ok ((d @ [?m]) @ nw), r')"
        "registry_inv isZero r'" "grows (r(?k \<mapsto> ?m)) r'"
        "dom r' = dom (r(?k \<mapsto> ?m)) \<union> announced isZero self es" "distinct (map nd_NodeID nw)"
        "set (map nd_NodeID nw) = dom r' - dom (r(?k \<mapsto> ?m))"
        "\<forall>n \<in> set nw. nd_ConnectionStatus n = ConnectionStatusDisconnected \<and> nd_NodeCerts n = []"
        "r' self = (r(?k \<mapsto> ?m)) self"
      using Cons.IH [OF i, of "d @ [?m]"] by blast
    have "grows r r'" using grows_trans [OF a(2) n(3)] by simp
    with s n new show ?thesis
      by (intro exI [of _ "?m # nw"] exI [of _ r']) auto
  qed
qed


definition sample_config :: "string \<Rightarrow> (byte, byte, unit) CarrierConfig" where
  "sample_config h =
     \<lparr>cfg_BootstrapAddresses = [''b:1''], cfg_SelfCert = Some (sample_cert h), cfg_ListenAddress = ''l:1'',
      cfg_Auth = Some (sample_store h), cfg_NodeIdentity = Some (sample_identity h),
      cfg_NodeRole = NodeRoleServer, cfg_HeartbeatInterval = 0, cfg_HeartbeatTimeout = 0,
      cfg_ReconnectInterval = 0, cfg_BootstrapRetryInterval = 0, cfg_BootstrapMaxRetries = 0,
      cfg_BroadcastMaxRetries = 0, cfg_BroadcastRetryInterval = 0\<rparr>"

definition sample_carrier :: "string \<Rightarrow> (byte, byte, unit, nat) carrierImpl" where
  "sample_carrier h =
     \<lparr>cr_config = config_defaults (sample_config h), cr_registry = Map.empty, cr_transport = Some ''l:1'',
      cr_connections = Map.empty, cr_controller = None, cr_peerScopes = Map.empty,
      cr_backgroundStarted = False, cr_nodeStatus = nodeStatusOnline, cr_closed = {}, cr_spawned = []\<rparr>"

lemma sample_carrier_New: "carrier_New (Ok ''l:1'') (sample_config h) = Ok (sample_carrier h)"
proof -
  have "cfg_SelfCert (sample_config h) \<noteq> None"
    "cfg_NodeIdentity (config_defaults (sample_config h)) \<noteq> None"
    by (simp_all add: sample_config_def config_defaults_def Let_def)
  then show ?thesis by (simp add: carrier_New_def Let_def sample_carrier_def newNodeRegistry_def)
qed

lemma sample_carrier_simps [simp]:
  "cfg_SelfCert (cr_config (sample_carrier h)) = Some (sample_cert h)"
  "cfg_Auth (cr_config (sample_carrier h)) = Some (sample_store h)"
  "cfg_NodeIdentity (cr_config (sample_carrier h)) = Some (sample_identity h)"
  "cr_registry (sample_carrier h) = Map.empty" "cr_connections (sample_carrier h) = Map.empty"
  "cr_peerScopes (sample_carrier h) = Map.empty" "cr_transport (sample_carrier h) = Some ''l:1''"
  by (simp_all add: sample_carrier_def sample_config_def config_defaults_def Let_def)


section \<open>Stale peers\<close>

text \<open>The connection of a peer in the registry is stale when nothing was heard from it for longer
  than the timeout.\<close>

definition stale :: "gotime \<Rightarrow> ('pk, 'sk, 'h, 's) carrierImpl \<Rightarrow> nodeid \<Rightarrow> bool" where
  "stale now c nid \<longleftrightarrow>
     (\<exists>n. cr_registry c nid = Some n \<and> nd_LastSeen n \<noteq> 0 \<and>
        time_Sub now (nd_LastSeen n) > heartbeatTimeout c)"

lemma registry_ignore_simps [simp]:
  "cr_config (registry_ignore f c) = cr_config c" "cr_connections (registry_ignore f c) = cr_connections c"
  "cr_peerScopes (registry_ignore f c) = cr_peerScopes c" "cr_closed (registry_ignore f c) = cr_closed c"
  by (simp_all add: registry_ignore_def split: outcome.splits)

lemma dropConnection_effect:
  "cr_config (dropConnection nid i c) = cr_config c"
  "cr_connections (dropConnection nid i c) =
     (if cr_connections c nid = Some i then (cr_connections c)(nid := None) else cr_connections c)"
  "cr_peerScopes (dropConnection nid i c) =
     (if cr_connections c nid = Some i then (cr_peerScopes c)(nid := None) else cr_peerScopes c)"
  "cr_closed (dropConnection nid i c) =
     (if cr_connections c nid = Some i then insert i (cr_closed c) else cr_closed c)"
  by (simp_all add: dropConnection_def closeConn_def)

lemma failStalePeer_effect:
  "cr_config (failStalePeer now n c) = cr_config c"
  "cr_connections (failStalePeer now n c) =
     (if nd_LastSeen n \<noteq> 0 \<and> time_Sub now (nd_LastSeen n) > heartbeatTimeout c
      then (cr_connections c)(nd_NodeID n := None) else cr_connections c)"
  "cr_peerScopes (failStalePeer now n c) =
     (if nd_LastSeen n \<noteq> 0 \<and> time_Sub now (nd_LastSeen n) > heartbeatTimeout c \<and>
         cr_connections c (nd_NodeID n) \<noteq> None
      then (cr_peerScopes c)(nd_NodeID n := None) else cr_peerScopes c)"
  "cr_closed (failStalePeer now n c) =
     (if nd_LastSeen n \<noteq> 0 \<and> time_Sub now (nd_LastSeen n) > heartbeatTimeout c
      then cr_closed c \<union> set_option (cr_connections c (nd_NodeID n)) else cr_closed c)"
  by (auto simp: failStalePeer_def markPeerFailed_def dropConnection_effect connectionForNode_def
      time_IsZero_def fun_upd_idem split: outcome.splits option.splits)

lemma registry_ignore_SetStatus:
  "cr_registry (registry_ignore (SetStatus nid s) c) =
     (cr_registry c)(nid := map_option (\<lambda>n. n\<lparr>nd_ConnectionStatus := s\<rparr>) (cr_registry c nid))"
  by (auto simp: registry_ignore_def SetStatus_def fun_upd_idem split: option.splits)

lemma failStalePeer_registry:
  "cr_registry (failStalePeer now n c) =
     (if nd_LastSeen n \<noteq> 0 \<and> time_Sub now (nd_LastSeen n) > heartbeatTimeout c \<and>
         cr_connections c (nd_NodeID n) \<noteq> None
      then (cr_registry c)(nd_NodeID n :=
             map_option (\<lambda>n. n\<lparr>nd_ConnectionStatus := ConnectionStatusFailed\<rparr>) (cr_registry c (nd_NodeID n)))
      else cr_registry c)"
  by (auto simp: failStalePeer_def markPeerFailed_def dropConnection_def closeConn_def
      connectionForNode_def time_IsZero_def registry_ignore_SetStatus option.map_comp comp_def
      split: outcome.splits option.splits)

lemma heartbeatTimeout_failStalePeer [simp]:
  "heartbeatTimeout (failStalePeer now n c) = heartbeatTimeout c"
  by (simp add: heartbeatTimeout_def failStalePeer_effect)

lemma failStale_fold:
  assumes "\<And>n. n \<in> set ns \<Longrightarrow> P (nd_NodeID n) \<longleftrightarrow>
      nd_LastSeen n \<noteq> 0 \<and> time_Sub now (nd_LastSeen n) > heartbeatTimeout c"
    and "distinct (map nd_NodeID ns)"
  defines "hit \<equiv> \<lambda>nid. nid \<in> set (map nd_NodeID ns) \<and> P nid"
  defines "c' \<equiv> fold (failStalePeer now) ns c"
  shows "cr_connections c' = (\<lambda>nid. if hit nid then None else cr_connections c nid)"
    and "cr_closed c' = cr_closed c \<union> {i. \<exists>nid. hit nid \<and> cr_connections c nid = Some i}"
    and "cr_registry c' = (\<lambda>nid. if hit nid \<and> cr_connections c nid \<noteq> None
      then map_option (\<lambda>n. n\<lparr>nd_ConnectionStatus := ConnectionStatusFailed\<rparr>) (cr_registry c nid)
      else cr_registry c nid)"
  unfolding c'_def hit_def using assms(1,2)
proof (induction ns arbitrary: c)
  case Nil
  case 1
  then show ?case by simp
next
  case Nil
  case 2
  then show ?case by simp
next
  case Nil
  case 3
  then show ?case by simp
next
  case (Cons n ns)
  case 1
  with Cons(1) [of "failStalePeer now n c"] show ?case by (auto simp: failStalePeer_effect fun_eq_iff)
next
  case (Cons n ns)
  case 2
  let ?c = "failStalePeer now n c" and ?ids = "set (map nd_NodeID ns)"
  have p: "P (nd_NodeID n) \<longleftrightarrow> nd_LastSeen n \<noteq> 0 \<and> time_Sub now (nd_LastSeen n) > heartbeatTimeout c"
    using 2 by simp
  have k: "cr_connections ?c nid = cr_connections c nid" if "nid \<in> ?ids" for nid
    using that 2(2) by (cases "nid = nd_NodeID n") (auto simp: failStalePeer_effect simp del: set_map)
  have "cr_closed (fold (failStalePeer now) ns ?c) =
      cr_closed ?c \<union> {i. \<exists>nid. (nid \<in> ?ids \<and> P nid) \<and> cr_connections ?c nid = Some i}"
    using 2 by (intro Cons(2)) simp_all
  also have "{i. \<exists>nid. (nid \<in> ?ids \<and> P nid) \<and> cr_connections ?c nid = Some i} =
      {i. \<exists>nid. (nid \<in> ?ids \<and> P nid) \<and> cr_connections c nid = Some i}"
    using k by (metis (no_types, lifting))
  also have "cr_closed ?c = cr_closed c \<union> (if P (nd_NodeID n) then set_option (cr_connections c (nd_NodeID n)) else {})"
    by (simp add: failStalePeer_effect(4) p)
  finally show ?case by (auto simp del: set_map)
next
  case (Cons n ns)
  case 3
  with Cons(3) [of "failStalePeer now n c"] show ?case
    by (auto simp: failStalePeer_effect failStalePeer_registry fun_eq_iff)
qed

text \<open>C34: a pass over the peers drops exactly the stale connections: the peers from which nothing
  was heard for longer than the timeout lose their connection, which is closed, and count as
  failed; every other connection and registry entry is left as it is, in whatever order the
  registry is visited.\<close>

theorem failStalePeers_exact:
  assumes "registry_inv isZero (cr_registry c)" and "enumerates ks (cr_registry c)"
  shows "cr_connections (failStalePeers now ks c) =
      (\<lambda>nid. if stale now c nid then None else cr_connections c nid) \<and>
    cr_closed (failStalePeers now ks c) =
      cr_closed c \<union> {i. \<exists>nid. stale now c nid \<and> cr_connections c nid = Some i} \<and>
    cr_registry (failStalePeers now ks c) =
      (\<lambda>nid. if stale now c nid \<and> cr_connections c nid \<noteq> None
        then map_option (\<lambda>n. n\<lparr>nd_ConnectionStatus := ConnectionStatusFailed\<rparr>) (cr_registry c nid)
        else cr_registry c nid)"
proof -
  let ?ns = "GetAllNodes ks (cr_registry c)"
  have s: "set ?ns = {n. cr_registry c (nd_NodeID n) = Some n}" by (rule set_GetAllNodes [OF assms])
  have p: "stale now c (nd_NodeID n) \<longleftrightarrow>
      nd_LastSeen n \<noteq> 0 \<and> time_Sub now (nd_LastSeen n) > heartbeatTimeout c" if "n \<in> set ?ns" for n
    using that by (auto simp: s stale_def)
  have h: "nid \<in> set (map nd_NodeID ?ns) \<and> stale now c nid \<longleftrightarrow> stale now c nid" for nid
  proof -
    have "cr_registry c nid = Some n \<Longrightarrow> nd_NodeID n = nid" for n
      using assms(1) unfolding registry_inv_def by blast
    then show ?thesis by (force simp: s stale_def)
  qed
  show ?thesis
    using failStale_fold [where P = "stale now c", OF p GetAllNodes_distinct [OF assms]]
    unfolding h failStalePeers_def by blast
qed

definition stale_carrier :: "(byte, byte, unit, nat) carrierImpl" where
  "stale_carrier = (sample_carrier ''a'')
     \<lparr>cr_registry := [[1] \<mapsto> \<lparr>nd_NodeID = [1], nd_Addresses = [], nd_NodeCerts = [],
        nd_Role = NodeRoleServer, nd_LastSeen = 5, nd_ConnectionStatus = ConnectionStatusConnected\<rparr>],
      cr_connections := [[1] \<mapsto> 3], cr_peerScopes := [[1] \<mapsto> ScopeUser]\<rparr>"

theorem failStalePeers_exact_witness:
  "cr_connections (failStalePeers (20 * time_Second) [[1]] stale_carrier) [1] = None"
proof -
  have "registry_inv (\<lambda>k. k = [0]) (cr_registry stale_carrier)"
    by (simp add: stale_carrier_def registry_inv_def)
  moreover have "enumerates [[1]] (cr_registry stale_carrier)"
    by (simp add: stale_carrier_def enumerates_def)
  moreover have "stale (20 * time_Second) stale_carrier [1]"
    by (simp add: stale_def stale_carrier_def heartbeatTimeout_def sample_carrier_def
        sample_config_def config_defaults_def Let_def default_defs time_Sub_def)
  ultimately show ?thesis using failStalePeers_exact by metis
qed

end
