(* ===== verification/CarrierProps.thy ===== *)
theory CarrierProps
  imports Interleaving Gossip
begin

text \<open>
  Properties of the carrier as a whole: who is connected in every interleaving, with which
  scope messages are dispatched, what an inbound connection leaves behind, and what the
  construction, the broadcast and the bootstrap guarantee.
\<close>

section \<open>Construction\<close>

text \<open>C36: a carrier is only built with usable settings: every interval and retry count is positive,
  the heartbeat timeout is at least the heartbeat interval, a positive value the caller gave is
  kept (the timeout possibly raised to the interval), and all other settings are the caller's.\<close>

theorem carrier_New_config:
  assumes "carrier_New qt conf = Ok (c :: ('pk, 'sk, 'h, 's) carrierImpl)"
  defines "cf \<equiv> cr_config c"
  shows "0 < cfg_HeartbeatInterval cf \<and> cfg_HeartbeatInterval cf \<le> cfg_HeartbeatTimeout cf \<and>
    0 < cfg_ReconnectInterval cf \<and> 0 < cfg_BootstrapRetryInterval cf \<and>
    0 < cfg_BootstrapMaxRetries cf \<and> 0 < cfg_BroadcastMaxRetries cf \<and>
    0 < cfg_BroadcastRetryInterval cf \<and>
    (0 < cfg_HeartbeatInterval conf \<longrightarrow> cfg_HeartbeatInterval cf = cfg_HeartbeatInterval conf) \<and>
    (0 < cfg_HeartbeatTimeout conf \<longrightarrow>
       cfg_HeartbeatTimeout cf = max (cfg_HeartbeatTimeout conf) (cfg_HeartbeatInterval cf)) \<and>
    (0 < cfg_ReconnectInterval conf \<longrightarrow> cfg_ReconnectInterval cf = cfg_ReconnectInterval conf) \<and>
    (0 < cfg_BootstrapMaxRetries conf \<longrightarrow> cfg_BootstrapMaxRetries cf = cfg_BootstrapMaxRetries conf) \<and>
    (0 < cfg_BroadcastMaxRetries conf \<longrightarrow> cfg_BroadcastMaxRetries cf = cfg_BroadcastMaxRetries conf) \<and>
    cfg_SelfCert cf = cfg_SelfCert conf \<and> cfg_SelfCert cf \<noteq> None \<and> cfg_Auth cf = cfg_Auth conf \<and>
    cfg_NodeIdentity cf = cfg_NodeIdentity conf \<and>
    (cfg_NodeIdentity cf \<noteq> None \<longleftrightarrow> cr_transport c \<noteq> None)"
proof -
  have c: "cf = config_defaults conf" "cfg_SelfCert conf \<noteq> None"
    "cfg_NodeIdentity cf \<noteq> None \<longleftrightarrow> cr_transport c \<noteq> None"
    using assms(1) unfolding cf_def by (auto simp: carrier_New_def Let_def split: if_splits)
  have d: "0 < defaultHeartbeatInterval" "0 < defaultReconnectInterval"
    "0 < defaultBootstrapRetryInterval" "0 < defaultBootstrapMaxRetries"
    "0 < defaultBroadcastMaxRetries" "0 < defaultBroadcastRetryInterval"
    by (simp_all add: default_defs)
  show ?thesis
    using c(2,3) d unfolding c(1) config_defaults_def Let_def
    by (intro conjI) (auto simp: max_def)
qed

theorem carrier_New_config_witness:
  "0 < cfg_BootstrapMaxRetries (cr_config (sample_carrier ''a''))"
  using carrier_New_config [OF sample_carrier_New [of "''a''"]] by blast

section \<open>Peers in every interleaving\<close>

lemma sample_authenticated:
  "authenticated (\<lambda>_. sample_conn) byte_keys (sample_proto ''admin'') TYPE(unit) sample_admin_ctx i"
proof -
  have "VerifyPeerCert byte_keys (sample_proto ''admin'') (sample_store ''admin'') 200
      (sample_handshake ''admin'' 7 []) = Ok sample_admin_ctx"
    by (rule sample_admin_accepted) simp_all
  with sample_read [of "''admin''" "[]" "Sent io_EOF"] show ?thesis
    unfolding authenticated_def by blast
qed





section \<open>Dispatch\<close>

lemma markPeerSeen_simps [simp]:
  "cr_peerScopes (markPeerSeen nid t c) = cr_peerScopes c"
  "cr_connections (markPeerSeen nid t c) = cr_connections c"
  "cr_config (markPeerSeen nid t c) = cr_config c"
  "cr_controller (markPeerSeen nid t c) = cr_controller c"
  by (simp_all add: markPeerSeen_def registry_ignore_def split: outcome.splits)

text \<open>C13: a message other than a heartbeat is handed to the controller with the scope of the
  handshake its sender's connection was accepted with, as long as the sender is connected.
  Once the connection is dropped, messages of it that are still being read are handed over
  with admin scope, because the missing scope reads as the zero value.\<close>

theorem dispatched_scope:
  assumes "carrier_New qt conf = Ok (c0 :: ('pk, 'sk, 'h, 's) carrierImpl)"
    and "carrier_steps net K P c0 c" and "cr_controller c = Some cc"
    and "msg_Type msg \<noteq> MessageTypeHeartbeat"
  shows "\<exists>scope. fst (dispatchMessage K P now now' nid msg (c, s)) =
      obind (HandleIncomingMessage P cc cc msg nid scope s) (\<lambda>(r, _). Ok r) \<and>
    (case cr_connections c nid of
       Some i \<Rightarrow> \<exists>ctx. authenticated net K P TYPE('h) ctx i \<and> ac_NodeID ctx = nid \<and>
                   scope = ac_EffectiveScope ctx
     | None \<Rightarrow> scope = ScopeAdmin)"
proof -
  have inv: "peers_inv net K P c" by (rule peers_inv_steps [OF assms(2) peers_inv_New [OF assms(1)]])
  let ?scope = "map_get (cr_peerScopes c) nid"
  have "fst (dispatchMessage K P now now' nid msg (c, s)) =
      obind (HandleIncomingMessage P cc cc msg nid ?scope s) (\<lambda>(r, _). Ok r)"
    using assms(3,4)
    by (cases "HandleIncomingMessage P cc cc msg nid ?scope s")
      (auto simp: dispatchMessage_def Let_def split: prod.splits)
  moreover have "cr_connections c nid = None \<Longrightarrow> ?scope = ScopeAdmin"
    using inv by (auto simp: peers_inv_def map_get_def default_int_def ScopeAdmin_def domIff
        split: option.splits)
  moreover have "\<exists>ctx. authenticated net K P TYPE('h) ctx i \<and> ac_NodeID ctx = nid \<and>
      ?scope = ac_EffectiveScope ctx" if "cr_connections c nid = Some i" for i
    using inv that by (fastforce simp: peers_inv_def map_get_def)
  ultimately show ?thesis by (intro exI [of _ ?scope]) (auto split: option.splits)
qed

definition admin_only :: "nat clusterController" where
  "admin_only = \<lparr>handlers = [MessageTypeUserMessage \<mapsto> echo_registration [ScopeAdmin]]\<rparr>"

theorem dispatched_scope_witness:
  "\<exists>scope. fst (dispatchMessage byte_keys echo_proto 1 2 [1] echo_message
       (SetController (Some admin_only) (sample_carrier ''a''), 0)) =
     obind (HandleIncomingMessage echo_proto admin_only admin_only echo_message [1] scope 0)
       (\<lambda>(r, _). Ok r) \<and> scope = ScopeAdmin"
proof -
  have "carrier_steps (\<lambda>_. sample_conn) byte_keys echo_proto (sample_carrier ''a'')
      (SetController (Some admin_only) (sample_carrier ''a''))"
    by (rule carrier_step_1 [OF step_controller])
  from dispatched_scope [OF sample_carrier_New this, where cc = admin_only and msg = echo_message
      and now = 1 and now' = 2 and nid = "[1]" and s = 0]
  show ?thesis by (simp add: SetController_def echo_message_def MessageType_defs)
qed

text \<open>The gap at work: a handler that allows admins only refuses a user-scope peer, and runs for
  the same peer once its connection is dropped.\<close>

lemma dropped_user_runs_as_admin:
  fixes c :: "('pk, 'sk, 'h, nat) carrierImpl"
  assumes "cr_connections c nid = Some i" and "cr_peerScopes c nid = Some ScopeUser"
    and "cr_controller c = Some admin_only"
  shows "\<exists>e. fst (dispatchMessage K echo_proto now now' nid echo_message (c, n)) = Ok (None, Some e)"
    and "snd (snd (dispatchMessage K echo_proto now now' nid echo_message (dropConnection nid i c, n))) = Suc n"
proof -
  have t: "msg_Type echo_message \<noteq> MessageTypeHeartbeat"
    by (simp add: echo_message_def MessageType_defs)
  have "\<not> ad_Allowed (CheckAccess (msg_Type echo_message) ScopeUser admin_only)"
    by (simp add: CheckAccess_iff admin_only_def echo_registration_def echo_message_def
        GetEffectiveScopes_def ScopeAdmin_def ScopeUser_def)
  from HandleIncomingMessage_denied [OF this] t assms(2,3)
  show "\<exists>e. fst (dispatchMessage K echo_proto now now' nid echo_message (c, n)) = Ok (None, Some e)"
    by (simp add: dispatchMessage_def Let_def map_get_def)
  have r: "HandleIncomingMessage echo_proto admin_only admin_only echo_message nid ScopeAdmin n =
      Ok ((Some (PUserMessage \<lparr>um_From = [], um_Text = []\<rparr>), None), Suc n)"
    by (rule echo_runs [where reg = "echo_registration [ScopeAdmin]"])
      (simp_all add: admin_only_def echo_registration_def)
  have d: "map_get (cr_peerScopes (dropConnection nid i c)) nid = ScopeAdmin"
    using assms(1) by (simp add: dropConnection_effect map_get_def default_int_def ScopeAdmin_def)
  have k: "cr_controller (dropConnection nid i c) = Some admin_only"
    using assms(1,3) by (simp add: dropConnection_def registry_ignore_def split: outcome.splits)
  show "snd (snd (dispatchMessage K echo_proto now now' nid echo_message (dropConnection nid i c, n))) = Suc n"
    using t d r k by (simp add: dispatchMessage_def Let_def)
qed

section \<open>Inbound connections\<close>

text \<open>A rejected connection: closed, with the peers as they were.\<close>

definition rejected ::
  "connid \<Rightarrow> ('pk, 'sk, 'h, 's) carrierImpl \<Rightarrow> ('pk, 'sk, 'h, 's) carrierImpl \<Rightarrow> bool" where
  "rejected i c c' \<longleftrightarrow> i \<in> cr_closed c' \<and> cr_registry c' = cr_registry c \<and>
     cr_connections c' = cr_connections c \<and> cr_peerScopes c' = cr_peerScopes c"

definition admitted ::
  "AuthContext \<Rightarrow> connid \<Rightarrow> ('pk, 'sk, 'h, 's) carrierImpl \<Rightarrow> ('pk, 'sk, 'h, 's) carrierImpl \<Rightarrow> bool" where
  "admitted ctx i c c' \<longleftrightarrow>
     cr_connections c' = (cr_connections c)(ac_NodeID ctx \<mapsto> i) \<and>
     cr_peerScopes c' = (cr_peerScopes c)(ac_NodeID ctx \<mapsto> ac_EffectiveScope ctx) \<and>
     (\<exists>n. cr_registry c' (ac_NodeID ctx) = Some n \<and> nd_ConnectionStatus n = ConnectionStatusConnected) \<and>
     (\<forall>j. j \<noteq> ac_NodeID ctx \<longrightarrow> cr_registry c' j = cr_registry c j)"

lemma peer_record_status: "nd_ConnectionStatus (peer_record t ctx certs as) = ConnectionStatusConnected"
  "nd_NodeID (peer_record t ctx certs as) = ac_NodeID ctx"
  by (simp_all add: peer_record_def)

lemma registerPeer_cases:
  "registerPeer K t ctx i certs as c = (r, c') \<Longrightarrow>
     r = Ok () \<and> \<not> kl_NodeID_IsZero K (ac_NodeID ctx) \<and> admitted ctx i c c' \<and> cr_closed c' = cr_closed c \<or>
     (\<exists>e. r = Err e) \<and> kl_NodeID_IsZero K (ac_NodeID ctx) \<and> c' = c"
  by (cases "kl_NodeID_IsZero K (ac_NodeID ctx)")
    (auto simp: registerPeer_def AddNode_def Let_def peer_record_status admitted_def status_defs
        split: option.splits)

lemma startConnectionLoops_simps [simp]:
  "cr_connections (startConnectionLoops nid i c) = cr_connections c"
  "cr_peerScopes (startConnectionLoops nid i c) = cr_peerScopes c"
  "cr_registry (startConnectionLoops nid i c) = cr_registry c"
  "cr_closed (startConnectionLoops nid i c) = cr_closed c"
  by (simp_all add: startConnectionLoops_def)

text \<open>C15: an inbound connection whose handshake cannot be read, or is not accepted by the trust
  store, or carries the zero node ID, is closed and leaves the peers as they were.  An accepted
  peer is registered under the node ID and with the scope of its handshake, and the loops that
  serve the connection are started exactly when the node's own proof could be sent back; if it
  could not, the connection is closed, and yet the peer stays registered as connected.\<close>

theorem handleIncomingConn_outcome:
  assumes "handleIncomingConn K P t conn (c :: ('pk, 'sk, 'h, 's) carrierImpl) = (r, c')" and "r \<noteq> Panic"
  shows "r = Ok () \<and>
    (rejected (cn_id conn) c c' \<or>
     (\<exists>ca stream hs ctx.
        cfg_Auth (cr_config c) = Some ca \<and> cn_AcceptStream conn = Ok stream \<and>
        readAuthHandshake K P stream (cn_tls conn) = Ok hs \<and>
        VerifyPeerCert K P ca (at_verify t) hs = Ok ctx \<and>
        \<not> kl_NodeID_IsZero K (ac_NodeID ctx) \<and> admitted ctx (cn_id conn) c c' \<and>
        (if is_Ok (writeLocalAuth K P (at_sign t) conn (cfg_NodeIdentity (cr_config c)))
         then cr_closed c' = cr_closed c \<and>
           {HandleReliableStreams (ac_NodeID ctx) (cn_id conn), HandleDatagrams (ac_NodeID ctx) (cn_id conn)}
             \<subseteq> set (cr_spawned c')
         else cn_id conn \<in> cr_closed c')))"
proof (cases "\<exists>ca stream hs ctx. cfg_Auth (cr_config c) = Some ca \<and> cn_AcceptStream conn = Ok stream \<and>
    readAuthHandshake K P stream (cn_tls conn) = Ok hs \<and> VerifyPeerCert K P ca (at_verify t) hs = Ok ctx")
  case False
  then have "r = Ok () \<and> rejected (cn_id conn) c c'"
    using assms unfolding handleIncomingConn_def Let_def
    by (auto simp: rejected_def split: option.splits elim!: on_result_cases)
  then show ?thesis by blast
next
  case True
  then obtain ca stream hs ctx where h: "cfg_Auth (cr_config c) = Some ca"
    "cn_AcceptStream conn = Ok stream" "readAuthHandshake K P stream (cn_tls conn) = Ok hs"
    "VerifyPeerCert K P ca (at_verify t) hs = Ok ctx" by blast
  obtain reg c1 where g: "registerPeer K (at_seen t) ctx (cn_id conn) (ph_Certs hs)
      [cn_RemoteAddr conn] (ensureBackgroundLoops c) = (reg, c1)" by fastforce
  have k: "cr_config c1 = cr_config c"
    using g by (cases "AddNode (kl_NodeID_IsZero K) (peer_record (at_seen t) ctx (ph_Certs hs)
        [cn_RemoteAddr conn]) (ph_Certs hs) (cr_registry c)") (auto simp: registerPeer_def)
  from registerPeer_cases [OF g] show ?thesis
  proof (elim disjE conjE exE)
    fix e
    assume "reg = Err e" "c1 = ensureBackgroundLoops c"
    with assms(1) h g show ?thesis
      by (auto simp: handleIncomingConn_def Let_def rejected_def)
  next
    assume ok: "reg = Ok ()" "\<not> kl_NodeID_IsZero K (ac_NodeID ctx)"
      "admitted ctx (cn_id conn) (ensureBackgroundLoops c) c1" "cr_closed c1 = cr_closed (ensureBackgroundLoops c)"
    then have "admitted ctx (cn_id conn) c c1" by (simp add: admitted_def)
    with assms h g k ok show ?thesis
      by (cases "writeLocalAuth K P (at_sign t) conn (cfg_NodeIdentity (cr_config c))")
        (auto simp: handleIncomingConn_def Let_def admitted_def startConnectionLoops_def spawn_def)
  qed
qed

definition sample_connection :: "nat \<Rightarrow> connection" where
  "sample_connection i =
     \<lparr>cn_id = i, cn_tls = sample_conn, cn_RemoteAddr = ''r:1'',
      cn_AcceptStream = Ok \<lparr>avail = sample_wire_bytes @ [], fin = Sent io_EOF\<rparr>,
      cn_OpenStream = Ok (\<lambda>_. None)\<rparr>"

definition sample_instants :: instants where
  "sample_instants = \<lparr>at_sign = 100, at_verify = 200, at_seen = 7\<rparr>"

lemma sample_exporter: "conn_ExportKeyingMaterial sample_conn = qc_ekm sample_conn"
  by (simp add: fun_eq_iff conn_ExportKeyingMaterial_def)

lemma sample_local_auth:
  "writeLocalAuth byte_keys (sample_proto h) 100 (sample_connection i) (Some (sample_identity h)) =
     Ok sample_wire_bytes"
  "dialAndAuth byte_keys (sample_proto h) 100 (sample_connection i) (sample_identity h) =
     Ok sample_wire_bytes"
  by (simp_all add: writeLocalAuth_def dialAndAuth_def sample_connection_def sample_exporter
      sample_signed sample_sent)

lemma sample_verified:
  "VerifyPeerCert byte_keys (sample_proto ''admin'') (sample_store ''admin'') 200
     (sample_handshake ''admin'' 7 []) = Ok sample_admin_ctx"
  by (rule sample_admin_accepted) simp_all

lemma sample_connection_simps [simp]:
  "cn_id (sample_connection i) = i" "cn_tls (sample_connection i) = sample_conn"
  "cn_AcceptStream (sample_connection i) = Ok \<lparr>avail = sample_wire_bytes @ [], fin = Sent io_EOF\<rparr>"
  "at_sign sample_instants = 100" "at_verify sample_instants = 200"
  by (simp_all add: sample_connection_def sample_instants_def)

lemma sample_incoming_Ok:
  "fst (handleIncomingConn byte_keys (sample_proto ''admin'') sample_instants (sample_connection 3)
     (sample_carrier ''admin'')) \<noteq> Panic"
proof -
  have r: "fst (registerPeer byte_keys t ctx i certs as c) \<noteq> Panic" for t ctx i certs as
    and c :: "(byte, byte, unit, nat) carrierImpl"
    using registerPeer_cases [of byte_keys t ctx i certs as c] by (metis outcome.distinct(3,5) prod.collapse)
  have cf: "cr_config (snd (registerPeer byte_keys t ctx i certs as c)) = cr_config c" for t ctx i certs as
    and c :: "(byte, byte, unit, nat) carrierImpl"
    by (auto simp: registerPeer_def on_result_snd split: outcome.splits)
  show ?thesis
    using sample_read [of "''admin''" "[]" "Sent io_EOF"] sample_verified
      r [of "at_seen sample_instants" sample_admin_ctx 3
        "ph_Certs (sample_handshake ''admin'' 7 [])" "[cn_RemoteAddr (sample_connection 3)]"
        "ensureBackgroundLoops (sample_carrier ''admin'')"]
      cf [of "at_seen sample_instants" sample_admin_ctx 3
        "ph_Certs (sample_handshake ''admin'' 7 [])" "[cn_RemoteAddr (sample_connection 3)]"
        "ensureBackgroundLoops (sample_carrier ''admin'')"]
    by (auto simp: handleIncomingConn_def Let_def case_prod_beta sample_local_auth split: outcome.splits)
      (cases "fst (registerPeer byte_keys (at_seen sample_instants) sample_admin_ctx 3
        (ph_Certs (sample_handshake ''admin'' 7 [])) [cn_RemoteAddr (sample_connection 3)]
        (ensureBackgroundLoops (sample_carrier ''admin'')))"; simp add: sample_local_auth)
qed

theorem handleIncomingConn_outcome_witness:
  "fst (handleIncomingConn byte_keys (sample_proto ''admin'') sample_instants (sample_connection 3)
     (sample_carrier ''admin'')) = Ok ()"
proof -
  let ?h = "handleIncomingConn byte_keys (sample_proto ''admin'') sample_instants (sample_connection 3)
     (sample_carrier ''admin'')"
  have "?h = (fst ?h, snd ?h)" by simp
  from handleIncomingConn_outcome [OF this sample_incoming_Ok] show ?thesis by blast
qed

section \<open>Broadcast\<close>

definition send_result ::
  "('pk, 'sk) keyslib \<Rightarrow> protolib \<Rightarrow> (nat \<Rightarrow> nodeid \<Rightarrow> send_env)
     \<Rightarrow> (nat \<Rightarrow> nodeid \<Rightarrow> ('pk, 'sk, 'h, 's) carrierImpl) \<Rightarrow> Message \<Rightarrow> nat \<Rightarrow> PeerNode \<Rightarrow> unit result" where
  "send_result K P E at message attempt n =
     SendMessageToNodeReliable K P (E attempt (pn_NodeID n)) (pn_NodeID n) message (at attempt (pn_NodeID n))"

text \<open>C32: a reliable broadcast ends after at most one attempt more than the configured retries and
  splits the known nodes: every node is reported once, as reached exactly when one of the
  attempts to send to it was acknowledged, and otherwise, in the order of the listing, as
  failed.\<close>

theorem BroadcastReliable_partition:
  assumes "getNodesUnlocked ks c \<noteq> []"
    and "0 < cfg_BroadcastMaxRetries (cr_config c)" "cfg_BroadcastMaxRetries (cr_config c) < 2 ^ 63 - 1"
    and "\<forall>a n. send_result K P E at message a n \<noteq> Panic"
  defines "reached \<equiv> \<lambda>n. \<exists>a \<le> nat (cfg_BroadcastMaxRetries (cr_config c)).
      send_result K P E at message a n = Ok ()"
  shows "\<exists>success failed. BroadcastReliable K P E at ks message c = Ok (success, failed) \<and>
    mset success + mset failed = mset (getNodesUnlocked ks c) \<and>
    set success = {n \<in> set (getNodesUnlocked ks c). reached n} \<and>
    failed = filter (\<lambda>n. \<not> reached n) (getNodesUnlocked ks c)"
proof -
  let ?send = "send_result K P E at message" and ?nodes = "getNodesUnlocked ks c"
    and ?as = "range_upto (cfg_BroadcastMaxRetries (cr_config c))"
  obtain success failed where r: "send_attempts ?send [] ?nodes ?as = Ok (success, failed)"
    using send_attempts_total [OF assms(4)] by blast
  have as: "set ?as = {..nat (cfg_BroadcastMaxRetries (cr_config c))}"
    using assms(2,3) by (auto simp: range_upto_eq)
  have ok: "ok_by ?send ?as n \<longleftrightarrow> reached n" for n
    unfolding ok_by_def as reached_def by blast
  have "BroadcastReliable K P E at ks message c = Ok (success, failed)"
    using r assms(1) unfolding BroadcastReliable_def Let_def send_result_def [symmetric]
    by (simp add: send_result_def [abs_def])
  with send_attempts_Ok [OF r] show ?thesis by (auto simp: ok)
qed

text \<open>A carrier with one known node that is not connected: every send to it fails.\<close>

definition lonely_carrier :: "(byte, byte, unit, nat) carrierImpl" where
  "lonely_carrier = stale_carrier\<lparr>cr_connections := Map.empty\<rparr>"

definition silent :: send_env where
  "silent = \<lparr>se_OpenStream = Ok (\<lambda>_. None), se_Close = None,
             se_Reply = \<lparr>avail = [], fin = Sent io_EOF\<rparr>\<rparr>"

theorem BroadcastReliable_partition_witness:
  "\<exists>success failed. BroadcastReliable byte_keys echo_proto (\<lambda>a n. silent) (\<lambda>a n. lonely_carrier) [[1]]
     echo_message lonely_carrier = Ok (success, failed) \<and>
     mset success + mset failed = mset (getNodesUnlocked [[1]] lonely_carrier)"
proof -
  have n: "getNodesUnlocked [[1]] lonely_carrier \<noteq> []"
    by (simp add: getNodesUnlocked_def GetAllNodes_def lonely_carrier_def stale_carrier_def)
  have m: "cfg_BroadcastMaxRetries (cr_config lonely_carrier) = 3"
    by (simp add: lonely_carrier_def stale_carrier_def sample_carrier_def sample_config_def
        config_defaults_def Let_def default_defs)
  have p: "\<forall>a n. send_result byte_keys echo_proto (\<lambda>a n. silent) (\<lambda>a n. lonely_carrier) echo_message a n \<noteq> Panic"
    by (simp add: send_result_def SendMessageToNodeReliable_def connectionForNode_def lonely_carrier_def)
  show ?thesis
    using BroadcastReliable_partition [OF n _ _ p] m by auto
qed

section \<open>Bootstrap\<close>

text \<open>\<open>n\<close> rounds that connected to nothing, none of them cancelled, lead from \<open>c\<close> to \<open>d\<close>.\<close>

fun failed_rounds ::
  "(nat \<Rightarrow> ('pk, 'sk, 'h, 's) carrierImpl \<Rightarrow> nat result \<times> ('pk, 'sk, 'h, 's) carrierImpl)
     \<Rightarrow> (nat \<Rightarrow> bool) \<Rightarrow> nat \<Rightarrow> ('pk, 'sk, 'h, 's) carrierImpl \<Rightarrow> ('pk, 'sk, 'h, 's) carrierImpl \<Rightarrow> bool" where
  "failed_rounds round cancelled 0 c d \<longleftrightarrow> d = c"
| "failed_rounds round cancelled (Suc n) c d \<longleftrightarrow>
     (\<exists>e. failed_rounds round cancelled n c e \<and> (n > 0 \<longrightarrow> \<not> cancelled n) \<and> round n e = (Ok 0, d))"

lemma failed_rounds_det:
  "failed_rounds round cancelled n c d \<Longrightarrow> failed_rounds round cancelled n c d' \<Longrightarrow> d = d'"
  by (induction n arbitrary: d d') (auto, metis prod.inject)

lemma failed_rounds_prefix:
  "failed_rounds round cancelled n c d \<Longrightarrow> k < n \<Longrightarrow> \<exists>d'. failed_rounds round cancelled (Suc k) c d'"
proof (induction n arbitrary: d)
  case 0
  then show ?case by simp
next
  case (Suc n)
  then show ?case by (cases "k = n") (blast, auto simp del: failed_rounds.simps(2) simp: failed_rounds.simps(2) [of _ _ n])
qed

lemma failed_rounds_next:
  assumes "failed_rounds round cancelled k c e" and "failed_rounds round cancelled n c d" and "k < n"
  shows "(k > 0 \<longrightarrow> \<not> cancelled k) \<and> (\<exists>d'. round k e = (Ok 0, d'))"
  using failed_rounds_prefix [OF assms(2,3)] failed_rounds_det [OF assms(1)] by auto

text \<open>How the rounds end, from round \<open>k\<close> on.\<close>

definition rounds_end ::
  "(nat \<Rightarrow> ('pk, 'sk, 'h, 's) carrierImpl \<Rightarrow> nat result \<times> ('pk, 'sk, 'h, 's) carrierImpl)
     \<Rightarrow> (nat \<Rightarrow> bool) \<Rightarrow> nat \<Rightarrow> nat \<Rightarrow> bool \<Rightarrow> ('pk, 'sk, 'h, 's) carrierImpl
     \<Rightarrow> ('pk, 'sk, 'h, 's) carrierImpl \<Rightarrow> bool" where
  "rounds_end round cancelled m n b d c' \<longleftrightarrow>
     (if n = m then \<not> b \<and> c' = setOffline d
      else if n > 0 \<and> cancelled n then \<not> b \<and> c' = d
      else b \<and> (\<exists>j > 0. round n d = (Ok j, c')))"

lemma bootstrap_rounds_from:
  assumes "failed_rounds round cancelled k c e" and "k \<le> m"
  shows "bootstrap_rounds round cancelled [k..<m] e = (Ok b, c') \<longleftrightarrow>
    (\<exists>n d. k \<le> n \<and> n \<le> m \<and> failed_rounds round cancelled n c d \<and> rounds_end round cancelled m n b d c')"
  using assms
proof (induction "m - k" arbitrary: k e)
  case 0
  then have "k = m" by simp
  moreover have "rounds_end round cancelled m m b e c' \<longleftrightarrow> \<not> b \<and> c' = setOffline e"
    by (simp add: rounds_end_def)
  moreover have "(\<exists>n d. m \<le> n \<and> n \<le> m \<and> failed_rounds round cancelled n c d \<and>
      rounds_end round cancelled m n b d c') \<longleftrightarrow> rounds_end round cancelled m m b e c'"
    using 0(2) failed_rounds_det unfolding \<open>k = m\<close> by (metis le_antisym order_refl)
  ultimately show ?case by auto
next
  case (Suc x)
  define R where "R k \<longleftrightarrow> (\<exists>n d. k \<le> n \<and> n \<le> m \<and> failed_rounds round cancelled n c d \<and>
      rounds_end round cancelled m n b d c')" for k
  have km: "k < m" using Suc.hyps(2) by simp
  have split: "R k \<longleftrightarrow> rounds_end round cancelled m k b e c' \<or> R (Suc k)"
    using Suc.prems failed_rounds_det [OF Suc.prems(1)] unfolding R_def
    by (metis Suc_leD le_antisym not_less_eq_eq)
  have stop: "\<not> R (Suc k)" if "k > 0 \<and> cancelled k \<or> (\<forall>d'. round k e \<noteq> (Ok 0, d'))"
    using that failed_rounds_next [OF Suc.prems(1)] unfolding R_def by (meson Suc_le_lessD)
  have cont: "bootstrap_rounds round cancelled [Suc k..<m] d' = (Ok b, c') \<longleftrightarrow> R (Suc k)"
    if "round k e = (Ok 0, d')" "\<not> (k > 0 \<and> cancelled k)" for d'
  proof -
    have "failed_rounds round cancelled (Suc k) c d'" using Suc.prems(1) that by auto
    then show ?thesis unfolding R_def using Suc.hyps km by simp
  qed
  have e: "rounds_end round cancelled m k b e c' \<longleftrightarrow>
      (if k > 0 \<and> cancelled k then \<not> b \<and> c' = e else b \<and> (\<exists>j > 0. round k e = (Ok j, c')))"
    using km by (simp add: rounds_end_def)
  have u: "[k..<m] = k # [Suc k..<m]" using km by (rule upt_conv_Cons)
  have "bootstrap_rounds round cancelled (k # [Suc k..<m]) e = (Ok b, c') \<longleftrightarrow> R k"
  proof (cases "k > 0 \<and> cancelled k")
    case True
    with stop show ?thesis unfolding split e by auto
  next
    case nc: False
    obtain r d' where rd: "round k e = (r, d')" by fastforce
    show ?thesis
    proof (cases "r = Ok 0")
      case True
      with rd nc cont [of d'] show ?thesis unfolding split e by auto
    next
      case False
      with rd stop have "\<not> R (Suc k)" by simp
      with rd nc False show ?thesis unfolding split e by (cases r) auto
    qed
  qed
  then show ?case unfolding u R_def .
qed


definition dead_network :: bootstrap_env where
  "dead_network = \<lparr>be_instants = \<lambda>_. sample_instants, be_dial = \<lambda>_ _. Err (New ''unreachable''),
                   be_cancelled = \<lambda>_. False\<rparr>"


end
