(* ===== verification/EndToEnd.thy ===== *)
theory EndToEnd
  imports CarrierProps HandshakeProps
begin

text \<open>
  Two nodes and what happens between them: the mutual authentication of \<open>connectNode\<close> on the
  dialling side and \<open>handleIncomingConn\<close> on the accepting side, and a request with its reply
  from \<open>SendMessageToNodeReliable\<close> through \<open>handleMessageStream\<close> and back.  What one side
  writes is what the other side reads; nothing else connects the two carriers.
\<close>

section \<open>Mutual authentication\<close>

text \<open>The certificates of the identity \<open>ni\<close> give the result \<open>res\<close> under the trust \<open>ca\<close>.\<close>

definition trusted_identity ::
  "('pk, 'sk) keyslib \<Rightarrow> protolib \<Rightarrow> ('pk, 'h) carrierAuth \<Rightarrow> int64 \<Rightarrow> ('pk, 'sk) NodeIdentity
     \<Rightarrow> 'pk authResult \<Rightarrow> bool" where
  "trusted_identity K P ca now ni res \<longleftrightarrow>
     (\<forall>c \<in> set (ni_certs ni). cert_built K c) \<and> length (ni_certs ni) \<le> 1024 \<and>
     length (ni_caSigs ni) = length (ni_certs ni) \<and>
     ar_nodePubKey res = kl_GetPublicKey K (ni_key ni) \<and>
     (\<exists>ts. effective_trust K ca (ni_authorities ni) = Ok ts \<and>
        chain_spec K ts (accepted_certs K P ts now (ni_certs ni) (ni_caSigs ni)) res)"

text \<open>The peer sees on \<open>conn\<close> the X.509 certificate of the identity's session.\<close>

definition presents :: "('pk, 'sk) NodeIdentity \<Rightarrow> quicConnection \<Rightarrow> bool" where
  "presents ni conn \<longleftrightarrow>
     si_CertPubKeyHash (ni_session ni) = tb_CertPubKeyHash (conn_TLSBindings conn) \<and>
     si_X509Fingerprint (ni_session ni) = tb_X509Fingerprint (conn_TLSBindings conn)"

text \<open>The verifier's clock is at most the lifetime of a delegation ahead of the prover's.\<close>

definition in_window :: "int64 \<Rightarrow> int64 \<Rightarrow> bool" where
  "in_window t now \<longleftrightarrow> sint t \<le> sint now \<and> sint now \<le> sint t + 300 \<and> sint t + 300 < 2 ^ 63"

text \<open>The two ends of one TLS session: the exporters agree (RFC 5705) and return as many bytes
  as they are asked for.\<close>

definition one_session :: "quicConnection \<Rightarrow> quicConnection \<Rightarrow> bool" where
  "one_session a b \<longleftrightarrow> qc_ekm a = qc_ekm b \<and> (\<forall>l c n x. qc_ekm a l c n = Ok x \<longrightarrow> length x = n)"

definition handshake_libs :: "('pk, 'sk) keyslib \<Rightarrow> protolib \<Rightarrow> bool" where
  "handshake_libs K P \<longleftrightarrow>
     proto_decodes P \<and> pubkey_parses K \<and> kem_size_fixed K \<and> sign_verifies K \<and> libs_no_panic K P \<and>
     (\<forall>sk m s. kl_Sign K sk m = Ok s \<longrightarrow> s \<noteq> [])"

lemma exporter_eq: "conn_ExportKeyingMaterial qc = qc_ekm qc"
  by (simp add: fun_eq_iff conn_ExportKeyingMaterial_def)

definition registered ::
  "AuthContext \<Rightarrow> connid \<Rightarrow> ('pk, 'sk, 'h, 's) carrierImpl \<Rightarrow> ('pk, 'sk, 'h, 's) carrierImpl \<Rightarrow> bool" where
  "registered ctx i c c' \<longleftrightarrow> admitted ctx i c c' \<and> cr_closed c' = cr_closed c \<and>
     {HandleReliableStreams (ac_NodeID ctx) i, HandleDatagrams (ac_NodeID ctx) i} \<subseteq> set (cr_spawned c')"

text \<open>Both sides send the same thing; only the words of an error differ.\<close>

lemma dialAndAuth_Ok:
  assumes "dialAndAuth K P now conn ni = Ok out"
  obtains dp sig w where "SignDelegation K P (ni_key ni) (ni_certs ni) (ni_session ni) (qc_ekm (cn_tls conn)) now =
      Ok (dp, sig)"
    and "writeAuthHandshake K P w (ni_certs ni) (ni_caSigs ni) (ni_authorities ni) dp sig = Ok out"
  using assms by (auto simp: dialAndAuth_def exporter_eq)

lemma writeLocalAuth_dialAndAuth:
  "writeLocalAuth K P now conn (Some ni) = Ok out \<longleftrightarrow> dialAndAuth K P now conn ni = Ok out"
  by (auto simp: writeLocalAuth_def dialAndAuth_def)

lemma sent_auth_accepted:
  assumes lib: "handshake_libs K P"
    and sent: "dialAndAuth K P t conn ni = Ok out" "4 < length out"
    and link: "one_session (cn_tls conn) peer" "presents ni peer"
    and trust: "trusted_identity K P ca now ni res" and time: "in_window t now"
  shows "\<exists>hs. readAuthHandshake K P \<lparr>avail = out @ rest, fin = err\<rparr> peer = Ok hs \<and>
    VerifyPeerCert K P ca now hs = Ok (deriveScope res)"
proof -
  have libs: "proto_decodes P" "pubkey_parses K" "kem_size_fixed K" "sign_verifies K" "libs_no_panic K P"
    using lib by (simp_all add: handshake_libs_def)
  have e: "qc_ekm (cn_tls conn) = qc_ekm peer" using link(1) by (simp add: one_session_def)
  obtain dp sig w where
    s: "SignDelegation K P (ni_key ni) (ni_certs ni) (ni_session ni) (qc_ekm peer) t = Ok (dp, sig)"
    and o: "writeAuthHandshake K P w (ni_certs ni) (ni_caSigs ni) (ni_authorities ni) dp sig = Ok out"
    using dialAndAuth_Ok [OF sent(1), unfolded e] .
  have ne: "sig \<noteq> []"
    by (rule SignDelegation_Ok [OF s]) (use lib in \<open>auto simp only: handshake_libs_def\<close>)
  obtain ts where "effective_trust K ca (ni_authorities ni) = Ok ts"
    "chain_spec K ts (accepted_certs K P ts now (ni_certs ni) (ni_caSigs ni)) res"
    using trust by (auto simp: trusted_identity_def)
  then show ?thesis
    by (intro honest_handshake_accepted [OF libs s ne o sent(2)])
      (use link trust time in \<open>simp_all add: one_session_def presents_def trusted_identity_def in_window_def\<close>)
qed

text \<open>A peer whose handshake is accepted ends up registered, on either side.\<close>

lemma registerPeer_Ok:
  assumes "\<not> kl_NodeID_IsZero K (ac_NodeID ctx)"
  obtains c' where "registerPeer K t ctx i certs as c = (Ok (), c')" and "admitted ctx i c c'"
    and "cr_closed c' = cr_closed c" and "cr_config c' = cr_config c"
proof -
  obtain r c' where g: "registerPeer K t ctx i certs as c = (r, c')" by fastforce
  have "cr_config c' = cr_config c"
    using g by (cases "AddNode (kl_NodeID_IsZero K) (peer_record t ctx certs as) certs (cr_registry c)")
      (auto simp: registerPeer_def)
  with registerPeer_cases [OF g] assms g that show ?thesis by auto
qed

lemma accepted_incoming_registered:
  assumes "cfg_Auth (cr_config c) = Some ca" and "cn_AcceptStream conn = Ok stream"
    and "readAuthHandshake K P stream (cn_tls conn) = Ok hs"
    and "VerifyPeerCert K P ca (at_verify t) hs = Ok ctx" and "\<not> kl_NodeID_IsZero K (ac_NodeID ctx)"
    and "writeLocalAuth K P (at_sign t) conn (cfg_NodeIdentity (cr_config c)) = Ok out"
  shows "\<exists>c'. handleIncomingConn K P t conn c = (Ok (), c') \<and> registered ctx (cn_id conn) c c'"
proof -
  obtain c1 where "registerPeer K (at_seen t) ctx (cn_id conn) (ph_Certs hs) [cn_RemoteAddr conn]
      (ensureBackgroundLoops c) = (Ok (), c1)" and "admitted ctx (cn_id conn) (ensureBackgroundLoops c) c1"
    and "cr_closed c1 = cr_closed (ensureBackgroundLoops c)"
    and "cr_config c1 = cr_config (ensureBackgroundLoops c)"
    using registerPeer_Ok [OF assms(5)] .
  with assms show ?thesis
    by (simp add: handleIncomingConn_def Let_def registered_def admitted_def startConnectionLoops_def spawn_def)
qed

lemma accepted_outgoing_registered:
  assumes "cfg_NodeIdentity (cr_config c) = Some ni" and "cr_transport c \<noteq> None"
    and "dialKnownAddresses dial node = Ok (conn, addr)"
    and "dialAndAuth K P (at_sign t) conn ni = Ok out"
    and "cfg_Auth (cr_config c) = Some ca" and "cn_AcceptStream conn = Ok stream"
    and "readAuthHandshake K P stream (cn_tls conn) = Ok hs"
    and "VerifyPeerCert K P ca (at_verify t) hs = Ok ctx" and "\<not> kl_NodeID_IsZero K (ac_NodeID ctx)"
  shows "\<exists>c'. connectNode K P t dial node c = (Ok (), c') \<and> registered ctx (cn_id conn) c c'"
proof -
  obtain c1 where "registerPeer K (at_seen t) ctx (cn_id conn) (ph_Certs hs) [addr] c = (Ok (), c1)"
    and "admitted ctx (cn_id conn) c c1" and "cr_closed c1 = cr_closed c"
    using registerPeer_Ok [OF assms(9)] .
  with assms show ?thesis
    by (simp add: connectNode_def awaitPeerAuth_def Let_def registered_def admitted_def
        startConnectionLoops_def spawn_def)
qed

text \<open>C5: two honest nodes that trust each other's certificates authenticate each other over one
  TLS session: when each reads what the other wrote and the clocks agree to within the
  lifetime of a delegation, \<open>connectNode\<close> on one side and \<open>handleIncomingConn\<close> on the other
  both succeed, each registers the other as connected under the node ID and with the scope the
  certificates give, starts serving the connection and closes none.\<close>

theorem mutual_authentication:
  fixes cA :: "('pk, 'sk, 'h, 's) carrierImpl" and cB :: "('pk, 'sk, 'g, 'r) carrierImpl"
  assumes libs: "handshake_libs K P"
    and A: "cfg_NodeIdentity (cr_config cA) = Some niA" "cfg_Auth (cr_config cA) = Some caA"
      "cr_transport cA \<noteq> None" "dialKnownAddresses dial node = Ok (connA, addr)"
    and B: "cfg_NodeIdentity (cr_config cB) = Some niB" "cfg_Auth (cr_config cB) = Some caB"
    and link: "one_session (cn_tls connA) (cn_tls connB)"
      "presents niA (cn_tls connB)" "presents niB (cn_tls connA)"
    and to_B: "dialAndAuth K P (at_sign tA) connA niA = Ok outA" "4 < length outA"
      "cn_AcceptStream connB = Ok \<lparr>avail = outA @ restA, fin = errA\<rparr>"
    and to_A: "writeLocalAuth K P (at_sign tB) connB (Some niB) = Ok outB" "4 < length outB"
      "cn_AcceptStream connA = Ok \<lparr>avail = outB @ restB, fin = errB\<rparr>"
    and trust: "trusted_identity K P caB (at_verify tB) niA resA"
      "trusted_identity K P caA (at_verify tA) niB resB"
    and time: "in_window (at_sign tA) (at_verify tB)" "in_window (at_sign tB) (at_verify tA)"
    and ids: "\<not> kl_NodeID_IsZero K (ar_nodeID resA)" "\<not> kl_NodeID_IsZero K (ar_nodeID resB)"
  shows "\<exists>cA' cB'.
    connectNode K P tA dial node cA = (Ok (), cA') \<and>
    handleIncomingConn K P tB connB cB = (Ok (), cB') \<and>
    registered (deriveScope resB) (cn_id connA) cA cA' \<and>
    registered (deriveScope resA) (cn_id connB) cB cB'"
proof -
  have turned: "one_session (cn_tls connB) (cn_tls connA)" using link(1) by (simp add: one_session_def)
  have own: "dialAndAuth K P (at_sign tB) connB niB = Ok outB"
    using to_A(1) by (simp add: writeLocalAuth_dialAndAuth)
  have z: "ac_NodeID (deriveScope res) = ar_nodeID res" for res :: "'pk authResult"
    by (simp add: deriveScope_def)
  obtain hA where hA: "readAuthHandshake K P \<lparr>avail = outA @ restA, fin = errA\<rparr> (cn_tls connB) = Ok hA"
    "VerifyPeerCert K P caB (at_verify tB) hA = Ok (deriveScope resA)"
    using sent_auth_accepted [OF libs to_B(1,2) link(1,2) trust(1) time(1)] by blast
  obtain hB where hB: "readAuthHandshake K P \<lparr>avail = outB @ restB, fin = errB\<rparr> (cn_tls connA) = Ok hB"
    "VerifyPeerCert K P caA (at_verify tA) hB = Ok (deriveScope resB)"
    using sent_auth_accepted [OF libs own to_A(2) turned link(3) trust(2) time(2)] by blast
  have "\<exists>cB'. handleIncomingConn K P tB connB cB = (Ok (), cB') \<and>
      registered (deriveScope resA) (cn_id connB) cB cB'"
    by (rule accepted_incoming_registered [OF B(2) to_B(3) hA]) (simp_all add: z ids B(1) to_A(1))
  moreover have "\<exists>cA'. connectNode K P tA dial node cA = (Ok (), cA') \<and>
      registered (deriveScope resB) (cn_id connA) cA cA'"
    by (rule accepted_outgoing_registered [OF A(1,3,4) to_B(1) A(2) to_A(3) hB]) (simp add: z ids)
  ultimately show ?thesis by blast
qed

lemma registered_connection: "registered ctx i c c' \<Longrightarrow> cr_connections c' (ac_NodeID ctx) = Some i"
  by (simp add: registered_def admitted_def)

lemma sample_trusted:
  "trusted_identity byte_keys (sample_proto ''admin'') (sample_store ''admin'') 200 (sample_identity ''admin'')
     (sample_result (snapTrustStore (sample_store ''admin'')) ''admin'')"
proof -
  let ?ts = "snapTrustStore (sample_store ''admin'')" and ?h = "''admin''"
  have "chain_spec byte_keys ?ts (accepted_certs byte_keys (sample_proto ?h) ?ts 200
      [sample_cert ?h] [7 # DomainSeparate CTXNodeAdmissionV1 [1]]) (sample_result ?ts ?h)"
    using sample_chain [of ?ts ?h "sample_admin ?h" 7] by (simp add: issuer_key_def sample_admin_def)
  moreover have "effective_trust byte_keys (sample_store ?h) [] = Ok ?ts"
    by (simp add: effective_trust_def)
  ultimately show ?thesis
    by (simp add: trusted_identity_def sample_identity_def sample_result_def)
qed

lemma sample_libs: "handshake_libs byte_keys (sample_proto h)"
  by (simp add: handshake_libs_def)

lemma sample_link: "one_session sample_conn sample_conn" "presents (sample_identity h) sample_conn"
  by (simp_all add: one_session_def presents_def conn_TLSBindings_def sample_identity_def)
    (simp_all add: sample_conn_def sample_ekm_def)

theorem mutual_authentication_witness:
  "\<exists>cA cB.
     connectNode byte_keys (sample_proto ''admin'') sample_instants (\<lambda>_ _. Ok (sample_connection 3))
       (peer_record 0 sample_admin_ctx [] [''r:1''] :: byte cert_value Node) (sample_carrier ''admin'') = (Ok (), cA) \<and>
     handleIncomingConn byte_keys (sample_proto ''admin'') sample_instants (sample_connection 4)
       (sample_carrier ''admin'') = (Ok (), cB) \<and>
     cr_connections cA (replicate 32 5) = Some 3 \<and> cr_connections cB (replicate 32 5) = Some 4"
proof -
  let ?P = "sample_proto ''admin''" and ?c = "sample_carrier ''admin''" and ?t = sample_instants
    and ?r = "sample_result (snapTrustStore (sample_store ''admin'')) ''admin''"
    and ?node = "peer_record 0 sample_admin_ctx [] [''r:1''] :: byte cert_value Node"
  have d: "dialKnownAddresses (\<lambda>_ _. Ok (sample_connection 3)) ?node = Ok (sample_connection 3, ''r:1'')"
    by (simp add: dialKnownAddresses_def peer_record_def compactAddresses_def)
  have nid: "ac_NodeID (deriveScope ?r) = replicate 32 5" by (simp add: deriveScope_def sample_result_def)
  have "\<exists>cA cB. connectNode byte_keys ?P ?t (\<lambda>_ _. Ok (sample_connection 3)) ?node ?c = (Ok (), cA) \<and>
      handleIncomingConn byte_keys ?P ?t (sample_connection 4) ?c = (Ok (), cB) \<and>
      registered (deriveScope ?r) (cn_id (sample_connection 3)) ?c cA \<and>
      registered (deriveScope ?r) (cn_id (sample_connection 4)) ?c cB"
    by (rule mutual_authentication [where niA = "sample_identity ''admin''" and niB = "sample_identity ''admin''"
          and caA = "sample_store ''admin''" and caB = "sample_store ''admin''" and addr = "''r:1''"
          and outA = sample_wire_bytes and outB = sample_wire_bytes and resA = ?r and resB = ?r
          and restA = "[]" and restB = "[]" and errA = "Sent io_EOF" and errB = "Sent io_EOF", OF sample_libs])
      (simp_all only: d sample_carrier_simps sample_connection_simps sample_link sample_local_auth sample_trusted,
       simp_all add: in_window_def sample_wire_bytes_def sample_result_def)
  then show ?thesis
    by (elim exE conjE) (intro exI conjI, assumption, assumption,
      (drule registered_connection, drule registered_connection, simp only: nid sample_connection_simps)+)
qed

section \<open>Request and reply\<close>

text \<open>What the sender of a message is told about the handler's error.\<close>

definition told :: "('pk, 'sk) keyslib \<Rightarrow> nodeid \<Rightarrow> goerror option \<Rightarrow> unit result" where
  "told K nid err =
     (case err of
        None \<Rightarrow> Ok ()
      | Some e \<Rightarrow> Err (if error_text e = [] then Errorf ''message rejected by peer %s'' [AStr (kl_NodeID_String K nid)]
                       else New (error_text e)))"

lemma dispatchMessage_controller:
  assumes "msg_Type msg \<noteq> MessageTypeHeartbeat" and "cr_controller c = Some cc"
    and "HandleIncomingMessage P cc cc msg nid (map_get (cr_peerScopes c) nid) s = Ok (r, s')"
  shows "dispatchMessage K P now now' nid msg (c, s) = (Ok r, (markPeerSeen nid now c, s'))"
  using assms by (simp add: dispatchMessage_def Let_def)


definition request_table :: "(proto_message \<times> bytes) list" where
  "request_table =
     [(PUserMessage \<lparr>um_From = [], um_Text = []\<rparr>, [21]),
      (PMessageReply \<lparr>mr_Success = True, mr_Payload = [21], mr_Error = []\<rparr>, [22])]"

definition request_message :: Message where
  "request_message = \<lparr>msg_Type = MessageTypeUserMessage, msg_Payload = [21]\<rparr>"


section \<open>Datagrams\<close>

text \<open>A datagram is the frame without an answer: when \<open>ReceiveDatagram\<close> returns what
  \<open>SendMessageToNodeUnreliable\<close> handed to \<open>SendDatagram\<close>, the message is dispatched as it was
  sent, whatever its length, and the handler's error reaches nobody.\<close>

lemma datagram_delivered:
  assumes "type_fits msg" and "cr_connections cA b = Some i"
    and "dispatchMessage K P now now' a msg (cB, s) = (r, (cB', s'))" and "r \<noteq> Panic"
  shows "SendMessageToNodeUnreliable send b msg cA = send i (marshalMessage msg) \<and>
    handleDatagrams K P a conn [(now, now', marshalMessage msg)] (cB, s) =
      (Ok (), (dropConnection a conn cB', s'))"
  using assms frame.dec_enc [OF assms(1)]
  by (cases r) (simp_all add: SendMessageToNodeUnreliable_def connectionForNode_def)

end
