(* ===== verification/AuthFile.thy ===== *)
theory AuthFile
  imports Handshake
begin

text \<open>
  \<^verbatim>\<open>pkg/authfile/authfile.go\<close>: the credential files, their encoding, and what a node makes of
  them: its identity and the trust chain it starts from.  The file system is a map from paths
  to contents; the temporary file a key passes through on its way to and from the key library is
  given by the errors it may meet.
\<close>

section \<open>Files\<close>

record CAKeyFile =
  kf_Type :: string
  kf_KeyJSON :: bytes
  kf_AnchorSig :: bytes
  kf_AnchorAdmin :: string
  kf_AnchorAdminPubKEM :: bytes
  kf_AnchorAdminPubSign :: bytes

record EmbeddedCAFile =
  em_Type :: string
  em_PubKEM :: bytes
  em_PubSign :: bytes
  em_AnchorSig :: bytes
  em_AnchorAdmin :: string

record NodeCertFile =
  ncf_Type :: string
  ncf_KeyJSON :: bytes
  ncf_CAPubKEM :: bytes
  ncf_CAPubSign :: bytes
  ncf_CASignature :: bytes
  ncf_Authorities :: "EmbeddedCAFile list"
  ncf_IssuerCAHash :: string
  ncf_ValidFrom :: int64
  ncf_ValidUntil :: int64
  ncf_Serial :: bytes
  ncf_CertNonce :: bytes

type_synonym filesystem = "string \<rightharpoonup> bytes"

text \<open>
  \<open>fl_SaveToFile\<close> and \<open>fl_NewCryptFromFile\<close> are the key library's: the content a key is saved
  as, and the key read from a content.  The other fields are the errors of the operating system;
  a write that fails also says what it leaves at the path.
\<close>

record 'sk filelib =
  fl_CreateTemp :: "goerror option"
  fl_ReadTemp :: "goerror option"
  fl_WriteTemp :: "goerror option"
  fl_SaveToFile :: "'sk \<Rightarrow> bytes result"
  fl_NewCryptFromFile :: "bytes \<Rightarrow> 'sk result"
  fl_ReadFile :: "string \<Rightarrow> goerror option"
  fl_NotExist :: "string \<Rightarrow> goerror"
  fl_WriteFile :: "string \<Rightarrow> (goerror \<times> bytes option) option"

definition fails :: "goerror option \<Rightarrow> unit result" where
  "fails e = (case e of None \<Rightarrow> Ok () | Some e \<Rightarrow> Err e)"

definition os_ReadFile :: "'sk filelib \<Rightarrow> string \<Rightarrow> filesystem \<Rightarrow> bytes result" where
  "os_ReadFile F path fs =
     obind (fails (fl_ReadFile F path)) (\<lambda>_.
     case fs path of None \<Rightarrow> Err (fl_NotExist F path) | Some data \<Rightarrow> Ok data)"

definition WriteFile :: "'sk filelib \<Rightarrow> string \<Rightarrow> bytes \<Rightarrow> filesystem \<Rightarrow> unit result \<times> filesystem" where
  "WriteFile F path data fs =
     (case fl_WriteFile F path of
        None \<Rightarrow> (Ok (), fs(path \<mapsto> data))
      | Some (e, rest) \<Rightarrow> (Err e, fs(path := rest)))"

section \<open>Keys\<close>

definition MarshalKeyJSON :: "'sk filelib \<Rightarrow> 'sk \<Rightarrow> bytes result" where
  "MarshalKeyJSON F ac =
     obind (fails (fl_CreateTemp F)) (\<lambda>_.
     obind (fl_SaveToFile F ac) (\<lambda>content.
     obind (fails (fl_ReadTemp F)) (\<lambda>_. Ok content)))"

definition LoadKeyFromJSON :: "'sk filelib \<Rightarrow> bytes \<Rightarrow> 'sk result" where
  "LoadKeyFromJSON F data =
     obind (fails (fl_CreateTemp F)) (\<lambda>_.
     obind (fails (fl_WriteTemp F)) (\<lambda>_.
     fl_NewCryptFromFile F data))"

section \<open>Encoding\<close>

definition CAKey_to_pb :: "CAKeyFile \<Rightarrow> CAKeyFilePB" where
  "CAKey_to_pb f =
     \<lparr>ck_Type = kf_Type f, ck_KeyJson = kf_KeyJSON f, ck_AnchorSig = kf_AnchorSig f,
      ck_AnchorAdmin = kf_AnchorAdmin f, ck_AnchorAdminPubKem = kf_AnchorAdminPubKEM f,
      ck_AnchorAdminPubSign = kf_AnchorAdminPubSign f\<rparr>"

definition MarshalCAKey :: "protolib \<Rightarrow> CAKeyFile \<Rightarrow> bytes result" where
  "MarshalCAKey P f = pl_Marshal P (PCAKeyFile (CAKey_to_pb f))"

definition embedded_to_pb :: "EmbeddedCAFile \<Rightarrow> EmbeddedCAFilePB" where
  "embedded_to_pb a =
     \<lparr>ef_Type = em_Type a, ef_PubKem = em_PubKEM a, ef_PubSign = em_PubSign a,
      ef_AnchorSig = em_AnchorSig a, ef_AnchorAdmin = em_AnchorAdmin a\<rparr>"

definition NodeCert_to_pb :: "NodeCertFile \<Rightarrow> NodeCertFilePB" where
  "NodeCert_to_pb f =
     \<lparr>nf_Type = ncf_Type f, nf_KeyJson = ncf_KeyJSON f, nf_CaPubKem = ncf_CAPubKEM f,
      nf_CaPubSign = ncf_CAPubSign f, nf_CaSignature = ncf_CASignature f,
      nf_Authorities = map embedded_to_pb (ncf_Authorities f), nf_IssuerCaHash = ncf_IssuerCAHash f,
      nf_ValidFrom = ncf_ValidFrom f, nf_ValidUntil = ncf_ValidUntil f, nf_Serial = ncf_Serial f,
      nf_CertNonce = ncf_CertNonce f\<rparr>"

definition MarshalNodeCert :: "protolib \<Rightarrow> NodeCertFile \<Rightarrow> bytes result" where
  "MarshalNodeCert P f = pl_Marshal P (PNodeCertFile (NodeCert_to_pb f))"

definition pb_to_CAKey :: "CAKeyFilePB \<Rightarrow> CAKeyFile" where
  "pb_to_CAKey m =
     \<lparr>kf_Type = ck_Type m, kf_KeyJSON = ck_KeyJson m, kf_AnchorSig = ck_AnchorSig m,
      kf_AnchorAdmin = ck_AnchorAdmin m, kf_AnchorAdminPubKEM = ck_AnchorAdminPubKem m,
      kf_AnchorAdminPubSign = ck_AnchorAdminPubSign m\<rparr>"

definition UnmarshalCAKey :: "protolib \<Rightarrow> bytes \<Rightarrow> CAKeyFile result" where
  "UnmarshalCAKey P data =
     obind (wrap_err (errorw ''decode: %w'') (pl_Unmarshal P KCAKeyFile data)) (\<lambda>m.
     case m of PCAKeyFile msg \<Rightarrow> Ok (pb_to_CAKey msg) | _ \<Rightarrow> Panic)"

definition pb_to_embedded :: "EmbeddedCAFilePB \<Rightarrow> EmbeddedCAFile" where
  "pb_to_embedded a =
     \<lparr>em_Type = ef_Type a, em_PubKEM = ef_PubKem a, em_PubSign = ef_PubSign a,
      em_AnchorSig = ef_AnchorSig a, em_AnchorAdmin = ef_AnchorAdmin a\<rparr>"

definition pb_to_NodeCert :: "NodeCertFilePB \<Rightarrow> NodeCertFile" where
  "pb_to_NodeCert m =
     \<lparr>ncf_Type = nf_Type m, ncf_KeyJSON = nf_KeyJson m, ncf_CAPubKEM = nf_CaPubKem m,
      ncf_CAPubSign = nf_CaPubSign m, ncf_CASignature = nf_CaSignature m,
      ncf_Authorities = map pb_to_embedded (nf_Authorities m), ncf_IssuerCAHash = nf_IssuerCaHash m,
      ncf_ValidFrom = nf_ValidFrom m, ncf_ValidUntil = nf_ValidUntil m, ncf_Serial = nf_Serial m,
      ncf_CertNonce = nf_CertNonce m\<rparr>"

definition UnmarshalNodeCert :: "protolib \<Rightarrow> bytes \<Rightarrow> NodeCertFile result" where
  "UnmarshalNodeCert P data =
     obind (wrap_err (errorw ''decode: %w'') (pl_Unmarshal P KNodeCertFile data)) (\<lambda>m.
     case m of PNodeCertFile msg \<Rightarrow> Ok (pb_to_NodeCert msg) | _ \<Rightarrow> Panic)"

section \<open>Reading\<close>

definition ReadCAKey ::
  "protolib \<Rightarrow> 'sk filelib \<Rightarrow> string \<Rightarrow> filesystem \<Rightarrow> ('sk \<times> CAKeyFile) result" where
  "ReadCAKey P F path fs =
     obind (wrap_err (\<lambda>e. Errorf ''read %s: %w'' [AStr path, AErr e]) (os_ReadFile F path fs)) (\<lambda>data.
     obind (wrap_err (\<lambda>e. Errorf ''decode %s: %w'' [AStr path, AErr e]) (UnmarshalCAKey P data)) (\<lambda>f.
     if kf_Type f \<noteq> ''admin-ca'' \<and> kf_Type f \<noteq> ''user-ca''
     then Err (Errorf ''%s: not a CA key (type=%q)'' [AStr path, AStr (kf_Type f)])
     else
     obind (wrap_err (errorw ''load key: %w'') (LoadKeyFromJSON F (kf_KeyJSON f))) (\<lambda>ac.
     Ok (ac, f))))"

definition ReadNodeCert ::
  "protolib \<Rightarrow> 'sk filelib \<Rightarrow> string \<Rightarrow> filesystem \<Rightarrow> ('sk \<times> NodeCertFile) result" where
  "ReadNodeCert P F path fs =
     obind (wrap_err (\<lambda>e. Errorf ''read %s: %w'' [AStr path, AErr e]) (os_ReadFile F path fs)) (\<lambda>data.
     obind (wrap_err (\<lambda>e. Errorf ''decode %s: %w'' [AStr path, AErr e]) (UnmarshalNodeCert P data)) (\<lambda>f.
     if ncf_Type f \<noteq> ''node-cert''
     then Err (Errorf ''%s: not a node cert (type=%q)'' [AStr path, AStr (ncf_Type f)])
     else
     obind (wrap_err (errorw ''load key: %w'') (LoadKeyFromJSON F (ncf_KeyJSON f))) (\<lambda>ac.
     Ok (ac, f))))"

section \<open>Identity and trust\<close>

definition toAuthEmbeddedCAs :: "EmbeddedCAFile list \<Rightarrow> EmbeddedCA list" where
  "toAuthEmbeddedCAs authorities =
     map (\<lambda>a. \<lparr>ea_Type = em_Type a, ea_PubKEM = em_PubKEM a, ea_PubSign = em_PubSign a,
               ea_AnchorSig = em_AnchorSig a, ea_AnchorAdmin = em_AnchorAdmin a\<rparr>) authorities"

definition NodeCertToIdentity ::
  "('pk, 'sk) keyslib \<Rightarrow> x509_env \<Rightarrow> gotime \<Rightarrow> 'sk \<Rightarrow> NodeCertFile \<Rightarrow> ('pk, 'sk) NodeIdentity result" where
  "NodeCertToIdentity K X now ac f =
     obind (wrap_err (errorw ''node cert: %w'')
              (NewNodeCert K (kl_GetPublicKey K ac) (ncf_IssuerCAHash f) (ncf_ValidFrom f)
                 (ncf_ValidUntil f) (ncf_Serial f) (ncf_CertNonce f))) (\<lambda>cert.
     NewNodeIdentity X now ac [cert] [ncf_CASignature f] (toAuthEmbeddedCAs (ncf_Authorities f)))"

definition BuildEmbeddedTrustChain ::
  "('pk, 'sk) keyslib \<Rightarrow> 'sk \<Rightarrow> CAKeyFile \<Rightarrow> EmbeddedCAFile list result" where
  "BuildEmbeddedTrustChain K ac f =
     (let pub = kl_GetPublicKey K ac in
      obind (wrap_err (errorw ''marshal CA KEM pubkey: %w'') (kl_MarshalBinaryKEM K pub)) (\<lambda>pubKEM.
      obind (wrap_err (errorw ''marshal CA sign pubkey: %w'') (kl_MarshalBinarySign K pub)) (\<lambda>pubSign.
      if kf_Type f = ''admin-ca''
      then Ok [\<lparr>em_Type = ''admin-ca'', em_PubKEM = pubKEM, em_PubSign = pubSign,
                em_AnchorSig = [], em_AnchorAdmin = []\<rparr>]
      else if kf_Type f = ''user-ca''
      then if kf_AnchorAdminPubKEM f = [] \<or> kf_AnchorAdminPubSign f = []
           then Err (New ''user CA is missing anchor admin public key'')
           else Ok [\<lparr>em_Type = ''admin-ca'', em_PubKEM = kf_AnchorAdminPubKEM f,
                     em_PubSign = kf_AnchorAdminPubSign f, em_AnchorSig = [], em_AnchorAdmin = []\<rparr>,
                    \<lparr>em_Type = ''user-ca'', em_PubKEM = pubKEM, em_PubSign = pubSign,
                     em_AnchorSig = kf_AnchorSig f, em_AnchorAdmin = kf_AnchorAdmin f\<rparr>]
      else Err (Errorf ''unsupported CA key type %q'' [AStr (kf_Type f)]))))"

definition embeddedCAPubKeyBytes :: "('pk, 'sk) keyslib \<Rightarrow> EmbeddedCAFile \<Rightarrow> bytes result" where
  "embeddedCAPubKeyBytes K authority =
     obind (wrap_err (errorw ''rebuild embedded CA pubkey: %w'')
              (kl_NewPublicKeyFromBinary K (em_PubKEM authority) (em_PubSign authority))) (\<lambda>pub.
     wrap_err (errorw ''marshal embedded CA pubkey: %w'') (marshalPubKeyBytes K pub))"

text \<open>The two loops: the admin CAs first, then the user CAs.  An error leaves what was added
  before it.\<close>

fun trust_loop ::
  "string \<Rightarrow> (EmbeddedCAFile \<Rightarrow> ('pk, 'h) carrierAuth \<Rightarrow> ('pk, 'h) carrierAuth result)
     \<Rightarrow> EmbeddedCAFile list \<Rightarrow> ('pk, 'h) carrierAuth \<Rightarrow> unit result \<times> ('pk, 'h) carrierAuth" where
  "trust_loop ty add [] store = (Ok (), store)"
| "trust_loop ty add (a # as) store =
     (if em_Type a \<noteq> ty then trust_loop ty add as store
      else on_result (add a store) store (\<lambda>e. (Err e, store)) (\<lambda>store. trust_loop ty add as store))"

definition AddEmbeddedTrust ::
  "('pk, 'sk) keyslib \<Rightarrow> NodeCertFile \<Rightarrow> ('pk, 'h) carrierAuth
     \<Rightarrow> unit result \<times> ('pk, 'h) carrierAuth" where
  "AddEmbeddedTrust K f store =
     (let authorities =
            (if ncf_Authorities f = []
             then [\<lparr>em_Type = ''admin-ca'', em_PubKEM = ncf_CAPubKEM f, em_PubSign = ncf_CAPubSign f,
                    em_AnchorSig = [], em_AnchorAdmin = []\<rparr>]
             else ncf_Authorities f);
          (admins, store) = trust_loop ''admin-ca''
            (\<lambda>a store. obind (embeddedCAPubKeyBytes K a) (\<lambda>pubBytes. AddAdminPubKey K pubBytes store))
            authorities store
      in on_result admins store (\<lambda>e. (Err e, store)) (\<lambda>_.
         trust_loop ''user-ca''
           (\<lambda>a store. obind (embeddedCAPubKeyBytes K a) (\<lambda>pubBytes.
              AddUserPubKey K pubBytes (em_AnchorSig a) (em_AnchorAdmin a) store))
           authorities store))"

section \<open>What reading gives\<close>

interpretation embedded_pb: codec embedded_to_pb "\<lambda>m. Ok (pb_to_embedded m)" "\<lambda>_. True"
  by unfold_locales (simp add: embedded_to_pb_def pb_to_embedded_def)

lemma embedded_roundtrip [simp]: "map (pb_to_embedded \<circ> embedded_to_pb) as = as"
  by (induction as) (simp_all add: embedded_to_pb_def pb_to_embedded_def)

interpretation ca_key_pb: codec CAKey_to_pb "\<lambda>m. Ok (pb_to_CAKey m)" "\<lambda>_. True"
  by unfold_locales (simp add: CAKey_to_pb_def pb_to_CAKey_def)

interpretation node_cert_pb: codec NodeCert_to_pb "\<lambda>m. Ok (pb_to_NodeCert m)" "\<lambda>_. True"
  by unfold_locales (simp add: NodeCert_to_pb_def pb_to_NodeCert_def)

lemma UnmarshalNodeCert_Marshal:
  assumes "proto_decodes P" and "MarshalNodeCert P f = Ok data"
  shows "UnmarshalNodeCert P data = Ok f"
proof -
  have "pl_Unmarshal P KNodeCertFile data = Ok (PNodeCertFile (NodeCert_to_pb f))"
    using assms unfolding proto_decodes_def MarshalNodeCert_def by (metis proto_kind_of.simps(12))
  then show ?thesis using node_cert_pb.dec_enc [of f] by (simp add: UnmarshalNodeCert_def)
qed

lemma UnmarshalCAKey_Marshal:
  assumes "proto_decodes P" and "MarshalCAKey P f = Ok data"
  shows "UnmarshalCAKey P data = Ok f"
proof -
  have "pl_Unmarshal P KCAKeyFile data = Ok (PCAKeyFile (CAKey_to_pb f))"
    using assms unfolding proto_decodes_def MarshalCAKey_def by (metis proto_kind_of.simps(11))
  then show ?thesis using ca_key_pb.dec_enc [of f] by (simp add: UnmarshalCAKey_def)
qed

text \<open>The key library reads back the keys it saved.\<close>

definition keys_reload :: "'sk filelib \<Rightarrow> bool" where
  "keys_reload F \<longleftrightarrow> (\<forall>sk b. fl_SaveToFile F sk = Ok b \<longrightarrow> fl_NewCryptFromFile F b = Ok sk)"

lemma fails_Ok_iff [simp]: "fails e = Ok u \<longleftrightarrow> e = None"
  by (cases e) (auto simp: fails_def)

lemma LoadKey_MarshalKey:
  "keys_reload F \<Longrightarrow> MarshalKeyJSON F ac = Ok json \<Longrightarrow> fl_WriteTemp F = None \<Longrightarrow>
     LoadKeyFromJSON F json = Ok ac"
  by (auto simp: MarshalKeyJSON_def LoadKeyFromJSON_def keys_reload_def)

lemma WriteFile_Ok: "WriteFile F path data fs = (Ok (), fs') \<Longrightarrow> fs' = fs(path \<mapsto> data)"
  by (cases "fl_WriteFile F path") (auto simp: WriteFile_def)

text \<open>The store operations \<open>AddEmbeddedTrust\<close> uses keep the store's invariant, whatever it
  returns.\<close>

lemma trust_loop_inv:
  assumes "\<And>a s s'. I s \<Longrightarrow> add a s = Ok s' \<Longrightarrow> I s'" and "I s"
  shows "I (snd (trust_loop ty add as s))"
  using assms(2)
proof (induction as arbitrary: s)
  case Nil
  then show ?case by simp
next
  case (Cons a as)
  then show ?case
    using assms(1) [of s a] by (cases "add a s") simp_all
qed

lemma AddEmbeddedTrust_inv:
  fixes store :: "('pk, 'h) carrierAuth" and K :: "('pk, 'sk) keyslib"
  assumes "store_inv K store"
  shows "store_inv K (snd (AddEmbeddedTrust K f store))"
proof -
  have a: "store_inv K s \<Longrightarrow> obind (embeddedCAPubKeyBytes K a) (\<lambda>b. AddAdminPubKey K b s) = Ok s' \<Longrightarrow>
      store_inv K s'" for a and s s' :: "('pk, 'h) carrierAuth"
    by (auto intro: AddAdminPubKey_inv)
  have u: "store_inv K s \<Longrightarrow> obind (embeddedCAPubKeyBytes K a)
      (\<lambda>b. AddUserPubKey K b (em_AnchorSig a) (em_AnchorAdmin a) s) = Ok s' \<Longrightarrow> store_inv K s'"
    for a and s s' :: "('pk, 'h) carrierAuth"
    by (auto intro: AddUserPubKey_inv)
  let ?as = "if ncf_Authorities f = []
    then [\<lparr>em_Type = ''admin-ca'', em_PubKEM = ncf_CAPubKEM f, em_PubSign = ncf_CAPubSign f,
           em_AnchorSig = [], em_AnchorAdmin = []\<rparr>] else ncf_Authorities f"
  let ?s = "snd (trust_loop ''admin-ca'' (\<lambda>a s. obind (embeddedCAPubKeyBytes K a)
      (\<lambda>b. AddAdminPubKey K b s)) ?as store)"
  have s: "store_inv K ?s" by (rule trust_loop_inv [where I = "store_inv K", OF a assms])
  have t: "store_inv K (snd (trust_loop ''user-ca'' (\<lambda>a s. obind (embeddedCAPubKeyBytes K a)
      (\<lambda>b. AddUserPubKey K b (em_AnchorSig a) (em_AnchorAdmin a) s)) ?as ?s))"
    by (rule trust_loop_inv [where I = "store_inv K", OF u s])
  show ?thesis
    unfolding AddEmbeddedTrust_def Let_def case_prod_beta on_result_snd
    using s t by (cases "fst (trust_loop ''admin-ca'' (\<lambda>a s. obind (embeddedCAPubKeyBytes K a)
      (\<lambda>b. AddAdminPubKey K b s)) ?as store)") (simp_all only: outcome.case snd_conv)
qed

end
