(* ===== verification/LocalNode.thy ===== *)
theory LocalNode
  imports AuthFile
begin

text \<open>
  \<^verbatim>\<open>config.go\<close>, \<^verbatim>\<open>ouroboros.go\<close> and \<^verbatim>\<open>internal/entities/node/node.go\<close>: the configuration and the
  identity of the local database node.  The key pair comes from the key library and is kept in a
  file of the data directory.  Shown: the identity of a data directory does not change once it
  exists, and a key file is never overwritten.
\<close>

section \<open>Configuration\<close>

record StorageConfig =
  sc_Paths :: "string list"
  sc_MinimumFreeGB :: "64 word"

record NetworkConfig =
  nw_ListenAddress :: string
  nw_BootstrapAddresses :: "string list"

record IdentityConfig =
  id_NodeCertPath :: string
  id_AdminCAPaths :: "string list"
  id_UserCAPaths :: "string list"

text \<open>A logger is given by the level from which it writes.\<close>

type_synonym logger = int

record Config =
  cf_Paths :: "string list"
  cf_MinimumFreeGB :: "64 word"
  cf_Logger :: "logger option"
  cf_UiPort :: "16 word"
  cf_Storage :: StorageConfig
  cf_Network :: NetworkConfig
  cf_Identity :: IdentityConfig

definition PrimaryPath :: "Config \<Rightarrow> string result" where
  "PrimaryPath c =
     (case sc_Paths (cf_Storage c) of
        p # _ \<Rightarrow> Ok p
      | [] \<Rightarrow> (case cf_Paths c of
                 p # _ \<Rightarrow> Ok p
               | [] \<Rightarrow> Err (New ''at least one path must be provided in config'')))"

definition EffectivePaths :: "Config \<Rightarrow> string list" where
  "EffectivePaths c = (if sc_Paths (cf_Storage c) \<noteq> [] then sc_Paths (cf_Storage c) else cf_Paths c)"

definition EffectiveMinimumFreeGB :: "Config \<Rightarrow> 64 word" where
  "EffectiveMinimumFreeGB c =
     (if sc_MinimumFreeGB (cf_Storage c) \<noteq> 0 then sc_MinimumFreeGB (cf_Storage c)
      else cf_MinimumFreeGB c)"

definition EffectiveListenAddress :: "Config \<Rightarrow> string" where
  "EffectiveListenAddress c = nw_ListenAddress (cf_Network c)"

definition EffectiveBootstrapAddresses :: "Config \<Rightarrow> string list" where
  "EffectiveBootstrapAddresses c = nw_BootstrapAddresses (cf_Network c)"

definition defaultLogger :: logger where
  "defaultLogger = 0"

section \<open>Paths\<close>

text \<open>\<open>strings.Split\<close> and \<open>strings.Join\<close> for a separator of one character.\<close>

fun strings_Split :: "char \<Rightarrow> string \<Rightarrow> string list" where
  "strings_Split sep [] = [[]]"
| "strings_Split sep (c # cs) =
     (if c = sep then [] # strings_Split sep cs
      else case strings_Split sep cs of [] \<Rightarrow> [[c]] | p # ps \<Rightarrow> (c # p) # ps)"

fun strings_Join :: "char \<Rightarrow> string list \<Rightarrow> string" where
  "strings_Join sep [] = []"
| "strings_Join sep [p] = p"
| "strings_Join sep (p # ps) = p @ sep # strings_Join sep ps"

text \<open>\<^verbatim>\<open>filepath.Join\<close> on Unix: the elements joined by slashes and cleaned.\<close>

text \<open>\<open>out\<close> holds the cleaned elements, the last one first.\<close>

fun clean_elements :: "bool \<Rightarrow> string list \<Rightarrow> string list \<Rightarrow> string list" where
  "clean_elements rooted out [] = rev out"
| "clean_elements rooted out (p # ps) =
     (if p = [] \<or> p = ''.'' then clean_elements rooted out ps
      else if p = ''..'' then
        (case out of
           q # qs \<Rightarrow> if q = ''..'' then clean_elements rooted (p # out) ps
                     else clean_elements rooted qs ps
         | [] \<Rightarrow> clean_elements rooted (if rooted then [] else [p]) ps)
      else clean_elements rooted (p # out) ps)"

definition filepath_Clean :: "string \<Rightarrow> string" where
  "filepath_Clean path =
     (let rooted = (path \<noteq> [] \<and> hd path = CHR ''/'');
          cleaned = strings_Join (CHR ''/'') (clean_elements rooted [] (strings_Split (CHR ''/'') path))
      in if rooted then CHR ''/'' # cleaned else if cleaned = [] then ''.'' else cleaned)"

definition filepath_Join :: "string list \<Rightarrow> string" where
  "filepath_Join es =
     (case dropWhile (\<lambda>e. e = []) es of [] \<Rightarrow> [] | es \<Rightarrow> filepath_Clean (strings_Join (CHR ''/'') es))"

section \<open>Node keys\<close>

text \<open>
  The key library: \<open>crypt.New\<close> with the text it may panic with, the key pair a file content holds,
  the content a key pair is saved as, and its node ID; and the errors of the operating system.
  A save that fails says what it leaves in the file.
\<close>

record 'c cryptlib =
  cy_New :: "string + 'c"
  cy_Load :: "bytes \<Rightarrow> 'c result"
  cy_Content :: "'c \<Rightarrow> bytes"
  cy_NodeID :: "'c \<Rightarrow> nodeid"
  cy_StatErr :: "goerror option"
  cy_SaveErr :: "(goerror \<times> bytes option) option"

record 'c local_node =
  ln_crypt :: 'c
  ln_nodeID :: nodeid

definition keyFileName :: string where
  "keyFileName = ''node.key''"

definition newCrypt :: "'c cryptlib \<Rightarrow> 'c result" where
  "newCrypt C =
     (case cy_New C of Inr c \<Rightarrow> Ok c | Inl r \<Rightarrow> Err (Errorf ''crypt.New panicked: %v'' [AStr r]))"

definition loadOrCreateCrypt ::
  "'c cryptlib \<Rightarrow> string \<Rightarrow> filesystem \<Rightarrow> 'c result \<times> filesystem" where
  "loadOrCreateCrypt C keyPath fs =
     (case cy_StatErr C of
        Some err \<Rightarrow> (Err (Errorf ''stat key file %q: %w'' [AStr keyPath, AErr err]), fs)
      | None \<Rightarrow>
     (case fs keyPath of
        Some data \<Rightarrow>
          (wrap_err (\<lambda>e. Errorf ''load key file %q: %w'' [AStr keyPath, AErr e]) (cy_Load C data), fs)
      | None \<Rightarrow>
          on_result (wrap_err (errorw ''generate keys: %w'') (newCrypt C)) fs (\<lambda>e. (Err e, fs)) (\<lambda>c.
          case cy_SaveErr C of
            Some (err, rest) \<Rightarrow>
              (Err (Errorf ''save key file %q: %w'' [AStr keyPath, AErr err]), fs(keyPath := rest))
          | None \<Rightarrow> (Ok c, fs(keyPath \<mapsto> cy_Content C c)))))"

definition node_New :: "'c cryptlib \<Rightarrow> string \<Rightarrow> filesystem \<Rightarrow> 'c local_node result \<times> filesystem" where
  "node_New C dataDir fs =
     (let keyPath = filepath_Join [dataDir, keyFileName];
          (c, fs) = loadOrCreateCrypt C keyPath fs
      in (obind (wrap_err (errorw ''node crypto init: %w'') c) (\<lambda>c.
            Ok \<lparr>ln_crypt = c, ln_nodeID = cy_NodeID C c\<rparr>), fs))"

definition node_ID :: "'c local_node \<Rightarrow> nodeid" where
  "node_ID n = ln_nodeID n"

definition node_Crypt :: "'c local_node \<Rightarrow> 'c" where
  "node_Crypt n = ln_crypt n"

text \<open>\<^verbatim>\<open>base64.StdEncoding\<close>\<close>

definition base64_digit :: "nat \<Rightarrow> char" where
  "base64_digit d = (''ABCDEFGHIJKLMNOPQRSTUVWXYZabcdefghijklmnopqrstuvwxyz0123456789+/'' ! (d mod 64))"

fun base64 :: "bytes \<Rightarrow> string" where
  "base64 (a # b # c # bs) =
     (let v = unat a * 65536 + unat b * 256 + unat c in
      base64_digit (v div 262144) # base64_digit (v div 4096) # base64_digit (v div 64)
        # base64_digit v # base64 bs)"
| "base64 [a, b] =
     (let v = unat a * 65536 + unat b * 256 in
      [base64_digit (v div 262144), base64_digit (v div 4096), base64_digit (v div 64), CHR ''=''])"
| "base64 [a] =
     (let v = unat a * 65536 in
      [base64_digit (v div 262144), base64_digit (v div 4096), CHR ''='', CHR ''=''])"
| "base64 [] = []"

definition node_Json :: "'c local_node \<Rightarrow> string result" where
  "node_Json n = Ok (''{\"nodeId\":\"'' @ base64 (ln_nodeID n) @ ''\"}'')"

section \<open>Database\<close>

record 'c OuroborosDB =
  db_log :: logger
  db_config :: Config
  db_node :: "'c local_node"

text \<open>The configuration is normalised in place: the caller sees the changes.\<close>

definition db_New ::
  "'c cryptlib \<Rightarrow> Config \<Rightarrow> filesystem \<Rightarrow> ('c OuroborosDB result \<times> filesystem) \<times> Config" where
  "db_New C conf fs =
     (case PrimaryPath conf of
        Err e \<Rightarrow> ((Err e, fs), conf)
      | Panic \<Rightarrow> ((Panic, fs), conf)
      | Ok primaryPath \<Rightarrow>
         let log = (case cf_Logger conf of None \<Rightarrow> defaultLogger | Some l \<Rightarrow> l);
             conf = conf\<lparr>cf_Logger := Some log\<rparr>;
             conf = conf\<lparr>cf_Storage := (cf_Storage conf)\<lparr>sc_Paths := EffectivePaths conf\<rparr>\<rparr>;
             conf = conf\<lparr>cf_Storage :=
               (cf_Storage conf)\<lparr>sc_MinimumFreeGB := EffectiveMinimumFreeGB conf\<rparr>\<rparr>;
             (n, fs) = node_New C primaryPath fs
         in ((obind (wrap_err (errorw ''init node: %w'') n) (\<lambda>n.
                Ok \<lparr>db_log = log, db_config = conf, db_node = n\<rparr>), fs), conf))"

definition db_NodeID :: "'c OuroborosDB \<Rightarrow> nodeid" where
  "db_NodeID db = node_ID (db_node db)"

definition CurrentDbVersion :: string where
  "CurrentDbVersion = ''v0.1.1-alpha-3''"

definition GetVersion :: string where
  "GetVersion = CurrentDbVersion"

section \<open>The identity of a data directory\<close>

text \<open>The key library reads back the key pairs it saved, with the same node ID.\<close>

definition crypt_reloads :: "'c cryptlib \<Rightarrow> bool" where
  "crypt_reloads C \<longleftrightarrow> (\<forall>c. cy_Load C (cy_Content C c) = Ok c)"

text \<open>The same library at another time, when other errors occur and other keys are generated.\<close>

definition later :: "'c cryptlib \<Rightarrow> 'c cryptlib \<Rightarrow> bool" where
  "later C C' \<longleftrightarrow> cy_Load C' = cy_Load C \<and> cy_Content C' = cy_Content C \<and> cy_NodeID C' = cy_NodeID C"

lemma existing_key_kept:
  "fs keyPath = Some data \<Longrightarrow> snd (loadOrCreateCrypt C keyPath fs) = fs"
  by (auto simp: loadOrCreateCrypt_def split: option.splits)

lemma loadOrCreateCrypt_Ok:
  assumes "loadOrCreateCrypt C keyPath fs = (Ok c, fs')"
  shows "(\<exists>data. fs keyPath = Some data \<and> cy_Load C data = Ok c \<and> fs' = fs) \<or>
    (fs keyPath = None \<and> fs' = fs(keyPath \<mapsto> cy_Content C c))"
  using assms unfolding loadOrCreateCrypt_def
  by (auto split: option.splits elim!: on_result_cases)

lemma node_New_again:
  assumes "crypt_reloads C" and "later C C'" and "cy_StatErr C' = None"
    and "node_New C dataDir fs = (Ok n, fs')"
  shows "node_New C' dataDir fs' = (Ok n, fs')"
proof -
  let ?k = "filepath_Join [dataDir, keyFileName]"
  obtain c where c: "loadOrCreateCrypt C ?k fs = (Ok c, fs')"
    and n: "n = \<lparr>ln_crypt = c, ln_nodeID = cy_NodeID C c\<rparr>"
    using assms(4) by (auto simp: node_New_def Let_def case_prod_beta prod_eq_iff)
  have "\<exists>data. fs' ?k = Some data \<and> cy_Load C' data = Ok c"
    using loadOrCreateCrypt_Ok [OF c] assms(1,2) by (auto simp: crypt_reloads_def later_def)
  then have "loadOrCreateCrypt C' ?k fs' = (Ok c, fs')"
    using assms(3) by (auto simp: loadOrCreateCrypt_def)
  then show ?thesis using assms(2) by (simp add: node_New_def Let_def n later_def)
qed

lemma Effective_update [simp]:
  "EffectivePaths (c\<lparr>cf_Logger := l\<rparr>) = EffectivePaths c"
  "EffectiveMinimumFreeGB (c\<lparr>cf_Logger := l, cf_Storage := (cf_Storage c)\<lparr>sc_Paths := ps\<rparr>\<rparr>) =
     EffectiveMinimumFreeGB c"
  by (simp_all add: EffectivePaths_def EffectiveMinimumFreeGB_def)

lemma db_New_Ok:
  assumes "db_New C conf fs = ((Ok db, fs'), conf')"
  obtains path log where "PrimaryPath conf = Ok path" and "node_New C path fs = (Ok (db_node db), fs')"
    and "conf' = conf\<lparr>cf_Logger := Some log, cf_Storage := (cf_Storage conf)
           \<lparr>sc_Paths := EffectivePaths conf, sc_MinimumFreeGB := EffectiveMinimumFreeGB conf\<rparr>\<rparr>"
  using assms
  by (auto simp: db_New_def Let_def case_prod_beta prod_eq_iff split: outcome.splits)

text \<open>A configuration that has been normalised is left as it is.\<close>

lemma normalised_again:
  assumes "PrimaryPath conf = Ok path" and "node_New C path fs = (Ok n, fs')"
    and "conf' = conf\<lparr>cf_Logger := Some log, cf_Storage := (cf_Storage conf)
           \<lparr>sc_Paths := EffectivePaths conf, sc_MinimumFreeGB := EffectiveMinimumFreeGB conf\<rparr>\<rparr>"
  shows "db_New C conf' fs = ((Ok \<lparr>db_log = log, db_config = conf', db_node = n\<rparr>, fs'), conf')"
proof -
  have "PrimaryPath conf' = Ok path"
    using assms(1,3) by (auto simp: PrimaryPath_def EffectivePaths_def split: list.splits)
  then show ?thesis
    using assms by (simp add: db_New_def Let_def EffectivePaths_def EffectiveMinimumFreeGB_def)
qed

text \<open>C38: once a database has been opened, opening it again with the configuration that the first call
  normalised, at any later time at which the key file can be examined, yields the same
  node, even when key generation or saving would fail by then, and writes nothing; and no
  way of opening it changes an existing key file.\<close>

theorem node_identity_persistent:
  assumes "crypt_reloads C" and "later C C'" and "cy_StatErr C' = None"
    and "db_New C conf fs = ((Ok db, fs'), conf')"
  shows "(\<exists>db'. db_New C' conf' fs' = ((Ok db', fs'), conf') \<and> db_node db' = db_node db \<and>
      db_NodeID db' = db_NodeID db \<and> db_config db' = conf') \<and>
    (\<forall>(C'' :: 'c cryptlib) dir gs key.
       gs (filepath_Join [dir, keyFileName]) = Some key \<longrightarrow> snd (node_New C'' dir gs) = gs)"
proof -
  obtain path log where *: "PrimaryPath conf = Ok path" "node_New C path fs = (Ok (db_node db), fs')"
    "conf' = conf\<lparr>cf_Logger := Some log, cf_Storage := (cf_Storage conf)
       \<lparr>sc_Paths := EffectivePaths conf, sc_MinimumFreeGB := EffectiveMinimumFreeGB conf\<rparr>\<rparr>"
    by (rule db_New_Ok [OF assms(4)])
  have "db_New C' conf' fs' = ((Ok \<lparr>db_log = log, db_config = conf', db_node = db_node db\<rparr>, fs'), conf')"
    by (rule normalised_again [OF *(1) node_New_again [OF assms(1-3) *(2)] *(3)])
  moreover have "gs (filepath_Join [dir, keyFileName]) = Some key \<Longrightarrow> snd (node_New C'' dir gs) = gs"
    for C'' :: "'c cryptlib" and dir gs key
    using existing_key_kept by (simp add: node_New_def Let_def case_prod_beta)
  ultimately show ?thesis by (auto simp: db_NodeID_def)
qed

text \<open>A first start with key \<open>[7]\<close>; later, generating keys panics and the disk is full.\<close>

definition first_start :: "bytes cryptlib" where
  "first_start = \<lparr>cy_New = Inr [7], cy_Load = Ok, cy_Content = \<lambda>c. c, cy_NodeID = \<lambda>c. c,
     cy_StatErr = None, cy_SaveErr = None\<rparr>"

definition later_start :: "bytes cryptlib" where
  "later_start = first_start\<lparr>cy_New := Inl ''entropy'', cy_SaveErr := Some (New ''disk full'', None)\<rparr>"

definition sample_db_config :: Config where
  "sample_db_config =
     \<lparr>cf_Paths = [''./data//x/''], cf_MinimumFreeGB = 5, cf_Logger = None, cf_UiPort = 0,
      cf_Storage = \<lparr>sc_Paths = [], sc_MinimumFreeGB = 0\<rparr>,
      cf_Network = \<lparr>nw_ListenAddress = '':0'', nw_BootstrapAddresses = []\<rparr>,
      cf_Identity = \<lparr>id_NodeCertPath = [], id_AdminCAPaths = [], id_UserCAPaths = []\<rparr>\<rparr>"

theorem node_identity_persistent_witness:
  "\<exists>db conf'. db_New first_start sample_db_config Map.empty = ((Ok db, [''data/x/node.key'' \<mapsto> [7]]), conf') \<and>
     (\<exists>db'. db_New later_start conf' [''data/x/node.key'' \<mapsto> [7]] = ((Ok db', [''data/x/node.key'' \<mapsto> [7]]), conf') \<and>
        db_NodeID db' = [7])"
proof -
  have path: "filepath_Join [''./data//x/'', keyFileName] = ''data/x/node.key''"
    by (simp add: filepath_Join_def filepath_Clean_def keyFileName_def)
  obtain db conf' where 1: "db_New first_start sample_db_config Map.empty =
      ((Ok db, [''data/x/node.key'' \<mapsto> [7]]), conf')" and id: "db_NodeID db = [7]"
    by (simp add: db_New_def PrimaryPath_def sample_db_config_def node_New_def path Let_def
        loadOrCreateCrypt_def newCrypt_def first_start_def db_NodeID_def node_ID_def)
  have "crypt_reloads first_start" "later first_start later_start" "cy_StatErr later_start = None"
    by (simp_all add: crypt_reloads_def later_def first_start_def later_start_def)
  from node_identity_persistent [OF this 1] 1 id show ?thesis by metis
qed

end
