(* ===== verification/Interactive.thy ===== *)
theory Interactive
  imports LocalNode Broadcast Bootstrap
begin

text \<open>
  \<^verbatim>\<open>cmd/interactive/main.go\<close>: the command that brings up a node.  It reads the configuration from
  flags, loads the identity and the trust store from files, builds carrier and controller and
  runs a command loop.  What is printed is kept as a list of lines; text is taken as code points
  below 256.
\<close>

section \<open>Text\<close>

definition is_space :: "char \<Rightarrow> bool" where
  "is_space c \<longleftrightarrow> (let n = (of_char c :: nat) in 9 \<le> n \<and> n \<le> 13 \<or> n = 32 \<or> n = 133 \<or> n = 160)"

definition TrimSpace :: "string \<Rightarrow> string" where
  "TrimSpace s = rev (dropWhile is_space (rev (dropWhile is_space s)))"

text \<open>\<open>strings.Fields\<close>; \<open>w\<close> is the word being read.\<close>

fun fields_from :: "string \<Rightarrow> string \<Rightarrow> string list" where
  "fields_from w [] = (if w = [] then [] else [w])"
| "fields_from w (c # cs) =
     (if is_space c then (if w = [] then fields_from [] cs else w # fields_from [] cs)
      else fields_from (w @ [c]) cs)"

definition strings_Fields :: "string \<Rightarrow> string list" where
  "strings_Fields s = fields_from [] s"

definition to_lower :: "char \<Rightarrow> char" where
  "to_lower c = (let n = (of_char c :: nat) in if 65 \<le> n \<and> n \<le> 90 then char_of (n + 32) else c)"

text \<open>The verb \<^verbatim>\<open>%-ns\<close>.\<close>

definition pad_right :: "nat \<Rightarrow> string \<Rightarrow> string" where
  "pad_right n s = s @ replicate (n - length s) (CHR '' '')"

definition splitCSV :: "string \<Rightarrow> string list" where
  "splitCSV raw =
     (if raw = [] then []
      else filter (\<lambda>part. part \<noteq> []) (map TrimSpace (strings_Split (CHR '','') raw)))"

definition shortNodeID :: "nodeid \<Rightarrow> string" where
  "shortNodeID nid = EncodeToString (take 8 nid)"

section \<open>Configuration\<close>

definition parseSlogLevel :: "string \<Rightarrow> logger" where
  "parseSlogLevel name =
     (let name = map to_lower name in
      if name = ''debug'' then -4
      else if name = ''warn'' \<or> name = ''warning'' then 4
      else if name = ''error'' then 8
      else 0)"

text \<open>\<open>flags\<close>: the flags set on the command line.\<close>

definition parseConfig :: "(string \<rightharpoonup> string) \<Rightarrow> Config \<times> logger" where
  "parseConfig flags =
     (let val = (\<lambda>name def. case flags name of None \<Rightarrow> def | Some v \<Rightarrow> v);
          dataDir = val ''data-dir'' ''./data/interactive''
      in (\<lparr>cf_Paths = [dataDir], cf_MinimumFreeGB = 0, cf_Logger = None, cf_UiPort = 0,
           cf_Storage = \<lparr>sc_Paths = [dataDir], sc_MinimumFreeGB = 0\<rparr>,
           cf_Network = \<lparr>nw_ListenAddress = val ''listen'' '':0'',
                         nw_BootstrapAddresses = splitCSV (val ''bootstrap'' [])\<rparr>,
           cf_Identity = \<lparr>id_NodeCertPath = val ''node-cert'' [],
                          id_AdminCAPaths = splitCSV (val ''admin-ca'' []),
                          id_UserCAPaths = splitCSV (val ''user-ca'' [])\<rparr>\<rparr>,
          parseSlogLevel (val ''log-level'' ''info'')))"

section \<open>Credentials\<close>

definition loadNodeIdentity ::
  "('pk, 'sk) keyslib \<Rightarrow> protolib \<Rightarrow> 'sk filelib \<Rightarrow> x509_env \<Rightarrow> gotime \<Rightarrow> string \<Rightarrow> filesystem
     \<Rightarrow> ('pk, 'sk) NodeIdentity result" where
  "loadNodeIdentity K P F X now path fs =
     obind (ReadNodeCert P F path fs) (\<lambda>(ac, certFile). NodeCertToIdentity K X now ac certFile)"

definition addCAFile ::
  "('pk, 'sk) keyslib \<Rightarrow> protolib \<Rightarrow> 'sk filelib \<Rightarrow> filesystem \<Rightarrow> ('pk, 'h) carrierAuth \<Rightarrow> string
     \<Rightarrow> ('pk, 'h) carrierAuth result" where
  "addCAFile K P F fs store path =
     obind (ReadCAKey P F path fs) (\<lambda>(ac, f).
     obind (wrap_err (errorw ''marshal CA pubkey: %w'') (marshalPubKeyBytes K (kl_GetPublicKey K ac)))
       (\<lambda>pubBytes.
     if kf_Type f = ''admin-ca'' then AddAdminPubKey K pubBytes store
     else if kf_Type f = ''user-ca'' then AddUserPubKey K pubBytes (kf_AnchorSig f) (kf_AnchorAdmin f) store
     else Err (Errorf ''unsupported CA key type %q'' [AStr (kf_Type f)])))"

definition loadCarrierAuth ::
  "('pk, 'sk) keyslib \<Rightarrow> protolib \<Rightarrow> 'sk filelib \<Rightarrow> Config \<Rightarrow> filesystem \<Rightarrow> ('pk, 'h) carrierAuth result" where
  "loadCarrierAuth K P F conf fs =
     (let ids = cf_Identity conf; store = NewCarrierAuth in
      if id_AdminCAPaths ids = [] \<and> id_UserCAPaths ids = []
      then obind (ReadNodeCert P F (id_NodeCertPath ids) fs) (\<lambda>(_, certFile).
             let (r, store) = AddEmbeddedTrust K certFile store in obind r (\<lambda>_. Ok store))
      else obind (foldM (addCAFile K P F fs) store (id_AdminCAPaths ids)) (\<lambda>store.
             foldM (addCAFile K P F fs) store (id_UserCAPaths ids)))"

section \<open>Messages\<close>

text \<open>The handler's state is what has been printed.\<close>

fun helloHandler :: "string list MessageHandler" where
  "helloHandler (PUserMessage m) peer _ out =
     ((Some PResponseEmptyPayload, None),
      out @ [sprintf ''received from %s (%s): %s'' [um_From m, shortNodeID peer, um_Text m]])"
| "helloHandler _ peer _ out = ((Some PResponseEmptyPayload, None), out)"

definition broadcastHello ::
  "('pk, 'sk) keyslib \<Rightarrow> protolib \<Rightarrow> (nat \<Rightarrow> nodeid \<Rightarrow> send_env)
     \<Rightarrow> (nat \<Rightarrow> nodeid \<Rightarrow> ('pk, 'sk, 'h, 's) carrierImpl) \<Rightarrow> nodeid list \<Rightarrow> string \<Rightarrow> string
     \<Rightarrow> ('pk, 'sk, 'h, 's) carrierImpl \<Rightarrow> string result" where
  "broadcastHello K P E at ks from text c =
     obind (wrap_err (errorw ''encode hello payload: %w'')
              (pl_Marshal P (PUserMessage \<lparr>um_From = from, um_Text = text\<rparr>))) (\<lambda>payload.
     obind (BroadcastReliable K P E at ks
              \<lparr>msg_Type = MessageTypeUserMessage, msg_Payload = payload\<rparr> c) (\<lambda>(success, failed).
     Ok (sprintf ''broadcast delivered to %d peers, %d failed''
           [itoa (int (length success)), itoa (int (length failed))])))"

definition peer_line :: "PeerNode \<Rightarrow> ('pk, 'sk, 'h, 's) carrierImpl \<Rightarrow> string" where
  "peer_line peer c =
     (let status = (if IsConnected (pn_NodeID peer) c then ''connected'' else ''disconnected'') in
      ''- '' @ shortNodeID (pn_NodeID peer) @
      ''  addr='' @ pad_right 21 (strings_Join (CHR '','') (pn_Addresses peer)) @
      ''  role='' @ pad_right 6 (NodeRole_String (pn_Role peer)) @ ''  status='' @ status)"

definition printPeers :: "nodeid list \<Rightarrow> ('pk, 'sk, 'h, 's) carrierImpl \<Rightarrow> string list" where
  "printPeers ks c =
     (let peers = GetNodes ks c in
      if peers = [] then [''no peers connected''] else map (\<lambda>peer. peer_line peer c) peers)"

definition printHelp :: "string list" where
  "printHelp =
     [''commands: help, id, listen, peers'', ''          hello [text], broadcast [text]'',
      ''          reconnect, quit'']"

section \<open>The command loop\<close>

text \<open>
  What the network does while a command runs: the sends of a broadcast, the carrier at each of
  them, the order in which the registry is listed, and the dials of a reconnect.
\<close>

record ('pk, 'sk, 'h) repl_env =
  re_send :: "nat \<Rightarrow> nodeid \<Rightarrow> send_env"
  re_at :: "nat \<Rightarrow> nodeid \<Rightarrow> ('pk, 'sk, 'h, string list) carrierImpl"
  re_nodes :: "nodeid list"
  re_boot :: bootstrap_env

text \<open>One round of the loop: the context is done, the input has ended, or a line was read.\<close>

datatype ('pk, 'sk, 'h) repl_input =
    Cancelled | InputEnd "goerror option" | InputLine string "('pk, 'sk, 'h) repl_env"

text \<open>
  A command: the lines it prints and the carrier it leaves, and whether the loop goes on.
\<close>

definition repl_command ::
  "('pk, 'sk) keyslib \<Rightarrow> protolib \<Rightarrow> nodeid \<Rightarrow> string \<Rightarrow> string list \<Rightarrow> ('pk, 'sk, 'h) repl_env
     \<Rightarrow> ('pk, 'sk, 'h, string list) carrierImpl
     \<Rightarrow> bool result \<times> string list \<times> ('pk, 'sk, 'h, string list) carrierImpl" where
  "repl_command K P nid cmd args E c =
     (if cmd = ''help'' then (Ok True, printHelp, c)
      else if cmd = ''id'' then (Ok True, [''node ID: '' @ shortNodeID nid], c)
      else if cmd = ''listen'' then (Ok True, [''listening on: '' @ carrier_ListenAddress c], c)
      else if cmd = ''peers'' then (Ok True, printPeers (re_nodes E) c, c)
      else if cmd = ''hello'' \<or> cmd = ''broadcast'' then
        (let text = (if args \<noteq> [] then strings_Join (CHR '' '') args else ''hello world'') in
         case broadcastHello K P (re_send E) (re_at E) (re_nodes E) (shortNodeID nid) text c of
           Ok line \<Rightarrow> (Ok True, [line], c)
         | Err e \<Rightarrow> (Ok True, [''broadcast failed: '' @ error_text e], c)
         | Panic \<Rightarrow> (Panic, [], c))
      else if cmd = ''reconnect'' then
        (case Reconnect K P (re_boot E) c of
           (Ok _, c) \<Rightarrow> (Ok True, [''reconnecting to bootstrap...'', ''reconnected successfully''], c)
         | (Err e, c) \<Rightarrow>
             (Ok True, [''reconnecting to bootstrap...'', ''reconnect failed: '' @ error_text e], c)
         | (Panic, c) \<Rightarrow> (Panic, [''reconnecting to bootstrap...''], c))
      else if cmd = ''exit'' \<or> cmd = ''quit'' then (Ok False, [], c)
      else (Ok True, [sprintf ''unknown command %q'' [cmd]], c))"

text \<open>\<^const>\<open>None\<close>: the loop waits for the next line.\<close>

fun repl_loop ::
  "('pk, 'sk) keyslib \<Rightarrow> protolib \<Rightarrow> nodeid \<Rightarrow> ('pk, 'sk, 'h) repl_input list \<Rightarrow> string list
     \<Rightarrow> ('pk, 'sk, 'h, string list) carrierImpl
     \<Rightarrow> unit result option \<times> string list \<times> ('pk, 'sk, 'h, string list) carrierImpl" where
  "repl_loop K P nid [] out c = (None, out, c)"
| "repl_loop K P nid (Cancelled # _) out c = (Some (Ok ()), out, c)"
| "repl_loop K P nid (InputEnd e # _) out c =
     (Some (case e of None \<Rightarrow> Ok () | Some e \<Rightarrow> Err e), out, c)"
| "repl_loop K P nid (InputLine text E # rest) out c =
     (case strings_Fields (TrimSpace text) of
        [] \<Rightarrow> repl_loop K P nid rest out c
      | cmd # args \<Rightarrow>
         (case repl_command K P nid cmd args E c of
            (Ok True, lines, c) \<Rightarrow> repl_loop K P nid rest (out @ lines) c
          | (Ok False, lines, c) \<Rightarrow> (Some (Ok ()), out @ lines, c)
          | (Err e, lines, c) \<Rightarrow> (Some (Err e), out @ lines, c)
          | (Panic, lines, c) \<Rightarrow> (Some Panic, out @ lines, c)))"

definition repl ::
  "('pk, 'sk) keyslib \<Rightarrow> protolib \<Rightarrow> nodeid \<Rightarrow> ('pk, 'sk, 'h) repl_input list
     \<Rightarrow> ('pk, 'sk, 'h, string list) carrierImpl
     \<Rightarrow> unit result option \<times> string list \<times> ('pk, 'sk, 'h, string list) carrierImpl" where
  "repl K P nid inputs c = repl_loop K P nid inputs printHelp c"

section \<open>Start-up\<close>

definition node_carrier_config ::
  "Config \<Rightarrow> 'pk nodecert \<Rightarrow> ('pk, 'sk) NodeIdentity \<Rightarrow> ('pk, 'h) carrierAuth \<Rightarrow> ('pk, 'sk, 'h) CarrierConfig" where
  "node_carrier_config conf cert ident store =
     \<lparr>cfg_BootstrapAddresses = EffectiveBootstrapAddresses conf, cfg_SelfCert = Some cert,
      cfg_ListenAddress = EffectiveListenAddress conf, cfg_Auth = Some store,
      cfg_NodeIdentity = Some ident, cfg_NodeRole = NodeRoleServer, cfg_HeartbeatInterval = 0,
      cfg_HeartbeatTimeout = 0, cfg_ReconnectInterval = 0, cfg_BootstrapRetryInterval = 0,
      cfg_BootstrapMaxRetries = 0, cfg_BroadcastMaxRetries = 0, cfg_BroadcastRetryInterval = 0\<rparr>"

text \<open>The carrier of the node with its controller; \<open>newTransport\<close> is the result of binding the socket.\<close>

definition start_carrier ::
  "(proto_kind \<Rightarrow> string) \<Rightarrow> string result \<Rightarrow> Config \<Rightarrow> ('pk, 'sk) NodeIdentity \<Rightarrow> ('pk, 'h) carrierAuth
     \<Rightarrow> ('pk, 'sk, 'h, string list) carrierImpl result" where
  "start_carrier type_name newTransport conf ident store =
     (case ni_certs ident of
        [] \<Rightarrow> Panic
      | cert # _ \<Rightarrow>
      obind (carrier_New newTransport (node_carrier_config conf cert ident store)) (\<lambda>tr.
      obind (NewClusterController False False) (\<lambda>controller.
      let tr = SetController (Some controller) tr in
      obind (RegisterTypedHandler KUserMessage type_name MessageTypeUserMessage [ScopeUser]
               helloHandler (cr_controller tr)) (\<lambda>controller.
      Ok (SetController (Some controller) tr)))))"

text \<open>\<open>run\<close> up to the command loop: the carrier, the identity and the database.\<close>

definition start_node ::
  "('pk, 'sk) keyslib \<Rightarrow> protolib \<Rightarrow> 'sk filelib \<Rightarrow> x509_env \<Rightarrow> 'c cryptlib \<Rightarrow> (proto_kind \<Rightarrow> string)
     \<Rightarrow> gotime \<Rightarrow> string result \<Rightarrow> (string \<rightharpoonup> string) \<Rightarrow> filesystem
     \<Rightarrow> (('pk, 'sk, 'h, string list) carrierImpl \<times> ('pk, 'sk) NodeIdentity \<times> 'c OuroborosDB) result
         \<times> filesystem" where
  "start_node K P F X C type_name now newTransport flags fs =
     (let (conf, logLevel) = parseConfig flags in
      if id_NodeCertPath (cf_Identity conf) = [] then (Err (New ''-node-cert is required''), fs)
      else
      let conf = conf\<lparr>cf_Logger := Some logLevel\<rparr>;
          ((db, fs), conf) = db_New C conf fs
      in (obind db (\<lambda>db.
          obind (loadNodeIdentity K P F X now (id_NodeCertPath (cf_Identity conf)) fs) (\<lambda>ident.
          obind (loadCarrierAuth K P F conf fs) (\<lambda>store.
          obind (start_carrier type_name newTransport conf ident store) (\<lambda>tr.
          Ok (tr, ident, db))))), fs))"

text \<open>
  The command: what it returns, prints and leaves in the file system.  The listener it starts
  runs in a goroutine of its own; what that does to the carrier reaches a command through its
  \<open>repl_env\<close>.
\<close>

definition interactive_run ::
  "('pk, 'sk) keyslib \<Rightarrow> protolib \<Rightarrow> 'sk filelib \<Rightarrow> x509_env \<Rightarrow> 'c cryptlib \<Rightarrow> (proto_kind \<Rightarrow> string)
     \<Rightarrow> gotime \<Rightarrow> string result \<Rightarrow> (string \<rightharpoonup> string) \<Rightarrow> ('pk, 'sk, 'h) repl_input list \<Rightarrow> filesystem
     \<Rightarrow> unit result option \<times> string list \<times> filesystem" where
  "interactive_run K P F X C type_name now newTransport flags inputs fs =
     (case start_node K P F X C type_name now newTransport flags fs of
        (Err e, fs) \<Rightarrow> (Some (Err e), [], fs)
      | (Panic, fs) \<Rightarrow> (Some Panic, [], fs)
      | (Ok (tr, ident, db), fs) \<Rightarrow>
         (let out = [''node started: '' @ shortNodeID (ni_nodeID ident),
                     ''db node ID:   '' @ shortNodeID (db_NodeID db),
                     ''listening on: '' @ carrier_ListenAddress tr];
              (r, lines, _) = repl K P (ni_nodeID ident) inputs tr
          in (r, out @ lines, fs)))"

end
