(* ===== verification/Certgen.thy ===== *)
theory Certgen
  imports AuthFile Samples
begin

text \<open>
  \<^verbatim>\<open>cmd/certgen/main.go\<close>: the tool that makes CA keys and node certificates.  The random source,
  the clock and the parser of durations are inputs; what a command prints is left out, except
  for \<open>show\<close>, whose result is what it reports.  Shown: a node certificate the tool writes is
  read back with its key, and carries a signature of the issuing CA that verifies.
\<close>

section \<open>Inputs\<close>

fun parseFlag :: "string list \<Rightarrow> string \<Rightarrow> string option" where
  "parseFlag (a # b # as) name = (if a = name then Some b else parseFlag (b # as) name)"
| "parseFlag _ name = None"

record 'sk certgen_env =
  ce_NewAsyncCrypt :: "'sk result"
  ce_ParseDuration :: "string \<Rightarrow> duration result"
  ce_Serial :: "bytes result"
  ce_Nonce :: "bytes result"
  ce_Now :: gotime

section \<open>Commands\<close>

definition cmdAdminCA ::
  "('pk, 'sk) keyslib \<Rightarrow> protolib \<Rightarrow> 'sk filelib \<Rightarrow> 'sk certgen_env \<Rightarrow> string list \<Rightarrow> filesystem
     \<Rightarrow> unit result \<times> filesystem" where
  "cmdAdminCA K P F E args fs =
     (case parseFlag args ''-out'' of
        None \<Rightarrow> (Err (New ''missing -out flag''), fs)
      | Some out \<Rightarrow>
      on_result (wrap_err (errorw ''key generation: %w'') (ce_NewAsyncCrypt E)) fs (\<lambda>e. (Err e, fs)) (\<lambda>ac.
      on_result (wrap_err (errorw ''marshal key: %w'') (MarshalKeyJSON F ac)) fs (\<lambda>e. (Err e, fs)) (\<lambda>keyJSON.
      on_result (wrap_err (errorw ''encode: %w'') (MarshalCAKey P
          \<lparr>kf_Type = ''admin-ca'', kf_KeyJSON = keyJSON, kf_AnchorSig = [], kf_AnchorAdmin = [],
           kf_AnchorAdminPubKEM = [], kf_AnchorAdminPubSign = []\<rparr>)) fs (\<lambda>e. (Err e, fs)) (\<lambda>data.
      let (written, fs) = WriteFile F out data fs in
      on_result (wrap_err (errorw ''write: %w'') written) fs (\<lambda>e. (Err e, fs)) (\<lambda>_.
      on_result (wrap_err (errorw ''pubkey hash: %w'') (marshalPubKeyBytes K (kl_GetPublicKey K ac))) fs
        (\<lambda>e. (Err e, fs)) (\<lambda>pubBytes.
      on_result (wrap_err (errorw ''admin CA: %w'') (NewAdminCA K pubBytes)) fs (\<lambda>e. (Err e, fs)) (\<lambda>_.
      (Ok (), fs))))))))"

text \<open>The key file of a user CA anchored by the admin key read from \<open>adminPath\<close>.\<close>

definition userCA_file ::
  "('pk, 'sk) keyslib \<Rightarrow> protolib \<Rightarrow> 'sk filelib \<Rightarrow> 'sk certgen_env \<Rightarrow> string \<Rightarrow> filesystem
     \<Rightarrow> CAKeyFile result" where
  "userCA_file K P F E adminPath fs =
     obind (ReadCAKey P F adminPath fs) (\<lambda>(adminAC, adminFile).
     if kf_Type adminFile \<noteq> ''admin-ca''
     then Err (Errorf ''%s is %s, need admin-ca'' [AStr adminPath, AStr (kf_Type adminFile)])
     else
     let adminPub = kl_GetPublicKey K adminAC in
     obind (wrap_err (errorw ''admin pubkey: %w'') (marshalPubKeyBytes K adminPub)) (\<lambda>adminPubBytes.
     obind (wrap_err (errorw ''admin CA: %w'') (NewAdminCA K adminPubBytes)) (\<lambda>adminCA.
     obind (wrap_err (errorw ''key generation: %w'') (ce_NewAsyncCrypt E)) (\<lambda>userAC.
     obind (wrap_err (errorw ''user pubkey: %w'') (marshalPubKeyBytes K (kl_GetPublicKey K userAC)))
       (\<lambda>userPubBytes.
     obind (wrap_err (errorw ''anchor sign: %w'')
              (kl_Sign K adminAC (DomainSeparate CTXUserCAAnchorV1 userPubBytes))) (\<lambda>sig.
     obind (wrap_err (errorw ''marshal key: %w'') (MarshalKeyJSON F userAC)) (\<lambda>keyJSON.
     obind (wrap_err (errorw ''admin pubkey KEM: %w'') (kl_MarshalBinaryKEM K adminPub)) (\<lambda>kem.
     obind (wrap_err (errorw ''admin pubkey Sign: %w'') (kl_MarshalBinarySign K adminPub)) (\<lambda>sgn.
     Ok \<lparr>kf_Type = ''user-ca'', kf_KeyJSON = keyJSON, kf_AnchorSig = sig,
         kf_AnchorAdmin = ca_hash adminCA, kf_AnchorAdminPubKEM = kem,
         kf_AnchorAdminPubSign = sgn\<rparr>)))))))))"

definition cmdUserCA ::
  "('pk, 'sk) keyslib \<Rightarrow> protolib \<Rightarrow> 'sk filelib \<Rightarrow> 'sk certgen_env \<Rightarrow> string list \<Rightarrow> filesystem
     \<Rightarrow> unit result \<times> filesystem" where
  "cmdUserCA K P F E args fs =
     (case parseFlag args ''-admin-key'' of
        None \<Rightarrow> (Err (New ''missing -admin-key flag''), fs)
      | Some adminPath \<Rightarrow>
     (case parseFlag args ''-out'' of
        None \<Rightarrow> (Err (New ''missing -out flag''), fs)
      | Some out \<Rightarrow>
      on_result (userCA_file K P F E adminPath fs) fs (\<lambda>e. (Err e, fs)) (\<lambda>f.
      on_result (wrap_err (errorw ''encode: %w'') (MarshalCAKey P f)) fs (\<lambda>e. (Err e, fs)) (\<lambda>data.
      let (written, fs) = WriteFile F out data fs in
      on_result (wrap_err (errorw ''write: %w'') written) fs (\<lambda>e. (Err e, fs)) (\<lambda>_. (Ok (), fs))))))"

text \<open>The certificate file of a new node signed by the CA key read from \<open>caPath\<close>.  Slicing the
  marshalled public key below the size of a KEM key panics.\<close>

definition signNode_file ::
  "('pk, 'sk) keyslib \<Rightarrow> protolib \<Rightarrow> 'sk filelib \<Rightarrow> 'sk certgen_env \<Rightarrow> string \<Rightarrow> string \<Rightarrow> filesystem
     \<Rightarrow> NodeCertFile result" where
  "signNode_file K P F E caPath validityStr fs =
     obind (if validityStr \<noteq> []
            then wrap_err (errorw ''invalid -validity: %w'') (ce_ParseDuration E validityStr)
            else Ok (365 * 24 * time_Hour)) (\<lambda>validity.
     obind (ReadCAKey P F caPath fs) (\<lambda>(caAC, caFile).
     let caPub = kl_GetPublicKey K caAC in
     obind (wrap_err (errorw ''ca pubkey: %w'') (marshalPubKeyBytes K caPub)) (\<lambda>caPubBytes.
     obind (wrap_err (errorw ''ca pubkey KEM: %w'') (kl_MarshalBinaryKEM K caPub)) (\<lambda>caPubKEM.
     obind (wrap_err (errorw ''ca pubkey Sign: %w'') (kl_MarshalBinarySign K caPub)) (\<lambda>caPubSign.
     if length caPubBytes < KEMPublicKeySize then Panic
     else
     let issuer = EncodeToString (Sum256 (drop KEMPublicKeySize caPubBytes)) in
     obind (wrap_err (errorw ''node key gen: %w'') (ce_NewAsyncCrypt E)) (\<lambda>nodeAC.
     obind (wrap_err (errorw ''serial: %w'') (ce_Serial E)) (\<lambda>ser.
     obind (wrap_err (errorw ''nonce: %w'') (ce_Nonce E)) (\<lambda>nonce.
     let from = time_Unix (ce_Now E); until = time_Unix (time_Add (ce_Now E) validity) in
     obind (wrap_err (errorw ''node cert: %w'')
              (NewNodeCert K (kl_GetPublicKey K nodeAC) issuer from until ser nonce)) (\<lambda>cert.
     obind (wrap_err (errorw ''canonical cert: %w'') (CanonicalNodeCert K P cert)) (\<lambda>canonicalData.
     obind (wrap_err (errorw ''sign cert: %w'')
              (kl_Sign K caAC (DomainSeparate CTXNodeAdmissionV1 canonicalData))) (\<lambda>caSig.
     obind (wrap_err (errorw ''verify CA: %w'') (NewAdminCA K caPubBytes)) (\<lambda>ca.
     obind (wrap_err (errorw ''verify failed: %w'') (VerifyNodeCert K P ca cert caSig)) (\<lambda>_.
     obind (wrap_err (errorw ''marshal key: %w'') (MarshalKeyJSON F nodeAC)) (\<lambda>keyJSON.
     obind (wrap_err (errorw ''embedded trust chain: %w'') (BuildEmbeddedTrustChain K caAC caFile))
       (\<lambda>authorities.
     Ok \<lparr>ncf_Type = ''node-cert'', ncf_KeyJSON = keyJSON, ncf_CAPubKEM = caPubKEM,
         ncf_CAPubSign = caPubSign, ncf_CASignature = caSig, ncf_Authorities = authorities,
         ncf_IssuerCAHash = issuer, ncf_ValidFrom = from, ncf_ValidUntil = until,
         ncf_Serial = ser, ncf_CertNonce = nonce\<rparr>)))))))))))))))"

definition cmdSignNode ::
  "('pk, 'sk) keyslib \<Rightarrow> protolib \<Rightarrow> 'sk filelib \<Rightarrow> 'sk certgen_env \<Rightarrow> string list \<Rightarrow> filesystem
     \<Rightarrow> unit result \<times> filesystem" where
  "cmdSignNode K P F E args fs =
     (case parseFlag args ''-ca-key'' of
        None \<Rightarrow> (Err (New ''missing -ca-key flag''), fs)
      | Some caPath \<Rightarrow>
     (case parseFlag args ''-out'' of
        None \<Rightarrow> (Err (New ''missing -out flag''), fs)
      | Some out \<Rightarrow>
      let validityStr = (case parseFlag args ''-validity'' of None \<Rightarrow> [] | Some v \<Rightarrow> v) in
      on_result (signNode_file K P F E caPath validityStr fs) fs (\<lambda>e. (Err e, fs)) (\<lambda>f.
      on_result (wrap_err (errorw ''encode: %w'') (MarshalNodeCert P f)) fs (\<lambda>e. (Err e, fs)) (\<lambda>data.
      let (written, fs) = WriteFile F out data fs in
      on_result (wrap_err (errorw ''write: %w'') written) fs (\<lambda>e. (Err e, fs)) (\<lambda>_. (Ok (), fs))))))"

datatype shown =
    ShowCA string string "string option"
  | ShowNode nodeid string nat int64 int64

definition showCA :: "('pk, 'sk) keyslib \<Rightarrow> 'sk filelib \<Rightarrow> CAKeyFile \<Rightarrow> shown result" where
  "showCA K F f =
     obind (wrap_err (errorw ''load key: %w'') (LoadKeyFromJSON F (kf_KeyJSON f))) (\<lambda>ac.
     obind (wrap_err (errorw ''marshal pub: %w'') (marshalPubKeyBytes K (kl_GetPublicKey K ac))) (\<lambda>pubBytes.
     obind (wrap_err (errorw ''admin CA: %w'') (NewAdminCA K pubBytes)) (\<lambda>ca.
     Ok (ShowCA (kf_Type f) (ca_hash ca)
           (if kf_Type f = ''user-ca'' then Some (kf_AnchorAdmin f) else None)))))"

definition showNode :: "('pk, 'sk) keyslib \<Rightarrow> 'sk filelib \<Rightarrow> NodeCertFile \<Rightarrow> shown result" where
  "showNode K F f =
     obind (wrap_err (errorw ''load key: %w'') (LoadKeyFromJSON F (ncf_KeyJSON f))) (\<lambda>ac.
     obind (wrap_err (errorw ''node ID: %w'') (kl_NodeID K (kl_GetPublicKey K ac))) (\<lambda>nid.
     Ok (ShowNode nid (ncf_IssuerCAHash f) (length (ncf_Authorities f)) (ncf_ValidFrom f) (ncf_ValidUntil f))))"

definition cmdShow ::
  "('pk, 'sk) keyslib \<Rightarrow> protolib \<Rightarrow> 'sk filelib \<Rightarrow> string list \<Rightarrow> filesystem \<Rightarrow> shown result" where
  "cmdShow K P F args fs =
     (case parseFlag args ''-file'' of
        None \<Rightarrow> Err (New ''missing -file flag'')
      | Some path \<Rightarrow>
      obind (wrap_err (errorw ''read: %w'') (os_ReadFile F path fs)) (\<lambda>data.
      let node = (case UnmarshalNodeCert P data of
                    Ok f \<Rightarrow> if ncf_Type f = ''node-cert'' then showNode K F f
                            else Err (New ''unrecognized file format'')
                  | Err e \<Rightarrow> Err (New ''unrecognized file format'')
                  | Panic \<Rightarrow> Panic)
      in case UnmarshalCAKey P data of
           Ok f \<Rightarrow> if kf_Type f = ''admin-ca'' \<or> kf_Type f = ''user-ca'' then showCA K F f else node
         | Err e \<Rightarrow> node
         | Panic \<Rightarrow> Panic))"

text \<open>\<open>main\<close>: the exit status and the file system it leaves behind; \<open>args\<close> is \<open>os.Args\<close>.  A
  panic ends the process with status 2.\<close>

definition certgen_main ::
  "('pk, 'sk) keyslib \<Rightarrow> protolib \<Rightarrow> 'sk filelib \<Rightarrow> 'sk certgen_env \<Rightarrow> string list \<Rightarrow> filesystem
     \<Rightarrow> nat \<times> filesystem" where
  "certgen_main K P F E args fs =
     (case args of
        prog # cmd # rest \<Rightarrow>
         (let run = (\<lambda>(r, fs). (case r of Ok _ \<Rightarrow> 0 | Err e \<Rightarrow> 1 | Panic \<Rightarrow> 2, fs)) in
          if cmd = ''admin-ca'' then run (cmdAdminCA K P F E rest fs)
          else if cmd = ''user-ca'' then run (cmdUserCA K P F E rest fs)
          else if cmd = ''sign-node'' then run (cmdSignNode K P F E rest fs)
          else if cmd = ''show'' then run (obind (cmdShow K P F rest fs) (\<lambda>_. Ok ()), fs)
          else (2, fs))
      | _ \<Rightarrow> (2, fs))"

section \<open>The certificates it writes\<close>

lemma WriteFile_cases:
  "WriteFile F path data fs = (Ok (), fs(path \<mapsto> data)) \<or> (\<exists>e fs'. WriteFile F path data fs = (Err e, fs'))"
  by (cases "fl_WriteFile F path") (auto simp: WriteFile_def)

lemma cmdSignNode_Ok:
  assumes "cmdSignNode K P F E args fs = (Ok (), fs')"
  obtains caPath out v f data where "parseFlag args ''-ca-key'' = Some caPath"
    and "parseFlag args ''-out'' = Some out" and "signNode_file K P F E caPath v fs = Ok f"
    and "MarshalNodeCert P f = Ok data" and "fs' = fs(out \<mapsto> data)"
proof -
  obtain caPath out v f data where *: "parseFlag args ''-ca-key'' = Some caPath"
    "parseFlag args ''-out'' = Some out" "signNode_file K P F E caPath v fs = Ok f"
    "MarshalNodeCert P f = Ok data"
    and w: "(let (written, fs) = WriteFile F out data fs in
      on_result (wrap_err (errorw ''write: %w'') written) fs (\<lambda>e. (Err e, fs)) (\<lambda>_. (Ok (), fs))) = (Ok (), fs')"
    using assms unfolding cmdSignNode_def
    by (auto simp: Let_def split: option.splits elim!: on_result_cases)
  have "fs' = fs(out \<mapsto> data)" using WriteFile_cases [of F out data fs] w by auto
  with * show ?thesis by (rule that)
qed

text \<open>What a certificate file of \<open>sign-node\<close> contains.\<close>

lemma signNode_file_Ok:
  assumes "signNode_file K P F E caPath v fs = Ok f"
  obtains caAC caFile nodeAC caBytes ca cert nid
  where "ReadCAKey P F caPath fs = Ok (caAC, caFile)"
    and "ce_NewAsyncCrypt E = Ok nodeAC" and "MarshalKeyJSON F nodeAC = Ok (ncf_KeyJSON f)"
    and "ncf_Type f = ''node-cert''"
    and "marshalPubKeyBytes K (kl_GetPublicKey K caAC) = Ok caBytes"
    and "ncf_IssuerCAHash f = EncodeToString (Sum256 (drop KEMPublicKeySize caBytes))"
    and "NewNodeCert K (kl_GetPublicKey K nodeAC) (ncf_IssuerCAHash f) (ncf_ValidFrom f)
           (ncf_ValidUntil f) (ncf_Serial f) (ncf_CertNonce f) = Ok cert"
    and "NewAdminCA K caBytes = Ok ca" and "VerifyNodeCert K P ca cert (ncf_CASignature f) = Ok nid"
    and "BuildEmbeddedTrustChain K caAC caFile = Ok (ncf_Authorities f)"
  using assms unfolding signNode_file_def Let_def
  by (clarsimp split: if_splits)

lemma issuer_hash:
  assumes "kem_size_fixed K" and "pubkey_parses K" and "marshalPubKeyBytes K pk = Ok bs"
    and "NewAdminCA K bs = Ok ca"
  shows "ca_pubKey ca = pk \<and> ca_hash ca = EncodeToString (Sum256 (drop KEMPublicKeySize bs))"
proof -
  obtain kem sign where ks: "kl_MarshalBinaryKEM K pk = Ok kem" "kl_MarshalBinarySign K pk = Ok sign"
    and bs: "bs = kem @ sign"
    using assms(3) by (auto simp: marshalPubKeyBytes_def)
  have l: "length kem = KEMPublicKeySize" "sign \<noteq> []"
    using assms(1) ks unfolding kem_size_fixed_def by blast+
  have "splitAndParsePubKey K bs = Ok pk"
    unfolding bs by (rule splitAndParsePubKey_marshal [OF assms(2) ks l])
  then show ?thesis
    using assms(4) ks l by (auto simp: NewAdminCA_def newCABase_def caHash_def bs)
qed

lemma cmdSignNode_reads:
  assumes lib: "proto_decodes P" "keys_reload F"
    and cmd: "cmdSignNode K P F E args fs = (Ok (), fs')" "parseFlag args ''-out'' = Some out"
    and os: "fl_ReadFile F out = None" "fl_WriteTemp F = None"
  obtains caPath v f ac where "parseFlag args ''-ca-key'' = Some caPath"
    and "signNode_file K P F E caPath v fs = Ok f" and "ce_NewAsyncCrypt E = Ok ac"
    and "ReadNodeCert P F out fs' = Ok (ac, f)"
proof -
  obtain caPath v f data where p: "parseFlag args ''-ca-key'' = Some caPath"
    and f: "signNode_file K P F E caPath v fs = Ok f"
    and d: "MarshalNodeCert P f = Ok data" "fs' = fs(out \<mapsto> data)"
    using cmdSignNode_Ok [OF cmd(1)] cmd(2) by (metis option.inject)
  obtain ac where r: "ce_NewAsyncCrypt E = Ok ac" "MarshalKeyJSON F ac = Ok (ncf_KeyJSON f)"
      "ncf_Type f = ''node-cert''"
    using signNode_file_Ok [OF f] by metis
  have "UnmarshalNodeCert P data = Ok f" by (rule UnmarshalNodeCert_Marshal [OF lib(1) d(1)])
  moreover have "LoadKeyFromJSON F (ncf_KeyJSON f) = Ok ac"
    by (rule LoadKey_MarshalKey [OF lib(2) r(2) os(2)])
  ultimately have "ReadNodeCert P F out fs' = Ok (ac, f)"
    using os(1) r(3) by (simp add: ReadNodeCert_def os_ReadFile_def d(2))
  with p f r(1) show ?thesis by (rule that)
qed

text \<open>C37: a node certificate that \<open>certgen sign-node\<close> writes can be used: reading the file returns
  the key that was generated for the node and a certificate for that key, the CA whose key file
  the command was given has the hash the certificate names as its issuer and verifies the signature
  in the file, and the identity a node builds from the file carries exactly that certificate,
  that signature and the trust chain of the CA.\<close>

theorem signed_certificate_usable:
  fixes K :: "('pk, 'sk) keyslib"
  assumes lib: "proto_decodes P" "keys_reload F" "kem_size_fixed K" "pubkey_parses K"
    and cmd: "cmdSignNode K P F E args fs = (Ok (), fs')" "parseFlag args ''-out'' = Some out"
    and os: "fl_ReadFile F out = None" "fl_WriteTemp F = None"
  shows "\<exists>ac f cert (ca :: 'pk AdminCAImpl) caPath caAC caFile.
    ReadNodeCert P F out fs' = Ok (ac, f) \<and> ce_NewAsyncCrypt E = Ok ac \<and>
    NewNodeCert K (kl_GetPublicKey K ac) (ncf_IssuerCAHash f) (ncf_ValidFrom f) (ncf_ValidUntil f)
      (ncf_Serial f) (ncf_CertNonce f) = Ok cert \<and>
    parseFlag args ''-ca-key'' = Some caPath \<and> ReadCAKey P F caPath fs = Ok (caAC, caFile) \<and>
    ca_pubKey ca = kl_GetPublicKey K caAC \<and>
    ca_hash ca = issuerCAHash cert \<and> VerifyNodeCert K P ca cert (ncf_CASignature f) = Ok (nodeID cert) \<and>
    BuildEmbeddedTrustChain K caAC caFile = Ok (ncf_Authorities f) \<and>
    (\<forall>X now ni. NodeCertToIdentity K X now ac f = Ok ni \<longrightarrow>
       ni_key ni = ac \<and> ni_certs ni = [cert] \<and> ni_caSigs ni = [ncf_CASignature f] \<and>
       ni_authorities ni = toAuthEmbeddedCAs (ncf_Authorities f))"
proof -
  obtain caPath v f nodeAC where p: "parseFlag args ''-ca-key'' = Some caPath"
    and f: "signNode_file K P F E caPath v fs = Ok f" and n: "ce_NewAsyncCrypt E = Ok nodeAC"
    and read: "ReadNodeCert P F out fs' = Ok (nodeAC, f)"
    by (rule cmdSignNode_reads [OF lib(1,2) cmd os])
  obtain caAC caFile nodeAC' caBytes ca cert nid
    where r: "ReadCAKey P F caPath fs = Ok (caAC, caFile)" "ce_NewAsyncCrypt E = Ok nodeAC'"
        "MarshalKeyJSON F nodeAC' = Ok (ncf_KeyJSON f)" "ncf_Type f = ''node-cert''"
        "marshalPubKeyBytes K (kl_GetPublicKey K caAC) = Ok caBytes"
        "ncf_IssuerCAHash f = EncodeToString (Sum256 (drop KEMPublicKeySize caBytes))"
      and c': "NewNodeCert K (kl_GetPublicKey K nodeAC') (ncf_IssuerCAHash f) (ncf_ValidFrom f)
           (ncf_ValidUntil f) (ncf_Serial f) (ncf_CertNonce f) = Ok cert"
      and v: "NewAdminCA K caBytes = Ok ca" "VerifyNodeCert K P ca cert (ncf_CASignature f) = Ok nid"
        "BuildEmbeddedTrustChain K caAC caFile = Ok (ncf_Authorities f)"
    by (rule signNode_file_Ok [OF f])
  have c: "NewNodeCert K (kl_GetPublicKey K nodeAC) (ncf_IssuerCAHash f) (ncf_ValidFrom f)
      (ncf_ValidUntil f) (ncf_Serial f) (ncf_CertNonce f) = Ok cert"
    using c' r(2) n by simp
  have "nid = nodeID cert" "issuerCAHash cert = ncf_IssuerCAHash f"
    using c v(2) unfolding VerifyNodeCert_Ok_iff NewNodeCert_def by auto
  moreover have "ca_pubKey ca = kl_GetPublicKey K caAC"
    "ca_hash ca = EncodeToString (Sum256 (drop KEMPublicKeySize caBytes))"
    using issuer_hash [OF lib(3,4) r(5) v(1)] by blast+
  moreover have "ni_key ni = nodeAC \<and> ni_certs ni = [cert] \<and> ni_caSigs ni = [ncf_CASignature f] \<and>
      ni_authorities ni = toAuthEmbeddedCAs (ncf_Authorities f)"
    if "NodeCertToIdentity K X now nodeAC f = Ok ni" for X now ni
    using that c by (auto simp: NodeCertToIdentity_def NewNodeIdentity_def)
  ultimately show ?thesis
    using read p n r(1,6) c v(2,3)
    by (intro exI [of _ nodeAC] exI [of _ f] exI [of _ cert] exI [of _ ca] exI [of _ caPath]
        exI [of _ caAC] exI [of _ caFile]) simp
qed

section \<open>A certificate, made and read\<close>

definition byte_files :: "byte filelib" where
  "byte_files =
     \<lparr>fl_CreateTemp = None, fl_ReadTemp = None, fl_WriteTemp = None,
      fl_SaveToFile = \<lambda>sk. Ok [sk], fl_NewCryptFromFile = \<lambda>b. Ok (hd b),
      fl_ReadFile = \<lambda>_. None, fl_NotExist = \<lambda>_. New ''file does not exist'',
      fl_WriteFile = \<lambda>_. None\<rparr>"

definition sample_ca_key :: CAKeyFile where
  "sample_ca_key =
     \<lparr>kf_Type = ''admin-ca'', kf_KeyJSON = [7], kf_AnchorSig = [], kf_AnchorAdmin = [],
      kf_AnchorAdminPubKEM = [], kf_AnchorAdminPubSign = []\<rparr>"

definition sample_node_file :: "byte \<Rightarrow> EmbeddedCAFile list \<Rightarrow> NodeCertFile" where
  "sample_node_file k as =
     \<lparr>ncf_Type = ''node-cert'', ncf_KeyJSON = [5], ncf_CAPubKEM = replicate KEMPublicKeySize k,
      ncf_CAPubSign = [k], ncf_CASignature = k # DomainSeparate CTXNodeAdmissionV1 [2],
      ncf_Authorities = as, ncf_IssuerCAHash = EncodeToString (Sum256 [k]), ncf_ValidFrom = 0,
      ncf_ValidUntil = 31536000, ncf_Serial = [1], ncf_CertNonce = [2]\<rparr>"

definition sample_authorities :: "EmbeddedCAFile list" where
  "sample_authorities =
     [\<lparr>em_Type = ''admin-ca'', em_PubKEM = replicate KEMPublicKeySize 7, em_PubSign = [7],
       em_AnchorSig = [], em_AnchorAdmin = []\<rparr>]"

definition sample_canonical :: "byte \<Rightarrow> proto_message" where
  "sample_canonical k = PCanonicalCert
     \<lparr>cc_CertVersion = 1, cc_NodePubKey = replicate KEMPublicKeySize 5 @ [5],
      cc_IssuerCaHash = EncodeToString (Sum256 [k]), cc_ValidFrom = 0, cc_ValidUntil = 31536000,
      cc_Serial = [1], cc_CertNonce = [2]\<rparr>"

definition certgen_proto :: protolib where
  "certgen_proto = table_proto
     [(PCAKeyFile (CAKey_to_pb sample_ca_key), [1]), (sample_canonical 7, [2]),
      (PNodeCertFile (NodeCert_to_pb (sample_node_file 7 sample_authorities)), [3])]"

definition sample_certgen :: "byte certgen_env" where
  "sample_certgen =
     \<lparr>ce_NewAsyncCrypt = Ok 5, ce_ParseDuration = \<lambda>_. Err (New ''no duration''),
      ce_Serial = Ok [1], ce_Nonce = Ok [2], ce_Now = 62135596800 * time_Second\<rparr>"

lemma certgen_proto_decodes [simp]: "proto_decodes certgen_proto"
  unfolding certgen_proto_def by (rule table_proto_decodes) simp

lemma certgen_proto_simps [simp]:
  "pl_Unmarshal certgen_proto KCAKeyFile [1] = Ok (PCAKeyFile (CAKey_to_pb sample_ca_key))"
  "pl_MarshalDet certgen_proto (sample_canonical 7) = Ok [2]"
  "pl_Marshal certgen_proto (PNodeCertFile (NodeCert_to_pb (sample_node_file 7 sample_authorities))) = Ok [3]"
  by (simp_all add: certgen_proto_def table_proto_def Let_def sample_canonical_def)

lemma byte_files_io [simp]:
  "fl_WriteFile byte_files p = None" "fl_ReadFile byte_files p = None" "fl_WriteTemp byte_files = None"
  by (simp_all add: byte_files_def)

lemma byte_files_reload [simp]: "keys_reload byte_files"
  by (simp add: keys_reload_def byte_files_def)

lemma sample_ca_read:
  "ReadCAKey certgen_proto byte_files ''c'' [''c'' \<mapsto> [1]] = Ok (7, sample_ca_key)"
  using ca_key_pb.dec_enc [of sample_ca_key]
  by (simp add: ReadCAKey_def os_ReadFile_def UnmarshalCAKey_def byte_files_def fails_def
      LoadKeyFromJSON_def) (simp add: sample_ca_key_def)

lemma sample_node_signed:
  assumes "ReadCAKey P byte_files path fs = Ok (k, cf)" and "pl_MarshalDet P (sample_canonical k) = Ok [2]"
    and "BuildEmbeddedTrustChain byte_keys k cf = Ok as"
  shows "signNode_file byte_keys P byte_files sample_certgen path [] fs = Ok (sample_node_file k as)"
proof -
  let ?cert = "\<lparr>certVersion = 1, nodePubKey = 5 :: byte, issuerCAHash = EncodeToString (Sum256 [k]),
    validFrom = 0, validUntil = 31536000, serial = [1], certNonce = [2], nodeID = replicate 32 5\<rparr>"
  have t: "time_Unix (62135596800 * time_Second) = 0"
    "time_Unix (time_Add (62135596800 * time_Second) (8760 * time_Hour)) = 31536000"
    by (simp_all add: time_Unix_def time_Add_def time_Hour_def time_Second_def)
  have n: "NewNodeCert byte_keys 5 (EncodeToString (Sum256 [k])) 0 31536000 [1] [2] = Ok ?cert"
    by (simp add: NewNodeCert_def DefaultCertVersion_def)
  have c: "CanonicalNodeCert byte_keys P ?cert = Ok [2]"
    using assms(2) by (simp add: CanonicalNodeCert_def canonical_cert_def sample_canonical_def)
  have a: "NewAdminCA byte_keys (replicate KEMPublicKeySize k @ [k]) =
      Ok \<lparr>ca_pubKey = k, ca_pubKeyBytes = replicate KEMPublicKeySize k @ [k],
          ca_hash = EncodeToString (Sum256 [k])\<rparr>"
    by (simp add: NewAdminCA_def newCABase_def splitAndParsePubKey_def caHash_def)
  have v: "VerifyNodeCert byte_keys P \<lparr>ca_pubKey = k,
      ca_pubKeyBytes = replicate KEMPublicKeySize k @ [k], ca_hash = EncodeToString (Sum256 [k])\<rparr>
      ?cert (k # DomainSeparate CTXNodeAdmissionV1 [2]) = Ok (replicate 32 5)"
    using c by (simp add: VerifyNodeCert_Ok_iff ca_Verify_def)
  have j: "MarshalKeyJSON byte_files sk = Ok [sk]" for sk
    by (simp add: MarshalKeyJSON_def byte_files_def fails_def)
  show ?thesis
    unfolding signNode_file_def
    by (simp add: assms sample_certgen_def Let_def t n c a v j) (simp add: sample_node_file_def)
qed

lemma sample_admin_chain: "BuildEmbeddedTrustChain byte_keys 7 sample_ca_key = Ok sample_authorities"
  by (simp add: BuildEmbeddedTrustChain_def sample_ca_key_def sample_authorities_def)

theorem signed_certificate_usable_witness:
  "\<exists>ac f. ReadNodeCert certgen_proto byte_files ''n'' [''c'' \<mapsto> [1], ''n'' \<mapsto> [3]] = Ok (ac, f)"
proof -
  let ?args = "[''-ca-key'', ''c'', ''-out'', ''n'']"
  have "cmdSignNode byte_keys certgen_proto byte_files sample_certgen ?args [''c'' \<mapsto> [1]] =
      (Ok (), [''c'' \<mapsto> [1], ''n'' \<mapsto> [3]])"
    using certgen_proto_simps(3)
    by (simp add: cmdSignNode_def sample_node_signed [OF sample_ca_read certgen_proto_simps(2) sample_admin_chain]
        MarshalNodeCert_def WriteFile_def fails_def)
  from signed_certificate_usable [OF _ _ _ _ this] show ?thesis
    by auto
qed

end
