(* ===== verification/StartProps.thy ===== *)
theory StartProps
  imports Interactive Certgen
begin

text \<open>
  What a node trusts when it starts: exactly the certificate authorities of the files it was
  given, or of its own certificate file; and the credentials made by \<^verbatim>\<open>certgen\<close> start a node that
  trusts the authority that issued them.
\<close>

section \<open>Filling a trust store\<close>

text \<open>The CAs \<open>A\<close> and \<open>U\<close> were added and nothing else has changed.\<close>

definition extends ::
  "'pk AdminCAImpl set \<Rightarrow> 'pk UserCAImpl set \<Rightarrow> ('pk, 'h) carrierAuth \<Rightarrow> ('pk, 'h) carrierAuth \<Rightarrow> bool" where
  "extends A U s s' \<longleftrightarrow>
     ran (adminCAs s') = ran (adminCAs s) \<union> A \<and> ran (userCAs s') = ran (userCAs s) \<union> U \<and>
     revokedAdminCAs s' = revokedAdminCAs s \<and> revokedUserCAs s' = revokedUserCAs s \<and>
     revokedNodes s' = revokedNodes s \<and> onRevoke s' = onRevoke s"

lemma extends_refl [simp]: "extends {} {} s s"
  by (simp add: extends_def)

lemma extends_trans: "extends A U s s' \<Longrightarrow> extends B V s' s'' \<Longrightarrow> extends (A \<union> B) (U \<union> V) s s''"
  by (auto simp: extends_def)

lemma AddAdminPubKey_extends:
  assumes "AddAdminPubKey K pb s = Ok s'"
  shows "extends {a. NewAdminCA K pb = Ok a} {} s s'"
  using assms by (auto simp: AddAdminPubKey_def extends_def Let_def ran_map_upd domIff split: if_splits)

lemma AddUserPubKey_extends:
  assumes "AddUserPubKey K pb sig h s = Ok s'"
  shows "extends {} {u. NewUserCA K pb sig h = Ok u} s s'"
  using assms by (auto simp: AddUserPubKey_def extends_def Let_def ran_map_upd domIff split: if_splits)

locale trust_loader =
  fixes add :: "'x \<Rightarrow> ('pk, 'h) carrierAuth \<Rightarrow> ('pk, 'h) carrierAuth result"
    and admins :: "'x \<Rightarrow> 'pk AdminCAImpl set"
    and users :: "'x \<Rightarrow> 'pk UserCAImpl set"
  assumes add_extends: "add x s = Ok s' \<Longrightarrow> extends (admins x) (users x) s s'"
begin

lemma foldM_extends:
  "foldM (\<lambda>s x. add x s) s xs = Ok s' \<Longrightarrow>
     extends (\<Union>x \<in> set xs. admins x) (\<Union>x \<in> set xs. users x) s s'"
proof (induction xs arbitrary: s)
  case Nil
  then show ?case by simp
next
  case (Cons x xs)
  then obtain t where t: "add x s = Ok t" "foldM (\<lambda>s x. add x s) t xs = Ok s'" by auto
  from extends_trans [OF add_extends [OF t(1)] Cons.IH [OF t(2)]] show ?case by simp
qed

end

locale embedded_loader = trust_loader add admins users
  for add :: "EmbeddedCAFile \<Rightarrow> ('pk, 'h) carrierAuth \<Rightarrow> ('pk, 'h) carrierAuth result"
    and admins :: "EmbeddedCAFile \<Rightarrow> 'pk AdminCAImpl set"
    and users :: "EmbeddedCAFile \<Rightarrow> 'pk UserCAImpl set"
begin

lemma trust_loop_foldM:
  "trust_loop ty add as s = (Ok (), s') \<Longrightarrow> foldM (\<lambda>s x. add x s) s (filter (\<lambda>a. em_Type a = ty) as) = Ok s'"
  by (induction ty add as s rule: trust_loop.induct) (auto split: if_splits elim!: on_result_cases)

lemma trust_loop_extends:
  assumes "trust_loop ty add as s = (Ok (), s')"
  shows "extends (\<Union>a \<in> {a \<in> set as. em_Type a = ty}. admins a) (\<Union>a \<in> {a \<in> set as. em_Type a = ty}. users a) s s'"
  using foldM_extends [OF trust_loop_foldM [OF assms]] by simp

end

section \<open>Where the trust comes from\<close>

definition file_admins ::
  "('pk, 'sk) keyslib \<Rightarrow> protolib \<Rightarrow> 'sk filelib \<Rightarrow> filesystem \<Rightarrow> string \<Rightarrow> 'pk AdminCAImpl set" where
  "file_admins K P F fs path =
     {a. \<exists>ac f pb. ReadCAKey P F path fs = Ok (ac, f) \<and> kf_Type f = ''admin-ca'' \<and>
        marshalPubKeyBytes K (kl_GetPublicKey K ac) = Ok pb \<and> NewAdminCA K pb = Ok a}"

definition file_users ::
  "('pk, 'sk) keyslib \<Rightarrow> protolib \<Rightarrow> 'sk filelib \<Rightarrow> filesystem \<Rightarrow> string \<Rightarrow> 'pk UserCAImpl set" where
  "file_users K P F fs path =
     {u. \<exists>ac f pb. ReadCAKey P F path fs = Ok (ac, f) \<and> kf_Type f = ''user-ca'' \<and>
        marshalPubKeyBytes K (kl_GetPublicKey K ac) = Ok pb \<and>
        NewUserCA K pb (kf_AnchorSig f) (kf_AnchorAdmin f) = Ok u}"

definition embedded_admins :: "('pk, 'sk) keyslib \<Rightarrow> EmbeddedCAFile \<Rightarrow> 'pk AdminCAImpl set" where
  "embedded_admins K e = {a. \<exists>pb. embeddedCAPubKeyBytes K e = Ok pb \<and> NewAdminCA K pb = Ok a}"

definition embedded_users :: "('pk, 'sk) keyslib \<Rightarrow> EmbeddedCAFile \<Rightarrow> 'pk UserCAImpl set" where
  "embedded_users K e =
     {u. \<exists>pb. embeddedCAPubKeyBytes K e = Ok pb \<and> NewUserCA K pb (em_AnchorSig e) (em_AnchorAdmin e) = Ok u}"

definition embedded_authorities :: "NodeCertFile \<Rightarrow> EmbeddedCAFile list" where
  "embedded_authorities f =
     (if ncf_Authorities f = []
      then [\<lparr>em_Type = ''admin-ca'', em_PubKEM = ncf_CAPubKEM f, em_PubSign = ncf_CAPubSign f,
             em_AnchorSig = [], em_AnchorAdmin = []\<rparr>]
      else ncf_Authorities f)"

interpretation ca_files:
  trust_loader "\<lambda>path s. addCAFile K P F fs s path" "file_admins K P F fs" "file_users K P F fs"
  for K :: "('pk, 'sk) keyslib" and P F fs
proof
  fix path and s s' :: "('pk, 'h) carrierAuth"
  assume "addCAFile K P F fs s path = Ok s'"
  then obtain ac f pb where r: "ReadCAKey P F path fs = Ok (ac, f)"
      "marshalPubKeyBytes K (kl_GetPublicKey K ac) = Ok pb"
    and c: "kf_Type f = ''admin-ca'' \<and> AddAdminPubKey K pb s = Ok s' \<or>
      kf_Type f = ''user-ca'' \<and> AddUserPubKey K pb (kf_AnchorSig f) (kf_AnchorAdmin f) s = Ok s'"
    by (auto simp: addCAFile_def split: if_splits)
  from c show "extends (file_admins K P F fs path) (file_users K P F fs path) s s'"
    using AddAdminPubKey_extends [of K pb s s'] AddUserPubKey_extends [of K pb _ _ s s'] r
    by (auto simp: file_admins_def file_users_def)
qed

interpretation embedded_admin_loader: embedded_loader
  "\<lambda>a s. obind (embeddedCAPubKeyBytes K a) (\<lambda>b. AddAdminPubKey K b s)" "embedded_admins K" "\<lambda>_. {}"
  for K :: "('pk, 'sk) keyslib"
  by unfold_locales (use AddAdminPubKey_extends in \<open>fastforce simp: embedded_admins_def\<close>)

interpretation embedded_user_loader: embedded_loader
  "\<lambda>a s. obind (embeddedCAPubKeyBytes K a) (\<lambda>b. AddUserPubKey K b (em_AnchorSig a) (em_AnchorAdmin a) s)"
  "\<lambda>_. {}" "embedded_users K"
  for K :: "('pk, 'sk) keyslib"
  by unfold_locales (use AddUserPubKey_extends in \<open>fastforce simp: embedded_users_def\<close>)

lemma AddEmbeddedTrust_extends:
  assumes "AddEmbeddedTrust K f s = (Ok (), s')"
  shows "extends (\<Union>a \<in> {a \<in> set (embedded_authorities f). em_Type a = ''admin-ca''}. embedded_admins K a)
    (\<Union>a \<in> {a \<in> set (embedded_authorities f). em_Type a = ''user-ca''}. embedded_users K a) s s'"
proof -
  let ?as = "embedded_authorities f"
  obtain t where 1: "trust_loop ''admin-ca'' (\<lambda>a s. obind (embeddedCAPubKeyBytes K a)
      (\<lambda>b. AddAdminPubKey K b s)) ?as s = (Ok (), t)"
    and 2: "trust_loop ''user-ca'' (\<lambda>a s. obind (embeddedCAPubKeyBytes K a)
      (\<lambda>b. AddUserPubKey K b (em_AnchorSig a) (em_AnchorAdmin a) s)) ?as t = (Ok (), s')"
    using assms unfolding AddEmbeddedTrust_def Let_def embedded_authorities_def
    by (auto split: prod.splits elim!: on_result_cases)
  show ?thesis
    using extends_trans [OF embedded_admin_loader.trust_loop_extends [OF 1]
        embedded_user_loader.trust_loop_extends [OF 2]] by simp
qed

lemma addCAFile_inv:
  "store_inv K s \<Longrightarrow> addCAFile K P F fs s path = Ok s' \<Longrightarrow> store_inv K s'"
  by (auto simp: addCAFile_def intro: AddAdminPubKey_inv AddUserPubKey_inv split: if_splits)

lemma loadCarrierAuth_inv:
  fixes store :: "('pk, 'h) carrierAuth"
  assumes "loadCarrierAuth K P F conf fs = Ok store"
  shows "store_inv K store"
proof -
  have e: "store_inv K (snd (AddEmbeddedTrust K f (NewCarrierAuth :: ('pk, 'h) carrierAuth)))" for f
    by (rule AddEmbeddedTrust_inv [OF store_inv_init])
  have f: "foldM (addCAFile K P F fs) s paths = Ok s' \<Longrightarrow> store_inv K s \<Longrightarrow> store_inv K s'"
    for s s' :: "('pk, 'h) carrierAuth" and paths
    by (rule foldM_invariant [where P = "store_inv K"]) (auto intro: addCAFile_inv)
  show ?thesis
    using assms e f store_inv_init [where K = K and ?'c = 'h]
    by (auto simp: loadCarrierAuth_def Let_def case_prod_beta split: if_splits)
qed

text \<open>C17: a node starts with a well-formed trust store without revocations that holds exactly the CAs of
  the key files named on the command line, each under the role its file declares, user
  CAs only if an admin CA in the store has signed them; when no file is named, exactly the CAs
  embedded in its own certificate file.\<close>

theorem loaded_trust_exact:
  fixes store :: "('pk, 'h) carrierAuth"
  assumes ok: "loadCarrierAuth K P F conf fs = Ok store"
    and ids: "ids = cf_Identity conf" and paths: "paths = id_AdminCAPaths ids @ id_UserCAPaths ids"
  shows "store_inv K store \<and> revokedAdminCAs store = {} \<and> revokedUserCAs store = {} \<and> revokedNodes store = {} \<and>
    (if paths \<noteq> [] then
       ran (adminCAs store) = (\<Union>path \<in> set paths. file_admins K P F fs path) \<and>
       ran (userCAs store) = (\<Union>path \<in> set paths. file_users K P F fs path)
     else \<exists>ac f. ReadNodeCert P F (id_NodeCertPath ids) fs = Ok (ac, f) \<and>
       ran (adminCAs store) =
         (\<Union>a \<in> {a \<in> set (embedded_authorities f). em_Type a = ''admin-ca''}. embedded_admins K a) \<and>
       ran (userCAs store) =
         (\<Union>a \<in> {a \<in> set (embedded_authorities f). em_Type a = ''user-ca''}. embedded_users K a))"
proof (cases "paths = []")
  case True
  then obtain ac f where r: "ReadNodeCert P F (id_NodeCertPath ids) fs = Ok (ac, f)"
    and e: "AddEmbeddedTrust K f NewCarrierAuth = (Ok (), store)"
    using ok by (auto simp: loadCarrierAuth_def ids [symmetric] paths case_prod_beta prod_eq_iff)
  show ?thesis
    using loadCarrierAuth_inv [OF ok] True r AddEmbeddedTrust_extends [OF e] by (auto simp: extends_def NewCarrierAuth_def)
next
  case False
  then have f: "foldM (addCAFile K P F fs) NewCarrierAuth paths = Ok store"
    using ok by (auto simp: loadCarrierAuth_def ids [symmetric] paths foldM_append)
  have "extends (\<Union>path \<in> set paths. file_admins K P F fs path)
      (\<Union>path \<in> set paths. file_users K P F fs path) NewCarrierAuth store"
    by (rule ca_files.foldM_extends) (rule f)
  with False loadCarrierAuth_inv [OF ok] show ?thesis
    by (auto simp: extends_def NewCarrierAuth_def)
qed

section \<open>From certgen to a running node\<close>

lemma newCABase_marshal:
  assumes "kem_size_fixed K" and "pubkey_parses K" and "marshalPubKeyBytes K pk = Ok bs"
  shows "newCABase K bs = Ok \<lparr>ca_pubKey = pk, ca_pubKeyBytes = bs,
    ca_hash = EncodeToString (Sum256 (drop KEMPublicKeySize bs))\<rparr>"
proof -
  obtain kem sign where ks: "kl_MarshalBinaryKEM K pk = Ok kem" "kl_MarshalBinarySign K pk = Ok sign"
    and bs: "bs = kem @ sign"
    using assms(3) by (auto simp: marshalPubKeyBytes_def)
  have l: "length kem = KEMPublicKeySize" "sign \<noteq> []"
    using assms(1) ks unfolding kem_size_fixed_def by blast+
  have "splitAndParsePubKey K bs = Ok pk"
    unfolding bs by (rule splitAndParsePubKey_marshal [OF assms(2) ks l])
  then show ?thesis
    using ks l assms(3) by (simp add: newCABase_def caHash_def bs)
qed

lemma embeddedCAPubKeyBytes_marshal:
  assumes "pubkey_parses K" and "kl_MarshalBinaryKEM K pk = Ok (em_PubKEM e)"
    and "kl_MarshalBinarySign K pk = Ok (em_PubSign e)"
  shows "embeddedCAPubKeyBytes K e = marshalPubKeyBytes K pk"
proof -
  have "kl_NewPublicKeyFromBinary K (em_PubKEM e) (em_PubSign e) = Ok pk"
    using assms unfolding pubkey_parses_def by blast
  then show ?thesis using assms(2,3) by (simp add: embeddedCAPubKeyBytes_def marshalPubKeyBytes_def)
qed

lemma cmdUserCA_Ok:
  assumes "cmdUserCA K P F E args fs = (Ok (), fs')" and "parseFlag args ''-out'' = Some out"
  obtains adminPath f data where "userCA_file K P F E adminPath fs = Ok f"
    and "MarshalCAKey P f = Ok data" and "fs' = fs(out \<mapsto> data)"
proof -
  obtain adminPath f data where *: "userCA_file K P F E adminPath fs = Ok f" "MarshalCAKey P f = Ok data"
    and w: "(let (written, fs) = WriteFile F out data fs in
      on_result (wrap_err (errorw ''write: %w'') written) fs (\<lambda>e. (Err e, fs)) (\<lambda>_. (Ok (), fs))) = (Ok (), fs')"
    using assms unfolding cmdUserCA_def
    by (auto simp: Let_def split: option.splits elim!: on_result_cases)
  have "fs' = fs(out \<mapsto> data)" using WriteFile_cases [of F out data fs] w by auto
  with * show ?thesis by (rule that)
qed

lemma userCA_file_Ok:
  assumes "userCA_file K P F E adminPath fs = Ok f"
  obtains adminAC adminBytes adminCA userAC userBytes
  where "kf_Type f = ''user-ca''" and "MarshalKeyJSON F userAC = Ok (kf_KeyJSON f)"
    and "marshalPubKeyBytes K (kl_GetPublicKey K adminAC) = Ok adminBytes"
    and "NewAdminCA K adminBytes = Ok adminCA" and "kf_AnchorAdmin f = ca_hash adminCA"
    and "marshalPubKeyBytes K (kl_GetPublicKey K userAC) = Ok userBytes"
    and "kl_Sign K adminAC (DomainSeparate CTXUserCAAnchorV1 userBytes) = Ok (kf_AnchorSig f)"
    and "kl_MarshalBinaryKEM K (kl_GetPublicKey K adminAC) = Ok (kf_AnchorAdminPubKEM f)"
    and "kl_MarshalBinarySign K (kl_GetPublicKey K adminAC) = Ok (kf_AnchorAdminPubSign f)"
  using assms unfolding userCA_file_def Let_def by (clarsimp split: if_splits)

text \<open>The trust chain of a user CA's key file loads into an empty store.\<close>

lemma user_chain_loads:
  assumes lib: "kem_size_fixed K" "pubkey_parses K" "sign_verifies K"
    and f: "kf_Type f = ''user-ca''" "kf_AnchorAdmin f = ca_hash adm"
      "kl_MarshalBinaryKEM K (kl_GetPublicKey K adminAC) = Ok (kf_AnchorAdminPubKEM f)"
      "kl_MarshalBinarySign K (kl_GetPublicKey K adminAC) = Ok (kf_AnchorAdminPubSign f)"
      "kl_Sign K adminAC (DomainSeparate CTXUserCAAnchorV1 userBytes) = Ok (kf_AnchorSig f)"
    and adm: "marshalPubKeyBytes K (kl_GetPublicKey K adminAC) = Ok adminBytes" "NewAdminCA K adminBytes = Ok adm"
    and usr: "marshalPubKeyBytes K (kl_GetPublicKey K userAC) = Ok userBytes"
    and chain: "BuildEmbeddedTrustChain K userAC f = Ok (ncf_Authorities g)"
  shows "\<exists>usr. AddEmbeddedTrust K g NewCarrierAuth =
      (Ok (), NewCarrierAuth\<lparr>adminCAs := [ca_hash adm \<mapsto> adm], userCAs := [ca_hash usr \<mapsto> usr]\<rparr>) \<and>
    ca_pubKey usr = kl_GetPublicKey K userAC \<and> anchorAdminHash usr = ca_hash adm \<and>
    ca_hash usr = EncodeToString (Sum256 (drop KEMPublicKeySize userBytes))"
proof -
  let ?base = "\<lparr>ca_pubKey = kl_GetPublicKey K userAC, ca_pubKeyBytes = userBytes,
    ca_hash = EncodeToString (Sum256 (drop KEMPublicKeySize userBytes))\<rparr>"
  let ?usr = "caBase.extend ?base (UserCAImpl.fields (kf_AnchorSig f) (ca_hash adm))"
  obtain kem sgn where u: "kl_MarshalBinaryKEM K (kl_GetPublicKey K userAC) = Ok kem"
      "kl_MarshalBinarySign K (kl_GetPublicKey K userAC) = Ok sgn"
    and as: "ncf_Authorities g = [\<lparr>em_Type = ''admin-ca'', em_PubKEM = kf_AnchorAdminPubKEM f,
        em_PubSign = kf_AnchorAdminPubSign f, em_AnchorSig = [], em_AnchorAdmin = []\<rparr>,
      \<lparr>em_Type = ''user-ca'', em_PubKEM = kem, em_PubSign = sgn, em_AnchorSig = kf_AnchorSig f,
        em_AnchorAdmin = ca_hash adm\<rparr>]"
    using chain f(1,2) by (auto simp: BuildEmbeddedTrustChain_def Let_def split: if_splits)
  have e: "embeddedCAPubKeyBytes K \<lparr>em_Type = ''admin-ca'', em_PubKEM = kf_AnchorAdminPubKEM f,
        em_PubSign = kf_AnchorAdminPubSign f, em_AnchorSig = [], em_AnchorAdmin = []\<rparr> = Ok adminBytes"
      "embeddedCAPubKeyBytes K \<lparr>em_Type = ''user-ca'', em_PubKEM = kem, em_PubSign = sgn,
        em_AnchorSig = kf_AnchorSig f, em_AnchorAdmin = ca_hash adm\<rparr> = Ok userBytes"
    using embeddedCAPubKeyBytes_marshal [OF lib(2)] f(3,4) u adm(1) usr by simp_all
  have "ca_pubKey adm = kl_GetPublicKey K adminAC"
    using issuer_hash [OF lib(1,2) adm] by blast
  then have v: "ca_Verify K adm (DomainSeparate CTXUserCAAnchorV1 userBytes) (kf_AnchorSig f)"
    using lib(3) f(5) unfolding ca_Verify_def sign_verifies_def by simp
  have n: "NewUserCA K userBytes (kf_AnchorSig f) (ca_hash adm) = Ok ?usr"
    using newCABase_marshal [OF lib(1,2) usr] by (simp add: NewUserCA_def)
  have "AddEmbeddedTrust K g NewCarrierAuth =
      (Ok (), NewCarrierAuth\<lparr>adminCAs := [ca_hash adm \<mapsto> adm], userCAs := [ca_hash ?usr \<mapsto> ?usr]\<rparr>)"
    using v by (simp add: AddEmbeddedTrust_def as e AddAdminPubKey_def adm(2) AddUserPubKey_def n
        verifyAnchor_def NewCarrierAuth_def Let_def ensure_def)
  then show ?thesis by (intro exI [of _ ?usr]) simp
qed


section \<open>The started node\<close>

lemma hello_registered:
  assumes "RegisterTypedHandler KUserMessage type_name MessageTypeUserMessage [ScopeUser] fn (Some \<lparr>handlers = Map.empty\<rparr>) = Ok cc"
  shows "dom (handlers cc) = {MessageTypeUserMessage}"
  using assms by (auto simp: RegisterTypedHandler_def RegisterHandler_def split: if_splits)

lemma carrier_New_fields:
  assumes "carrier_New newTransport conf = Ok c"
  shows "cr_connections c = Map.empty" "cr_peerScopes c = Map.empty" "cfg_Auth (cr_config c) = cfg_Auth conf"
proof -
  have "cfg_Auth (config_defaults conf) = cfg_Auth conf" by (simp add: config_defaults_def Let_def)
  with assms show "cr_connections c = Map.empty" "cr_peerScopes c = Map.empty"
      "cfg_Auth (cr_config c) = cfg_Auth conf"
    by (auto simp: carrier_New_def Let_def split: if_splits)
qed

lemma start_carrier_Ok:
  assumes "start_carrier type_name newTransport conf ident store = Ok c"
  shows "cfg_Auth (cr_config c) = Some store \<and> cr_connections c = Map.empty \<and> cr_peerScopes c = Map.empty \<and>
    (\<exists>cc. cr_controller c = Some cc \<and> dom (handlers cc) = {MessageTypeUserMessage})"
proof -
  obtain cert rest where "ni_certs ident = cert # rest"
    using assms by (cases "ni_certs ident") (simp_all add: start_carrier_def)
  then obtain tr cc where tr: "carrier_New newTransport (node_carrier_config conf cert ident store) = Ok tr"
    and cc: "RegisterTypedHandler KUserMessage type_name MessageTypeUserMessage [ScopeUser] helloHandler
      (Some \<lparr>handlers = Map.empty\<rparr>) = Ok cc" and c: "c = SetController (Some cc) tr"
    using assms by (auto simp: start_carrier_def NewClusterController_def Let_def SetController_def)
  show ?thesis
    using carrier_New_fields [OF tr] hello_registered [OF cc]
    by (simp add: c SetController_def node_carrier_config_def)
qed

text \<open>A started node has no peers, verifies them against the store that was loaded, and handles
  user messages only.\<close>

lemma start_node_Ok:
  assumes "start_node K P F X C type_name now newTransport flags fs = (Ok (c, ident, db), fs')"
  shows "\<exists>conf store. loadCarrierAuth K P F conf fs' = Ok store \<and> cfg_Auth (cr_config c) = Some store \<and>
    store_inv K store \<and> cr_connections c = Map.empty \<and> cr_peerScopes c = Map.empty \<and>
    (\<exists>cc. cr_controller c = Some cc \<and> dom (handlers cc) = {MessageTypeUserMessage})"
proof -
  obtain conf store where l: "loadCarrierAuth K P F conf fs' = Ok store"
    and c: "start_carrier type_name newTransport conf ident store = Ok c"
    using assms unfolding start_node_def Let_def
    by (auto simp: case_prod_beta prod_eq_iff split: if_splits)
  show ?thesis
    using l start_carrier_Ok [OF c] loadCarrierAuth_inv [OF l] by blast
qed

section \<open>Witnesses\<close>

text \<open>The admin key file of the certificate tool's samples is the only trusted file.\<close>

definition sample_start_config :: "string list \<Rightarrow> Config" where
  "sample_start_config adminPaths =
     sample_db_config\<lparr>cf_Identity := \<lparr>id_NodeCertPath = ''n'', id_AdminCAPaths = adminPaths, id_UserCAPaths = []\<rparr>\<rparr>"

definition byte_ca :: "byte \<Rightarrow> byte AdminCAImpl" where
  "byte_ca k = \<lparr>ca_pubKey = k, ca_pubKeyBytes = replicate KEMPublicKeySize k @ [k],
     ca_hash = EncodeToString (Sum256 [k])\<rparr>"

lemma byte_ca_new: "NewAdminCA byte_keys (replicate KEMPublicKeySize k @ [k]) = Ok (byte_ca k)"
  by (simp add: NewAdminCA_def newCABase_def splitAndParsePubKey_def caHash_def byte_ca_def)

lemma sample_store_loads:
  "loadCarrierAuth byte_keys certgen_proto byte_files (sample_start_config [''c'']) [''c'' \<mapsto> [1]] =
     Ok (NewCarrierAuth\<lparr>adminCAs := [ca_hash (byte_ca 7) \<mapsto> byte_ca 7]\<rparr>)"
  by (simp add: loadCarrierAuth_def sample_start_config_def addCAFile_def sample_ca_read AddAdminPubKey_def
      byte_ca_new) (simp add: sample_ca_key_def NewCarrierAuth_def)

theorem loaded_trust_exact_witness:
  "byte_ca 7 \<in> file_admins byte_keys certgen_proto byte_files [''c'' \<mapsto> [1]] ''c''"
proof -
  have "ran (adminCAs (NewCarrierAuth\<lparr>adminCAs := [ca_hash (byte_ca 7) \<mapsto> byte_ca 7]\<rparr>)) = {byte_ca 7}"
    by simp
  with loaded_trust_exact [OF sample_store_loads refl refl] show ?thesis
    by (auto simp: sample_start_config_def)
qed

text \<open>The admin key \<open>7\<close> anchors the user CA \<open>6\<close>, which signs the node \<open>5\<close>.\<close>

definition user_ca_file :: CAKeyFile where
  "user_ca_file =
     \<lparr>kf_Type = ''user-ca'', kf_KeyJSON = [6],
      kf_AnchorSig = 7 # DomainSeparate CTXUserCAAnchorV1 (replicate KEMPublicKeySize 6 @ [6]),
      kf_AnchorAdmin = EncodeToString (Sum256 [7]), kf_AnchorAdminPubKEM = replicate KEMPublicKeySize 7,
      kf_AnchorAdminPubSign = [7]\<rparr>"

definition user_authorities :: "EmbeddedCAFile list" where
  "user_authorities = sample_authorities @
     [\<lparr>em_Type = ''user-ca'', em_PubKEM = replicate KEMPublicKeySize 6, em_PubSign = [6],
       em_AnchorSig = kf_AnchorSig user_ca_file, em_AnchorAdmin = EncodeToString (Sum256 [7])\<rparr>]"

definition user_proto :: protolib where
  "user_proto = table_proto
     [(PCAKeyFile (CAKey_to_pb sample_ca_key), [1]), (sample_canonical 6, [2]),
      (PNodeCertFile (NodeCert_to_pb (sample_node_file 6 user_authorities)), [3]), (PCAKeyFile (CAKey_to_pb user_ca_file), [4])]"

lemma user_proto_decodes: "proto_decodes user_proto"
  unfolding user_proto_def by (rule table_proto_decodes) simp

lemma ca_files_differ: "CAKey_to_pb sample_ca_key \<noteq> CAKey_to_pb user_ca_file"
  by (simp add: CAKey_to_pb_def sample_ca_key_def user_ca_file_def)

lemma user_proto_simps:
  "pl_Unmarshal user_proto KCAKeyFile [1] = Ok (PCAKeyFile (CAKey_to_pb sample_ca_key))"
  "pl_Unmarshal user_proto KCAKeyFile [4] = Ok (PCAKeyFile (CAKey_to_pb user_ca_file))"
  "pl_MarshalDet user_proto (sample_canonical 6) = Ok [2]"
  "pl_Marshal user_proto (PNodeCertFile (NodeCert_to_pb (sample_node_file 6 user_authorities))) = Ok [3]"
  "pl_Marshal user_proto (PCAKeyFile (CAKey_to_pb user_ca_file)) = Ok [4]"
  using ca_files_differ by (simp_all add: user_proto_def table_proto_def Let_def sample_canonical_def)

lemma pb_CAKey [simp]: "pb_to_CAKey (CAKey_to_pb f) = f"
  by (simp add: pb_to_CAKey_def CAKey_to_pb_def)

lemma user_ca_reads:
  "ReadCAKey user_proto byte_files ''c'' [''c'' \<mapsto> [1]] = Ok (7, sample_ca_key)"
  "ReadCAKey user_proto byte_files ''u'' [''c'' \<mapsto> [1], ''u'' \<mapsto> [4]] = Ok (6, user_ca_file)"
  by (simp_all add: ReadCAKey_def os_ReadFile_def UnmarshalCAKey_def user_proto_simps LoadKeyFromJSON_def
      fails_def) (simp_all add: sample_ca_key_def user_ca_file_def byte_files_def fails_def)

lemma user_ca_written:
  "cmdUserCA byte_keys user_proto byte_files (sample_certgen\<lparr>ce_NewAsyncCrypt := Ok 6\<rparr>)
     [''-admin-key'', ''c'', ''-out'', ''u''] [''c'' \<mapsto> [1]] = (Ok (), [''c'' \<mapsto> [1], ''u'' \<mapsto> [4]])"
proof -
  have j: "MarshalKeyJSON byte_files sk = Ok [sk]" for sk
    by (simp add: MarshalKeyJSON_def byte_files_def fails_def)
  have t: "kf_Type sample_ca_key = ''admin-ca''" by (simp add: sample_ca_key_def)
  have "userCA_file byte_keys user_proto byte_files (sample_certgen\<lparr>ce_NewAsyncCrypt := Ok 6\<rparr>) ''c''
      [''c'' \<mapsto> [1]] = Ok user_ca_file"
    unfolding userCA_file_def
    by (simp add: user_ca_reads t byte_ca_new j) (simp add: user_ca_file_def byte_ca_def)
  then show ?thesis
    by (simp add: cmdUserCA_def MarshalCAKey_def user_proto_simps WriteFile_def)
qed

lemma user_node_written:
  "cmdSignNode byte_keys user_proto byte_files sample_certgen [''-ca-key'', ''u'', ''-out'', ''n'']
     [''c'' \<mapsto> [1], ''u'' \<mapsto> [4]] = (Ok (), [''c'' \<mapsto> [1], ''u'' \<mapsto> [4], ''n'' \<mapsto> [3]])"
proof -
  have "BuildEmbeddedTrustChain byte_keys 6 user_ca_file = Ok user_authorities"
    by (simp add: BuildEmbeddedTrustChain_def user_ca_file_def user_authorities_def sample_authorities_def
        KEMPublicKeySize_def)
  from sample_node_signed [OF user_ca_reads(2) user_proto_simps(3) this] show ?thesis
    by (simp add: cmdSignNode_def MarshalNodeCert_def user_proto_simps WriteFile_def)
qed


end
