(* ===== verification/ClusterLog.thy ===== *)
theory ClusterLog
  imports Broadcast "HOL-Library.AList"
begin

text \<open>
  \<^verbatim>\<open>internal/logging/clusterlog\<close> and \<^verbatim>\<open>internal/logging/logtypes\<close>: the in-memory log of a node, its
  retention, its queries, and the pushing of entries to subscribed nodes.  A log entry refers to
  the map of fields its caller passed, so the maps live in a heap.  The lines given to the
  \<^verbatim>\<open>slog\<close> logger and the messages given to the carrier are recorded in the order of the calls.
\<close>

section \<open>Levels and entries\<close>

type_synonym LogLevel = int

definition LogLevelDebug :: LogLevel where "LogLevelDebug = 0"
definition LogLevelInfo :: LogLevel where "LogLevelInfo = 1"
definition LogLevelWarn :: LogLevel where "LogLevelWarn = 2"
definition LogLevelError :: LogLevel where "LogLevelError = 3"

lemmas LogLevel_defs = LogLevelDebug_def LogLevelInfo_def LogLevelWarn_def LogLevelError_def

definition ttlByLevel :: "LogLevel \<rightharpoonup> duration" where
  "ttlByLevel = [LogLevelDebug \<mapsto> 24 * time_Hour, LogLevelInfo \<mapsto> 3 * 24 * time_Hour,
     LogLevelWarn \<mapsto> 3 * 24 * time_Hour, LogLevelError \<mapsto> 5 * 24 * time_Hour]"

definition LogLevel_String :: "LogLevel \<Rightarrow> string" where
  "LogLevel_String l =
     (if l = LogLevelDebug then ''DEBUG'' else if l = LogLevelInfo then ''INFO''
      else if l = LogLevelWarn then ''WARN'' else if l = LogLevelError then ''ERROR''
      else ''UNKNOWN'')"

text \<open>The levels of \<^verbatim>\<open>log/slog\<close>.\<close>

definition slog_LevelDebug :: int where "slog_LevelDebug = -4"
definition slog_LevelInfo :: int where "slog_LevelInfo = 0"
definition slog_LevelWarn :: int where "slog_LevelWarn = 4"
definition slog_LevelError :: int where "slog_LevelError = 8"

definition ToSlogLevel :: "LogLevel \<Rightarrow> int" where
  "ToSlogLevel l =
     (if l = LogLevelDebug then slog_LevelDebug else if l = LogLevelInfo then slog_LevelInfo
      else if l = LogLevelWarn then slog_LevelWarn else if l = LogLevelError then slog_LevelError
      else slog_LevelInfo)"

text \<open>A map of fields is an address of the heap; \<^const>\<open>None\<close> is the nil map.\<close>

type_synonym fieldmap = "(string \<times> string) list"
type_synonym fieldref = "nat option"
type_synonym fieldheap = "fieldmap list"

record LogEntry =
  le_Timestamp :: gotime
  le_NodeID :: nodeid
  le_Level :: LogLevel
  le_Message :: string
  le_Fields :: fieldref

definition IsExpired :: "gotime \<Rightarrow> LogEntry \<Rightarrow> bool" where
  "IsExpired now e =
     (let ttl = (case ttlByLevel (le_Level e) of
                   Some ttl \<Rightarrow> ttl
                 | None \<Rightarrow> map_get ttlByLevel LogLevelInfo)
      in time_After now (time_Add (le_Timestamp e) ttl))"

definition deref :: "fieldheap \<Rightarrow> fieldref \<Rightarrow> fieldmap" where
  "deref h r = (case r of None \<Rightarrow> [] | Some a \<Rightarrow> if a < length h then h ! a else [])"

text \<open>An entry together with its fields, as \<^verbatim>\<open>json.Marshal\<close> sees it.\<close>

definition with_fields :: "fieldheap \<Rightarrow> LogEntry \<Rightarrow> LogEntry \<times> fieldmap" where
  "with_fields h e = (e, deref h (le_Fields e))"

section \<open>State\<close>

text \<open>\<open>cl_stopCh\<close>: the channel is closed.\<close>

record ClusterLog =
  cl_selfID :: nodeid
  cl_entries :: "LogEntry list"
  cl_subscribers :: "nodeid \<rightharpoonup> nodeid set"
  cl_stopCh :: bool

datatype slog_value = SStr string | SFields fieldmap | SErr goerror | SInt nat

type_synonym slog_line = "int \<times> string \<times> (string \<times> slog_value) list"

record log_world =
  lw_log :: ClusterLog
  lw_heap :: fieldheap
  lw_out :: "slog_line list"
  lw_sent :: "(nodeid \<times> Message) list"

text \<open>
  What the log calls: the text of a node ID, the JSON encoding of entries (that of a node ID is
  the key library's), and the carrier's \<open>SendMessageToNode\<close>.
\<close>

record log_env =
  ev_String :: "nodeid \<Rightarrow> string"
  ev_Marshal :: "(LogEntry \<times> fieldmap) list \<Rightarrow> bytes result"
  ev_Send :: "nodeid \<Rightarrow> Message \<Rightarrow> unit result"

definition cleanupInterval :: duration where
  "cleanupInterval = 1 * time_Hour"

definition log_New :: "nodeid \<Rightarrow> ClusterLog" where
  "log_New selfID =
     \<lparr>cl_selfID = selfID, cl_entries = [], cl_subscribers = Map.empty, cl_stopCh = False\<rparr>"

text \<open>Closing a closed channel panics.\<close>

definition Stop :: "ClusterLog \<Rightarrow> ClusterLog result" where
  "Stop cl = (if cl_stopCh cl then Panic else Ok (cl\<lparr>cl_stopCh := True\<rparr>))"

definition slog_Log :: "int \<Rightarrow> string \<Rightarrow> (string \<times> slog_value) list \<Rightarrow> log_world \<Rightarrow> log_world" where
  "slog_Log level msg attrs w = w\<lparr>lw_out := lw_out w @ [(level, msg, attrs)]\<rparr>"

section \<open>Subscriptions\<close>

definition add_subscriber ::
  "nodeid \<Rightarrow> nodeid \<Rightarrow> (nodeid \<rightharpoonup> nodeid set) \<Rightarrow> (nodeid \<rightharpoonup> nodeid set)" where
  "add_subscriber source subscriber subs =
     (let subs = (if subs source = None then subs(source \<mapsto> {}) else subs) in
      subs(source \<mapsto> insert subscriber (the (subs source))))"

definition drop_subscriber ::
  "nodeid \<Rightarrow> nodeid \<Rightarrow> (nodeid \<rightharpoonup> nodeid set) \<Rightarrow> (nodeid \<rightharpoonup> nodeid set)" where
  "drop_subscriber source subscriber subs =
     (case subs source of
        None \<Rightarrow> subs
      | Some s \<Rightarrow>
         (let s = s - {subscriber} in if s = {} then subs(source := None) else subs(source \<mapsto> s)))"

definition SubscribeLog :: "nodeid \<Rightarrow> nodeid \<Rightarrow> ClusterLog \<Rightarrow> ClusterLog" where
  "SubscribeLog source subscriber cl =
     cl\<lparr>cl_subscribers := add_subscriber source subscriber (cl_subscribers cl)\<rparr>"

text \<open>\<open>nodes\<close> is what the carrier's \<open>GetNodes\<close> returned.\<close>

definition SubscribeLogAll :: "PeerNode list \<Rightarrow> nodeid \<Rightarrow> ClusterLog \<Rightarrow> ClusterLog" where
  "SubscribeLogAll nodes subscriber cl =
     cl\<lparr>cl_subscribers :=
          fold (\<lambda>n. add_subscriber (pn_NodeID n) subscriber) nodes (cl_subscribers cl)\<rparr>"

definition UnsubscribeLog :: "nodeid \<Rightarrow> nodeid \<Rightarrow> ClusterLog \<Rightarrow> ClusterLog" where
  "UnsubscribeLog source subscriber cl =
     cl\<lparr>cl_subscribers := drop_subscriber source subscriber (cl_subscribers cl)\<rparr>"

text \<open>\<open>ks\<close> is the order in which the loop meets the sources.\<close>

definition UnsubscribeLogAll :: "nodeid list \<Rightarrow> nodeid \<Rightarrow> ClusterLog \<Rightarrow> ClusterLog" where
  "UnsubscribeLogAll ks subscriber cl =
     cl\<lparr>cl_subscribers :=
          fold (\<lambda>source. drop_subscriber source subscriber) ks (cl_subscribers cl)\<rparr>"

definition getSubscribers :: "nodeid list \<Rightarrow> nodeid \<Rightarrow> ClusterLog \<Rightarrow> nodeid list" where
  "getSubscribers ks source cl =
     (case cl_subscribers cl source of
        None \<Rightarrow> []
      | Some s \<Rightarrow> if s = {} then [] else filter (\<lambda>k. k \<in> s) ks)"

section \<open>Pushing\<close>

fun push_each :: "log_env \<Rightarrow> Message \<Rightarrow> nodeid list \<Rightarrow> log_world \<Rightarrow> unit result \<times> log_world" where
  "push_each E msg [] w = (Ok (), w)"
| "push_each E msg (target # targets) w =
     (if target = cl_selfID (lw_log w) then push_each E msg targets w
      else
      let w = w\<lparr>lw_sent := lw_sent w @ [(target, msg)]\<rparr> in
      on_result (ev_Send E target msg) w
        (\<lambda>e. push_each E msg targets
           (slog_Log slog_LevelWarn ''log push failed''
              [(''targetNodeID'', SStr (ev_String E target))] w))
        (\<lambda>_. push_each E msg targets w))"

definition push :: "log_env \<Rightarrow> nodeid list \<Rightarrow> LogEntry list \<Rightarrow> log_world \<Rightarrow> unit result \<times> log_world" where
  "push E targets entries w =
     (if targets = [] \<or> entries = [] then (Ok (), w)
      else
      on_result (ev_Marshal E (map (with_fields (lw_heap w)) entries)) w
        (\<lambda>e. (Ok (), slog_Log slog_LevelError ''failed to marshal log push''
                [(''entries'', SInt (length entries))] w))
        (\<lambda>payload. push_each E \<lparr>msg_Type = MessageTypeLogPush, msg_Payload = payload\<rparr> targets w))"

text \<open>\<open>record\<close>; \<open>ks\<close> is the order in which the subscribers are met.\<close>

definition log_record :: "log_env \<Rightarrow> nodeid list \<Rightarrow> LogEntry \<Rightarrow> log_world \<Rightarrow> unit result \<times> log_world" where
  "log_record E ks entry w =
     (let cl = (lw_log w)\<lparr>cl_entries := cl_entries (lw_log w) @ [entry]\<rparr>;
          subs = getSubscribers ks (cl_selfID cl) cl
      in push E subs [entry] (w\<lparr>lw_log := cl\<rparr>))"

section \<open>Logging\<close>

definition baseAttrs :: "log_env \<Rightarrow> LogLevel \<Rightarrow> fieldref \<Rightarrow> log_world \<Rightarrow> (string \<times> slog_value) list" where
  "baseAttrs E level fs w =
     (let attrs = [(''nodeID'', SStr (ev_String E (cl_selfID (lw_log w)))),
                   (''level'', SStr (LogLevel_String level))];
          m = deref (lw_heap w) fs
      in if length m > 0 then attrs @ [(''fields'', SFields m)] else attrs)"

definition Log ::
  "log_env \<Rightarrow> nodeid list \<Rightarrow> gotime \<Rightarrow> LogLevel \<Rightarrow> string \<Rightarrow> fieldref \<Rightarrow> log_world
     \<Rightarrow> unit result \<times> log_world" where
  "Log E ks now level msg fs w =
     (let entry = \<lparr>le_Timestamp = now, le_NodeID = cl_selfID (lw_log w), le_Level = level,
                   le_Message = msg, le_Fields = fs\<rparr>
      in log_record E ks entry
           (slog_Log (ToSlogLevel level) ''log entry''
              (baseAttrs E level fs w @ [(''message'', SStr msg)]) w))"

definition Info ::
  "log_env \<Rightarrow> nodeid list \<Rightarrow> gotime \<Rightarrow> string \<Rightarrow> fieldref \<Rightarrow> log_world \<Rightarrow> unit result \<times> log_world" where
  "Info E ks now msg fs w =
     (let entry = \<lparr>le_Timestamp = now, le_NodeID = cl_selfID (lw_log w), le_Level = LogLevelInfo,
                   le_Message = msg, le_Fields = fs\<rparr>
      in log_record E ks entry
           (slog_Log slog_LevelInfo ''log entry''
              (baseAttrs E LogLevelInfo fs w @ [(''message'', SStr msg)]) w))"

definition Warn ::
  "log_env \<Rightarrow> nodeid list \<Rightarrow> gotime \<Rightarrow> string \<Rightarrow> fieldref \<Rightarrow> log_world \<Rightarrow> unit result \<times> log_world" where
  "Warn E ks now msg fs w =
     (let entry = \<lparr>le_Timestamp = now, le_NodeID = cl_selfID (lw_log w), le_Level = LogLevelWarn,
                   le_Message = msg, le_Fields = fs\<rparr>
      in log_record E ks entry
           (slog_Log slog_LevelWarn ''log entry''
              (baseAttrs E LogLevelWarn fs w @ [(''message'', SStr msg)]) w))"

definition Debug ::
  "log_env \<Rightarrow> nodeid list \<Rightarrow> gotime \<Rightarrow> string \<Rightarrow> fieldref \<Rightarrow> log_world \<Rightarrow> unit result \<times> log_world" where
  "Debug E ks now msg fs w =
     (let entry = \<lparr>le_Timestamp = now, le_NodeID = cl_selfID (lw_log w), le_Level = LogLevelDebug,
                   le_Message = msg, le_Fields = fs\<rparr>
      in log_record E ks entry
           (slog_Log slog_LevelDebug ''log entry''
              (baseAttrs E LogLevelDebug fs w @ [(''message'', SStr msg)]) w))"

text \<open>The map an error is written to: the caller's when there is one, a new one otherwise.\<close>

definition error_field :: "string \<Rightarrow> fieldref \<Rightarrow> fieldheap \<Rightarrow> fieldref \<times> fieldheap" where
  "error_field text f h =
     (let (a, h) = (case f of None \<Rightarrow> (length h, h @ [[]]) | Some a \<Rightarrow> (a, h)) in
      (Some a, h[a := AList.update ''error'' text (deref h (Some a))]))"

text \<open>\<open>fss\<close> are the optional arguments; \<open>err\<close> is \<^const>\<open>None\<close> for a nil error.\<close>

definition log_Err ::
  "log_env \<Rightarrow> nodeid list \<Rightarrow> gotime \<Rightarrow> string \<Rightarrow> goerror option \<Rightarrow> fieldref list \<Rightarrow> log_world
     \<Rightarrow> unit result \<times> log_world" where
  "log_Err E ks now msg err fss w =
     (let f = (case fss of (Some a) # _ \<Rightarrow> Some a | _ \<Rightarrow> None);
          (f, h) = (case err of None \<Rightarrow> (f, lw_heap w)
                              | Some e \<Rightarrow> error_field (error_text e) f (lw_heap w));
          w = w\<lparr>lw_heap := h\<rparr>;
          entry = \<lparr>le_Timestamp = now, le_NodeID = cl_selfID (lw_log w), le_Level = LogLevelError,
                   le_Message = msg, le_Fields = f\<rparr>;
          attrs = baseAttrs E LogLevelError f w;
          attrs = (case err of None \<Rightarrow> attrs | Some e \<Rightarrow> attrs @ [(''error'', SErr e)])
      in log_record E ks entry
           (slog_Log slog_LevelError ''log entry'' (attrs @ [(''message'', SStr msg)]) w))"

section \<open>Retention\<close>

fun keep_entries :: "gotime \<Rightarrow> LogEntry list \<Rightarrow> LogEntry list \<Rightarrow> LogEntry list" where
  "keep_entries now kept [] = kept"
| "keep_entries now kept (e # es) =
     keep_entries now (if \<not> IsExpired now e then kept @ [e] else kept) es"

definition cleanup :: "gotime \<Rightarrow> ClusterLog \<Rightarrow> ClusterLog" where
  "cleanup now cl = cl\<lparr>cl_entries := keep_entries now [] (cl_entries cl)\<rparr>"

text \<open>What the loop's \<open>select\<close> received: the stop signal, or a tick and the time of its cleanup.\<close>

datatype wakeup = StopSignal | Tick gotime

fun cleanupLoop :: "wakeup list \<Rightarrow> ClusterLog \<Rightarrow> ClusterLog" where
  "cleanupLoop [] cl = cl"
| "cleanupLoop (StopSignal # _) cl = cl"
| "cleanupLoop (Tick now # ws) cl = cleanupLoop ws (cleanup now cl)"

section \<open>Queries\<close>

definition Tail :: "int \<Rightarrow> ClusterLog \<Rightarrow> LogEntry list" where
  "Tail limit cl =
     (let n = int (length (cl_entries cl));
          limit = (if limit \<le> 0 \<or> limit > n then n else limit)
      in drop (nat (n - limit)) (cl_entries cl))"

definition Query :: "nodeid \<Rightarrow> gotime \<Rightarrow> ClusterLog \<Rightarrow> LogEntry list" where
  "Query nid since cl =
     filter (\<lambda>e. le_NodeID e = nid \<and> \<not> time_Before (le_Timestamp e) since) (cl_entries cl)"

definition QueryAll :: "gotime \<Rightarrow> ClusterLog \<Rightarrow> LogEntry list" where
  "QueryAll since cl = filter (\<lambda>e. \<not> time_Before (le_Timestamp e) since) (cl_entries cl)"

definition QueryByLevel :: "LogLevel \<Rightarrow> gotime \<Rightarrow> ClusterLog \<Rightarrow> LogEntry list" where
  "QueryByLevel level since cl =
     filter (\<lambda>e. le_Level e = level \<and> \<not> time_Before (le_Timestamp e) since) (cl_entries cl)"

definition SendLog ::
  "log_env \<Rightarrow> nodeid \<Rightarrow> nodeid \<Rightarrow> gotime \<Rightarrow> log_world \<Rightarrow> unit result \<times> log_world" where
  "SendLog E target source since w =
     (let entries = Query source since (lw_log w) in
      if entries = [] then (Ok (), w)
      else
      on_result (ev_Marshal E (map (with_fields (lw_heap w)) entries)) w
        (\<lambda>e. (Err e, slog_Log slog_LevelError ''failed to marshal log entries''
                [(''targetNodeID'', SStr (ev_String E target)),
                 (''sourceNodeID'', SStr (ev_String E source))] w))
        (\<lambda>payload.
           let msg = \<lparr>msg_Type = MessageTypeLogSendResponse, msg_Payload = payload\<rparr> in
           (ev_Send E target msg, w\<lparr>lw_sent := lw_sent w @ [(target, msg)]\<rparr>)))"

end
