(* ===== verification/LogProps.thy ===== *)
theory LogProps
  imports ClusterLog
begin

text \<open>
  What the cluster log guarantees: its subscriptions behave as a relation between sources and
  subscribers, an entry reaches exactly the subscribers of the node, and entries are kept for
  exactly the time their level grants.
\<close>

section \<open>Subscriptions as a relation\<close>

locale relation_store =
  fixes empty :: 's
    and add :: "'a \<Rightarrow> 'b \<Rightarrow> 's \<Rightarrow> 's"
    and remove :: "'a \<Rightarrow> 'b \<Rightarrow> 's \<Rightarrow> 's"
    and rel :: "'s \<Rightarrow> ('a \<times> 'b) set"
    and invar :: "'s \<Rightarrow> bool"
  assumes rel_empty: "rel empty = {}"
    and rel_add: "invar s \<Longrightarrow> rel (add a b s) = insert (a, b) (rel s)"
    and rel_remove: "invar s \<Longrightarrow> rel (remove a b s) = rel s - {(a, b)}"
    and invar_empty: "invar empty"
    and invar_add: "invar s \<Longrightarrow> invar (add a b s)"
    and invar_remove: "invar s \<Longrightarrow> invar (remove a b s)"
begin

lemma add_all:
  "invar s \<Longrightarrow> invar (fold (\<lambda>x. add (f x) b) xs s) \<and>
     rel (fold (\<lambda>x. add (f x) b) xs s) = rel s \<union> f ` set xs \<times> {b}"
  by (induction xs arbitrary: s) (auto simp: rel_add invar_add)

lemma remove_all:
  "invar s \<Longrightarrow> invar (fold (\<lambda>a. remove a b) as s) \<and>
     rel (fold (\<lambda>a. remove a b) as s) = rel s - set as \<times> {b}"
  by (induction as arbitrary: s) (auto simp: rel_remove invar_remove)

lemma remove_everywhere:
  assumes "invar s" and "Domain (rel s) \<subseteq> set as"
  shows "rel (fold (\<lambda>a. remove a b) as s) = {(a, c) \<in> rel s. c \<noteq> b}"
  using remove_all [OF assms(1)] assms(2) by auto

end

definition subscriptions :: "(nodeid \<rightharpoonup> nodeid set) \<Rightarrow> (nodeid \<times> nodeid) set" where
  "subscriptions subs = {(source, subscriber). \<exists>s. subs source = Some s \<and> subscriber \<in> s}"

text \<open>No source is kept without subscribers.\<close>

definition no_idle_source :: "(nodeid \<rightharpoonup> nodeid set) \<Rightarrow> bool" where
  "no_idle_source subs \<longleftrightarrow> {} \<notin> ran subs"

lemma no_idle_sourceD: "no_idle_source subs \<Longrightarrow> subs a = Some s \<Longrightarrow> s \<noteq> {}"
  by (auto simp: no_idle_source_def ran_def)

interpretation log_subs:
  relation_store Map.empty add_subscriber drop_subscriber subscriptions no_idle_source
proof
  show "no_idle_source s \<Longrightarrow> subscriptions (add_subscriber a b s) = insert (a, b) (subscriptions s)" for a b s
    by (auto simp: subscriptions_def add_subscriber_def Let_def split: if_splits)
  show "no_idle_source s \<Longrightarrow> subscriptions (drop_subscriber a b s) = subscriptions s - {(a, b)}" for a b s
    by (auto simp: subscriptions_def drop_subscriber_def Let_def split: option.splits if_splits)
  show "no_idle_source s \<Longrightarrow> no_idle_source (add_subscriber a b s)" for a b s
    by (auto simp: no_idle_source_def add_subscriber_def Let_def ran_def)
  show "no_idle_source s \<Longrightarrow> no_idle_source (drop_subscriber a b s)" for a b s
    by (auto simp: no_idle_source_def drop_subscriber_def Let_def ran_def split: option.splits)
qed (simp_all add: subscriptions_def no_idle_source_def)

lemma subscriptions_Image:
  "subscriptions subs `` {source} = (case subs source of None \<Rightarrow> {} | Some s \<Rightarrow> s)"
  by (auto simp: subscriptions_def split: option.splits)

lemma Domain_subscriptions:
  assumes "no_idle_source subs"
  shows "Domain (subscriptions subs) = dom subs"
proof -
  have "a \<in> Domain (subscriptions subs) \<longleftrightarrow> subscriptions subs `` {a} \<noteq> {}" for a by auto
  then show ?thesis
    using no_idle_sourceD [OF assms] by (force simp: subscriptions_Image split: option.splits)
qed

lemma getSubscribers_all:
  assumes "set ks = subscriptions (cl_subscribers cl) `` {source}"
  shows "getSubscribers ks source cl = ks"
  using assms unfolding subscriptions_Image getSubscribers_def
  by (cases "cl_subscribers cl source") auto

section \<open>Runs of the log\<close>

text \<open>The effect of an operation on the abstract relation.\<close>

datatype log_event =
    Subscribed "nodeid set" nodeid
  | Unsubscribed nodeid nodeid
  | UnsubscribedAll nodeid
  | Unrelated

fun spec_event :: "log_event \<Rightarrow> (nodeid \<times> nodeid) set \<Rightarrow> (nodeid \<times> nodeid) set" where
  "spec_event (Subscribed sources subscriber) r = r \<union> sources \<times> {subscriber}"
| "spec_event (Unsubscribed source subscriber) r = r - {(source, subscriber)}"
| "spec_event (UnsubscribedAll subscriber) r = {(a, b) \<in> r. b \<noteq> subscriber}"
| "spec_event Unrelated r = r"

inductive log_step :: "log_world \<Rightarrow> log_event \<Rightarrow> log_world \<Rightarrow> bool" where
  "log_step w (Subscribed {a} b) (w\<lparr>lw_log := SubscribeLog a b (lw_log w)\<rparr>)"
| "log_step w (Subscribed (pn_NodeID ` set nodes) b) (w\<lparr>lw_log := SubscribeLogAll nodes b (lw_log w)\<rparr>)"
| "log_step w (Unsubscribed a b) (w\<lparr>lw_log := UnsubscribeLog a b (lw_log w)\<rparr>)"
| "enumerates ks (cl_subscribers (lw_log w)) \<Longrightarrow>
     log_step w (UnsubscribedAll b) (w\<lparr>lw_log := UnsubscribeLogAll ks b (lw_log w)\<rparr>)"
| "log_step w Unrelated (w\<lparr>lw_log := cleanup now (lw_log w)\<rparr>)"
| "Stop (lw_log w) = Ok cl \<Longrightarrow> log_step w Unrelated (w\<lparr>lw_log := cl\<rparr>)"
| "Log E ks now level msg fs w = (r, w') \<Longrightarrow> log_step w Unrelated w'"
| "log_Err E ks now msg err fss w = (r, w') \<Longrightarrow> log_step w Unrelated w'"
| "SendLog E target source since w = (r, w') \<Longrightarrow> log_step w Unrelated w'"

inductive log_run :: "log_world \<Rightarrow> log_event list \<Rightarrow> log_world \<Rightarrow> bool" where
  log_run_Nil: "log_run w [] w"
| log_run_snoc: "log_run w evs w' \<Longrightarrow> log_step w' ev w'' \<Longrightarrow> log_run w (evs @ [ev]) w''"

lemma slog_Log_simps [simp]:
  "lw_log (slog_Log l m as w) = lw_log w" "lw_heap (slog_Log l m as w) = lw_heap w"
  "lw_sent (slog_Log l m as w) = lw_sent w" "lw_out (slog_Log l m as w) = lw_out w @ [(l, m, as)]"
  by (simp_all add: slog_Log_def)

lemma push_each_heap [simp]: "lw_heap (snd (push_each E msg targets w)) = lw_heap w"
  by (induction E msg targets w rule: push_each.induct) (auto simp: Let_def on_result_snd split: outcome.splits)

lemma push_each_log [simp]: "lw_log (snd (push_each E msg targets w)) = lw_log w"
  by (induction E msg targets w rule: push_each.induct) (auto simp: Let_def on_result_snd split: outcome.splits)

lemma push_log [simp]: "lw_log (snd (push E targets entries w)) = lw_log w"
  by (auto simp: push_def on_result_snd split: outcome.splits)

lemma log_record_heap [simp]: "lw_heap (snd (log_record E ks entry w)) = lw_heap w"
  by (auto simp: log_record_def push_def Let_def on_result_snd split: outcome.splits)

lemma log_record_log:
  "lw_log (snd (log_record E ks entry w)) = (lw_log w)\<lparr>cl_entries := cl_entries (lw_log w) @ [entry]\<rparr>"
  by (simp add: log_record_def Let_def)

lemma logging_subscribers:
  "cl_subscribers (lw_log (snd (Log E ks now level msg fs w))) = cl_subscribers (lw_log w)"
  "cl_subscribers (lw_log (snd (log_Err E ks now msg err fss w))) = cl_subscribers (lw_log w)"
  "lw_log (snd (SendLog E target source since w)) = lw_log w"
  by (simp_all add: Log_def log_Err_def SendLog_def Let_def log_record_log case_prod_beta on_result_snd
      split: outcome.splits)

lemma log_step_refines:
  assumes "log_step w ev w'" and "no_idle_source (cl_subscribers (lw_log w))"
  shows "no_idle_source (cl_subscribers (lw_log w')) \<and>
    subscriptions (cl_subscribers (lw_log w')) = spec_event ev (subscriptions (cl_subscribers (lw_log w)))"
  using assms
proof cases
  case (1 a b)
  then show ?thesis
    using log_subs.rel_add [OF assms(2)] log_subs.invar_add [OF assms(2)] by (simp add: SubscribeLog_def)
next
  case (2 nodes b)
  then show ?thesis
    using log_subs.add_all [OF assms(2), of pn_NodeID b nodes] by (simp add: SubscribeLogAll_def)
next
  case (3 a b)
  then show ?thesis
    using log_subs.rel_remove [OF assms(2)] log_subs.invar_remove [OF assms(2)]
    by (simp add: UnsubscribeLog_def)
next
  case (4 ks b)
  then show ?thesis
    using log_subs.remove_all [OF assms(2), of b ks]
      log_subs.remove_everywhere [OF assms(2), of ks b] Domain_subscriptions [OF assms(2)]
    by (simp add: UnsubscribeLogAll_def enumerates_def)
next
  case (5 now)
  then show ?thesis using assms(2) by (simp add: cleanup_def)
next
  case (6 cl)
  then show ?thesis using assms(2) by (auto simp: Stop_def split: if_splits)
next
  case (7 E ks now level msg fs r)
  then show ?thesis using assms(2) logging_subscribers(1) [of E ks now level msg fs w] by simp
next
  case (8 E ks now msg err fss r)
  then show ?thesis using assms(2) logging_subscribers(2) [of E ks now msg err fss w] by simp
next
  case (9 E target source since r)
  then show ?thesis using assms(2) logging_subscribers(3) [of E target source since w] by simp
qed

text \<open>C40: in every run of the log, logging, retention and stopping included, the subscriptions are the
  relation obtained by adding and removing pairs of source and subscriber; no source is
  stored without subscribers; and the subscribers of a source are listed exactly once each,
  in whatever order the map is ranged over.\<close>

theorem subscriptions_refine_relation:
  assumes "log_run w evs w'" and "lw_log w = log_New selfID"
  shows "subscriptions (cl_subscribers (lw_log w')) = fold spec_event evs {} \<and>
    no_idle_source (cl_subscribers (lw_log w')) \<and>
    (\<forall>source ks. distinct ks \<and> set ks = fold spec_event evs {} `` {source} \<longrightarrow>
       getSubscribers ks source (lw_log w') = ks)"
  using assms
proof (induction rule: log_run.induct)
  case (log_run_Nil w)
  then show ?case
    using log_subs.rel_empty log_subs.invar_empty
    by (simp add: log_New_def getSubscribers_def)
next
  case (log_run_snoc w evs w' ev w'')
  then have "subscriptions (cl_subscribers (lw_log w'')) = fold spec_event (evs @ [ev]) {} \<and>
      no_idle_source (cl_subscribers (lw_log w''))"
    using log_step_refines [OF log_run_snoc(2)] by simp
  then show ?case using getSubscribers_all by metis
qed

section \<open>Delivery\<close>

lemma push_each_exact:
  assumes "\<And>t. ev_Send E t msg \<noteq> Panic"
  shows "push_each E msg targets w = (Ok (),
    w\<lparr>lw_sent := lw_sent w @ map (\<lambda>t. (t, msg)) (filter (\<lambda>t. t \<noteq> cl_selfID (lw_log w)) targets),
      lw_out := lw_out w @ map (\<lambda>t. (slog_LevelWarn, ''log push failed'', [(''targetNodeID'', SStr (ev_String E t))]))
        (filter (\<lambda>t. t \<noteq> cl_selfID (lw_log w) \<and> ev_Send E t msg \<noteq> Ok ()) targets)\<rparr>)"
proof (induction targets arbitrary: w)
  case Nil
  then show ?case by simp
next
  case (Cons t targets)
  then show ?case
    using assms [of t] by (cases "ev_Send E t msg") (simp_all add: slog_Log_def)
qed

text \<open>C39: a logged entry is stored after the earlier ones, written once to the local logger, and sent
  once to every subscriber of the node other than the node itself; a send that fails is
  reported in the local log and stops no other.  \<open>Info\<close>, \<open>Warn\<close> and \<open>Debug\<close> log at their level.\<close>

theorem log_reaches_subscribers:
  assumes self: "self = cl_selfID (lw_log w)"
    and entry: "entry = \<lparr>le_Timestamp = now, le_NodeID = self, le_Level = level, le_Message = text,
      le_Fields = fs\<rparr>"
    and msg: "msg = \<lparr>msg_Type = MessageTypeLogPush, msg_Payload = payload\<rparr>"
    and order: "set ks = subscriptions (cl_subscribers (lw_log w)) `` {self}"
    and json: "ev_Marshal E [with_fields (lw_heap w) entry] = Ok payload"
    and sends: "\<And>t. ev_Send E t msg \<noteq> Panic"
  shows "Log E ks now level text fs w = (Ok (), w\<lparr>
      lw_log := (lw_log w)\<lparr>cl_entries := cl_entries (lw_log w) @ [entry]\<rparr>,
      lw_sent := lw_sent w @ map (\<lambda>t. (t, msg)) (filter (\<lambda>t. t \<noteq> self) ks),
      lw_out := lw_out w @ (ToSlogLevel level, ''log entry'', baseAttrs E level fs w @ [(''message'', SStr text)])
        # map (\<lambda>t. (slog_LevelWarn, ''log push failed'', [(''targetNodeID'', SStr (ev_String E t))]))
            (filter (\<lambda>t. t \<noteq> self \<and> ev_Send E t msg \<noteq> Ok ()) ks)\<rparr>) \<and>
    Info E ks now text fs w = Log E ks now LogLevelInfo text fs w \<and>
    Warn E ks now text fs w = Log E ks now LogLevelWarn text fs w \<and>
    Debug E ks now text fs w = Log E ks now LogLevelDebug text fs w"
proof -
  have "getSubscribers ks self ((lw_log w)\<lparr>cl_entries := es\<rparr>) = ks" for es
    by (rule getSubscribers_all) (simp add: order)
  moreover note push_each_exact [OF sends, unfolded msg]
  ultimately have "Log E ks now level text fs w = (Ok (), w\<lparr>
      lw_log := (lw_log w)\<lparr>cl_entries := cl_entries (lw_log w) @ [entry]\<rparr>,
      lw_sent := lw_sent w @ map (\<lambda>t. (t, msg)) (filter (\<lambda>t. t \<noteq> self) ks),
      lw_out := lw_out w @ (ToSlogLevel level, ''log entry'', baseAttrs E level fs w @ [(''message'', SStr text)])
        # map (\<lambda>t. (slog_LevelWarn, ''log push failed'', [(''targetNodeID'', SStr (ev_String E t))]))
            (filter (\<lambda>t. t \<noteq> self \<and> ev_Send E t msg \<noteq> Ok ()) ks)\<rparr>)"
    using json unfolding Log_def Let_def self [symmetric] entry [symmetric]
    by (cases "ks = []") (simp_all add: log_record_def push_def msg slog_Log_def self)
  then show ?thesis
    by (simp add: Info_def Warn_def Debug_def Log_def ToSlogLevel_def LogLevel_defs)
qed

text \<open>Over the carrier of \<^verbatim>\<open>internal/transport\<close>: a subscriber without a connection is reported and
  not waited for.\<close>

definition carrier_log_env ::
  "('pk, 'sk) keyslib \<Rightarrow> protolib \<Rightarrow> (nodeid \<Rightarrow> send_env) \<Rightarrow> ((LogEntry \<times> fieldmap) list \<Rightarrow> bytes result)
     \<Rightarrow> ('pk, 'sk, 'h, 's) carrierImpl \<Rightarrow> log_env" where
  "carrier_log_env K P S json c =
     \<lparr>ev_String = kl_NodeID_String K, ev_Marshal = json,
      ev_Send = \<lambda>nid msg. SendMessageToNode K P (S nid) nid msg c\<rparr>"

lemma unconnected_subscriber:
  assumes "cr_connections c t = None" and "t \<noteq> cl_selfID (lw_log w)"
  shows "push_each (carrier_log_env K P S json c) msg [t] w =
    (Ok (), slog_Log slog_LevelWarn ''log push failed'' [(''targetNodeID'', SStr (kl_NodeID_String K t))]
       (w\<lparr>lw_sent := lw_sent w @ [(t, msg)]\<rparr>))"
  using assms
  by (simp add: carrier_log_env_def SendMessageToNode_def SendMessageToNodeReliable_def connectionForNode_def)

text \<open>The fields of an entry are the caller's own map: writing an error into it changes the earlier
  entries that were logged with the same map.\<close>

lemma log_Err_changes_earlier_entries:
  assumes "e \<in> set (cl_entries (lw_log w))" and "le_Fields e = Some a" and "a < length (lw_heap w)"
    and "log_Err E ks now msg (Some err) [Some a] w = (r, w')"
  shows "e \<in> set (cl_entries (lw_log w')) \<and>
    map_of (snd (with_fields (lw_heap w') e)) ''error'' = Some (error_text err)"
proof -
  have w': "w' = snd (log_Err E ks now msg (Some err) [Some a] w)" using assms(4) by simp
  have "set (cl_entries (lw_log w)) \<subseteq> set (cl_entries (lw_log w'))"
    unfolding w' log_Err_def by (simp add: Let_def log_record_log error_field_def subset_insertI)
  moreover have "lw_heap w' = (lw_heap w)[a := AList.update ''error'' (error_text err) (lw_heap w ! a)]"
    unfolding w' log_Err_def using assms(3) by (simp add: Let_def error_field_def deref_def)
  ultimately show ?thesis
    using assms(1-3) by (auto simp: with_fields_def deref_def update_conv')
qed

section \<open>Retention\<close>

definition ttl :: "LogLevel \<Rightarrow> duration" where
  "ttl level = (if level = LogLevelDebug then 24 else if level = LogLevelError then 120 else 72) * time_Hour"

lemma IsExpired_ttl: "IsExpired now e \<longleftrightarrow> now > le_Timestamp e + ttl (le_Level e)"
  by (simp add: IsExpired_def ttl_def ttlByLevel_def LogLevel_defs map_get_def time_After_def time_Add_def)

lemma keep_entries_filter: "keep_entries now kept es = kept @ filter (\<lambda>e. \<not> IsExpired now e) es"
  by (induction es arbitrary: kept) simp_all

fun ticks :: "wakeup list \<Rightarrow> gotime list" where
  "ticks (Tick now # ws) = now # ticks ws"
| "ticks _ = []"

lemma cleanupLoop_filter:
  "cleanupLoop ws cl = cl\<lparr>cl_entries := filter (\<lambda>e. \<forall>now \<in> set (ticks ws). \<not> IsExpired now e) (cl_entries cl)\<rparr>"
  by (induction ws cl rule: cleanupLoop.induct) (auto simp: cleanup_def keep_entries_filter conj_commute)

text \<open>The cleanup goroutine removes exactly the entries that were older than their level allows at
  one of its ticks before the stop signal, a day for debug entries, five for errors, three
  for all others, and keeps the rest in order; \<open>Tail\<close> then returns the last of them, all of
  them when the limit is not positive or exceeds their number.\<close>

lemma retention_exact:
  "cl_entries (cleanupLoop ws cl) =
     filter (\<lambda>e. \<not> (\<exists>now. now \<in> set (ticks ws) \<and> now > le_Timestamp e + ttl (le_Level e))) (cl_entries cl) \<and>
   Tail limit (cleanupLoop ws cl) =
     (let es = cl_entries (cleanupLoop ws cl) in
      if 0 < limit \<and> limit \<le> int (length es) then drop (length es - nat limit) es else es)"
  by (auto simp: cleanupLoop_filter IsExpired_ttl Tail_def Let_def nat_diff_distrib intro!: filter_cong)

section \<open>Witnesses\<close>

text \<open>A log of node \<open>[1]\<close> to which node \<open>[2]\<close> is subscribed, over a carrier that reaches no one.\<close>

definition sample_log :: log_world where
  "sample_log = \<lparr>lw_log = log_New [1], lw_heap = [], lw_out = [], lw_sent = []\<rparr>"

definition subscribed_log :: log_world where
  "subscribed_log = sample_log\<lparr>lw_log := SubscribeLog [1] [2] (log_New [1])\<rparr>"

definition sample_log_env :: log_env where
  "sample_log_env = \<lparr>ev_String = \<lambda>_. ''node'', ev_Marshal = \<lambda>_. Ok [9],
     ev_Send = \<lambda>_ _. Err (New ''no connection'')\<rparr>"

lemma subscribed_log_subscriptions: "subscriptions (cl_subscribers (lw_log subscribed_log)) = {([1], [2])}"
  using log_subs.rel_add [OF log_subs.invar_empty, of "[1]" "[2]"]
  by (simp add: subscribed_log_def SubscribeLog_def log_New_def log_subs.rel_empty)

lemma sample_image: "set [[2 :: byte]] = {([1 :: byte], [2])} `` {[1]}"
  by auto

theorem subscriptions_refine_relation_witness:
  "log_run sample_log [Subscribed {[1]} [2]] subscribed_log \<and>
   getSubscribers [[2]] [1] (lw_log subscribed_log) = [[2]]"
proof -
  have "log_step sample_log (Subscribed {[1]} [2]) (sample_log\<lparr>lw_log := SubscribeLog [1] [2] (lw_log sample_log)\<rparr>)"
    by (rule log_step.intros)
  then have run: "log_run sample_log [Subscribed {[1]} [2]] subscribed_log"
    using log_run_snoc [OF log_run_Nil] by (simp add: subscribed_log_def sample_log_def)
  have "lw_log sample_log = log_New [1]" by (simp add: sample_log_def)
  from subscriptions_refine_relation [OF run this]
  have "getSubscribers [[2]] [1] (lw_log subscribed_log) = [[2]]"
    using sample_image by simp
  with run show ?thesis by blast
qed

theorem log_reaches_subscribers_witness:
  "lw_sent (snd (Log sample_log_env [[2]] 0 LogLevelInfo ''hello'' None subscribed_log)) =
     [([2], \<lparr>msg_Type = MessageTypeLogPush, msg_Payload = [9]\<rparr>)]"
proof -
  have self: "cl_selfID (lw_log subscribed_log) = [1]"
    by (simp add: subscribed_log_def SubscribeLog_def log_New_def)
  have "set [[2]] = subscriptions (cl_subscribers (lw_log subscribed_log)) `` {[1]}"
    unfolding subscribed_log_subscriptions by (rule sample_image)
  from log_reaches_subscribers [OF self [symmetric] refl refl this, of sample_log_env 0 LogLevelInfo
      "''hello''" None "[9]"]
  show ?thesis by (simp add: sample_log_env_def) (simp add: subscribed_log_def sample_log_def)
qed

end
