(* ===== verification/Transport.thy ===== *)
theory Transport
  imports Carrier
begin

text \<open>
  \<^verbatim>\<open>internal/transport/transport.go\<close>: the QUIC transport below the carrier and the connections it
  keeps track of, and the connections of \<^verbatim>\<open>connection.go\<close>.  Resolving addresses, binding the socket, listening, dialling and accepting are
  given by their results.
\<close>

section \<open>State\<close>

text \<open>
  \<open>qt_conn\<close> is the local address of the socket, \<^const>\<open>None\<close> without one; \<open>qt_listener\<close> tells
  whether there is a listener.  The last three fields record which connections, listener and
  transport have been closed.
\<close>

record quicTransport =
  qt_conn :: "string option"
  qt_listener :: bool
  qt_tlsClient :: tls_config
  qt_tlsServer :: tls_config
  qt_EnableDatagrams :: bool
  qt_conns :: "nodeid \<rightharpoonup> connid"
  qt_closedConns :: "connid set"
  qt_listenerClosed :: bool
  qt_closed :: bool

record 'a net_env =
  ne_Resolve :: "string \<Rightarrow> 'a result"
  ne_ListenUDP :: "'a \<Rightarrow> string result"
  ne_Listen :: "goerror option"
  ne_Dial :: "'a \<Rightarrow> connid result"
  ne_Accept :: "connid result"
  ne_Close :: "unit result"

section \<open>Operations\<close>

definition newQuicTransport ::
  "'a net_env \<Rightarrow> string \<Rightarrow> ('pk, 'sk) NodeIdentity \<Rightarrow> quicTransport result" where
  "newQuicTransport N listenAddr ni =
     (let listenAddr = (if listenAddr = [] then '':0'' else listenAddr) in
      obind (wrap_err (errorw ''resolve listen address: %w'') (ne_Resolve N listenAddr)) (\<lambda>udpAddr.
      obind (wrap_err (errorw ''bind UDP: %w'') (ne_ListenUDP N udpAddr)) (\<lambda>local.
      Ok \<lparr>qt_conn = Some local, qt_listener = False, qt_tlsClient = TLSClientConfig ni,
          qt_tlsServer = TLSServerConfig ni, qt_EnableDatagrams = True, qt_conns = Map.empty,
          qt_closedConns = {}, qt_listenerClosed = False, qt_closed = False\<rparr>)))"

definition startListener :: "'a net_env \<Rightarrow> quicTransport \<Rightarrow> unit result \<times> quicTransport" where
  "startListener N qt =
     (if qt_listener qt then (Ok (), qt)
      else case ne_Listen N of
             Some err \<Rightarrow> (Err (errorw ''QUIC listen: %w'' err), qt)
           | None \<Rightarrow> (Ok (), qt\<lparr>qt_listener := True\<rparr>))"

definition transport_Dial ::
  "'a net_env \<Rightarrow> nodeid \<Rightarrow> string list \<Rightarrow> quicTransport \<Rightarrow> connid result \<times> quicTransport" where
  "transport_Dial N nid addresses qt =
     (case addresses of
        [] \<Rightarrow> (Err (New ''node has no addresses''), qt)
      | address # _ \<Rightarrow>
         on_result (wrap_err (\<lambda>e. Errorf ''resolve %s: %w'' [AStr address, AErr e]) (ne_Resolve N address)) qt
           (\<lambda>e. (Err e, qt)) (\<lambda>addr.
         on_result (wrap_err (errorw ''QUIC dial: %w'') (ne_Dial N addr)) qt (\<lambda>e. (Err e, qt)) (\<lambda>conn.
         (Ok conn, qt\<lparr>qt_conns := (qt_conns qt)(nid \<mapsto> conn)\<rparr>))))"

definition transport_Accept :: "'a net_env \<Rightarrow> quicTransport \<Rightarrow> connid result" where
  "transport_Accept N qt =
     (if \<not> qt_listener qt then Err (New ''listener not started'') else ne_Accept N)"

definition transport_Close :: "'a net_env \<Rightarrow> quicTransport \<Rightarrow> unit result \<times> quicTransport" where
  "transport_Close N qt =
     (ne_Close N,
      qt\<lparr>qt_closedConns := qt_closedConns qt \<union> ran (qt_conns qt), qt_conns := Map.empty,
         qt_listenerClosed := qt_listenerClosed qt \<or> qt_listener qt, qt_closed := True\<rparr>)"

definition listenAddress :: "quicTransport \<Rightarrow> string" where
  "listenAddress qt = (case qt_conn qt of None \<Rightarrow> [] | Some addr \<Rightarrow> addr)"

text \<open>\<open>ks\<close> is the order in which the map is ranged over.\<close>

definition GetActiveConnections :: "nodeid list \<Rightarrow> quicTransport \<Rightarrow> connid list" where
  "GetActiveConnections ks qt = map snd (range_map ks (qt_conns qt))"

section \<open>What is tracked\<close>

lemma transport_Dial_tracks:
  assumes "transport_Dial N nid addresses qt = (Ok conn, qt')" and "enumerates ks (qt_conns qt')"
  shows "conn \<in> set (GetActiveConnections ks qt')"
proof -
  have "qt_conns qt' nid = Some conn"
    using assms(1) by (auto simp: transport_Dial_def split: list.splits elim!: on_result_cases)
  with enumerates_range [OF assms(2)] show ?thesis
    unfolding GetActiveConnections_def set_map by force
qed

text \<open>Closing closes every tracked connection and forgets them.\<close>

lemma transport_Close_closes:
  assumes "enumerates ks (qt_conns qt)"
  shows "set (GetActiveConnections ks qt) \<subseteq> qt_closedConns (snd (transport_Close N qt)) \<and>
    GetActiveConnections ks' (snd (transport_Close N qt)) = []"
proof -
  have "range_map ks' (Map.empty :: nodeid \<rightharpoonup> connid) = []" by (induction ks') simp_all
  then show ?thesis
    using enumerates_range [OF assms]
    by (auto simp: GetActiveConnections_def transport_Close_def ran_def)
qed

text \<open>Two dials for the same node ID leave only the second connection tracked; closing does not
  close the first.\<close>

lemma second_dial_untracks_first:
  assumes "transport_Dial N nid as qt = (Ok c1, qt1)" and "transport_Dial N' nid as' qt1 = (Ok c2, qt2)"
    and "c1 \<noteq> c2" and "c1 \<notin> ran (qt_conns qt) \<union> qt_closedConns qt"
  shows "c1 \<notin> qt_closedConns (snd (transport_Close N'' qt2))"
proof -
  have 1: "qt_conns qt1 = (qt_conns qt)(nid \<mapsto> c1)" "qt_closedConns qt1 = qt_closedConns qt"
    using assms(1) by (auto simp: transport_Dial_def split: list.splits elim!: on_result_cases)
  have 2: "qt_conns qt2 = (qt_conns qt1)(nid \<mapsto> c2)" "qt_closedConns qt2 = qt_closedConns qt1"
    using assms(2) by (auto simp: transport_Dial_def split: list.splits elim!: on_result_cases)
  have "ran ((qt_conns qt)(nid \<mapsto> c2)) \<subseteq> insert c2 (ran (qt_conns qt))"
    by (auto simp: ran_def)
  then show ?thesis using assms(3,4) by (auto simp: transport_Close_def 1 2)
qed

section \<open>Connections\<close>

text \<open>
  \<^verbatim>\<open>internal/transport/connection.go\<close>: the library's connection, given by what its methods return,
  and the wrapper the carrier uses.  Its methods hand the library's results on; a stream is the
  library's stream behind the same three methods.  \<^const>\<open>conn_TLSBindings\<close> and
  \<^const>\<open>conn_ExportKeyingMaterial\<close> are the remaining methods.
\<close>

record quic_Conn =
  qx_PeerCertificates :: "x509_parsed list"
  qx_ExportKeyingMaterial :: ExporterFunc
  qx_RemoteAddr :: string
  qx_OpenStream :: "(nat \<Rightarrow> goerror option) result"
  qx_AcceptStream :: "instream result"
  qx_SendDatagram :: "bytes \<Rightarrow> unit result"
  qx_ReceiveDatagram :: "bytes result"

definition newQuicConnection :: "('pk, 'sk) keyslib \<Rightarrow> quic_Conn \<Rightarrow> quicConnection" where
  "newQuicConnection K conn =
     \<lparr>qc_PeerCertificates = qx_PeerCertificates conn, qc_ekm = qx_ExportKeyingMaterial conn,
      qc_nodeID = zeroNodeID K\<rparr>"

definition conn_NodeID :: "quicConnection \<Rightarrow> nodeid" where
  "conn_NodeID qc = qc_nodeID qc"

definition conn_OpenStream :: "quic_Conn \<Rightarrow> (nat \<Rightarrow> goerror option) result" where
  "conn_OpenStream conn = obind (qx_OpenStream conn) (\<lambda>s. Ok s)"

definition conn_AcceptStream :: "quic_Conn \<Rightarrow> instream result" where
  "conn_AcceptStream conn = obind (qx_AcceptStream conn) (\<lambda>s. Ok s)"

definition conn_SendDatagram :: "quic_Conn \<Rightarrow> bytes \<Rightarrow> unit result" where
  "conn_SendDatagram conn data = qx_SendDatagram conn data"

definition conn_ReceiveDatagram :: "quic_Conn \<Rightarrow> bytes result" where
  "conn_ReceiveDatagram conn = qx_ReceiveDatagram conn"

text \<open>The view of the wrapper that the operations of the carrier take.\<close>

definition carrier_connection :: "('pk, 'sk) keyslib \<Rightarrow> connid \<Rightarrow> quic_Conn \<Rightarrow> connection" where
  "carrier_connection K i conn =
     \<lparr>cn_id = i, cn_tls = newQuicConnection K conn, cn_RemoteAddr = qx_RemoteAddr conn,
      cn_AcceptStream = conn_AcceptStream conn, cn_OpenStream = conn_OpenStream conn\<rparr>"

text \<open>No handshake ever sets the node ID of a connection: it keeps the zero value.\<close>

lemma conn_NodeID_zero: "conn_NodeID (cn_tls (carrier_connection K i conn)) = zeroNodeID K"
  by (simp add: conn_NodeID_def carrier_connection_def newQuicConnection_def)

lemma handshake_on_connection:
  "dialAndAuth K P now (carrier_connection K i conn) ni =
     obind (wrap_err (errorw ''sign delegation: %w'')
              (SignDelegation K P (ni_key ni) (ni_certs ni) (ni_session ni) (qx_ExportKeyingMaterial conn) now))
       (\<lambda>(dp, sig).
     obind (wrap_err (errorw ''open auth stream: %w'') (qx_OpenStream conn)) (\<lambda>stream.
     writeAuthHandshake K P stream (ni_certs ni) (ni_caSigs ni) (ni_authorities ni) dp sig))"
proof -
  have "conn_ExportKeyingMaterial (newQuicConnection K conn) = qx_ExportKeyingMaterial conn"
    by (simp add: fun_eq_iff conn_ExportKeyingMaterial_def newQuicConnection_def)
  then show ?thesis
    by (cases "qx_OpenStream conn") (simp_all add: dialAndAuth_def carrier_connection_def conn_OpenStream_def)
qed

section \<open>The transport of a carrier\<close>

text \<open>What \<^const>\<open>carrier_New\<close> is given: the address the transport was bound to.\<close>

definition bound_address :: "'a net_env \<Rightarrow> string \<Rightarrow> ('pk, 'sk) NodeIdentity \<Rightarrow> string result" where
  "bound_address N listenAddr ni = obind (newQuicTransport N listenAddr ni) (\<lambda>qt. Ok (listenAddress qt))"

lemma carrier_listens:
  assumes "carrier_New (bound_address N (cfg_ListenAddress conf) ni) conf = Ok c"
    and "cfg_NodeIdentity conf = Some ni"
  shows "\<exists>addr. ne_Resolve N (if cfg_ListenAddress conf = [] then '':0'' else cfg_ListenAddress conf) = Ok addr \<and>
    ne_ListenUDP N addr = Ok (carrier_ListenAddress c)"
proof -
  have "cfg_NodeIdentity (config_defaults conf) = Some ni"
    by (simp add: config_defaults_def Let_def assms(2))
  then have "\<exists>qt. newQuicTransport N (cfg_ListenAddress conf) ni = Ok qt \<and> carrier_ListenAddress c = listenAddress qt"
    using assms(1) by (auto simp: carrier_New_def bound_address_def carrier_ListenAddress_def Let_def split: if_splits)
  then show ?thesis by (auto simp: newQuicTransport_def listenAddress_def Let_def)
qed

end
