(* ===== verification/Spec2Isabelle.thy ===== *)
theory Spec2Isabelle
  imports Authentication HandshakeProps Privilege CarrierProps EndToEnd StartProps LogProps Transport
begin

text \<open>
  Verification of ouroboros-db, the node of a distributed database written in Go: its authentication,
  its transport, its message handling, its log and the tools that make and use its credentials.

  \<^bold>\<open>The program.\<close>  A node has a long-lived key.  A certificate authority, an admin CA or a user CA that
  an admin CA has anchored, signs a node certificate for it.  Two nodes connect over QUIC; each proves
  who it is by a delegation: a short-lived statement, signed with the node key, that names the TLS
  session it is sent over.  The verifier (\<^verbatim>\<open>internal/auth\<close>) checks the handshake against its trust store
  and derives a scope, admin or user.  The carrier (\<^verbatim>\<open>internal/transport\<close>) keeps the connections that
  passed, the registry of known nodes, bootstrap, heartbeats and gossip, and hands messages to the
  cluster controller (\<^verbatim>\<open>internal/control\<close>), which runs a registered handler if the scope allows it.
  \<^verbatim>\<open>cmd/certgen\<close> makes the credential files, \<^verbatim>\<open>cmd/interactive\<close> starts a node from them, and the cluster
  log (\<^verbatim>\<open>internal/logging\<close>) stores log entries and pushes them to subscribed nodes.

  \<^bold>\<open>How code is modelled.\<close>  A Go call has an \<open>outcome\<close> (theory \<open>Prelude\<close>): a value, an error or a
  panic, sequenced by \<open>obind\<close> and, where a state is threaded, by \<open>on_result\<close> (\<open>GoLib\<close>).  Errors are the
  values of \<open>goerror\<close> (\<open>Errors\<close>), with their wrapping and their text.  Structs are records, interfaces
  with several implementations are records of functions, integers of a fixed width are words (\<open>int64\<close>) or
  integers with the conversion written out, byte slices are lists of bytes, strings are lists of
  characters, maps are partial functions.  The order in which Go ranges over a map is an argument
  of the operation; theorems hold for every order that enumerates the map.  Clocks, random sources,
  streams, sockets and files are arguments as well.  State shared by goroutines is changed only in
  sections under a lock; \<open>Interleaving\<close> has one step per such section.  The log of the program
  (\<^verbatim>\<open>slog\<close>) is left out, except in the cluster log, whose purpose it is.

  \<^bold>\<open>Code outside the repository.\<close>  The key library (\<^verbatim>\<open>ouroboros-crypt\<close>), protobuf and QUIC are parameters
  (\<open>External\<close>: \<open>keyslib\<close>, \<open>protolib\<close>; \<open>Delegation\<close>: \<open>x509_env\<close>; \<open>AuthFile\<close>: \<open>filelib\<close>; \<open>LocalNode\<close>: \<open>cryptlib\<close>;
  \<open>Transport\<close>: \<open>net_env\<close>).  What theorems need of them are named hypotheses: \<open>proto_decodes\<close> and
  \<open>proto_decodes_det\<close> (decoding an encoded message returns it), \<open>sign_verifies\<close>, \<open>pubkey_parses\<close>, \<open>kem_size_fixed\<close>,
  \<open>keys_reload\<close>, \<open>crypt_reloads\<close>, \<open>libs_no_panic\<close>.  Nothing is assumed about forging signatures: theorems say
  that a signature was verified, under which key and over which bytes.  \<open>Samples\<close> has concrete
  libraries on which every theorem with such a hypothesis is instantiated.  SHA-256 is not a
  parameter: \<open>Sha256\<close> defines it.

  \<^bold>\<open>Authentication.\<close>
  \<^item> \<open>Canonical\<close> (\<^verbatim>\<open>internal/auth/canonical\<close>): the byte strings that are signed; domain separation is injective
    and the bundle encoding identifies certificate bundles up to order.
  \<^item> \<open>CA\<close> (\<^verbatim>\<open>internal/auth/ca\<close>), \<open>Delegation\<close> (\<^verbatim>\<open>internal/auth/cert\<close>, \<^verbatim>\<open>internal/auth/delegation\<close>): authorities,
    certificates, identities and the prover.
  \<^item> \<open>TrustStore\<close> (\<^verbatim>\<open>carrier_auth.go\<close>, \<^verbatim>\<open>types.go\<close>): the store with its revocation lists.  Locale
    \<open>revocation_log\<close> and its extension \<open>revocable_store\<close> state what a list of revocations promises; they
    are interpreted on the three lists of the store.
  \<^item> \<open>Snapshots\<close>, \<open>TrustSnapshot\<close>, \<open>VerifyPeer\<close> (\<^verbatim>\<open>snapshot.go\<close>, \<^verbatim>\<open>trust_snapshot.go\<close>, \<^verbatim>\<open>carrier_auth_verify.go\<close>):
    freezing what the peer sent, the effective trust and the five checks.
  \<^item> \<open>Authentication\<close>: \<open>VerifyPeerCert\<close> accepts exactly what the declarative \<open>peer_spec\<close> allows; admin
    scope is rooted in the local store, owners of a user peer are anchored there, revocation is
    permanent, no handshake makes the verifier panic, and the store invariant always holds.
  \<^item> \<open>Handshake\<close>, \<open>HandshakeProps\<close> (\<^verbatim>\<open>auth_handshake.go\<close>, \<^verbatim>\<open>connection.go\<close>): the wire format, its round trip and
    bounds, that an accepted proof names the TLS session it arrived on, and that an honest prover
    with trusted certificates is accepted from end to end.
  \<^item> \<open>Privilege\<close> (\<^verbatim>\<open>privilege_checker.go\<close>): which data an authenticated peer can access.

  \<^bold>\<open>Transport.\<close>
  \<^item> \<open>MessageIO\<close> (\<^verbatim>\<open>message_io.go\<close>), \<open>Controller\<close> (\<^verbatim>\<open>cluster_controller.go\<close>, \<^verbatim>\<open>message_registry.go\<close>), \<open>Registry\<close>
    (\<^verbatim>\<open>node_registry.go\<close>): frames, handlers with access control (locale \<open>handler_registry\<close>) and known nodes
    (locale \<open>node_update\<close>).
  \<^item> \<open>Carrier\<close>, \<open>Bootstrap\<close>, \<open>Broadcast\<close>, \<open>Heartbeat\<close>, \<open>Dispatch\<close> (\<^verbatim>\<open>carrier*.go\<close>, \<^verbatim>\<open>bootstrap.go\<close>, \<^verbatim>\<open>heartbeat.go\<close>):
    the operations of the carrier, whole, with the goroutines they start.  Retries are loops over
    the configured counts, so they end; \<open>Transport\<close> (\<^verbatim>\<open>transport.go\<close>, \<^verbatim>\<open>connection.go\<close>) is the layer below.
  \<^item> \<open>Interleaving\<close>: the locked sections as steps, the invariant \<open>peers_inv\<close>, and locale \<open>stepwise\<close>, by
    which every operation is a sequence of steps.
  \<^item> \<open>CarrierProps\<close>, \<open>Gossip\<close>: in every interleaving only authenticated peers are connected, with the scope
    of their handshake; what an inbound connection leaves behind on every path; what broadcast and
    bootstrap return; what gossip may change and which peers are dropped as stale.
  \<^item> \<open>EndToEnd\<close>: two carriers, where what one writes is what the other reads.  Two honest nodes register
    each other over one TLS session, and a request runs the handler of the other node once, with
    the sender's scope, and reports its outcome to the sender; a datagram is dispatched as sent.

  \<^bold>\<open>Credentials and start-up.\<close>
  \<^item> \<open>AuthFile\<close> (\<^verbatim>\<open>pkg/authfile\<close>), \<open>Certgen\<close> (\<^verbatim>\<open>cmd/certgen\<close>): the files and the tool that writes them; a
    certificate it writes verifies and is read back.
  \<^item> \<open>LocalNode\<close> (\<^verbatim>\<open>config.go\<close>, \<^verbatim>\<open>ouroboros.go\<close>, \<^verbatim>\<open>node.go\<close>): the key file of a data directory; its identity
    survives every later start.
  \<^item> \<open>Interactive\<close> (\<^verbatim>\<open>cmd/interactive\<close>), \<open>StartProps\<close>: flags, trust store, start-up and command loop.  Locales
    \<open>trust_loader\<close> and \<open>embedded_loader\<close> say what a loader adds to a store; a node trusts exactly what its
    files say, and credentials of \<^verbatim>\<open>certgen\<close> start a node that trusts their issuer.

  \<^bold>\<open>Log.\<close>  \<open>ClusterLog\<close>, \<open>LogProps\<close> (\<^verbatim>\<open>internal/logging\<close>): entries refer to the maps their callers passed, so
  those live in a heap.  Locale \<open>relation_store\<close> is the abstract contract of subscriptions; runs of the
  log refine it, and an entry reaches exactly the subscribers.

  \<^bold>\<open>Bounds.\<close>  No definition uses fuel.  Loops that wait for the network or for input are given by the
  finite list of what they receive; a command loop whose input has not ended returns \<^const>\<open>None\<close>.
  Text on the command line is taken as code points below 256, since the models of strings are
  lists of characters.

  \<^bold>\<open>Not modelled.\<close>  Generated protobuf code and the sockets (libraries); \<^verbatim>\<open>monitor.go\<close>, \<^verbatim>\<open>storage.go\<close>,
  \<^verbatim>\<open>data.go\<close>, \<^verbatim>\<open>index.go\<close>, \<^verbatim>\<open>cas.go\<close> (declarations without an implementation); \<^verbatim>\<open>cmd/start\<close> (prints a line);
  the usage text of the commands; JSON encoding of log entries, which depends on the key library;
  aliases and copies of slices.  Cancellation of contexts appears as the end of the list a
  loop receives.  Timing (how long a retry waits) is not modelled, only its configured value.
\<close>

end
